(* ===== verification/Kfsw_Base.thy ===== *)
theory Kfsw_Base
  imports Main "HOL-Library.Word" "HOL-Library.State_Monad" "HOL-Library.Sublist"
begin

text \<open>
  The prelude of the development: machine integers, the errno values, the part of the C
  library the application calls (\<^verbatim>\<open>isdigit\<close>, \<^verbatim>\<open>strtoul\<close> in base 0, \<^verbatim>\<open>snprintf\<close> with the
  conversions the sources use), the output of the shell and of the log, and the state monad in
  which handlers run. A C string is a \<^typ>\<open>string\<close> without its terminator: a cursor into it is
  the suffix that is left, and \<^verbatim>\<open>*cursor == '\0'\<close> is the empty suffix.

  Errno values are those of the \<^verbatim>\<open>native_sim\<close> build (Linux). \<^verbatim>\<open>unsigned long\<close> has
  \<open>w\<close> bits, a parameter (32 on the Cortex-M targets, 64 on the host).
\<close>

unbundle bit_operations_syntax

section \<open>Machine integers and errno\<close>

type_synonym u8 = "8 word"
type_synonym u16 = "16 word"
type_synonym u32 = "32 word"
type_synonym u64 = "64 word"

definition ENOENT :: int where "ENOENT = 2"
definition EIO :: int where "EIO = 5"
definition E2BIG :: int where "E2BIG = 7"
definition EAGAIN :: int where "EAGAIN = 11"
definition EACCES :: int where "EACCES = 13"
definition EBUSY :: int where "EBUSY = 16"
definition ENODEV :: int where "ENODEV = 19"
definition EINVAL :: int where "EINVAL = 22"
definition ENOSPC :: int where "ENOSPC = 28"
definition ERANGE :: int where "ERANGE = 34"
definition ENAMETOOLONG :: int where "ENAMETOOLONG = 36"
definition EBADMSG :: int where "EBADMSG = 74"
definition EILSEQ :: int where "EILSEQ = 84"
definition EMSGSIZE :: int where "EMSGSIZE = 90"
definition ENOTSUP :: int where "ENOTSUP = 95"
definition ECONNRESET :: int where "ECONNRESET = 104"
definition ENOTCONN :: int where "ENOTCONN = 107"
definition ETIMEDOUT :: int where "ETIMEDOUT = 110"
definition EHOSTUNREACH :: int where "EHOSTUNREACH = 113"
definition EALREADY :: int where "EALREADY = 114"

lemmas errno_defs =
  ENOENT_def EIO_def E2BIG_def EAGAIN_def EACCES_def EBUSY_def ENODEV_def EINVAL_def
  ENOSPC_def ERANGE_def ENAMETOOLONG_def EBADMSG_def EILSEQ_def EMSGSIZE_def ENOTSUP_def
  ECONNRESET_def ENOTCONN_def ETIMEDOUT_def EHOSTUNREACH_def EALREADY_def

lemma errno_nonzero [simp]:
  "EINVAL \<noteq> 0" "E2BIG \<noteq> 0" "ERANGE \<noteq> 0" "EACCES \<noteq> 0" "EBUSY \<noteq> 0" "ENOENT \<noteq> 0"
  "EIO \<noteq> 0" "ENAMETOOLONG \<noteq> 0" "EALREADY \<noteq> 0" "EILSEQ \<noteq> 0" "EMSGSIZE \<noteq> 0" "ENOTSUP \<noteq> 0"
  by (simp_all add: errno_defs)

definition UINT8_MAX :: nat where "UINT8_MAX = 255"
definition UINT16_MAX :: nat where "UINT16_MAX = 65535"
definition UINT32_MAX :: nat where "UINT32_MAX = 4294967295"

lemmas uint_max_defs = UINT8_MAX_def UINT16_MAX_def UINT32_MAX_def

section \<open>Characters and C strings\<close>

abbreviation chr_code :: "char \<Rightarrow> nat" where "chr_code c \<equiv> of_char c"

definition isdigit :: "char \<Rightarrow> bool" where
  "isdigit c \<longleftrightarrow> 48 \<le> chr_code c \<and> chr_code c \<le> 57"

text \<open>The whitespace of the C locale: space and the codes 9 to 13.\<close>

definition isspace :: "char \<Rightarrow> bool" where
  "isspace c \<longleftrightarrow> chr_code c = 32 \<or> (9 \<le> chr_code c \<and> chr_code c \<le> 13)"

text \<open>\<^verbatim>\<open>*cursor\<close>: the first character, or the terminator.\<close>

definition hd0 :: "string \<Rightarrow> char" where
  "hd0 s = (case s of [] \<Rightarrow> CHR 0x00 | c # _ \<Rightarrow> c)"

text \<open>\<^verbatim>\<open>strncmp(s, p, strlen(p)) == 0\<close>: \<open>p\<close> is a prefix of \<open>s\<close>.\<close>

definition starts_with :: "string \<Rightarrow> string \<Rightarrow> bool" where
  "starts_with p s \<longleftrightarrow> take (length p) s = p"

lemma hd0_Nil [simp]: "hd0 [] = CHR 0x00" and hd0_Cons [simp]: "hd0 (c # s) = c"
  by (simp_all add: hd0_def)

lemma hd0_append: "hd0 (s @ t) = (if s = [] then hd0 t else hd0 s)"
  by (cases s) simp_all

lemma not_isdigit_nul [simp]: "\<not> isdigit (CHR 0x00)"
  by (simp add: isdigit_def)

lemma isdigit_hd0_not_Nil: "isdigit (hd0 s) \<Longrightarrow> s \<noteq> []"
  by (cases s) auto

section \<open>Numbers as text\<close>

definition digit_val :: "char \<Rightarrow> nat" where
  "digit_val c =
     (let k = chr_code c in
      if 48 \<le> k \<and> k \<le> 57 then k - 48
      else if 97 \<le> k \<and> k \<le> 122 then k - 87
      else if 65 \<le> k \<and> k \<le> 90 then k - 55
      else 36)"

definition digit_in :: "nat \<Rightarrow> char \<Rightarrow> bool" where
  "digit_in b c \<longleftrightarrow> digit_val c < b"

text \<open>The longest run of base \<open>b\<close> digits, its value, and what follows it.\<close>

fun read_digits :: "nat \<Rightarrow> string \<Rightarrow> nat \<Rightarrow> nat \<times> string" where
  "read_digits b [] acc = (acc, [])"
| "read_digits b (c # cs) acc =
     (if digit_in b c then read_digits b cs (acc * b + digit_val c) else (acc, c # cs))"

text \<open>
  \<^verbatim>\<open>strtoul(s, &end, 0)\<close> with a \<open>w\<close>-bit result: leading whitespace, an optional sign, the
  base from the prefix (\<^verbatim>\<open>0x\<close> followed by a hexadecimal digit, a leading \<^verbatim>\<open>0\<close>, or decimal).
  The result is the value, the suffix \<^verbatim>\<open>end\<close> points at and whether \<^verbatim>\<open>errno\<close> is \<^verbatim>\<open>ERANGE\<close>. No
  digits: the value is 0 and \<^verbatim>\<open>end\<close> is the whole input.
\<close>

definition base_and_digits :: "string \<Rightarrow> nat \<times> string" where
  "base_and_digits s =
     (if hd0 s = CHR ''0'' \<and> (hd0 (tl s) = CHR ''x'' \<or> hd0 (tl s) = CHR ''X'') \<and>
         digit_in 16 (hd0 (tl (tl s)))
      then (16, tl (tl s))
      else if hd0 s = CHR ''0'' then (8, s)
      else (10, s))"

definition strtoul0 :: "nat \<Rightarrow> string \<Rightarrow> nat \<times> string \<times> bool" where
  "strtoul0 w s =
     (let t = dropWhile isspace s;
          neg = (hd0 t = CHR ''-'');
          u = (if hd0 t = CHR ''-'' \<or> hd0 t = CHR ''+'' then tl t else t);
          (b, d) = base_and_digits u
      in if \<not> digit_in b (hd0 d) then (0, s, False)
         else let (v, r) = read_digits b d 0
              in if 2 ^ w \<le> v then (2 ^ w - 1, r, True)
                 else (if neg then (2 ^ w - v) mod 2 ^ w else v, r, False))"

definition digit_char :: "nat \<Rightarrow> char" where
  "digit_char n = (if n < 10 then char_of (48 + n) else char_of (87 + n))"

function radix :: "nat \<Rightarrow> nat \<Rightarrow> string" where
  "radix b n =
     (if b < 2 \<or> n < b then [digit_char n] else radix b (n div b) @ [digit_char (n mod b)])"
  by pat_completeness auto
termination
  by (relation "measure snd") auto

declare radix.simps [simp del]

text \<open>The conversions of \<^verbatim>\<open>printf\<close>: \<^verbatim>\<open>%u\<close>, \<^verbatim>\<open>%d\<close>, \<^verbatim>\<open>%x\<close>, zero padding and column padding.\<close>

definition fmt_u :: "nat \<Rightarrow> string" where
  "fmt_u n = radix 10 n"

definition fmt_d :: "int \<Rightarrow> string" where
  "fmt_d k = (if k < 0 then CHR ''-'' # radix 10 (nat (- k)) else radix 10 (nat k))"

definition pad_zero :: "nat \<Rightarrow> string \<Rightarrow> string" where
  "pad_zero n s = replicate (n - length s) (CHR ''0'') @ s"

definition pad_left :: "nat \<Rightarrow> string \<Rightarrow> string" where
  "pad_left n s = replicate (n - length s) (CHR '' '') @ s"

definition pad_right :: "nat \<Rightarrow> string \<Rightarrow> string" where
  "pad_right n s = s @ replicate (n - length s) (CHR '' '')"

definition fmt_x :: "nat \<Rightarrow> nat \<Rightarrow> string" where
  "fmt_x width n = pad_zero width (radix 16 n)"

text \<open>\<^verbatim>\<open>snprintf(buf, n, ...)\<close>: what the buffer holds when \<open>s\<close> is the formatted text.\<close>

definition snprintf :: "nat \<Rightarrow> string \<Rightarrow> string" where
  "snprintf n s = take (n - 1) s"

lemma length_snprintf: "0 < n \<Longrightarrow> length (snprintf n s) < n"
  by (auto simp: snprintf_def)

lemma snprintf_fits: "length s < n \<Longrightarrow> snprintf n s = s"
  by (simp add: snprintf_def)

section \<open>Reading back what was printed\<close>

lemma chr_code_char_of [simp]: "n < 256 \<Longrightarrow> chr_code (char_of n) = (n::nat)"
  by simp

lemma chr_code_inj: "chr_code c = chr_code d \<longleftrightarrow> c = d"
  by simp

lemma digit_val_digit_char [simp]: "n < 16 \<Longrightarrow> digit_val (digit_char n) = n"
  by (simp add: digit_val_def digit_char_def Let_def)

lemma digit_in_digit_char: "n < b \<Longrightarrow> b \<le> 16 \<Longrightarrow> digit_in b (digit_char n)"
  by (simp add: digit_in_def)

lemma isdigit_digit_char: "n < 10 \<Longrightarrow> isdigit (digit_char n)"
  by (simp add: isdigit_def digit_char_def)

lemma digit_char_zero_iff: "n < 10 \<Longrightarrow> digit_char n = CHR ''0'' \<longleftrightarrow> n = 0"
  by (simp add: digit_char_def flip: chr_code_inj)

lemma digit_char_0 [simp]: "digit_char 0 = CHR ''0''"
  by (simp add: digit_char_zero_iff)

lemma isdigit_digit_in: "isdigit c \<Longrightarrow> digit_in 10 c"
  by (auto simp: isdigit_def digit_in_def digit_val_def Let_def)

lemma digit_in_mono: "digit_in b c \<Longrightarrow> b \<le> b' \<Longrightarrow> digit_in b' c"
  by (simp add: digit_in_def)

lemma digit_in_10: "digit_in 10 c \<longleftrightarrow> isdigit c"
  by (auto simp: isdigit_def digit_in_def digit_val_def Let_def)

lemma not_digit_nul [simp]: "b \<le> 36 \<Longrightarrow> \<not> digit_in b (CHR 0x00)"
  by (simp add: digit_in_def digit_val_def)

lemma isdigit_not_space: "isdigit c \<Longrightarrow> \<not> isspace c"
  by (auto simp: isdigit_def isspace_def)

lemma isdigit_not_sign: "isdigit c \<Longrightarrow> c \<noteq> CHR ''-'' \<and> c \<noteq> CHR ''+''"
  by (auto simp: isdigit_def)

lemma radix_not_Nil [simp]: "radix b n \<noteq> []"
  by (subst radix.simps) simp

lemma radix_digits: "2 \<le> b \<Longrightarrow> b \<le> 16 \<Longrightarrow> \<forall>c \<in> set (radix b n). digit_in b c"
proof (induction b n rule: radix.induct)
  case (1 b n)
  show ?case
  proof (cases "n < b")
    case True
    with 1 show ?thesis by (simp add: radix.simps [of b n] digit_in_digit_char)
  next
    case False
    with 1 show ?thesis by (simp add: radix.simps [of b n] digit_in_digit_char)
  qed
qed

lemma read_digits_append:
  "\<forall>c \<in> set s. digit_in b c \<Longrightarrow> read_digits b (s @ r) acc = read_digits b r (fst (read_digits b s acc))"
  by (induction s arbitrary: acc) auto

lemma read_digits_all: "\<forall>c \<in> set s. digit_in b c \<Longrightarrow> snd (read_digits b s acc) = []"
  by (induction s arbitrary: acc) auto

lemma read_digits_stop: "\<not> digit_in b (hd0 r) \<Longrightarrow> read_digits b r acc = (acc, r)"
  by (cases r) auto

lemma read_digits_radix:
  "2 \<le> b \<Longrightarrow> b \<le> 16 \<Longrightarrow> fst (read_digits b (radix b n) 0) = n"
proof (induction b n rule: radix.induct)
  case (1 b n)
  show ?case
  proof (cases "n < b")
    case True
    with 1 show ?thesis by (simp add: radix.simps [of b n] digit_in_digit_char)
  next
    case False
    with 1 have ih: "fst (read_digits b (radix b (n div b)) 0) = n div b" by simp
    have "read_digits b (radix b (n div b) @ [digit_char (n mod b)]) 0
        = read_digits b [digit_char (n mod b)] (n div b)"
      using 1 radix_digits [of b "n div b"] ih by (simp add: read_digits_append)
    moreover have "digit_val (digit_char (n mod b)) = n mod b"
      using 1(2,3) mod_less_divisor [of b n] by (intro digit_val_digit_char) linarith
    ultimately show ?thesis
      using False 1 by (simp add: radix.simps [of b n] digit_in_digit_char)
  qed
qed

lemma hd_radix_zero: "2 \<le> b \<Longrightarrow> b \<le> 10 \<Longrightarrow> hd (radix b n) = CHR ''0'' \<longleftrightarrow> n = 0"
proof (induction b n rule: radix.induct)
  case (1 b n)
  then show ?case
    by (cases "n < b") (auto simp: radix.simps [of b n] digit_char_zero_iff div_eq_0_iff)
qed

lemma hd0_not_Nil: "s \<noteq> [] \<Longrightarrow> hd0 s = hd s"
  by (cases s) simp_all

lemma isdigit_hd_fmt_u: "isdigit (hd0 (fmt_u n @ r))"
  using radix_digits [of 10 n] by (cases "radix 10 n") (auto simp: fmt_u_def digit_in_10)

section \<open>Facts of strtoul\<close>

lemma length_read_digits: "length (snd (read_digits b s acc)) \<le> length s"
  by (induction s arbitrary: acc) (auto simp: le_SucI)

lemma length_read_digits_less:
  "digit_in b (hd0 s) \<Longrightarrow> b \<le> 36 \<Longrightarrow> length (snd (read_digits b s acc)) < length s"
  using length_read_digits by (cases s) (auto simp: less_Suc_eq_le)

lemma suffix_read_digits: "suffix (snd (read_digits b s acc)) s"
  by (induction s arbitrary: acc) (auto simp: suffix_Cons)

lemma length_dropWhile_le': "length (dropWhile P xs) \<le> length xs"
  by (rule length_dropWhile_le)

lemma length_base_and_digits: "length (snd (base_and_digits s)) \<le> length s"
  by (auto simp: base_and_digits_def)

lemma base_bounds: "fst (base_and_digits s) \<in> {8, 10, 16}"
  by (auto simp: base_and_digits_def)

text \<open>Whatever the input, \<^verbatim>\<open>strtoul\<close> never runs past it.\<close>

lemma length_strtoul0: "length (fst (snd (strtoul0 w s))) \<le> length s"
proof -
  let ?t = "dropWhile isspace s"
  let ?u = "if hd0 ?t = CHR ''-'' \<or> hd0 ?t = CHR ''+'' then tl ?t else ?t"
  have "length ?u \<le> length s"
    using length_dropWhile_le [of isspace s] by auto
  then have "length (snd (base_and_digits ?u)) \<le> length s"
    using length_base_and_digits le_trans by blast
  then have "length (snd (read_digits (fst (base_and_digits ?u)) (snd (base_and_digits ?u)) 0)) \<le> length s"
    using length_read_digits le_trans by blast
  then show ?thesis
    by (auto simp: strtoul0_def Let_def split: prod.splits)
qed

text \<open>On a cursor at a digit neither whitespace nor a sign is skipped.\<close>

lemma strtoul0_digit:
  assumes "isdigit (hd0 s)"
  shows "strtoul0 w s =
    (let (b, d) = base_and_digits s; (v, r) = read_digits b d 0
     in if 2 ^ w \<le> v then (2 ^ w - 1, r, True) else (v, r, False))"
proof -
  obtain c t where s: "s = c # t" using assms by (cases s) auto
  have "digit_in (fst (base_and_digits s)) (hd0 (snd (base_and_digits s)))"
    using assms by (auto simp: s base_and_digits_def digit_in_10) (simp_all add: digit_in_def digit_val_def)
  then show ?thesis
    using assms isdigit_not_space [of c] isdigit_not_sign [of c]
    by (auto simp: s strtoul0_def Let_def split: prod.splits)
qed

lemma strtoul0_dec:
  assumes "n < 2 ^ w" and "\<not> digit_in 10 (hd0 r)" and "n = 0 \<longrightarrow> hd0 r \<noteq> CHR ''x'' \<and> hd0 r \<noteq> CHR ''X''"
  shows "strtoul0 w (fmt_u n @ r) = (n, r, False)"
proof (cases "n = 0")
  case True
  have "read_digits 8 r 0 = (0, r)"
    using assms(2) digit_in_mono by (intro read_digits_stop) fastforce
  with True assms(3) show ?thesis
    by (subst strtoul0_digit)
      (simp_all add: fmt_u_def radix.simps [of 10 0] isdigit_def base_and_digits_def
        digit_in_def digit_val_def)
next
  case False
  then have "hd0 (fmt_u n @ r) \<noteq> CHR ''0''"
    using hd_radix_zero [of 10 n] by (simp add: fmt_u_def hd0_append hd0_not_Nil)
  then have "base_and_digits (fmt_u n @ r) = (10, fmt_u n @ r)"
    by (simp add: base_and_digits_def)
  moreover have "read_digits 10 (fmt_u n @ r) 0 = (n, r)"
    using assms(2) radix_digits [of 10 n]
    by (simp add: fmt_u_def read_digits_append read_digits_radix read_digits_stop)
  ultimately show ?thesis
    using assms(1) by (subst strtoul0_digit) (simp_all add: isdigit_hd_fmt_u)
qed

section \<open>Words joined by a separator\<close>

fun join_with :: "char \<Rightarrow> string list \<Rightarrow> string" where
  "join_with c [] = []"
| "join_with c [w] = w"
| "join_with c (w # v # ws) = w @ c # join_with c (v # ws)"

lemma join_with_Cons: "ws \<noteq> [] \<Longrightarrow> join_with c (w # ws) = w @ c # join_with c ws"
  by (cases ws) simp_all

lemma join_with_snoc: "ws \<noteq> [] \<Longrightarrow> join_with c (ws @ [w]) = join_with c ws @ c # w"
  by (induction c ws rule: join_with.induct) (auto simp: join_with_Cons)

lemma length_join_with_take: "length (join_with c (take n ws)) \<le> length (join_with c ws)"
proof (induction ws arbitrary: n)
  case (Cons w ws)
  show ?case
  proof (cases n)
    case (Suc m)
    then show ?thesis
      using Cons.IH [of m] by (cases ws; cases "take m ws") (auto simp: join_with_Cons)
  qed simp
qed simp

lemma distinct_subseq: "subseq xs ys \<Longrightarrow> distinct ys \<Longrightarrow> distinct xs"
  by (induction rule: list_emb.induct) (auto dest: list_emb_set)

section \<open>Build options\<close>

text \<open>The Kconfig switches the application is compiled with: \<^verbatim>\<open>#if CONFIG_X\<close> is \<open>cfg CONFIG_X\<close>.\<close>

datatype kconfig =
    CONFIG_KFSW_CSP | CONFIG_KFSW_CSP_CAN | CONFIG_KFSW_CSP_KISS_UART | CONFIG_KFSW_CSP_LIVENESS
   | CONFIG_KFSW_STORAGE | CONFIG_KFSW_STORAGE_TMP | CONFIG_KFSW_WATCHDOG
   | CONFIG_KFSW_WATCHDOG_AUTO_START | CONFIG_KFSW_HEALTH | CONFIG_KFSW_PARAM
   | CONFIG_KFSW_PARAM_CSP | CONFIG_KFSW_PARAM_PERSISTENCE | CONFIG_KFSW_PARAM_TEST_DEFINITIONS
   | CONFIG_KFSW_COMMAND | CONFIG_KFSW_COMMAND_CSP | CONFIG_KFSW_LOG_REMOTE | CONFIG_KFSW_EVENT
   | CONFIG_KFSW_GNDWDT | CONFIG_KFSW_RESMON | CONFIG_KFSW_SCRUB | CONFIG_KFSW_LIMITS
   | CONFIG_KFSW_HK | CONFIG_KFSW_HK_CSP | CONFIG_KFSW_HK_STORE | CONFIG_KFSW_HK_BEACON | CONFIG_KFSW_HK_PERSISTENCE
   | CONFIG_KFSW_FBO | CONFIG_KFSW_FTP | CONFIG_KFSW_FWU
   | CONFIG_KFSW_FWU_FILES | CONFIG_KFSW_FWU_LITE_CSP | CONFIG_KFSW_TABLE | CONFIG_KFSW_REMEXEC
   | CONFIG_KFSW_RADIO_UHF | CONFIG_KFSW_RADIO_UHF_CRYPTO | CONFIG_KFSW_BUTTON_TEST
   | CONFIG_KFSW_TEMPERATURE_SENSOR_EXAMPLE | CONFIG_KFSW_LASTWORDS | CONFIG_KFSW_JOURNAL
   | CONFIG_KFSW_GOLDEN | CONFIG_KFSW_DEBUG_SHELL | CONFIG_KFSW_BOOT_CONFIRM_AT_START
   | CONFIG_SHELL | CONFIG_REBOOT | CONFIG_BOOTLOADER_MCUBOOT | CONFIG_MCUBOOT_IMG_MANAGER
   | CONFIG_BOARD_NATIVE_SIM | CONFIG_KFSW_PARAM_FLOAT | CONFIG_KFSW_LOG_HISTORY | CONFIG_KFSW_BOOT_STORE
   | CONFIG_ARCH_POSIX | CONFIG_ARM | CONFIG_ARM64 | CONFIG_KFSW_FWU_STANDARD

type_synonym config = "kconfig \<Rightarrow> bool"

section \<open>Build constants\<close>

text \<open>
  The macros and Kconfig values the application compiles against are defined outside this
  repository. They are the fields of a record every definition that uses one takes.
\<close>

record build =
  ulong_bits :: nat
  KFSW_PARAM_OFFSET_MAX :: nat
  KFSW_PARAM_ID :: "nat \<Rightarrow> nat \<Rightarrow> nat"
  KFSW_HK_NODE_LOCAL :: u16
  KFSW_HK_CLASS_DEFAULT :: u8
  KFSW_HK_CLASS_MAX :: nat
  KFSW_HK_APPLIED_UNSAVED :: int
  CONFIG_KFSW_HK_ENTRIES :: nat
  CONFIG_KFSW_HK_REPORTS :: nat
  KFSW_COMMAND_MAX_DETAIL_SIZE :: nat
  KFSW_COMMAND_MAX_TEXT_SIZE :: nat
  KFSW_COMMAND_MAX_ARGS :: nat
  KFSW_EVENT_MAX_PAYLOAD_SIZE :: nat
  KFSW_CSP_BROADCAST_ADDRESS :: nat
  KFSW_REMEXEC_COMMAND_MAX :: nat

text \<open>
  A build with the values the documentation gives: the table is the high byte of a parameter ID
  and the offset the low byte, classes are 0 to 7 with 4 the default, CSP 2 addresses.
\<close>

definition sample_build :: build where
  "sample_build =
     \<lparr>ulong_bits = 64, KFSW_PARAM_OFFSET_MAX = 255, KFSW_PARAM_ID = (\<lambda>t o'. 256 * t + o'),
      KFSW_HK_NODE_LOCAL = 0, KFSW_HK_CLASS_DEFAULT = 4, KFSW_HK_CLASS_MAX = 7,
      KFSW_HK_APPLIED_UNSAVED = 1,
      CONFIG_KFSW_HK_ENTRIES = 8, CONFIG_KFSW_HK_REPORTS = 4,
      KFSW_COMMAND_MAX_DETAIL_SIZE = 128, KFSW_COMMAND_MAX_TEXT_SIZE = 64,
      KFSW_COMMAND_MAX_ARGS = 4, KFSW_EVENT_MAX_PAYLOAD_SIZE = 16,
      KFSW_CSP_BROADCAST_ADDRESS = 16383, KFSW_REMEXEC_COMMAND_MAX = 63\<rparr>"

section \<open>Lists in chunks\<close>

text \<open>A list in pieces of at most \<open>n\<close>, the way a buffer or a request of fixed size takes it.\<close>

function chunks :: "nat \<Rightarrow> 'a list \<Rightarrow> 'a list list" where
  "chunks n xs = (if n = 0 \<or> xs = [] then [] else take n xs # chunks n (drop n xs))"
  by pat_completeness auto
termination
  by (relation "measure (length \<circ> snd)") auto

declare chunks.simps [simp del]

lemma chunks_Nil [simp]: "chunks n [] = []"
  by (subst chunks.simps) simp

lemma chunks_step: "0 < n \<Longrightarrow> xs \<noteq> [] \<Longrightarrow> chunks n xs = take n xs # chunks n (drop n xs)"
  by (subst chunks.simps) simp

lemma chunks_cover: "0 < n \<Longrightarrow> concat (chunks n xs) = xs \<and> (\<forall>ys \<in> set (chunks n xs). ys \<noteq> [] \<and> length ys \<le> n)"
proof (induction n xs rule: chunks.induct)
  case (1 n xs)
  show ?case
  proof (cases "xs = []")
    case False
    then have "concat (chunks n (drop n xs)) = drop n xs \<and>
        (\<forall>ys \<in> set (chunks n (drop n xs)). ys \<noteq> [] \<and> length ys \<le> n)"
      using 1 by blast
    then show ?thesis unfolding chunks_step [OF "1.prems" False] using "1.prems" False by simp
  qed simp
qed

section \<open>Handlers: output and services\<close>

text \<open>
  A handler prints to the shell, logs, and calls services. The services are not part of this
  repository: their state is the type variable \<open>'s\<close>, and a call is a function on it that the
  definitions take as a parameter. A \<open>world\<close> is that state and the lines written so far.
\<close>

datatype line =
    Print string | Error string | Warn string
  | Log_debug string | Log_info string | Log_warning string | Log_error string | Log_marker string

record 's world =
  svc :: 's
  out :: "line list"

type_synonym ('s, 'a) act = "('s world, 'a) state"

abbreviation ret :: "'a \<Rightarrow> ('s, 'a) act" where
  "ret \<equiv> State_Monad.return"

definition emit :: "line \<Rightarrow> ('s, unit) act" where
  "emit l = State (\<lambda>w. ((), w\<lparr>out := out w @ [l]\<rparr>))"

definition call :: "('s \<Rightarrow> 'a \<times> 's) \<Rightarrow> ('s, 'a) act" where
  "call f = State (\<lambda>w. (fst (f (svc w)), w\<lparr>svc := snd (f (svc w))\<rparr>))"

definition ask :: "('s \<Rightarrow> 'a) \<Rightarrow> ('s, 'a) act" where
  "ask f = State (\<lambda>w. (f (svc w), w))"

abbreviation shell_print :: "string \<Rightarrow> ('s, unit) act" where "shell_print s \<equiv> emit (Print s)"
abbreviation shell_error :: "string \<Rightarrow> ('s, unit) act" where "shell_error s \<equiv> emit (Error s)"
abbreviation shell_warn :: "string \<Rightarrow> ('s, unit) act" where "shell_warn s \<equiv> emit (Warn s)"
abbreviation kfsw_log_debug :: "string \<Rightarrow> ('s, unit) act" where "kfsw_log_debug s \<equiv> emit (Log_debug s)"
abbreviation kfsw_log_info :: "string \<Rightarrow> ('s, unit) act" where "kfsw_log_info s \<equiv> emit (Log_info s)"
abbreviation kfsw_log_warning :: "string \<Rightarrow> ('s, unit) act" where "kfsw_log_warning s \<equiv> emit (Log_warning s)"
abbreviation kfsw_log_error :: "string \<Rightarrow> ('s, unit) act" where "kfsw_log_error s \<equiv> emit (Log_error s)"

fun emit_all :: "line list \<Rightarrow> ('s, unit) act" where
  "emit_all [] = ret ()"
| "emit_all (l # ls) = do { emit l; emit_all ls }"

named_theorems act_simps \<open>evaluation of handlers\<close>

lemma run_emit [simp, act_simps]: "run_state (emit l) w = ((), w\<lparr>out := out w @ [l]\<rparr>)"
  by (simp add: emit_def)

lemma run_call [simp, act_simps]:
  "run_state (call f) w = (fst (f (svc w)), w\<lparr>svc := snd (f (svc w))\<rparr>)"
  by (simp add: call_def)

lemma run_ask [simp, act_simps]: "run_state (ask f) w = (f (svc w), w)"
  by (simp add: ask_def)

lemma run_emit_all [simp, act_simps]:
  "run_state (emit_all ls) w = ((), w\<lparr>out := out w @ ls\<rparr>)"
  by (induction ls arbitrary: w) simp_all

lemma run_if [act_simps]:
  "run_state (if b then x else y) w = (if b then run_state x w else run_state y w)"
  by simp

text \<open>
  \<open>quiet m\<close>: the action changes no service state. It is what a handler promises on a path where
  it refuses its input, and it composes.
\<close>

definition quiet :: "('s, 'a) act \<Rightarrow> bool" where
  "quiet m \<longleftrightarrow> (\<forall>w. svc (snd (run_state m w)) = svc w)"

named_theorems quiet_intros \<open>composition of actions that leave the services alone\<close>

lemma quiet_ret [quiet_intros]: "quiet (ret x)"
  by (simp add: quiet_def)

lemma quiet_emit [quiet_intros]: "quiet (emit l)"
  by (simp add: quiet_def)

lemma quiet_emit_all [quiet_intros]: "quiet (emit_all ls)"
  by (simp add: quiet_def)

lemma quiet_ask [quiet_intros]: "quiet (ask f)"
  by (simp add: quiet_def)

lemma quiet_bind [quiet_intros]:
  "quiet m \<Longrightarrow> (\<And>x. quiet (f x)) \<Longrightarrow> quiet (m \<bind> f)"
  by (simp add: quiet_def split_beta)

lemma quiet_if [quiet_intros]: "(b \<Longrightarrow> quiet x) \<Longrightarrow> (\<not> b \<Longrightarrow> quiet y) \<Longrightarrow> quiet (if b then x else y)"
  by simp

lemma quietD: "quiet m \<Longrightarrow> svc (snd (run_state m w)) = svc w"
  by (simp add: quiet_def)

text \<open>
  \<open>ends P m\<close>: whatever the services answer, the action's result satisfies \<open>P\<close>. A rule per way
  of building an action.
\<close>

definition ends :: "('a \<Rightarrow> bool) \<Rightarrow> ('s, 'a) act \<Rightarrow> bool" where
  "ends P m \<longleftrightarrow> (\<forall>w. P (fst (run_state m w)))"

named_theorems ends_intros \<open>postconditions of actions\<close>

lemma ends_ret [ends_intros]: "P x \<Longrightarrow> ends P (ret x)"
  by (simp add: ends_def)

lemma ends_bind: "(\<And>x. ends P (f x)) \<Longrightarrow> ends P (m \<bind> f)"
  by (simp add: ends_def split_beta)

lemma ends_ask_bind: "(\<And>s. ends P (f (g s))) \<Longrightarrow> ends P (ask g \<bind> f)"
  by (simp add: ends_def)

lemma ends_if [ends_intros]: "(b \<Longrightarrow> ends P x) \<Longrightarrow> (\<not> b \<Longrightarrow> ends P y) \<Longrightarrow> ends P (if b then x else y)"
  by simp

end
