(* ===== verification/Param_Def.thy ===== *)
theory Param_Def
  imports Kfsw_Base
begin

text \<open>
  Parameter definitions as the application registers them: \<^verbatim>\<open>struct kfsw_param_definition\<close> the way
  the tables of \<^verbatim>\<open>src/app/src/parameters/\<close> fill it.

  A table is over the type \<open>'t\<close> of its static variables. The pointer \<^verbatim>\<open>.value\<close> is a pair of a
  read and a write of one variable; a write of another width than the variable has, or of a longer
  array, is outside its memory and has no result. A sampler \<^verbatim>\<open>void (*sample)(void *value)\<close> maps the statics and
  the memory behind \<^verbatim>\<open>value\<close> to new ones, or to \<open>None\<close> when it writes outside that memory, and
  what the lower layers answer while it runs is a \<open>readings\<close> record. A field an initialiser leaves
  out is \<open>None\<close>, \<open>[]\<close> or 0.

  Two contracts are locales: \<open>validated_parameter\<close> (a writable parameter only ever holds good
  values) and \<open>param_table\<close> (a table whose reads succeed, stay inside their memory and return
  values of the declared type).
\<close>

section \<open>Values and definitions\<close>

datatype param_type =
    KFSW_PARAM_U8 | KFSW_PARAM_U16 | KFSW_PARAM_U32 | KFSW_PARAM_U64
  | KFSW_PARAM_I8 | KFSW_PARAM_I16 | KFSW_PARAM_I32 | KFSW_PARAM_I64
  | KFSW_PARAM_X8 | KFSW_PARAM_X16 | KFSW_PARAM_X32 | KFSW_PARAM_X64
  | KFSW_PARAM_FLOAT | KFSW_PARAM_DOUBLE | KFSW_PARAM_STRING | KFSW_PARAM_DATA | KFSW_PARAM_INVALID

datatype param_flag =
    KFSW_PARAM_FLAG_READ_ONLY | KFSW_PARAM_FLAG_SYSTEM_INFO | KFSW_PARAM_FLAG_CONFIGURATION
  | KFSW_PARAM_FLAG_PERSISTENT | KFSW_PARAM_FLAG_LIVE

text \<open>The memory behind a parameter: a scalar of some width or a character array.\<close>

datatype pval = V8 u8 | V16 u16 | V32 u32 | VBuf "char list"

text \<open>The members of \<^verbatim>\<open>union kfsw_param_scalar\<close>, on a little-endian machine.\<close>

fun scalar_u8 :: "pval \<Rightarrow> u8" where
  "scalar_u8 (V8 x) = x" | "scalar_u8 (V16 x) = ucast x" | "scalar_u8 (V32 x) = ucast x"
| "scalar_u8 (VBuf b) = 0"

fun scalar_u16 :: "pval \<Rightarrow> u16" where
  "scalar_u16 (V8 x) = ucast x" | "scalar_u16 (V16 x) = x" | "scalar_u16 (V32 x) = ucast x"
| "scalar_u16 (VBuf b) = 0"

fun scalar_u32 :: "pval \<Rightarrow> u32" where
  "scalar_u32 (V8 x) = ucast x" | "scalar_u32 (V16 x) = ucast x" | "scalar_u32 (V32 x) = x"
| "scalar_u32 (VBuf b) = 0"

text \<open>The C string a character array holds, and a string in an array of \<open>n\<close> characters.\<close>

definition cstr :: "char list \<Rightarrow> string" where
  "cstr b = takeWhile (\<lambda>c. c \<noteq> CHR 0x00) b"

definition cbuf :: "nat \<Rightarrow> string \<Rightarrow> char list" where
  "cbuf n s = s @ replicate (n - length s) (CHR 0x00)"

section \<open>What the lower layers answer\<close>

record csp_info =
  hostname :: "string option"
  model :: "string option"
  revision :: "string option"
  address :: u16
  free_buffers :: int
  router_running :: bool

record csp_interface_info =
  tx_packets :: u32
  rx_packets :: u32
  tx_errors :: u32
  rx_errors :: u32
  dropped_packets :: u32

record csp_counters =
  buffer_out :: u8
  conn_out :: u8
  conn_overflow :: u8
  conn_noroute :: u8
  invalid_reply :: u8
  last_error :: u8
  last_can_error :: u8

record storage_info =
  ready :: bool
  total_bytes :: u64
  free_bytes :: u64

record watchdog_info =
  timeout_ms :: u32
  feed_interval_ms :: u32
  feeds :: u32
  since_feed_ms :: u32
  wdt_state :: u8
  device_bound :: bool
  keepalive_owned :: bool

text \<open>
  One answer of each function the samplers call. \<open>kfsw_csp_visit_interfaces\<close> is the list of the
  interfaces it passes to its callback.
\<close>

record readings =
  kfsw_csp_get_info :: csp_info
  kfsw_csp_visit_interfaces :: "csp_interface_info list"
  kfsw_csp_get_counters :: csp_counters
  kfsw_csp_get_rdp_trace :: u8
  kfsw_csp_get_packet_trace :: bool
  kfsw_boot_get_hardware_id :: "string option"
  kfsw_boot_get_reset_cause :: u32
  kfsw_can_get_info_bitrate :: u32
  kfsw_time_monotonic_ms :: u64
  kfsw_storage_get_info :: "int \<times> storage_info"
  kfsw_platform_watchdog_get_info :: "int \<times> watchdog_info"

text \<open>The calls the change callbacks make.\<close>

datatype lower_call =
    kfsw_can_set_bitrate u32 | kfsw_csp_set_rdp_trace u8 | kfsw_csp_set_packet_trace bool

type_synonym 't sampler = "readings \<Rightarrow> 't \<Rightarrow> pval \<Rightarrow> ('t \<times> pval) option"

record 't param_definition =
  offset :: nat
  ptype :: param_type
  capacity :: nat
  flags :: "param_flag list"
  pname :: string
  unit_text :: "string option"
  description :: string
  value_ref :: "('t \<Rightarrow> pval) \<times> (pval \<Rightarrow> 't \<Rightarrow> 't option)"
  default_value :: "pval option"
  default_text :: "string option"
  sample :: "'t sampler option"
  validate :: "(pval \<Rightarrow> int) option"
  validate_text :: "(string \<Rightarrow> int) option"
  changed :: "(pval \<Rightarrow> lower_call) option"

text \<open>The fields an initialiser leaves out.\<close>

definition zero_definition :: "'t param_definition" where
  "zero_definition =
     \<lparr>offset = 0, ptype = KFSW_PARAM_INVALID, capacity = 0, flags = [], pname = [], unit_text = None,
      description = [], value_ref = (\<lambda>_. V8 0, \<lambda>_ st. None), default_value = None,
      default_text = None, sample = None, validate = None, validate_text = None, changed = None\<rparr>"

text \<open>Values of other layers the tables are compiled against.\<close>

record param_build =
  KFSW_HARDWARE_ID_TEXT_SIZE :: nat
  CONFIG_KFSW_CSP_ADDRESS :: u16
  CONFIG_KFSW_CSP_CAN_BITRATE :: u32
  kfsw_can_bitrate_supported :: "u32 \<Rightarrow> bool"
  KFSW_CSP_ROUTE_TABLE_MAX_LENGTH :: nat
  CONFIG_KFSW_CSP_ROUTE_TABLE :: string

text \<open>What the build system guarantees of them.\<close>

definition param_build_ok :: "param_build \<Rightarrow> bool" where
  "param_build_ok pb \<longleftrightarrow>
     0 < KFSW_HARDWARE_ID_TEXT_SIZE pb \<and>
     kfsw_can_bitrate_supported pb (CONFIG_KFSW_CSP_CAN_BITRATE pb) \<and>
     length (CONFIG_KFSW_CSP_ROUTE_TABLE pb) \<le> KFSW_CSP_ROUTE_TABLE_MAX_LENGTH pb"

definition sample_param_build :: param_build where
  "sample_param_build =
     \<lparr>KFSW_HARDWARE_ID_TEXT_SIZE = 33, CONFIG_KFSW_CSP_ADDRESS = 10,
      CONFIG_KFSW_CSP_CAN_BITRATE = 500000,
      kfsw_can_bitrate_supported = (\<lambda>b. b \<in> {125000, 250000, 500000, 800000, 1000000}),
      KFSW_CSP_ROUTE_TABLE_MAX_LENGTH = 100, CONFIG_KFSW_CSP_ROUTE_TABLE = ''0/0 KISS''\<rparr>"

record 't param_definition_set =
  table_id :: nat
  table_name :: string
  table_description :: string
  definitions :: "'t param_definition list"

text \<open>
  \<^verbatim>\<open>.value = &variable\<close>, from the record's selector and update function. A sampler writes through a
  \<^verbatim>\<open>void *\<close>: \<^verbatim>\<open>*(uint16_t *)value = x\<close> is the write of \<open>V16 x\<close>, and it is a write of the variable behind the
  pointer only if that is a \<^verbatim>\<open>uint16_t\<close>.
\<close>

definition ref8 :: "('t \<Rightarrow> u8) \<Rightarrow> ((u8 \<Rightarrow> u8) \<Rightarrow> 't \<Rightarrow> 't) \<Rightarrow> ('t \<Rightarrow> pval) \<times> (pval \<Rightarrow> 't \<Rightarrow> 't option)" where
  "ref8 get upd = (\<lambda>st. V8 (get st), \<lambda>v st. case v of V8 x \<Rightarrow> Some (upd (\<lambda>_. x) st) | _ \<Rightarrow> None)"

definition ref16 :: "('t \<Rightarrow> u16) \<Rightarrow> ((u16 \<Rightarrow> u16) \<Rightarrow> 't \<Rightarrow> 't) \<Rightarrow> ('t \<Rightarrow> pval) \<times> (pval \<Rightarrow> 't \<Rightarrow> 't option)" where
  "ref16 get upd = (\<lambda>st. V16 (get st), \<lambda>v st. case v of V16 x \<Rightarrow> Some (upd (\<lambda>_. x) st) | _ \<Rightarrow> None)"

definition ref32 :: "('t \<Rightarrow> u32) \<Rightarrow> ((u32 \<Rightarrow> u32) \<Rightarrow> 't \<Rightarrow> 't) \<Rightarrow> ('t \<Rightarrow> pval) \<times> (pval \<Rightarrow> 't \<Rightarrow> 't option)" where
  "ref32 get upd = (\<lambda>st. V32 (get st), \<lambda>v st. case v of V32 x \<Rightarrow> Some (upd (\<lambda>_. x) st) | _ \<Rightarrow> None)"

definition ref_buf ::
  "('t \<Rightarrow> char list) \<Rightarrow> ((char list \<Rightarrow> char list) \<Rightarrow> 't \<Rightarrow> 't) \<Rightarrow> ('t \<Rightarrow> pval) \<times> (pval \<Rightarrow> 't \<Rightarrow> 't option)" where
  "ref_buf get upd = (\<lambda>st. VBuf (get st), \<lambda>v st. case v of
     VBuf b \<Rightarrow> if length b = length (get st) then Some (upd (\<lambda>_. b) st) else None | _ \<Rightarrow> None)"

lemmas ref_defs = ref8_def ref16_def ref32_def ref_buf_def

definition param_value :: "'t param_definition \<Rightarrow> 't \<Rightarrow> pval" where
  "param_value d st = fst (value_ref d) st"

text \<open>Sampling a parameter in place: the sampler gets \<^verbatim>\<open>definition->value\<close>.\<close>

definition sample_param :: "readings \<Rightarrow> 't param_definition \<Rightarrow> 't \<Rightarrow> 't option" where
  "sample_param r d st =
     (case sample d of
        None \<Rightarrow> Some st
      | Some f \<Rightarrow> Option.bind (f r st (param_value d st)) (\<lambda>(st', v). snd (value_ref d) v st'))"

section \<open>Well-formed definitions\<close>

text \<open>
  The memory has the width the definition declares; a character array has the declared capacity
  and a terminator inside it.
\<close>

fun pval_fits :: "param_type \<Rightarrow> nat \<Rightarrow> pval \<Rightarrow> bool" where
  "pval_fits t cap (V8 v) = (t = KFSW_PARAM_U8)"
| "pval_fits t cap (V16 v) = (t = KFSW_PARAM_U16)"
| "pval_fits t cap (V32 v) = (t = KFSW_PARAM_U32 \<or> t = KFSW_PARAM_X32)"
| "pval_fits t cap (VBuf b) = (t = KFSW_PARAM_STRING \<and> length b = cap \<and> CHR 0x00 \<in> set b)"

text \<open>
  What the registry needs of a definition: an offset of one byte, a name of 1 to 32 characters, a
  read-only parameter that nothing validates, applies or restores, and a default of the declared
  type that the parameter's own validator accepts.
\<close>

definition definition_ok :: "'t param_definition \<Rightarrow> bool" where
  "definition_ok d \<longleftrightarrow>
     offset d < 256 \<and> pname d \<noteq> [] \<and> length (pname d) \<le> 32 \<and>
     (KFSW_PARAM_FLAG_READ_ONLY \<in> set (flags d) \<longrightarrow>
        validate d = None \<and> validate_text d = None \<and> changed d = None \<and>
        KFSW_PARAM_FLAG_PERSISTENT \<notin> set (flags d)) \<and>
     (case default_value d of None \<Rightarrow> True
      | Some v \<Rightarrow> pval_fits (ptype d) (capacity d) v \<and>
                  (case validate d of None \<Rightarrow> True | Some f \<Rightarrow> f v = 0)) \<and>
     (case default_text d of None \<Rightarrow> True
      | Some s \<Rightarrow> ptype d = KFSW_PARAM_STRING \<and> length s < capacity d \<and>
                  (case validate_text d of None \<Rightarrow> True | Some f \<Rightarrow> f s = 0))"

definition definitions_ok :: "'t param_definition list \<Rightarrow> bool" where
  "definitions_ok ds \<longleftrightarrow>
     distinct (map offset ds) \<and> distinct (map pname ds) \<and> list_all definition_ok ds"

lemmas definitions_ok_defs = definitions_ok_def definition_ok_def

text \<open>
  A read of one parameter is safe: its memory has the declared type, and sampling it succeeds and
  keeps the invariant of the table's statics.
\<close>

definition read_safe :: "('t \<Rightarrow> bool) \<Rightarrow> 't param_definition \<Rightarrow> bool" where
  "read_safe keep d \<longleftrightarrow>
     (\<forall>st. keep st \<longrightarrow> pval_fits (ptype d) (capacity d) (param_value d st)) \<and>
     (\<forall>r st. keep st \<longrightarrow> (\<exists>st'. sample_param r d st = Some st' \<and> keep st'))"

lemma read_safe_unsampled:
  "sample d = None \<Longrightarrow> (\<And>st. keep st \<Longrightarrow> pval_fits (ptype d) (capacity d) (param_value d st)) \<Longrightarrow>
   read_safe keep d"
  by (auto simp: read_safe_def sample_param_def)

lemma read_safe_sampled:
  assumes "sample d = Some f"
    and "\<And>st. keep st \<Longrightarrow> pval_fits (ptype d) (capacity d) (param_value d st)"
    and "\<And>r st. keep st \<Longrightarrow> \<exists>st' v st''. f r st (param_value d st) = Some (st', v) \<and>
      snd (value_ref d) v st' = Some st'' \<and> keep st''"
  shows "read_safe keep d"
  unfolding read_safe_def
proof (intro conjI allI impI)
  fix r st assume "keep st"
  then obtain st' v st'' where "f r st (param_value d st) = Some (st', v)"
      "snd (value_ref d) v st' = Some st''" "keep st''"
    using assms(3) by blast
  then show "\<exists>st'. sample_param r d st = Some st' \<and> keep st'"
    by (simp add: sample_param_def assms(1))
qed (rule assms(2))

section \<open>The contract of a table\<close>

text \<open>A session of reads: each samples one parameter and returns what its memory then holds.\<close>

fun read_session :: "(readings \<times> 't param_definition) list \<Rightarrow> 't \<Rightarrow> (pval list \<times> 't) option" where
  "read_session [] st = Some ([], st)"
| "read_session ((r, d) # qs) st =
     (case sample_param r d st of
        None \<Rightarrow> None
      | Some st' \<Rightarrow> map_option (\<lambda>(vs, fin). (param_value d st' # vs, fin)) (read_session qs st'))"

definition find_offset :: "'t param_definition list \<Rightarrow> nat \<Rightarrow> 't param_definition option" where
  "find_offset ds off = find (\<lambda>d. offset d = off) ds"

definition find_name :: "'t param_definition list \<Rightarrow> string \<Rightarrow> 't param_definition option" where
  "find_name ds nm = find (\<lambda>d. pname d = nm) ds"

lemma find_distinct:
  "distinct (map f ds) \<Longrightarrow> d \<in> set ds \<Longrightarrow> find (\<lambda>e. f e = f d) ds = Some d"
  by (induction ds) auto

locale param_table =
  fixes ds :: "'t param_definition list"
    and init :: 't
    and keep :: "'t \<Rightarrow> bool"
  assumes defs_ok: "definitions_ok ds"
    and keep_init: "keep init"
    and reads_safe: "list_all (read_safe keep) ds"
begin

lemma sample_ok:
  assumes "d \<in> set ds" "keep st"
  obtains st' where "sample_param r d st = Some st'" "keep st'"
    "pval_fits (ptype d) (capacity d) (param_value d st')"
proof -
  have "read_safe keep d" using assms(1) reads_safe by (simp add: list_all_iff)
  with assms(2) that show thesis unfolding read_safe_def by blast
qed

lemma session_from:
  assumes "snd ` set qs \<subseteq> set ds" "keep st"
  shows "\<exists>vs st'. read_session qs st = Some (vs, st') \<and> keep st' \<and>
    list_all2 (\<lambda>(r, d) v. pval_fits (ptype d) (capacity d) v) qs vs"
  using assms
proof (induction qs arbitrary: st)
  case (Cons q qs)
  obtain r d where q: "q = (r, d)" by fastforce
  obtain st' where st': "sample_param r d st = Some st'" "keep st'"
      "pval_fits (ptype d) (capacity d) (param_value d st')"
    using sample_ok Cons.prems q by (metis image_subset_iff list.set_intros(1) snd_conv)
  obtain vs fin where fin: "read_session qs st' = Some (vs, fin)" "keep fin"
      "list_all2 (\<lambda>(r, d) v. pval_fits (ptype d) (capacity d) v) qs vs"
    using Cons.IH [OF _ st'(2)] Cons.prems(1) by auto
  from st' fin show ?case by (simp add: q)
qed simp

lemma session_ok:
  assumes "snd ` set qs \<subseteq> set ds"
  shows "\<exists>vs st'. read_session qs init = Some (vs, st') \<and>
    list_all2 (\<lambda>(r, d) v. pval_fits (ptype d) (capacity d) v) qs vs"
  using session_from [OF assms keep_init] by blast

lemma lookup_offset: "d \<in> set ds \<Longrightarrow> find_offset ds (offset d) = Some d"
  using defs_ok by (simp add: find_offset_def definitions_ok_def find_distinct)

lemma lookup_name: "d \<in> set ds \<Longrightarrow> find_name ds (pname d) = Some d"
  using defs_ok by (simp add: find_name_def definitions_ok_def find_distinct)

end

section \<open>The contract of a validated parameter\<close>

text \<open>The values a writable parameter can hold: its default, and every value its validator accepted.\<close>

inductive stored_value :: "('v \<Rightarrow> int) \<Rightarrow> 'v \<Rightarrow> 'v \<Rightarrow> bool" for check dflt where
  initial: "stored_value check dflt dflt"
| written: "stored_value check dflt v \<Longrightarrow> check u = 0 \<Longrightarrow> stored_value check dflt u"

inductive_cases stored_valueE: "stored_value check dflt v"

locale validated_parameter =
  fixes validate_fn :: "'v \<Rightarrow> int"
    and dflt :: 'v
    and good :: "'v \<Rightarrow> bool"
  assumes accepts_iff: "validate_fn v = 0 \<longleftrightarrow> good v"
    and default_good: "good dflt"
begin

lemma stored_good: "stored_value validate_fn dflt v \<Longrightarrow> good v"
  by (induction rule: stored_value.induct) (simp_all add: default_good accepts_iff)

lemma good_stored: "good v \<Longrightarrow> stored_value validate_fn dflt v"
  by (rule stored_value.written [OF stored_value.initial]) (simp add: accepts_iff)

lemma stored_iff: "stored_value validate_fn dflt v \<longleftrightarrow> good v"
  using stored_good good_stored by blast

end

section \<open>Character arrays\<close>

lemma cstr_no_nul: "CHR 0x00 \<notin> set s \<Longrightarrow> cstr s = s"
  by (induction s) (auto simp: cstr_def)

lemma cstr_append: "CHR 0x00 \<notin> set s \<Longrightarrow> cstr (s @ CHR 0x00 # t) = s"
  by (induction s) (auto simp: cstr_def)

lemma length_cbuf: "length s \<le> n \<Longrightarrow> length (cbuf n s) = n"
  by (simp add: cbuf_def)

lemma cstr_cbuf: "CHR 0x00 \<notin> set s \<Longrightarrow> cstr (cbuf n s) = s"
  by (cases "n - length s") (simp_all add: cbuf_def cstr_append cstr_no_nul)

lemma nul_in_cbuf: "length s < n \<Longrightarrow> CHR 0x00 \<in> set (cbuf n s)"
  by (simp add: cbuf_def)

end
