(* ===== verification/Param_Board.thy ===== *)
theory Param_Board
  imports Param_Def
begin

text \<open>
  Table 1, \<^verbatim>\<open>src/app/src/parameters/board_table.c\<close>: the identity of the node and what it was
  composed with. The identities are copied into fixed character arrays by \<^verbatim>\<open>sample_identity\<close>,
  whose loop is modelled with every index checked.
\<close>

section \<open>Statics\<close>

definition KFSW_BOARD_UID_SIZE :: nat where "KFSW_BOARD_UID_SIZE = 32"
definition KFSW_BOARD_MODEL_SIZE :: nat where "KFSW_BOARD_MODEL_SIZE = 32"
definition KFSW_BOARD_REVISION_SIZE :: nat where "KFSW_BOARD_REVISION_SIZE = 40"

lemmas board_sizes = KFSW_BOARD_UID_SIZE_def KFSW_BOARD_MODEL_SIZE_def KFSW_BOARD_REVISION_SIZE_def

definition KFSW_BOARD_NODE_ID_DEFAULT :: "config \<Rightarrow> param_build \<Rightarrow> u16" where
  "KFSW_BOARD_NODE_ID_DEFAULT cfg pb = (if cfg CONFIG_KFSW_CSP then CONFIG_KFSW_CSP_ADDRESS pb else 0)"

record board_state =
  board_uid :: "char list"
  board_hardware_id :: "char list"
  board_model :: "char list"
  board_revision :: "char list"
  board_node_id :: u16
  board_reset_cause :: u32
  board_csp_enabled :: u8
  board_kiss_enabled :: u8
  board_shell_enabled :: u8
  board_storage_enabled :: u8
  board_can_enabled :: u8
  board_can_speed :: u32

definition IS_ENABLED :: "bool \<Rightarrow> u8" where
  "IS_ENABLED b = (if b then 1 else 0)"

definition board_state_init :: "config \<Rightarrow> param_build \<Rightarrow> board_state" where
  "board_state_init cfg pb =
     \<lparr>board_uid = cbuf KFSW_BOARD_UID_SIZE [],
      board_hardware_id = cbuf (KFSW_HARDWARE_ID_TEXT_SIZE pb) [],
      board_model = cbuf KFSW_BOARD_MODEL_SIZE [],
      board_revision = cbuf KFSW_BOARD_REVISION_SIZE [],
      board_node_id = KFSW_BOARD_NODE_ID_DEFAULT cfg pb,
      board_reset_cause = 0,
      board_csp_enabled = IS_ENABLED (cfg CONFIG_KFSW_CSP),
      board_kiss_enabled = IS_ENABLED (cfg CONFIG_KFSW_CSP_KISS_UART),
      board_shell_enabled = IS_ENABLED (cfg CONFIG_SHELL),
      board_storage_enabled = IS_ENABLED (cfg CONFIG_KFSW_STORAGE),
      board_can_enabled = IS_ENABLED (cfg CONFIG_KFSW_CSP_CAN),
      board_can_speed = CONFIG_KFSW_CSP_CAN_BITRATE pb\<rparr>"

section \<open>Samplers\<close>

text \<open>
  The \<^verbatim>\<open>while\<close> loop of \<^verbatim>\<open>sample_identity\<close> from index \<open>l\<close>, and the terminator after it. The
  source is a C string or NULL; a write past the array is \<open>None\<close>.
\<close>

function sample_identity_loop ::
  "char list \<Rightarrow> nat \<Rightarrow> string option \<Rightarrow> nat \<Rightarrow> (char list \<times> nat) option" where
  "sample_identity_loop dst sz src l =
     (if l + 1 < sz \<and> src \<noteq> None \<and> l < length (the src)
      then if l < length dst
           then sample_identity_loop (dst[l := the src ! l]) sz src (l + 1)
           else None
      else Some (dst, l))"
  by pat_completeness auto
termination
  by (relation "measure (\<lambda>(dst, sz, src, l). sz - l)") auto

declare sample_identity_loop.simps [simp del]

definition sample_identity :: "char list \<Rightarrow> nat \<Rightarrow> string option \<Rightarrow> char list option" where
  "sample_identity dst sz src =
     (case sample_identity_loop dst sz src 0 of
        None \<Rightarrow> None
      | Some (dst', l) \<Rightarrow> if l < length dst' then Some (dst'[l := CHR 0x00]) else None)"

text \<open>\<^verbatim>\<open>value\<close> used as a \<^verbatim>\<open>char *\<close>: memory that is not a character array is a failure.\<close>

definition identity_into :: "nat \<Rightarrow> string option \<Rightarrow> 't \<Rightarrow> pval \<Rightarrow> ('t \<times> pval) option" where
  "identity_into sz src st v =
     (case v of VBuf b \<Rightarrow> map_option (\<lambda>b'. (st, VBuf b')) (sample_identity b sz src) | _ \<Rightarrow> None)"

definition sample_uid :: "config \<Rightarrow> 't sampler" where
  "sample_uid cfg r st v =
     (if cfg CONFIG_KFSW_CSP
      then identity_into KFSW_BOARD_UID_SIZE (hostname (kfsw_csp_get_info r)) st v
      else Some (st, v))"

definition sample_hardware_id :: "param_build \<Rightarrow> 't sampler" where
  "sample_hardware_id pb r st v =
     identity_into (KFSW_HARDWARE_ID_TEXT_SIZE pb) (kfsw_boot_get_hardware_id r) st v"

definition sample_model :: "config \<Rightarrow> 't sampler" where
  "sample_model cfg r st v =
     (if cfg CONFIG_KFSW_CSP
      then identity_into KFSW_BOARD_MODEL_SIZE (model (kfsw_csp_get_info r)) st v
      else Some (st, v))"

definition sample_revision :: "config \<Rightarrow> 't sampler" where
  "sample_revision cfg r st v =
     (if cfg CONFIG_KFSW_CSP
      then identity_into KFSW_BOARD_REVISION_SIZE (revision (kfsw_csp_get_info r)) st v
      else Some (st, v))"

definition sample_node_id :: "config \<Rightarrow> 't sampler" where
  "sample_node_id cfg r st v =
     (if cfg CONFIG_KFSW_CSP then Some (st, V16 (address (kfsw_csp_get_info r))) else Some (st, v))"

definition sample_reset_cause :: "'t sampler" where
  "sample_reset_cause r st v = Some (st, V32 (kfsw_boot_get_reset_cause r))"

definition sample_can_speed :: "'t sampler" where
  "sample_can_speed r st v = Some (st, V32 (kfsw_can_get_info_bitrate r))"

definition validate_can_speed :: "param_build \<Rightarrow> pval \<Rightarrow> int" where
  "validate_can_speed pb v =
     (if kfsw_can_bitrate_supported pb (scalar_u32 v) then 0 else - EINVAL)"

definition changed_can_speed :: "pval \<Rightarrow> lower_call" where
  "changed_can_speed v = kfsw_can_set_bitrate (scalar_u32 v)"

section \<open>Definitions\<close>

abbreviation board_info_flags :: "param_flag list" where
  "board_info_flags \<equiv> [KFSW_PARAM_FLAG_READ_ONLY, KFSW_PARAM_FLAG_SYSTEM_INFO]"

definition board_identity_definitions :: "config \<Rightarrow> param_build \<Rightarrow> board_state param_definition list" where
  "board_identity_definitions cfg pb =
    [zero_definition\<lparr>offset := 0x00, ptype := KFSW_PARAM_U16, flags := board_info_flags,
       pname := ''node_id'', description := ''CSP address this node is running as'',
       value_ref := ref16 board_node_id board_node_id_update,
       default_value := Some (V16 (KFSW_BOARD_NODE_ID_DEFAULT cfg pb)),
       sample := Some (sample_node_id cfg)\<rparr>,
     zero_definition\<lparr>offset := 0x10, ptype := KFSW_PARAM_STRING, capacity := KFSW_BOARD_UID_SIZE,
       flags := board_info_flags, pname := ''uid'',
       description := ''Unit identity, as reported by csp ident'',
       value_ref := ref_buf board_uid board_uid_update, sample := Some (sample_uid cfg)\<rparr>,
     zero_definition\<lparr>offset := 0x40, ptype := KFSW_PARAM_STRING,
       capacity := KFSW_HARDWARE_ID_TEXT_SIZE pb, flags := board_info_flags, pname := ''hw_id'',
       description := ''Identifier this unit's silicon was manufactured with'',
       value_ref := ref_buf board_hardware_id board_hardware_id_update,
       sample := Some (sample_hardware_id pb)\<rparr>,
     zero_definition\<lparr>offset := 0x20, ptype := KFSW_PARAM_STRING, capacity := KFSW_BOARD_MODEL_SIZE,
       flags := board_info_flags, pname := ''model'',
       description := ''Composition this build identifies as'',
       value_ref := ref_buf board_model board_model_update, sample := Some (sample_model cfg)\<rparr>,
     zero_definition\<lparr>offset := 0x30, ptype := KFSW_PARAM_STRING,
       capacity := KFSW_BOARD_REVISION_SIZE, flags := board_info_flags, pname := ''revision'',
       description := ''Build revision, as reported by csp ident'',
       value_ref := ref_buf board_revision board_revision_update,
       sample := Some (sample_revision cfg)\<rparr>]"

definition board_can_definitions :: "config \<Rightarrow> param_build \<Rightarrow> board_state param_definition list" where
  "board_can_definitions cfg pb =
    (if cfg CONFIG_KFSW_CSP_CAN then
      [zero_definition\<lparr>offset := 0x0c, ptype := KFSW_PARAM_U32, pname := ''can_speed'',
         description := ''CAN bitrate: 125000, 250000, 500000, 800000 or 1000000'',
         value_ref := ref32 board_can_speed board_can_speed_update,
         default_value := Some (V32 (CONFIG_KFSW_CSP_CAN_BITRATE pb)),
         sample := Some sample_can_speed, validate := Some (validate_can_speed pb),
         changed := Some changed_can_speed\<rparr>]
     else [])"

definition board_switch_definitions :: "config \<Rightarrow> board_state param_definition list" where
  "board_switch_definitions cfg =
    [zero_definition\<lparr>offset := 0x03, ptype := KFSW_PARAM_U8, flags := board_info_flags,
       pname := ''kiss_enabled'', description := ''Whether the KISS interface is composed'',
       value_ref := ref8 board_kiss_enabled board_kiss_enabled_update,
       default_value := Some (V8 (IS_ENABLED (cfg CONFIG_KFSW_CSP_KISS_UART)))\<rparr>,
     zero_definition\<lparr>offset := 0x04, ptype := KFSW_PARAM_X32, flags := board_info_flags,
       pname := ''reset_cause'', description := ''Reset cause latched at boot'',
       value_ref := ref32 board_reset_cause board_reset_cause_update,
       default_value := Some (V32 0), sample := Some sample_reset_cause\<rparr>,
     zero_definition\<lparr>offset := 0x08, ptype := KFSW_PARAM_U8, flags := board_info_flags,
       pname := ''shell_enabled'', description := ''Whether the debug shell is composed'',
       value_ref := ref8 board_shell_enabled board_shell_enabled_update,
       default_value := Some (V8 (IS_ENABLED (cfg CONFIG_SHELL)))\<rparr>,
     zero_definition\<lparr>offset := 0x09, ptype := KFSW_PARAM_U8, flags := board_info_flags,
       pname := ''storage_enabled'', description := ''Whether persistent storage is composed'',
       value_ref := ref8 board_storage_enabled board_storage_enabled_update,
       default_value := Some (V8 (IS_ENABLED (cfg CONFIG_KFSW_STORAGE)))\<rparr>]"

definition board_param_definitions :: "config \<Rightarrow> param_build \<Rightarrow> board_state param_definition list" where
  "board_param_definitions cfg pb =
     board_identity_definitions cfg pb @
     [zero_definition\<lparr>offset := 0x02, ptype := KFSW_PARAM_U8, flags := board_info_flags,
        pname := ''csp_enabled'', description := ''Whether CSP is composed into this build'',
        value_ref := ref8 board_csp_enabled board_csp_enabled_update,
        default_value := Some (V8 (IS_ENABLED (cfg CONFIG_KFSW_CSP)))\<rparr>,
      zero_definition\<lparr>offset := 0x05, ptype := KFSW_PARAM_U8, flags := board_info_flags,
        pname := ''can_enabled'', description := ''Whether the CAN interface is composed'',
        value_ref := ref8 board_can_enabled board_can_enabled_update,
        default_value := Some (V8 (IS_ENABLED (cfg CONFIG_KFSW_CSP_CAN)))\<rparr>] @
     board_can_definitions cfg pb @ board_switch_definitions cfg"

definition kfsw_board_param_definitions :: "config \<Rightarrow> param_build \<Rightarrow> board_state param_definition_set" where
  "kfsw_board_param_definitions cfg pb =
     \<lparr>table_id = 1, table_name = ''board'',
      table_description = ''Node identity and what the board carries'',
      definitions = board_param_definitions cfg pb\<rparr>"

section \<open>The identity copy\<close>

text \<open>The loop, from index \<open>l\<close> with \<open>l\<close> characters copied.\<close>

lemma sample_identity_loop_result:
  assumes "length dst = sz" "l + 1 \<le> sz" "l \<le> length s"
    and "take l dst = take l s"
  shows "\<exists>dst'. sample_identity_loop dst sz (Some s) l = Some (dst', min (sz - 1) (length s)) \<and>
    length dst' = sz \<and> take (min (sz - 1) (length s)) dst' = take (sz - 1) s"
  using assms
proof (induction dst sz "Some s" l rule: sample_identity_loop.induct)
  case (1 dst sz l)
  show ?case
  proof (cases "l + 1 < sz \<and> l < length s")
    case True
    have "take (l + 1) (dst[l := s ! l]) = take (l + 1) s"
      using "1.prems"(1,4) True by (simp add: take_Suc_conv_app_nth)
    then show ?thesis
      using 1(1) True "1.prems" by (subst sample_identity_loop.simps) simp
  next
    case False
    then have "l = min (sz - 1) (length s)" using "1.prems"(2,3) by auto
    then show ?thesis
      using False "1.prems" by (subst sample_identity_loop.simps) (auto simp: min_def)
  qed
qed

lemma sample_identity_null: "0 < length dst \<Longrightarrow> sample_identity dst sz None = Some (dst[0 := CHR 0x00])"
  by (simp add: sample_identity_def sample_identity_loop.simps)

lemma sample_identity_some:
  assumes "length dst = sz" "0 < sz"
  shows "\<exists>t. sample_identity dst sz (Some s) = Some (take (sz - 1) s @ CHR 0x00 # t) \<and>
    length (take (sz - 1) s @ CHR 0x00 # t) = sz"
proof -
  let ?n = "min (sz - 1) (length s)"
  obtain dst' where d: "sample_identity_loop dst sz (Some s) 0 = Some (dst', ?n)" "length dst' = sz"
      "take ?n dst' = take (sz - 1) s"
    using sample_identity_loop_result [of dst sz 0 s] assms by auto
  have "?n < sz" using assms(2) by linarith
  then have "dst'[?n := CHR 0x00] = take (sz - 1) s @ CHR 0x00 # drop (Suc ?n) dst'"
    using d(2,3) by (simp add: upd_conv_take_nth_drop)
  then show ?thesis
    using d(1,2) \<open>?n < sz\<close> by (auto simp: sample_identity_def)
qed

lemma sample_identity_fits:
  assumes "length dst = sz" "0 < sz"
  shows "\<exists>b. sample_identity dst sz src = Some b \<and> length b = sz \<and> CHR 0x00 \<in> set b"
proof (cases src)
  case None
  have "CHR 0x00 \<in> set (dst[0 := CHR 0x00])"
    using assms by (simp add: set_update_memI)
  with None assms show ?thesis by (simp add: sample_identity_null)
next
  case (Some s)
  obtain t where t: "sample_identity dst sz (Some s) = Some (take (sz - 1) s @ CHR 0x00 # t)"
      "length (take (sz - 1) s @ CHR 0x00 # t) = sz"
    using sample_identity_some [OF assms] by blast
  have "CHR 0x00 \<in> set (take (sz - 1) s @ CHR 0x00 # t)" by simp
  with t Some show ?thesis by blast
qed

section \<open>The table\<close>

definition good_buf :: "nat \<Rightarrow> char list \<Rightarrow> bool" where
  "good_buf n b \<longleftrightarrow> length b = n \<and> CHR 0x00 \<in> set b"

definition board_keep :: "param_build \<Rightarrow> board_state \<Rightarrow> bool" where
  "board_keep pb st \<longleftrightarrow>
     good_buf KFSW_BOARD_UID_SIZE (board_uid st) \<and>
     good_buf (KFSW_HARDWARE_ID_TEXT_SIZE pb) (board_hardware_id st) \<and>
     good_buf KFSW_BOARD_MODEL_SIZE (board_model st) \<and>
     good_buf KFSW_BOARD_REVISION_SIZE (board_revision st)"

lemma identity_into_fits:
  "good_buf n b \<Longrightarrow> \<exists>b'. identity_into n src st (VBuf b) = Some (st, VBuf b') \<and> good_buf n b'"
  using sample_identity_fits [of b n src]
  by (cases n) (auto simp: good_buf_def identity_into_def)

lemma read_safe_identity:
  assumes d: "sample d = Some f" "value_ref d = ref_buf get upd" "ptype d = KFSW_PARAM_STRING" "capacity d = n"
    and get: "\<And>st. keep st \<Longrightarrow> good_buf n (get st)"
    and upd: "\<And>st b. keep st \<Longrightarrow> good_buf n b \<Longrightarrow> keep (upd (\<lambda>_. b) st)"
    and f: "\<And>r st v. f r st v = Some (st, v) \<or> (\<exists>src. f r st v = identity_into n src st v)"
  shows "read_safe keep d"
proof (rule read_safe_sampled [OF d(1)])
  show "pval_fits (ptype d) (capacity d) (param_value d st)" if "keep st" for st
    using get [OF that] by (simp add: d param_value_def ref_buf_def good_buf_def)
  fix r st assume k: "keep st"
  have "\<exists>b. f r st (VBuf (get st)) = Some (st, VBuf b) \<and> good_buf n b"
    using f [of r st "VBuf (get st)"] identity_into_fits [OF get, OF k, of _ st] get [OF k] by metis
  then obtain b where "f r st (VBuf (get st)) = Some (st, VBuf b)" "good_buf n b" by blast
  moreover have "length b = length (get st)" using \<open>good_buf n b\<close> get [OF k] by (simp add: good_buf_def)
  ultimately show "\<exists>st' v st''. f r st (param_value d st) = Some (st', v) \<and>
      snd (value_ref d) v st' = Some st'' \<and> keep st''"
    using upd [OF k] by (simp add: d param_value_def ref_buf_def)
qed

lemma board_identities_safe: "list_all (read_safe (board_keep pb)) (board_identity_definitions cfg pb)"
  unfolding board_identity_definitions_def list.pred_inject
proof (intro conjI TrueI)
  show "read_safe (board_keep pb) (zero_definition\<lparr>offset := 0x00, ptype := KFSW_PARAM_U16,
       flags := board_info_flags,
       pname := ''node_id'', description := ''CSP address this node is running as'',
       value_ref := ref16 board_node_id board_node_id_update,
       default_value := Some (V16 (KFSW_BOARD_NODE_ID_DEFAULT cfg pb)),
       sample := Some (sample_node_id cfg)\<rparr>)"
    by (simp add: read_safe_def sample_param_def param_value_def ref_defs board_keep_def sample_node_id_def)
qed ((rule read_safe_identity, simp, simp, simp, simp, simp add: board_keep_def, simp add: board_keep_def,
     (auto simp: sample_uid_def sample_model_def sample_revision_def sample_hardware_id_def) [1])+, simp)

lemma board_switches_safe:
  "list_all (read_safe (board_keep pb)) (board_switch_definitions cfg)"
  "list_all (read_safe (board_keep pb)) (board_can_definitions cfg pb)"
  by (simp_all add: board_switch_definitions_def board_can_definitions_def read_safe_def
      sample_param_def param_value_def ref_defs board_keep_def zero_definition_def
      sample_reset_cause_def sample_can_speed_def)

lemma board_reads_safe: "list_all (read_safe (board_keep pb)) (board_param_definitions cfg pb)"
  using board_identities_safe board_switches_safe
  by (simp add: board_param_definitions_def read_safe_def sample_param_def param_value_def ref_defs
      board_keep_def zero_definition_def)

lemma board_table_contract:
  assumes "param_build_ok pb"
  shows "param_table (board_param_definitions cfg pb) (board_state_init cfg pb) (board_keep pb)"
proof
  show "definitions_ok (board_param_definitions cfg pb)"
    using assms
    by (simp add: definitions_ok_defs board_param_definitions_def board_identity_definitions_def
        board_can_definitions_def board_switch_definitions_def zero_definition_def
        validate_can_speed_def param_build_ok_def)
  show "board_keep pb (board_state_init cfg pb)"
    using assms
    by (simp add: board_keep_def board_state_init_def good_buf_def length_cbuf nul_in_cbuf board_sizes
        param_build_ok_def)
  show "list_all (read_safe (board_keep pb)) (board_param_definitions cfg pb)"
    by (rule board_reads_safe)
qed

text \<open>
  C35. \<^verbatim>\<open>sample_identity\<close> never writes outside an array of the size it is given, always leaves it
  terminated, and the text in it is the source cut to one character less than the array, or empty
  for a NULL source.
\<close>

theorem sample_identity_safe:
  assumes "length dst = sz" "0 < sz" "CHR 0x00 \<notin> set s"
  shows "\<exists>b c. sample_identity dst sz (Some s) = Some b \<and> length b = sz \<and> cstr b = take (sz - 1) s \<and>
    sample_identity dst sz None = Some c \<and> length c = sz \<and> cstr c = []"
proof -
  obtain t where t: "sample_identity dst sz (Some s) = Some (take (sz - 1) s @ CHR 0x00 # t)"
      "length (take (sz - 1) s @ CHR 0x00 # t) = sz"
    using sample_identity_some [OF assms(1,2)] by blast
  have "CHR 0x00 \<notin> set (take (sz - 1) s)" using assms(3) by (auto dest: in_set_takeD)
  then have "cstr (take (sz - 1) s @ CHR 0x00 # t) = take (sz - 1) s" by (rule cstr_append)
  moreover have "cstr (dst[0 := CHR 0x00]) = []"
    using assms by (cases dst) (auto simp: cstr_def)
  ultimately show ?thesis
    using t assms by (intro exI [of _ "take (sz - 1) s @ CHR 0x00 # t"] exI [of _ "dst[0 := CHR 0x00]"])
      (simp add: sample_identity_null)
qed

theorem sample_identity_safe_witness:
  "\<exists>b c. sample_identity ''wxyz'' 4 (Some ''flatsat'') = Some b \<and> length b = 4 \<and> cstr b = ''fla'' \<and>
    sample_identity ''wxyz'' 4 None = Some c \<and> length c = 4 \<and> cstr c = []"
  using sample_identity_safe [of "''wxyz''" 4 "''flatsat''"] by simp

end
