(* ===== verification/Param_System.thy ===== *)
theory Param_System
  imports Param_Def
begin

text \<open>
  Table 2, \<^verbatim>\<open>src/app/src/parameters/system_table.c\<close>: the reboot pin, the boot delay and the
  report period, with their validators and the comparison of a pin the ground sends. The pin and
  the report period are instances of \<open>validated_parameter\<close>, the table of \<open>param_table\<close>.
\<close>

section \<open>Table 2: system\<close>

text \<open>
  The health deadline is \<open>Some\<close> of \<^verbatim>\<open>CONFIG_KFSW_APP_HEALTH_DEADLINE_MS\<close> when
  \<^verbatim>\<open>CONFIG_KFSW_HEALTH\<close> is set; \<^verbatim>\<open>app/Kconfig\<close> keeps it in 200 to 60000.
\<close>

definition KFSW_SYSTEM_REBOOT_PIN_SIZE :: nat where "KFSW_SYSTEM_REBOOT_PIN_SIZE = 9"

definition deadline_in_range :: "nat option \<Rightarrow> bool" where
  "deadline_in_range D \<longleftrightarrow> (case D of None \<Rightarrow> True | Some d \<Rightarrow> 200 \<le> d \<and> d \<le> 60000)"

definition KFSW_APP_REPORT_MS_DEFAULT :: "nat option \<Rightarrow> nat" where
  "KFSW_APP_REPORT_MS_DEFAULT D = (case D of Some d \<Rightarrow> d div 4 | None \<Rightarrow> 1000)"

definition KFSW_APP_REPORT_MS_MAX :: "nat option \<Rightarrow> nat" where
  "KFSW_APP_REPORT_MS_MAX D = (case D of Some d \<Rightarrow> d div 2 | None \<Rightarrow> UINT16_MAX)"

record system_state =
  system_boot_delay_ms :: u16
  system_app_report_ms :: u16
  system_reboot_pin :: "char list"

definition system_state_init :: "nat option \<Rightarrow> system_state" where
  "system_state_init D =
     \<lparr>system_boot_delay_ms = 0, system_app_report_ms = of_nat (KFSW_APP_REPORT_MS_DEFAULT D),
      system_reboot_pin = cbuf KFSW_SYSTEM_REBOOT_PIN_SIZE ''0000''\<rparr>"

fun pin_digits :: "string \<Rightarrow> int" where
  "pin_digits [] = 0"
| "pin_digits (c # cs) = (if chr_code c < 48 \<or> 57 < chr_code c then - EINVAL else pin_digits cs)"

definition validate_reboot_pin :: "string \<Rightarrow> int" where
  "validate_reboot_pin text =
     (if length text = 0 \<or> KFSW_SYSTEM_REBOOT_PIN_SIZE \<le> length text then - EINVAL
      else pin_digits text)"

definition byte_of :: "char \<Rightarrow> u8" where
  "byte_of c = of_nat (chr_code c)"

text \<open>The comparison loop: \<^verbatim>\<open>difference |= pin[i] ^ system_reboot_pin[i]\<close>, over every byte.\<close>

fun pin_difference :: "string \<Rightarrow> string \<Rightarrow> u8 \<Rightarrow> u8" where
  "pin_difference (p # ps) (q # qs) d = pin_difference ps qs (d OR (byte_of p XOR byte_of q))"
| "pin_difference _ _ d = d"

definition kfsw_system_reboot_pin_matches :: "system_state \<Rightarrow> string option \<Rightarrow> bool" where
  "kfsw_system_reboot_pin_matches st pin =
     (case pin of None \<Rightarrow> False
      | Some p \<Rightarrow> if length p \<noteq> length (cstr (system_reboot_pin st)) then False
                  else pin_difference p (cstr (system_reboot_pin st)) 0 = 0)"

definition validate_app_report_ms :: "nat option \<Rightarrow> pval \<Rightarrow> int" where
  "validate_app_report_ms D v =
     (if scalar_u16 v = 0 \<or> KFSW_APP_REPORT_MS_MAX D < unat (scalar_u16 v) then - ERANGE else 0)"

definition kfsw_system_boot_delay_ms :: "system_state \<Rightarrow> u16" where
  "kfsw_system_boot_delay_ms st = system_boot_delay_ms st"

definition kfsw_system_app_report_ms :: "system_state \<Rightarrow> u16" where
  "kfsw_system_app_report_ms st = system_app_report_ms st"

definition system_param_definitions :: "nat option \<Rightarrow> system_state param_definition list" where
  "system_param_definitions D =
    [\<lparr>offset = 0x10, ptype = KFSW_PARAM_STRING, capacity = KFSW_SYSTEM_REBOOT_PIN_SIZE,
      flags = [KFSW_PARAM_FLAG_CONFIGURATION, KFSW_PARAM_FLAG_PERSISTENT], pname = ''reboot_pin'',
      unit_text = None, description = ''Digits a remote reboot must quote, 1 to 8 of them'',
      value_ref = ref_buf system_reboot_pin system_reboot_pin_update, default_value = None,
      default_text = Some ''0000'', sample = None, validate = None,
      validate_text = Some validate_reboot_pin, changed = None\<rparr>,
     \<lparr>offset = 0x00, ptype = KFSW_PARAM_U16, capacity = 0,
      flags = [KFSW_PARAM_FLAG_CONFIGURATION, KFSW_PARAM_FLAG_PERSISTENT],
      pname = ''boot_delay_ms'', unit_text = Some ''ms'',
      description = ''Delay before services start on the next boot'',
      value_ref = ref16 system_boot_delay_ms system_boot_delay_ms_update,
      default_value = Some (V16 0), default_text = None, sample = None, validate = None,
      validate_text = None, changed = None\<rparr>,
     \<lparr>offset = 0x02, ptype = KFSW_PARAM_U16, capacity = 0,
      flags = [KFSW_PARAM_FLAG_CONFIGURATION, KFSW_PARAM_FLAG_PERSISTENT, KFSW_PARAM_FLAG_LIVE],
      pname = ''app_report_ms'', unit_text = Some ''ms'',
      description = ''How often the application thread reports it is running'',
      value_ref = ref16 system_app_report_ms system_app_report_ms_update,
      default_value = Some (V16 (of_nat (KFSW_APP_REPORT_MS_DEFAULT D))), default_text = None,
      sample = None, validate = Some (validate_app_report_ms D), validate_text = None,
      changed = None\<rparr>]"

definition kfsw_system_param_definitions :: "nat option \<Rightarrow> system_state param_definition_set" where
  "kfsw_system_param_definitions D =
     \<lparr>table_id = 2, table_name = ''system'',
      table_description = ''Boot delay, report period, reboot pin'',
      definitions = system_param_definitions D\<rparr>"

section \<open>The reboot pin\<close>

definition good_pin :: "string \<Rightarrow> bool" where
  "good_pin s \<longleftrightarrow> 1 \<le> length s \<and> length s \<le> 8 \<and> list_all isdigit s"

lemma pin_digits_iff: "pin_digits s = 0 \<longleftrightarrow> list_all isdigit s"
  by (induction s) (auto simp: isdigit_def)

lemma validate_reboot_pin_iff: "validate_reboot_pin s = 0 \<longleftrightarrow> good_pin s"
  by (auto simp del: pin_digits.simps simp: validate_reboot_pin_def good_pin_def pin_digits_iff
      KFSW_SYSTEM_REBOOT_PIN_SIZE_def Suc_le_eq)

lemma validate_reboot_pin_err: "validate_reboot_pin s = 0 \<or> validate_reboot_pin s = - EINVAL"
proof -
  have "pin_digits s = 0 \<or> pin_digits s = - EINVAL" by (induction s) auto
  then show ?thesis by (auto simp: validate_reboot_pin_def)
qed

interpretation pin: validated_parameter validate_reboot_pin "''0000''" good_pin
  by unfold_locales (simp_all add: validate_reboot_pin_iff good_pin_def isdigit_def)

lemma byte_of_eq_iff [simp]: "byte_of c = byte_of d \<longleftrightarrow> c = d"
proof
  assume "byte_of c = byte_of d"
  then have "unat (byte_of c) = unat (byte_of d)" by simp
  then show "c = d" by (simp add: byte_of_def unat_of_nat take_bit_eq_mod)
qed simp

lemma or_eq_0_iff: "(a :: u8) OR b = 0 \<longleftrightarrow> a = 0 \<and> b = 0"
  by (auto simp: bit_eq_iff bit_or_iff)

lemma xor_eq_0_iff': "(a :: u8) XOR b = 0 \<longleftrightarrow> a = b"
  by (auto simp: bit_eq_iff bit_xor_iff)

lemma pin_difference_0_iff:
  "length p = length q \<Longrightarrow> pin_difference p q d = 0 \<longleftrightarrow> d = 0 \<and> p = q"
  by (induction p q d rule: pin_difference.induct) (auto simp: or_eq_0_iff xor_eq_0_iff')

lemma pin_matches_iff:
  "kfsw_system_reboot_pin_matches st pin \<longleftrightarrow> pin = Some (cstr (system_reboot_pin st))"
  by (auto simp: kfsw_system_reboot_pin_matches_def pin_difference_0_iff split: option.splits)

section \<open>The report period\<close>

definition good_report :: "nat option \<Rightarrow> u16 \<Rightarrow> bool" where
  "good_report D v \<longleftrightarrow> 0 < unat v \<and> (case D of None \<Rightarrow> True | Some d \<Rightarrow> 2 * unat v \<le> d)"

lemma validate_app_report_iff: "validate_app_report_ms D (V16 v) = 0 \<longleftrightarrow> good_report D v"
proof -
  have "unat v < 2 ^ LENGTH(16)" by (rule unsigned_less)
  then show ?thesis
    by (auto simp: validate_app_report_ms_def good_report_def KFSW_APP_REPORT_MS_MAX_def UINT16_MAX_def
        unat_gt_0 split: option.splits)
qed

lemma report_contract:
  assumes "deadline_in_range D"
  shows "validated_parameter (\<lambda>v. validate_app_report_ms D (V16 v))
    (of_nat (KFSW_APP_REPORT_MS_DEFAULT D)) (good_report D)"
proof
  show "validate_app_report_ms D (V16 v) = 0 \<longleftrightarrow> good_report D v" for v
    by (rule validate_app_report_iff)
  show "good_report D (of_nat (KFSW_APP_REPORT_MS_DEFAULT D))"
    using assms
    by (auto simp: good_report_def deadline_in_range_def KFSW_APP_REPORT_MS_DEFAULT_def unat_of_nat
        take_bit_eq_mod split: option.splits)
qed

interpretation report_unsupervised: validated_parameter "\<lambda>v. validate_app_report_ms None (V16 v)"
    "of_nat (KFSW_APP_REPORT_MS_DEFAULT None)" "good_report None"
  by (rule report_contract) (simp add: deadline_in_range_def)

section \<open>The table\<close>

definition system_keep :: "system_state \<Rightarrow> bool" where
  "system_keep st \<longleftrightarrow> length (system_reboot_pin st) = KFSW_SYSTEM_REBOOT_PIN_SIZE \<and>
     CHR 0x00 \<in> set (system_reboot_pin st)"

lemma system_table_contract:
  assumes "deadline_in_range D"
  shows "param_table (system_param_definitions D) (system_state_init D) system_keep"
proof
  show "definitions_ok (system_param_definitions D)"
    using validated_parameter.default_good [OF report_contract, OF assms] pin.default_good
    by (simp add: definitions_ok_defs system_param_definitions_def validate_app_report_iff
        validate_reboot_pin_iff KFSW_SYSTEM_REBOOT_PIN_SIZE_def)
  show "system_keep (system_state_init D)"
    by (simp add: system_keep_def system_state_init_def length_cbuf nul_in_cbuf KFSW_SYSTEM_REBOOT_PIN_SIZE_def)
  show "list_all (read_safe system_keep) (system_param_definitions D)"
    by (simp add: system_param_definitions_def read_safe_def sample_param_def param_value_def ref_defs
        system_keep_def)
qed

section \<open>Properties\<close>

text \<open>
  C28. The stored pin is always 1 to 8 digits, and the comparison accepts a pin exactly when it is
  the stored one: neither a missing argument, nor an empty text, nor a prefix, nor one that differs
  in any byte is accepted.
\<close>

theorem reboot_pin_matches_only_stored:
  assumes "stored_value validate_reboot_pin ''0000'' (cstr (system_reboot_pin st))"
  shows "kfsw_system_reboot_pin_matches st p \<longleftrightarrow>
    p = Some (cstr (system_reboot_pin st)) \<and> good_pin (cstr (system_reboot_pin st))"
  using pin.stored_good [OF assms] by (auto simp: pin_matches_iff)

theorem reboot_pin_matches_only_stored_witness:
  "kfsw_system_reboot_pin_matches (system_state_init None) (Some ''0000'') \<and>
   \<not> kfsw_system_reboot_pin_matches (system_state_init None) (Some ''000'') \<and>
   \<not> kfsw_system_reboot_pin_matches (system_state_init None) (Some ''0001'') \<and>
   \<not> kfsw_system_reboot_pin_matches (system_state_init None) None"
proof -
  have c: "cstr (system_reboot_pin (system_state_init None)) = ''0000''"
    by (simp add: system_state_init_def cstr_cbuf)
  have "stored_value validate_reboot_pin ''0000'' (cstr (system_reboot_pin (system_state_init None)))"
    unfolding c by (rule stored_value.initial)
  from reboot_pin_matches_only_stored [OF this] show ?thesis
    by (simp add: c good_pin_def isdigit_def)
qed

text \<open>
  C29. Whatever the ground writes to \<^verbatim>\<open>app_report_ms\<close>, the period the application thread sleeps
  between two health reports is positive and at most half the health deadline; and every such
  period can be set.
\<close>

theorem report_period_half_deadline:
  assumes "deadline_in_range (Some d)"
  shows "stored_value (\<lambda>v. validate_app_report_ms (Some d) (V16 v))
      (of_nat (KFSW_APP_REPORT_MS_DEFAULT (Some d))) (kfsw_system_app_report_ms st) \<longleftrightarrow>
    0 < unat (kfsw_system_app_report_ms st) \<and> 2 * unat (kfsw_system_app_report_ms st) \<le> d"
  using validated_parameter.stored_iff [OF report_contract, OF assms]
  by (simp add: good_report_def)

theorem report_period_half_deadline_witness:
  "stored_value (\<lambda>v. validate_app_report_ms (Some 4000) (V16 v))
      (of_nat (KFSW_APP_REPORT_MS_DEFAULT (Some 4000)))
      (kfsw_system_app_report_ms (system_state_init (Some 4000)))"
  by (subst report_period_half_deadline)
    (simp_all add: deadline_in_range_def kfsw_system_app_report_ms_def system_state_init_def
      KFSW_APP_REPORT_MS_DEFAULT_def)

end
