(* ===== verification/Param_Csp.thy ===== *)
theory Param_Csp
  imports Param_Def
begin

text \<open>
  Table 4, \<^verbatim>\<open>src/app/src/parameters/csp_table.c\<close>: interface totals, libcsp's error counters, the two
  trace switches the ground can write, the compiled route table and the state of the router.
\<close>

section \<open>Statics\<close>

record csp_totals =
  totals_tx_packets :: u32
  totals_rx_packets :: u32
  totals_tx_errors :: u32
  totals_rx_errors :: u32
  totals_dropped :: u32
  totals_interfaces :: u8

record csp_state =
  csp_tx_packets :: u32
  csp_rx_packets :: u32
  csp_tx_errors :: u32
  csp_rx_errors :: u32
  csp_dropped :: u32
  csp_interfaces :: u8
  csp_router_running :: u8
  csp_route_table :: "char list"
  csp_rdp_trace :: u8
  csp_packet_trace :: u8
  csp_buffer_out :: u8
  csp_conn_out :: u8
  csp_conn_ovf :: u8
  csp_conn_noroute :: u8
  csp_invalid_reply :: u8
  csp_last_error :: u8
  csp_last_can_error :: u8

definition csp_state_init :: "param_build \<Rightarrow> csp_state" where
  "csp_state_init pb =
     \<lparr>csp_tx_packets = 0, csp_rx_packets = 0, csp_tx_errors = 0, csp_rx_errors = 0, csp_dropped = 0,
      csp_interfaces = 0, csp_router_running = 0,
      csp_route_table = cbuf (KFSW_CSP_ROUTE_TABLE_MAX_LENGTH pb + 1) (CONFIG_KFSW_CSP_ROUTE_TABLE pb),
      csp_rdp_trace = 0, csp_packet_trace = 0,
      csp_buffer_out = 0, csp_conn_out = 0, csp_conn_ovf = 0, csp_conn_noroute = 0,
      csp_invalid_reply = 0, csp_last_error = 0, csp_last_can_error = 0\<rparr>"

section \<open>Interface totals\<close>

text \<open>The visitor: it always asks for the next interface.\<close>

definition accumulate_interface :: "csp_interface_info \<Rightarrow> csp_totals \<Rightarrow> bool \<times> csp_totals" where
  "accumulate_interface info t =
     (True,
      t\<lparr>totals_tx_packets := totals_tx_packets t + tx_packets info,
        totals_rx_packets := totals_rx_packets t + rx_packets info,
        totals_tx_errors := totals_tx_errors t + tx_errors info,
        totals_rx_errors := totals_rx_errors t + rx_errors info,
        totals_dropped := totals_dropped t + dropped_packets info,
        totals_interfaces :=
          (if unat (totals_interfaces t) < UINT8_MAX then totals_interfaces t + 1
           else totals_interfaces t)\<rparr>)"

fun visit :: "csp_interface_info list \<Rightarrow> csp_totals \<Rightarrow> csp_totals" where
  "visit [] t = t"
| "visit (i # is) t = (let (more, t') = accumulate_interface i t in if more then visit is t' else t')"

definition zero_totals :: csp_totals where
  "zero_totals = \<lparr>totals_tx_packets = 0, totals_rx_packets = 0, totals_tx_errors = 0,
     totals_rx_errors = 0, totals_dropped = 0, totals_interfaces = 0\<rparr>"

definition sample_totals :: "readings \<Rightarrow> csp_state \<Rightarrow> csp_state" where
  "sample_totals r st =
     (let totals = visit (kfsw_csp_visit_interfaces r) zero_totals
      in st\<lparr>csp_tx_packets := totals_tx_packets totals,
            csp_rx_packets := totals_rx_packets totals,
            csp_tx_errors := totals_tx_errors totals,
            csp_rx_errors := totals_rx_errors totals,
            csp_dropped := totals_dropped totals,
            csp_interfaces := totals_interfaces totals\<rparr>)"

definition sample_tx_packets :: "csp_state sampler" where
  "sample_tx_packets r st v = (let st' = sample_totals r st in Some (st', V32 (csp_tx_packets st')))"

definition sample_rx_packets :: "csp_state sampler" where
  "sample_rx_packets r st v = (let st' = sample_totals r st in Some (st', V32 (csp_rx_packets st')))"

definition sample_tx_errors :: "csp_state sampler" where
  "sample_tx_errors r st v = (let st' = sample_totals r st in Some (st', V32 (csp_tx_errors st')))"

definition sample_rx_errors :: "csp_state sampler" where
  "sample_rx_errors r st v = (let st' = sample_totals r st in Some (st', V32 (csp_rx_errors st')))"

definition sample_dropped :: "csp_state sampler" where
  "sample_dropped r st v = (let st' = sample_totals r st in Some (st', V32 (csp_dropped st')))"

definition sample_interfaces :: "csp_state sampler" where
  "sample_interfaces r st v = (let st' = sample_totals r st in Some (st', V8 (csp_interfaces st')))"

section \<open>Traces, counters and the router\<close>

definition sample_rdp_trace :: "csp_state sampler" where
  "sample_rdp_trace r st v = Some (st, V8 (kfsw_csp_get_rdp_trace r))"

definition validate_rdp_trace :: "pval \<Rightarrow> int" where
  "validate_rdp_trace v = (if 2 < scalar_u8 v then - ERANGE else 0)"

definition apply_rdp_trace :: "pval \<Rightarrow> lower_call" where
  "apply_rdp_trace v = kfsw_csp_set_rdp_trace (scalar_u8 v)"

definition sample_packet_trace :: "csp_state sampler" where
  "sample_packet_trace r st v = Some (st, V8 (if kfsw_csp_get_packet_trace r then 1 else 0))"

definition validate_packet_trace :: "pval \<Rightarrow> int" where
  "validate_packet_trace v = (if 1 < scalar_u8 v then - ERANGE else 0)"

definition apply_packet_trace :: "pval \<Rightarrow> lower_call" where
  "apply_packet_trace v = kfsw_csp_set_packet_trace (scalar_u8 v \<noteq> 0)"

definition sample_counters :: "readings \<Rightarrow> csp_state \<Rightarrow> csp_state" where
  "sample_counters r st =
     (let counters = kfsw_csp_get_counters r
      in st\<lparr>csp_buffer_out := buffer_out counters,
            csp_conn_out := conn_out counters,
            csp_conn_ovf := conn_overflow counters,
            csp_conn_noroute := conn_noroute counters,
            csp_invalid_reply := invalid_reply counters,
            csp_last_error := last_error counters,
            csp_last_can_error := last_can_error counters\<rparr>)"

definition sample_buffer_out :: "csp_state sampler" where
  "sample_buffer_out r st v = (let st' = sample_counters r st in Some (st', V8 (csp_buffer_out st')))"

definition sample_conn_out :: "csp_state sampler" where
  "sample_conn_out r st v = (let st' = sample_counters r st in Some (st', V8 (csp_conn_out st')))"

definition sample_conn_ovf :: "csp_state sampler" where
  "sample_conn_ovf r st v = (let st' = sample_counters r st in Some (st', V8 (csp_conn_ovf st')))"

definition sample_conn_noroute :: "csp_state sampler" where
  "sample_conn_noroute r st v = (let st' = sample_counters r st in Some (st', V8 (csp_conn_noroute st')))"

definition sample_invalid_reply :: "csp_state sampler" where
  "sample_invalid_reply r st v = (let st' = sample_counters r st in Some (st', V8 (csp_invalid_reply st')))"

definition sample_last_error :: "csp_state sampler" where
  "sample_last_error r st v = (let st' = sample_counters r st in Some (st', V8 (csp_last_error st')))"

definition sample_last_can_error :: "csp_state sampler" where
  "sample_last_can_error r st v = (let st' = sample_counters r st in Some (st', V8 (csp_last_can_error st')))"

definition sample_router_running :: "csp_state sampler" where
  "sample_router_running r st v =
     Some (st, V8 (if router_running (kfsw_csp_get_info r) then 1 else 0))"

definition csp_param_definitions :: "param_build \<Rightarrow> csp_state param_definition list" where
  "csp_param_definitions pb =
    [zero_definition\<lparr>offset := 0x00, ptype := KFSW_PARAM_U32,
        flags := [KFSW_PARAM_FLAG_READ_ONLY], pname := ''tx_packets'',
        description := ''Packets sent across every interface'',
        value_ref := ref32 csp_tx_packets csp_tx_packets_update, default_value := Some (V32 0),
        sample := Some sample_tx_packets\<rparr>,
     zero_definition\<lparr>offset := 0x04, ptype := KFSW_PARAM_U32,
        flags := [KFSW_PARAM_FLAG_READ_ONLY], pname := ''rx_packets'',
        description := ''Packets received across every interface'',
        value_ref := ref32 csp_rx_packets csp_rx_packets_update, default_value := Some (V32 0),
        sample := Some sample_rx_packets\<rparr>,
     zero_definition\<lparr>offset := 0x08, ptype := KFSW_PARAM_U32,
        flags := [KFSW_PARAM_FLAG_READ_ONLY], pname := ''tx_errors'',
        description := ''Transmit errors across every interface'',
        value_ref := ref32 csp_tx_errors csp_tx_errors_update, default_value := Some (V32 0),
        sample := Some sample_tx_errors\<rparr>,
     zero_definition\<lparr>offset := 0x0c, ptype := KFSW_PARAM_U32,
        flags := [KFSW_PARAM_FLAG_READ_ONLY], pname := ''rx_errors'',
        description := ''Receive errors across every interface'',
        value_ref := ref32 csp_rx_errors csp_rx_errors_update, default_value := Some (V32 0),
        sample := Some sample_rx_errors\<rparr>,
     zero_definition\<lparr>offset := 0x10, ptype := KFSW_PARAM_U32,
        flags := [KFSW_PARAM_FLAG_READ_ONLY], pname := ''dropped'',
        description := ''Packets dropped across every interface'',
        value_ref := ref32 csp_dropped csp_dropped_update, default_value := Some (V32 0),
        sample := Some sample_dropped\<rparr>,
     zero_definition\<lparr>offset := 0x14, ptype := KFSW_PARAM_U8,
        flags := [KFSW_PARAM_FLAG_READ_ONLY], pname := ''interfaces'',
        description := ''Interfaces registered with the router'',
        value_ref := ref8 csp_interfaces csp_interfaces_update, default_value := Some (V8 0),
        sample := Some sample_interfaces\<rparr>,
     zero_definition\<lparr>offset := 0x16, ptype := KFSW_PARAM_U8,
        flags := [KFSW_PARAM_FLAG_READ_ONLY], pname := ''buffer_out'',
        description := ''Times no packet buffer was free'',
        value_ref := ref8 csp_buffer_out csp_buffer_out_update, default_value := Some (V8 0),
        sample := Some sample_buffer_out\<rparr>,
     zero_definition\<lparr>offset := 0x17, ptype := KFSW_PARAM_U8,
        flags := [KFSW_PARAM_FLAG_READ_ONLY], pname := ''conn_out'',
        description := ''Times no connection slot was free'',
        value_ref := ref8 csp_conn_out csp_conn_out_update, default_value := Some (V8 0),
        sample := Some sample_conn_out\<rparr>,
     zero_definition\<lparr>offset := 0x18, ptype := KFSW_PARAM_U8,
        flags := [KFSW_PARAM_FLAG_READ_ONLY], pname := ''conn_ovf'',
        description := ''Packets dropped by a full connection queue'',
        value_ref := ref8 csp_conn_ovf csp_conn_ovf_update, default_value := Some (V8 0),
        sample := Some sample_conn_ovf\<rparr>,
     zero_definition\<lparr>offset := 0x19, ptype := KFSW_PARAM_U8,
        flags := [KFSW_PARAM_FLAG_READ_ONLY], pname := ''conn_noroute'',
        description := ''Packets dropped with no route to the destination'',
        value_ref := ref8 csp_conn_noroute csp_conn_noroute_update,
        default_value := Some (V8 0), sample := Some sample_conn_noroute\<rparr>,
     zero_definition\<lparr>offset := 0x1a, ptype := KFSW_PARAM_U8,
        flags := [KFSW_PARAM_FLAG_READ_ONLY], pname := ''invalid_reply'',
        description := ''Replies that matched no open connection'',
        value_ref := ref8 csp_invalid_reply csp_invalid_reply_update,
        default_value := Some (V8 0), sample := Some sample_invalid_reply\<rparr>,
     zero_definition\<lparr>offset := 0x1b, ptype := KFSW_PARAM_U8,
        flags := [KFSW_PARAM_FLAG_READ_ONLY], pname := ''last_error'',
        description := ''Code of the last libcsp error'',
        value_ref := ref8 csp_last_error csp_last_error_update, default_value := Some (V8 0),
        sample := Some sample_last_error\<rparr>,
     zero_definition\<lparr>offset := 0x1c, ptype := KFSW_PARAM_U8,
        flags := [KFSW_PARAM_FLAG_READ_ONLY], pname := ''last_can_error'',
        description := ''Code of the last CAN framing error'',
        value_ref := ref8 csp_last_can_error csp_last_can_error_update,
        default_value := Some (V8 0), sample := Some sample_last_can_error\<rparr>,
     zero_definition\<lparr>offset := 0x1d, ptype := KFSW_PARAM_U8,
        flags := [KFSW_PARAM_FLAG_CONFIGURATION, KFSW_PARAM_FLAG_LIVE], pname := ''rdp_trace'',
        description := ''RDP detail: 0 off, 1 errors, 2 with the protocol'',
        value_ref := ref8 csp_rdp_trace csp_rdp_trace_update, default_value := Some (V8 0),
        sample := Some sample_rdp_trace, validate := Some validate_rdp_trace,
        changed := Some apply_rdp_trace\<rparr>,
     zero_definition\<lparr>offset := 0x1e, ptype := KFSW_PARAM_U8,
        flags := [KFSW_PARAM_FLAG_CONFIGURATION, KFSW_PARAM_FLAG_LIVE],
        pname := ''packet_trace'', description := ''Packet dump: 0 off, 1 on'',
        value_ref := ref8 csp_packet_trace csp_packet_trace_update,
        default_value := Some (V8 0), sample := Some sample_packet_trace,
        validate := Some validate_packet_trace, changed := Some apply_packet_trace\<rparr>,
     zero_definition\<lparr>offset := 0x20, ptype := KFSW_PARAM_STRING,
        capacity := KFSW_CSP_ROUTE_TABLE_MAX_LENGTH pb + 1,
        flags := [KFSW_PARAM_FLAG_READ_ONLY], pname := ''route_table'',
        description := ''Compiled routes in libcsp CIDR syntax'',
        value_ref := ref_buf csp_route_table csp_route_table_update,
        default_text := Some (CONFIG_KFSW_CSP_ROUTE_TABLE pb)\<rparr>,
     zero_definition\<lparr>offset := 0x15, ptype := KFSW_PARAM_U8,
        flags := [KFSW_PARAM_FLAG_READ_ONLY], pname := ''router_running'',
        description := ''Whether the CSP router thread is running'',
        value_ref := ref8 csp_router_running csp_router_running_update,
        default_value := Some (V8 0), sample := Some sample_router_running\<rparr>]"

definition kfsw_csp_param_definitions :: "param_build \<Rightarrow> csp_state param_definition_set" where
  "kfsw_csp_param_definitions pb =
     \<lparr>table_id = 4, table_name = ''csp'', table_description = ''CSP counters and the route table'',
      definitions = csp_param_definitions pb\<rparr>"

section \<open>The contracts\<close>

lemmas csp_samplers =
  sample_tx_packets_def sample_rx_packets_def sample_tx_errors_def sample_rx_errors_def
  sample_dropped_def sample_interfaces_def sample_rdp_trace_def sample_packet_trace_def
  sample_buffer_out_def sample_conn_out_def sample_conn_ovf_def sample_conn_noroute_def
  sample_invalid_reply_def sample_last_error_def sample_last_can_error_def
  sample_router_running_def

definition csp_keep :: "param_build \<Rightarrow> csp_state \<Rightarrow> bool" where
  "csp_keep pb st \<longleftrightarrow> length (csp_route_table st) = KFSW_CSP_ROUTE_TABLE_MAX_LENGTH pb + 1 \<and>
     CHR 0x00 \<in> set (csp_route_table st)"

lemma csp_keep_refresh [simp]:
  "csp_keep pb (sample_totals r st) = csp_keep pb st"
  "csp_keep pb (sample_counters r st) = csp_keep pb st"
  by (simp_all add: csp_keep_def sample_totals_def sample_counters_def Let_def)

lemma csp_route_refresh [simp]:
  "csp_route_table (sample_totals r st) = csp_route_table st"
  "csp_route_table (sample_counters r st) = csp_route_table st"
  by (simp_all add: sample_totals_def sample_counters_def Let_def)

lemma csp_table_contract:
  assumes "param_build_ok pb"
  shows "param_table (csp_param_definitions pb) (csp_state_init pb) (csp_keep pb)"
proof
  show "definitions_ok (csp_param_definitions pb)"
    using assms
    by (simp add: definitions_ok_defs csp_param_definitions_def zero_definition_def
        validate_rdp_trace_def validate_packet_trace_def param_build_ok_def)
  show "csp_keep pb (csp_state_init pb)"
    using assms by (simp add: csp_keep_def csp_state_init_def length_cbuf nul_in_cbuf param_build_ok_def)
  show "list_all (read_safe (csp_keep pb)) (csp_param_definitions pb)"
    unfolding csp_param_definitions_def list.pred_inject
    by (intro conjI TrueI)
      (simp_all add: read_safe_def sample_param_def param_value_def ref_defs zero_definition_def
        Let_def csp_samplers csp_keep_def)
qed

interpretation rdp_trace: validated_parameter "\<lambda>v. validate_rdp_trace (V8 v)" 0 "\<lambda>v. v \<le> 2"
  by unfold_locales (auto simp: validate_rdp_trace_def not_less)

interpretation packet_trace: validated_parameter "\<lambda>v. validate_packet_trace (V8 v)" 0
    "\<lambda>v. v = 0 \<or> v = 1"
proof unfold_locales
  show "validate_packet_trace (V8 v) = 0 \<longleftrightarrow> v = 0 \<or> v = 1" for v
  proof -
    have "\<not> (1 :: u8) < v \<longleftrightarrow> unat v \<le> 1" by (simp add: not_less word_le_nat_alt)
    also have "\<dots> \<longleftrightarrow> unat v = unat (0 :: u8) \<or> unat v = unat (1 :: u8)" by auto
    also have "\<dots> \<longleftrightarrow> v = 0 \<or> v = 1" by (simp only: word_unat_eq_iff)
    finally show ?thesis by (auto simp: validate_packet_trace_def)
  qed
qed simp

text \<open>
  Both traces are sampled back from libcsp. A lower layer that returns what was last applied makes
  the read agree with the write.
\<close>

lemma packet_trace_roundtrip:
  assumes "stored_value (\<lambda>v. validate_packet_trace (V8 v)) 0 v"
    and "apply_packet_trace (V8 v) = kfsw_csp_set_packet_trace (kfsw_csp_get_packet_trace r)"
  shows "sample_packet_trace r st old = Some (st, V8 v)"
  using packet_trace.stored_good [OF assms(1)] assms(2)
  by (auto simp: sample_packet_trace_def apply_packet_trace_def)

section \<open>Totals\<close>

lemma visit_sums:
  "totals_tx_packets (visit is t) = totals_tx_packets t + sum_list (map tx_packets is)"
  "totals_rx_packets (visit is t) = totals_rx_packets t + sum_list (map rx_packets is)"
  "totals_tx_errors (visit is t) = totals_tx_errors t + sum_list (map tx_errors is)"
  "totals_rx_errors (visit is t) = totals_rx_errors t + sum_list (map rx_errors is)"
  "totals_dropped (visit is t) = totals_dropped t + sum_list (map dropped_packets is)"
  by (induction "is" arbitrary: t) (simp_all add: accumulate_interface_def add.assoc)

lemma visit_interfaces:
  "unat (totals_interfaces (visit is t)) = min 255 (unat (totals_interfaces t) + length is)"
proof (induction "is" arbitrary: t)
  case Nil
  have "unat (totals_interfaces t) < 2 ^ LENGTH(8)" by (rule unsigned_less)
  then show ?case by simp
next
  case (Cons i "is")
  have "unat (totals_interfaces t) < 2 ^ LENGTH(8)" by (rule unsigned_less)
  then show ?case
    using Cons.IH
    by (auto simp: accumulate_interface_def UINT8_MAX_def unat_word_ariths)
qed

text \<open>
  C37. The totals the CSP table reports are the sums over the visited interfaces modulo 2 to the 32,
  and the interface count is their number, saturating at 255: neither depends on what an earlier
  read left in the statics.
\<close>

theorem csp_totals_are_sums:
  "csp_tx_packets (sample_totals r st) = sum_list (map tx_packets (kfsw_csp_visit_interfaces r)) \<and>
   csp_rx_packets (sample_totals r st) = sum_list (map rx_packets (kfsw_csp_visit_interfaces r)) \<and>
   csp_tx_errors (sample_totals r st) = sum_list (map tx_errors (kfsw_csp_visit_interfaces r)) \<and>
   csp_rx_errors (sample_totals r st) = sum_list (map rx_errors (kfsw_csp_visit_interfaces r)) \<and>
   csp_dropped (sample_totals r st) = sum_list (map dropped_packets (kfsw_csp_visit_interfaces r)) \<and>
   unat (csp_interfaces (sample_totals r st)) = min 255 (length (kfsw_csp_visit_interfaces r))"
  by (simp add: sample_totals_def Let_def visit_sums visit_interfaces zero_totals_def)

end
