(* ===== verification/Param_Status.thy ===== *)
theory Param_Status
  imports Param_Def
begin

text \<open>
  The sampled, read-only tables: table 3 (\<^verbatim>\<open>telemetry_table.c\<close>), table 5 (\<^verbatim>\<open>storage_table.c\<close>) and
  table 6 (\<^verbatim>\<open>watchdog_table.c\<close>) of \<^verbatim>\<open>src/app/src/parameters/\<close>. Each sampler refreshes the statics
  of its table from one answer of the layer below and then writes the one asked for through
  \<^verbatim>\<open>value\<close>.
\<close>

definition KFSW_MS_PER_S :: u64 where "KFSW_MS_PER_S = 1000"
definition KFSW_BYTES_PER_KB :: u64 where "KFSW_BYTES_PER_KB = 1024"
definition KFSW_PERCENT :: u64 where "KFSW_PERCENT = 100"

section \<open>Table 3: telemetry\<close>

record telemetry_state =
  telemetry_uptime_s :: u32
  telemetry_csp_buf_free :: u16
  telemetry_fs_free_kb :: u32
  telemetry_fs_total_kb :: u32
  telemetry_fs_mounted :: u8

definition telemetry_state_init :: telemetry_state where
  "telemetry_state_init = \<lparr>telemetry_uptime_s = 0, telemetry_csp_buf_free = 0,
     telemetry_fs_free_kb = 0, telemetry_fs_total_kb = 0, telemetry_fs_mounted = 0\<rparr>"

definition sample_uptime_s :: "telemetry_state sampler" where
  "sample_uptime_s r st v = Some (st, V32 (ucast (kfsw_time_monotonic_ms r div KFSW_MS_PER_S)))"

definition sample_csp_buf_free :: "config \<Rightarrow> telemetry_state sampler" where
  "sample_csp_buf_free cfg r st v =
     (if cfg CONFIG_KFSW_CSP then Some (st, V16 (of_int (free_buffers (kfsw_csp_get_info r))))
      else Some (st, V16 0))"

definition telemetry_sample_storage :: "readings \<Rightarrow> telemetry_state \<Rightarrow> telemetry_state" where
  "telemetry_sample_storage r st =
     (let (result, info) = kfsw_storage_get_info r
      in if result \<noteq> 0
         then st\<lparr>telemetry_fs_mounted := 0, telemetry_fs_free_kb := 0, telemetry_fs_total_kb := 0\<rparr>
         else st\<lparr>telemetry_fs_mounted := (if ready info then 1 else 0),
                 telemetry_fs_free_kb := ucast (free_bytes info div KFSW_BYTES_PER_KB),
                 telemetry_fs_total_kb := ucast (total_bytes info div KFSW_BYTES_PER_KB)\<rparr>)"

definition refreshed_telemetry :: "config \<Rightarrow> readings \<Rightarrow> telemetry_state \<Rightarrow> telemetry_state" where
  "refreshed_telemetry cfg r st =
     (if cfg CONFIG_KFSW_STORAGE then telemetry_sample_storage r st else st)"

definition sample_fs_free_kb :: "config \<Rightarrow> telemetry_state sampler" where
  "sample_fs_free_kb cfg r st v =
     (let st' = refreshed_telemetry cfg r st in Some (st', V32 (telemetry_fs_free_kb st')))"

definition sample_fs_total_kb :: "config \<Rightarrow> telemetry_state sampler" where
  "sample_fs_total_kb cfg r st v =
     (let st' = refreshed_telemetry cfg r st in Some (st', V32 (telemetry_fs_total_kb st')))"

definition sample_fs_mounted :: "config \<Rightarrow> telemetry_state sampler" where
  "sample_fs_mounted cfg r st v =
     (let st' = refreshed_telemetry cfg r st in Some (st', V8 (telemetry_fs_mounted st')))"

definition telemetry_param_definitions :: "config \<Rightarrow> telemetry_state param_definition list" where
  "telemetry_param_definitions cfg =
    [zero_definition\<lparr>offset := 0x00, ptype := KFSW_PARAM_U32,
        flags := [KFSW_PARAM_FLAG_READ_ONLY], pname := ''uptime_s'', unit_text := Some ''s'',
        description := ''Seconds since boot'',
        value_ref := ref32 telemetry_uptime_s telemetry_uptime_s_update,
        default_value := Some (V32 0), sample := Some sample_uptime_s\<rparr>,
     zero_definition\<lparr>offset := 0x04, ptype := KFSW_PARAM_U32,
        flags := [KFSW_PARAM_FLAG_READ_ONLY], pname := ''fs_total_kb'',
        unit_text := Some ''kB'',
        description := ''Filesystem capacity, or zero while unmounted'',
        value_ref := ref32 telemetry_fs_total_kb telemetry_fs_total_kb_update,
        default_value := Some (V32 0), sample := Some (sample_fs_total_kb cfg)\<rparr>,
     zero_definition\<lparr>offset := 0x08, ptype := KFSW_PARAM_U32,
        flags := [KFSW_PARAM_FLAG_READ_ONLY], pname := ''fs_free_kb'', unit_text := Some ''kB'',
        description := ''Filesystem space available, or zero while unmounted'',
        value_ref := ref32 telemetry_fs_free_kb telemetry_fs_free_kb_update,
        default_value := Some (V32 0), sample := Some (sample_fs_free_kb cfg)\<rparr>,
     zero_definition\<lparr>offset := 0x0c, ptype := KFSW_PARAM_U16,
        flags := [KFSW_PARAM_FLAG_READ_ONLY], pname := ''csp_buf_free'',
        description := ''CSP buffers available to the router'',
        value_ref := ref16 telemetry_csp_buf_free telemetry_csp_buf_free_update,
        default_value := Some (V16 0), sample := Some (sample_csp_buf_free cfg)\<rparr>,
     zero_definition\<lparr>offset := 0x0e, ptype := KFSW_PARAM_U8,
        flags := [KFSW_PARAM_FLAG_READ_ONLY], pname := ''fs_mounted'',
        description := ''Whether the filesystem is mounted and usable'',
        value_ref := ref8 telemetry_fs_mounted telemetry_fs_mounted_update,
        default_value := Some (V8 0), sample := Some (sample_fs_mounted cfg)\<rparr>]"

definition kfsw_telemetry_param_definitions :: "config \<Rightarrow> telemetry_state param_definition_set" where
  "kfsw_telemetry_param_definitions cfg =
     \<lparr>table_id = 3, table_name = ''telemetry'',
      table_description = ''Uptime, storage and CSP buffers'',
      definitions = telemetry_param_definitions cfg\<rparr>"

section \<open>Table 5: storage\<close>

record storage_state =
  storage_total_kb :: u32
  storage_free_kb :: u32
  storage_used_pct :: u8
  storage_mounted :: u8

definition storage_state_init :: storage_state where
  "storage_state_init =
     \<lparr>storage_total_kb = 0, storage_free_kb = 0, storage_used_pct = 0, storage_mounted = 0\<rparr>"

definition sample_storage :: "readings \<Rightarrow> storage_state \<Rightarrow> storage_state" where
  "sample_storage r st =
     (let (result, info) = kfsw_storage_get_info r
      in if result \<noteq> 0
         then st\<lparr>storage_mounted := 0, storage_total_kb := 0, storage_free_kb := 0,
                 storage_used_pct := 0\<rparr>
         else
           let st1 = st\<lparr>storage_mounted := (if ready info then 1 else 0),
                        storage_total_kb := ucast (total_bytes info div KFSW_BYTES_PER_KB),
                        storage_free_kb := ucast (free_bytes info div KFSW_BYTES_PER_KB)\<rparr>
           in if total_bytes info = 0 \<or> total_bytes info < free_bytes info
              then st1\<lparr>storage_used_pct := 0\<rparr>
              else
                let used = total_bytes info - free_bytes info
                in st1\<lparr>storage_used_pct := ucast (used * KFSW_PERCENT div total_bytes info)\<rparr>)"

definition sample_total_kb :: "storage_state sampler" where
  "sample_total_kb r st v = (let st' = sample_storage r st in Some (st', V32 (storage_total_kb st')))"

definition sample_free_kb :: "storage_state sampler" where
  "sample_free_kb r st v = (let st' = sample_storage r st in Some (st', V32 (storage_free_kb st')))"

definition sample_used_pct :: "storage_state sampler" where
  "sample_used_pct r st v = (let st' = sample_storage r st in Some (st', V8 (storage_used_pct st')))"

definition sample_mounted :: "storage_state sampler" where
  "sample_mounted r st v = (let st' = sample_storage r st in Some (st', V8 (storage_mounted st')))"

definition storage_param_definitions :: "storage_state param_definition list" where
  "storage_param_definitions =
    [zero_definition\<lparr>offset := 0x00, ptype := KFSW_PARAM_U32,
        flags := [KFSW_PARAM_FLAG_READ_ONLY], pname := ''total_kb'', unit_text := Some ''kB'',
        description := ''Filesystem capacity, or zero while unmounted'',
        value_ref := ref32 storage_total_kb storage_total_kb_update,
        default_value := Some (V32 0), sample := Some sample_total_kb\<rparr>,
     zero_definition\<lparr>offset := 0x04, ptype := KFSW_PARAM_U32,
        flags := [KFSW_PARAM_FLAG_READ_ONLY], pname := ''free_kb'', unit_text := Some ''kB'',
        description := ''Filesystem space available, or zero while unmounted'',
        value_ref := ref32 storage_free_kb storage_free_kb_update,
        default_value := Some (V32 0), sample := Some sample_free_kb\<rparr>,
     zero_definition\<lparr>offset := 0x08, ptype := KFSW_PARAM_U8,
        flags := [KFSW_PARAM_FLAG_READ_ONLY], pname := ''used_pct'', unit_text := Some ''%'',
        description := ''Filesystem space in use, or zero while unmounted'',
        value_ref := ref8 storage_used_pct storage_used_pct_update,
        default_value := Some (V8 0), sample := Some sample_used_pct\<rparr>,
     zero_definition\<lparr>offset := 0x09, ptype := KFSW_PARAM_U8,
        flags := [KFSW_PARAM_FLAG_READ_ONLY], pname := ''mounted'',
        description := ''Whether the volume is mounted and usable'',
        value_ref := ref8 storage_mounted storage_mounted_update, default_value := Some (V8 0),
        sample := Some sample_mounted\<rparr>]"

definition kfsw_storage_param_definitions :: "storage_state param_definition_set" where
  "kfsw_storage_param_definitions =
     \<lparr>table_id = 5, table_name = ''storage'',
      table_description = ''Filesystem size, free space, mount'',
      definitions = storage_param_definitions\<rparr>"

section \<open>Table 6: watchdog\<close>

record watchdog_state_vars =
  watchdog_timeout_ms :: u32
  watchdog_feed_interval_ms :: u32
  watchdog_feeds :: u32
  watchdog_since_feed_ms :: u32
  watchdog_state :: u8
  watchdog_device_bound :: u8
  watchdog_keepalive_owned :: u8

definition watchdog_state_init :: watchdog_state_vars where
  "watchdog_state_init = \<lparr>watchdog_timeout_ms = 0, watchdog_feed_interval_ms = 0, watchdog_feeds = 0,
     watchdog_since_feed_ms = 0, watchdog_state = 0, watchdog_device_bound = 0,
     watchdog_keepalive_owned = 0\<rparr>"

definition sample_watchdog :: "readings \<Rightarrow> watchdog_state_vars \<Rightarrow> watchdog_state_vars" where
  "sample_watchdog r st =
     (let (result, info) = kfsw_platform_watchdog_get_info r
      in if result \<noteq> 0 then st\<lparr>watchdog_device_bound := 0\<rparr>
         else st\<lparr>watchdog_timeout_ms := timeout_ms info,
                 watchdog_feed_interval_ms := feed_interval_ms info,
                 watchdog_feeds := feeds info,
                 watchdog_since_feed_ms := since_feed_ms info,
                 watchdog_state := wdt_state info,
                 watchdog_device_bound := (if device_bound info then 1 else 0),
                 watchdog_keepalive_owned := (if keepalive_owned info then 1 else 0)\<rparr>)"

definition sample_timeout_ms :: "watchdog_state_vars sampler" where
  "sample_timeout_ms r st v = (let st' = sample_watchdog r st in Some (st', V32 (watchdog_timeout_ms st')))"

definition sample_feed_interval_ms :: "watchdog_state_vars sampler" where
  "sample_feed_interval_ms r st v = (let st' = sample_watchdog r st in Some (st', V32 (watchdog_feed_interval_ms st')))"

definition sample_feeds :: "watchdog_state_vars sampler" where
  "sample_feeds r st v = (let st' = sample_watchdog r st in Some (st', V32 (watchdog_feeds st')))"

definition sample_since_feed_ms :: "watchdog_state_vars sampler" where
  "sample_since_feed_ms r st v = (let st' = sample_watchdog r st in Some (st', V32 (watchdog_since_feed_ms st')))"

definition sample_state :: "watchdog_state_vars sampler" where
  "sample_state r st v = (let st' = sample_watchdog r st in Some (st', V8 (watchdog_state st')))"

definition sample_device_bound :: "watchdog_state_vars sampler" where
  "sample_device_bound r st v = (let st' = sample_watchdog r st in Some (st', V8 (watchdog_device_bound st')))"

definition sample_keepalive_owned :: "watchdog_state_vars sampler" where
  "sample_keepalive_owned r st v = (let st' = sample_watchdog r st in Some (st', V8 (watchdog_keepalive_owned st')))"

definition watchdog_param_definitions :: "watchdog_state_vars param_definition list" where
  "watchdog_param_definitions =
    [zero_definition\<lparr>offset := 0x00, ptype := KFSW_PARAM_U32,
        flags := [KFSW_PARAM_FLAG_READ_ONLY], pname := ''timeout_ms'', unit_text := Some ''ms'',
        description := ''Timeout installed in hardware at initialization'',
        value_ref := ref32 watchdog_timeout_ms watchdog_timeout_ms_update,
        default_value := Some (V32 0), sample := Some sample_timeout_ms\<rparr>,
     zero_definition\<lparr>offset := 0x04, ptype := KFSW_PARAM_U32,
        flags := [KFSW_PARAM_FLAG_READ_ONLY], pname := ''feed_interval_ms'',
        unit_text := Some ''ms'', description := ''Interval the keep-alive feeds at'',
        value_ref := ref32 watchdog_feed_interval_ms watchdog_feed_interval_ms_update,
        default_value := Some (V32 0), sample := Some sample_feed_interval_ms\<rparr>,
     zero_definition\<lparr>offset := 0x08, ptype := KFSW_PARAM_U32,
        flags := [KFSW_PARAM_FLAG_READ_ONLY], pname := ''feeds'',
        description := ''Feeds issued since boot; saturates'',
        value_ref := ref32 watchdog_feeds watchdog_feeds_update, default_value := Some (V32 0),
        sample := Some sample_feeds\<rparr>,
     zero_definition\<lparr>offset := 0x0c, ptype := KFSW_PARAM_U32,
        flags := [KFSW_PARAM_FLAG_READ_ONLY], pname := ''since_feed_ms'',
        unit_text := Some ''ms'', description := ''Milliseconds since the most recent feed'',
        value_ref := ref32 watchdog_since_feed_ms watchdog_since_feed_ms_update,
        default_value := Some (V32 0), sample := Some sample_since_feed_ms\<rparr>,
     zero_definition\<lparr>offset := 0x10, ptype := KFSW_PARAM_U8,
        flags := [KFSW_PARAM_FLAG_READ_ONLY], pname := ''state'',
        description := ''Watchdog lifecycle state'',
        value_ref := ref8 watchdog_state watchdog_state_update, default_value := Some (V8 0),
        sample := Some sample_state\<rparr>,
     zero_definition\<lparr>offset := 0x11, ptype := KFSW_PARAM_U8,
        flags := [KFSW_PARAM_FLAG_READ_ONLY], pname := ''device_bound'',
        description := ''Whether a watchdog device was bound at initialization'',
        value_ref := ref8 watchdog_device_bound watchdog_device_bound_update,
        default_value := Some (V8 0), sample := Some sample_device_bound\<rparr>,
     zero_definition\<lparr>offset := 0x12, ptype := KFSW_PARAM_U8,
        flags := [KFSW_PARAM_FLAG_READ_ONLY], pname := ''keepalive_owned'',
        description := ''Whether the platform keep-alive is the one feeding'',
        value_ref := ref8 watchdog_keepalive_owned watchdog_keepalive_owned_update,
        default_value := Some (V8 0), sample := Some sample_keepalive_owned\<rparr>]"

definition kfsw_watchdog_param_definitions :: "watchdog_state_vars param_definition_set" where
  "kfsw_watchdog_param_definitions =
     \<lparr>table_id = 6, table_name = ''watchdog'',
      table_description = ''Hardware watchdog timing and feeds'',
      definitions = watchdog_param_definitions\<rparr>"

section \<open>The contracts\<close>

lemmas telemetry_samplers =
  sample_uptime_s_def sample_csp_buf_free_def sample_fs_free_kb_def sample_fs_total_kb_def
  sample_fs_mounted_def

lemmas storage_samplers =
  sample_total_kb_def sample_free_kb_def sample_used_pct_def sample_mounted_def

lemmas watchdog_samplers =
  sample_timeout_ms_def sample_feed_interval_ms_def sample_feeds_def sample_since_feed_ms_def
  sample_state_def sample_device_bound_def sample_keepalive_owned_def

lemmas read_simps =
  read_safe_def sample_param_def param_value_def ref_defs zero_definition_def Let_def

interpretation telemetry: param_table "telemetry_param_definitions cfg" telemetry_state_init
    "\<lambda>_. True" for cfg
  by unfold_locales
    (simp_all add: definitions_ok_defs telemetry_param_definitions_def telemetry_samplers read_simps)

interpretation storage: param_table storage_param_definitions storage_state_init "\<lambda>_. True"
  by unfold_locales
    (simp_all add: definitions_ok_defs storage_param_definitions_def storage_samplers read_simps)

interpretation watchdog: param_table watchdog_param_definitions watchdog_state_init "\<lambda>_. True"
  by unfold_locales
    (simp_all add: definitions_ok_defs watchdog_param_definitions_def watchdog_samplers read_simps)

section \<open>The percentage in use\<close>

text \<open>
  The product \<^verbatim>\<open>used * KFSW_PERCENT\<close> wraps at 64 bits. When it does, the total is above a
  hundredth of the range, so the quotient is below a hundred all the same.
\<close>

lemma pct_bound:
  fixes used total :: u64
  assumes "used \<le> total" "total \<noteq> 0"
  shows "unat (used * KFSW_PERCENT div total) \<le> 100"
proof -
  let ?p = "(unat used * 100) mod 2 ^ 64"
  have le: "unat used \<le> unat total" using assms(1) by (simp add: word_le_nat_alt)
  have pos: "0 < unat total" using assms(2) by (simp add: unat_gt_0)
  have "unat (used * KFSW_PERCENT) = ?p"
    by (simp add: KFSW_PERCENT_def unat_word_ariths)
  then have eq: "unat (used * KFSW_PERCENT div total) = ?p div unat total"
    by (simp add: unat_div)
  have "?p \<le> unat total * 100"
    using le by (meson mod_less_eq_dividend mult_le_mono1 order_trans)
  then have "?p div unat total \<le> (unat total * 100) div unat total" by (rule div_le_mono)
  with pos eq show ?thesis by simp
qed

lemma pct_exact:
  fixes used total :: u64
  assumes "unat used * 100 < 2 ^ 64"
  shows "unat (used * KFSW_PERCENT div total) = unat used * 100 div unat total"
  using assms by (simp add: KFSW_PERCENT_def unat_div unat_word_ariths)

lemma ucast_pct:
  assumes "unat (x :: u64) \<le> 100"
  shows "unat (ucast x :: u8) = unat x"
  using assms by (simp add: unsigned_ucast_eq take_bit_eq_mod)

text \<open>
  C36. The storage table reports at most 100 percent in use whatever size and free space the
  platform answers, and exactly the integer percentage of the space in use as long as a hundred
  times the space in use is below 2 to the 64; an unreadable volume and an empty one read 0.
\<close>

theorem storage_used_pct_correct:
  "unat (storage_used_pct (sample_storage r st)) \<le> 100 \<and>
   (case kfsw_storage_get_info r of (result, info) \<Rightarrow>
      if result \<noteq> 0 \<or> total_bytes info = 0 \<or> total_bytes info < free_bytes info
      then storage_used_pct (sample_storage r st) = 0
      else (unat (total_bytes info) - unat (free_bytes info)) * 100 < 2 ^ 64 \<longrightarrow>
           unat (storage_used_pct (sample_storage r st)) =
             (unat (total_bytes info) - unat (free_bytes info)) * 100 div unat (total_bytes info))"
proof -
  obtain result info where ri: "kfsw_storage_get_info r = (result, info)" by fastforce
  show ?thesis
  proof (cases "result \<noteq> 0 \<or> total_bytes info = 0 \<or> total_bytes info < free_bytes info")
    case True
    then show ?thesis by (auto simp: ri sample_storage_def Let_def)
  next
    case False
    define used where "used = total_bytes info - free_bytes info"
    have fle: "free_bytes info \<le> total_bytes info" using False by (simp add: not_less)
    have u: "unat used = unat (total_bytes info) - unat (free_bytes info)"
      unfolding used_def using fle by (rule unat_sub)
    have "used \<le> total_bytes info" using u by (simp add: word_le_nat_alt)
    then have b: "unat (used * KFSW_PERCENT div total_bytes info) \<le> 100"
      using False by (intro pct_bound) auto
    have "storage_used_pct (sample_storage r st) = ucast (used * KFSW_PERCENT div total_bytes info)"
      using False by (simp add: ri sample_storage_def Let_def used_def)
    then have e: "unat (storage_used_pct (sample_storage r st)) = unat (used * KFSW_PERCENT div total_bytes info)"
      using ucast_pct [OF b] by simp
    show ?thesis
      using False b by (simp add: ri e u [symmetric] pct_exact)
  qed
qed

definition sample_readings :: readings where
  "sample_readings =
     \<lparr>kfsw_csp_get_info = \<lparr>hostname = Some ''flatsat'', model = None, revision = Some ''v1'',
        address = 10, free_buffers = 12, router_running = True\<rparr>,
      kfsw_csp_visit_interfaces = [], kfsw_csp_get_counters = \<lparr>buffer_out = 0, conn_out = 0,
        conn_overflow = 0, conn_noroute = 0, invalid_reply = 0, last_error = 0, last_can_error = 0\<rparr>,
      kfsw_csp_get_rdp_trace = 0, kfsw_csp_get_packet_trace = False,
      kfsw_boot_get_hardware_id = Some ''0123'', kfsw_boot_get_reset_cause = 2,
      kfsw_can_get_info_bitrate = 500000, kfsw_time_monotonic_ms = 61500,
      kfsw_storage_get_info = (0, \<lparr>ready = True, total_bytes = 1000, free_bytes = 333\<rparr>),
      kfsw_platform_watchdog_get_info = (0, \<lparr>timeout_ms = 8000, feed_interval_ms = 2000, feeds = 7,
        since_feed_ms = 40, wdt_state = 2, device_bound = True, keepalive_owned = False\<rparr>)\<rparr>"

theorem storage_used_pct_correct_witness:
  "unat (storage_used_pct (sample_storage sample_readings storage_state_init)) = 66"
  using storage_used_pct_correct [of sample_readings storage_state_init]
  by (simp add: sample_readings_def)

end
