(* ===== verification/Param_Tables.thy ===== *)
theory Param_Tables
  imports Param_Board Param_System Param_Csp Param_Status
begin

text \<open>
  The core tables together, as \<^verbatim>\<open>main\<close> lists them for \<^verbatim>\<open>kfsw_param_init\<close> (\<^verbatim>\<open>parameter_sets\<close> in
  \<^verbatim>\<open>src/app/src/main.c\<close>, up to the sets of other layers): every composition has unique names and
  unique pairs of table and offset, and every session of reads of every table is safe.
\<close>

text \<open>What identifies a parameter: its table, its offset and its name.\<close>

definition set_keys :: "'t param_definition_set \<Rightarrow> (nat \<times> nat \<times> string) list" where
  "set_keys s = map (\<lambda>d. (table_id s, offset d, pname d)) (definitions s)"

definition core_parameter_sets :: "config \<Rightarrow> param_build \<Rightarrow> nat option \<Rightarrow> (nat \<times> nat \<times> string) list" where
  "core_parameter_sets cfg pb D =
     set_keys (kfsw_board_param_definitions cfg pb) @ set_keys (kfsw_system_param_definitions D) @
     set_keys (kfsw_telemetry_param_definitions cfg) @
     (if cfg CONFIG_KFSW_CSP then set_keys (kfsw_csp_param_definitions pb) else []) @
     (if cfg CONFIG_KFSW_STORAGE then set_keys kfsw_storage_param_definitions else []) @
     (if cfg CONFIG_KFSW_WATCHDOG then set_keys kfsw_watchdog_param_definitions else [])"

lemmas param_set_defs =
  kfsw_board_param_definitions_def kfsw_system_param_definitions_def
  kfsw_telemetry_param_definitions_def kfsw_csp_param_definitions_def
  kfsw_storage_param_definitions_def kfsw_watchdog_param_definitions_def

lemmas param_list_defs =
  board_param_definitions_def board_identity_definitions_def board_switch_definitions_def
  board_can_definitions_def system_param_definitions_def telemetry_param_definitions_def
  csp_param_definitions_def storage_param_definitions_def watchdog_param_definitions_def

text \<open>The keys of the composition with everything in it; every other one is a part of it.\<close>

definition all_keys :: "(nat \<times> nat \<times> string) list" where
  "all_keys = core_parameter_sets (\<lambda>_. True) sample_param_build None"

lemma all_keys_eval:
  "all_keys =
    [(1, 0x00, ''node_id''), (1, 0x10, ''uid''), (1, 0x40, ''hw_id''), (1, 0x20, ''model''),
     (1, 0x30, ''revision''), (1, 0x02, ''csp_enabled''), (1, 0x05, ''can_enabled''),
     (1, 0x0c, ''can_speed''), (1, 0x03, ''kiss_enabled''), (1, 0x04, ''reset_cause''),
     (1, 0x08, ''shell_enabled''), (1, 0x09, ''storage_enabled''),
     (2, 0x10, ''reboot_pin''), (2, 0x00, ''boot_delay_ms''), (2, 0x02, ''app_report_ms''),
     (3, 0x00, ''uptime_s''), (3, 0x04, ''fs_total_kb''), (3, 0x08, ''fs_free_kb''),
     (3, 0x0c, ''csp_buf_free''), (3, 0x0e, ''fs_mounted''),
     (4, 0x00, ''tx_packets''), (4, 0x04, ''rx_packets''), (4, 0x08, ''tx_errors''),
     (4, 0x0c, ''rx_errors''), (4, 0x10, ''dropped''), (4, 0x14, ''interfaces''),
     (4, 0x16, ''buffer_out''), (4, 0x17, ''conn_out''), (4, 0x18, ''conn_ovf''),
     (4, 0x19, ''conn_noroute''), (4, 0x1a, ''invalid_reply''), (4, 0x1b, ''last_error''),
     (4, 0x1c, ''last_can_error''), (4, 0x1d, ''rdp_trace''), (4, 0x1e, ''packet_trace''),
     (4, 0x20, ''route_table''), (4, 0x15, ''router_running''),
     (5, 0x00, ''total_kb''), (5, 0x04, ''free_kb''), (5, 0x08, ''used_pct''), (5, 0x09, ''mounted''),
     (6, 0x00, ''timeout_ms''), (6, 0x04, ''feed_interval_ms''), (6, 0x08, ''feeds''),
     (6, 0x0c, ''since_feed_ms''), (6, 0x10, ''state''), (6, 0x11, ''device_bound''),
     (6, 0x12, ''keepalive_owned'')]"
  by (simp add: all_keys_def core_parameter_sets_def set_keys_def param_set_defs param_list_defs
      zero_definition_def)

lemma all_keys_distinct:
  "distinct (map (\<lambda>(t, off, n). (t, off)) all_keys)" "distinct (map (\<lambda>(t, off, n). n) all_keys)"
  by (simp_all add: all_keys_eval)

lemma keys_subseq: "subseq (core_parameter_sets cfg pb D) all_keys"
proof -
  have board: "subseq (set_keys (kfsw_board_param_definitions cfg pb))
      (set_keys (kfsw_board_param_definitions (\<lambda>_. True) sample_param_build))"
    by (simp add: set_keys_def param_set_defs param_list_defs zero_definition_def)
  have same: "set_keys (kfsw_system_param_definitions D) = set_keys (kfsw_system_param_definitions None)"
    "set_keys (kfsw_telemetry_param_definitions cfg) = set_keys (kfsw_telemetry_param_definitions (\<lambda>_. True))"
    "set_keys (kfsw_csp_param_definitions pb) = set_keys (kfsw_csp_param_definitions sample_param_build)"
    by (simp_all add: set_keys_def param_set_defs param_list_defs zero_definition_def)
  show ?thesis
    unfolding all_keys_def core_parameter_sets_def same
    by (intro list_emb_append_mono board subseq_order.refl) simp_all
qed

text \<open>
  C39. In every composition of the build switches the core tables have no two parameters with the
  same table and offset and no two with the same name, in one table or across tables.
\<close>

theorem core_parameters_unique:
  "distinct (map (\<lambda>(t, off, n). (t, off)) (core_parameter_sets cfg pb D)) \<and>
   distinct (map (\<lambda>(t, off, n). n) (core_parameter_sets cfg pb D))"
  by (intro conjI; rule distinct_subseq, rule subseq_map, rule keys_subseq, rule all_keys_distinct)

definition sessions_safe :: "'t param_definition list \<Rightarrow> 't \<Rightarrow> bool" where
  "sessions_safe ds init \<longleftrightarrow>
     (\<forall>qs. snd ` set qs \<subseteq> set ds \<longrightarrow>
        (\<exists>vs st'. read_session qs init = Some (vs, st') \<and>
           list_all2 (\<lambda>(r, d) v. pval_fits (ptype d) (capacity d) v) qs vs))"

text \<open>
  C15. A session of reads, of any parameters of one core table in any order and under any answers
  of the layers below, succeeds: every sampler writes through its \<^verbatim>\<open>void *\<close> with the width of the
  variable its definition points at, and into an array not beyond its end, and every value read has
  the declared type, a text being terminated inside its capacity.
\<close>

theorem core_reads_safe:
  assumes "param_build_ok pb" and "deadline_in_range D"
  shows "sessions_safe (board_param_definitions cfg pb) (board_state_init cfg pb) \<and>
    sessions_safe (system_param_definitions D) (system_state_init D) \<and>
    sessions_safe (telemetry_param_definitions cfg) telemetry_state_init \<and>
    sessions_safe (csp_param_definitions pb) (csp_state_init pb) \<and>
    sessions_safe storage_param_definitions storage_state_init \<and>
    sessions_safe watchdog_param_definitions watchdog_state_init"
  unfolding sessions_safe_def
  using param_table.session_ok [OF board_table_contract, OF assms(1)]
    param_table.session_ok [OF system_table_contract, OF assms(2)]
    param_table.session_ok [OF csp_table_contract, OF assms(1)]
    telemetry.session_ok storage.session_ok watchdog.session_ok
  by blast

theorem core_reads_safe_witness:
  "sessions_safe (board_param_definitions (\<lambda>_. True) sample_param_build)
     (board_state_init (\<lambda>_. True) sample_param_build) \<and>
   sessions_safe (csp_param_definitions sample_param_build) (csp_state_init sample_param_build)"
proof -
  have "param_build_ok sample_param_build" "deadline_in_range (Some 4000)"
    by (simp_all add: param_build_ok_def sample_param_build_def deadline_in_range_def)
  from core_reads_safe [OF this] show ?thesis by blast
qed

end
