(* ===== verification/Hk_Entries.thy ===== *)
theory Hk_Entries
  imports Kfsw_Base
begin

text \<open>
  The housekeeping entry parser of \<^verbatim>\<open>src/app/src/hk_entries.c\<close>, shared by the command handlers
  and the shell: \<open>kfsw_app_hk_parse_entry\<close> reads one \<^verbatim>\<open>[node:]table:offset\<close>,
  \<open>kfsw_app_hk_parse_entries\<close> a list of them, \<open>kfsw_app_hk_parse_class\<close> the optional leading
  \<^verbatim>\<open>class=N\<close>. A pointer argument that may be NULL is an option; what it points at is passed in and
  returned, so that a failed call can be seen to leave it alone. The lemmas relate the cursor
  loops to a grammar of C integer literals and to splitting the text at spaces.
\<close>

section \<open>The parsers\<close>

record hk_entry =
  entry_node :: u16
  entry_param_id :: nat

text \<open>Both loops move their cursor forward.\<close>

lemma strtoul0_colon_less:
  "(v, e, er) = strtoul0 w s \<Longrightarrow> hd0 e = CHR '':'' \<Longrightarrow> length (tl e) < length s"
proof -
  assume e: "(v, e, er) = strtoul0 w s" and c: "hd0 e = CHR '':''"
  have "length e \<le> length s" using length_strtoul0 [of w s] by (simp flip: e)
  moreover have "e \<noteq> []" using c by auto
  ultimately show ?thesis by (cases e) auto
qed

lemma token_shorter:
  assumes "dropWhile (\<lambda>c. c = x) s \<noteq> []"
  shows "length (dropWhile (\<lambda>c. c = x) s) - length (takeWhile (\<lambda>c. c \<noteq> x) (dropWhile (\<lambda>c. c = x) s))
    < length s"
proof -
  have "hd (dropWhile (\<lambda>c. c = x) s) \<noteq> x" using assms by (rule hd_dropWhile)
  moreover have "length (dropWhile (\<lambda>c. c = x) s) \<le> length s" by (rule length_dropWhile_le)
  ultimately show ?thesis using assms by (cases "dropWhile (\<lambda>c. c = x) s") auto
qed

text \<open>The \<^verbatim>\<open>for (;;)\<close> loop of \<^verbatim>\<open>kfsw_app_hk_parse_entry\<close>: at most three numbers.\<close>

function parse_parts :: "build \<Rightarrow> string \<Rightarrow> nat list \<Rightarrow> int + nat list \<times> string" where
  "parse_parts B cursor parts =
     (if length parts = 3 \<or> \<not> isdigit (hd0 cursor) then Inl (- EINVAL)
      else (case strtoul0 (ulong_bits B) cursor of (v, end', erange) \<Rightarrow>
        if erange \<or> UINT16_MAX < v then Inl (- EINVAL)
        else if hd0 end' \<noteq> CHR '':'' then Inr (parts @ [v], end')
        else parse_parts B (tl end') (parts @ [v])))"
  by pat_completeness auto
termination
  by (relation "measure (\<lambda>(B, cursor, parts). length cursor)") (auto dest: strtoul0_colon_less)

declare parse_parts.simps [simp del]

definition kfsw_app_hk_parse_entry ::
  "build \<Rightarrow> string option \<Rightarrow> hk_entry option \<Rightarrow> int \<times> hk_entry option" where
  "kfsw_app_hk_parse_entry B text entry =
     (case (text, entry) of
        (Some t, Some e) \<Rightarrow>
          (case parse_parts B t [] of
             Inl err \<Rightarrow> (err, entry)
           | Inr (parts, cursor) \<Rightarrow>
               if cursor \<noteq> [] \<or> length parts < 2 \<or> UINT8_MAX < parts ! (length parts - 2) \<or>
                  KFSW_PARAM_OFFSET_MAX B < parts ! (length parts - 1)
               then (- EINVAL, entry)
               else if length parts = 2
               then (0, Some \<lparr>entry_node = KFSW_HK_NODE_LOCAL B,
                              entry_param_id = KFSW_PARAM_ID B (parts ! 0) (parts ! 1)\<rparr>)
               else (0, Some \<lparr>entry_node = of_nat (parts ! 0),
                              entry_param_id = KFSW_PARAM_ID B (parts ! 1) (parts ! 2)\<rparr>))
      | _ \<Rightarrow> (- EINVAL, entry))"

text \<open>The token loop of \<^verbatim>\<open>kfsw_app_hk_parse_entries\<close>: the destination array and the count so far.\<close>

function parse_entries_loop ::
  "build \<Rightarrow> string \<Rightarrow> hk_entry list \<Rightarrow> nat \<Rightarrow> nat \<Rightarrow> int \<times> hk_entry list \<times> nat" where
  "parse_entries_loop B cursor entries limit parsed =
     (let cursor' = dropWhile (\<lambda>c. c = CHR '' '') cursor;
          token = takeWhile (\<lambda>c. c \<noteq> CHR '' '') cursor'
      in if cursor' = [] then (0, entries, parsed)
         else if 24 \<le> length token then (- EINVAL, entries, parsed)
         else if parsed = limit then (- E2BIG, entries, parsed)
         else (case kfsw_app_hk_parse_entry B (Some token) (Some (entries ! parsed)) of
                 (rc, e) \<Rightarrow>
                   let entries' = entries[parsed := the e]
                   in if rc \<noteq> 0 then (- EINVAL, entries', parsed)
                      else parse_entries_loop B (drop (length token) cursor') entries' limit
                             (Suc parsed)))"
  by pat_completeness auto
termination
  by (relation "measure (\<lambda>(B, cursor, entries, limit, parsed). length cursor)")
    (auto intro: token_shorter)

declare parse_entries_loop.simps [simp del]

definition kfsw_app_hk_parse_entries ::
  "build \<Rightarrow> string option \<Rightarrow> hk_entry list option \<Rightarrow> nat \<Rightarrow> nat option
     \<Rightarrow> int \<times> hk_entry list option \<times> nat option" where
  "kfsw_app_hk_parse_entries B text entries limit count =
     (case (text, entries, count) of
        (Some t, Some es, Some n) \<Rightarrow>
          if limit = 0 then (- EINVAL, entries, count)
          else (case parse_entries_loop B t es limit 0 of
                  (rc, es', parsed) \<Rightarrow>
                    if rc \<noteq> 0 then (rc, Some es', count)
                    else if parsed = 0 then (- EINVAL, Some es', count)
                    else (0, Some es', Some parsed))
      | _ \<Rightarrow> (- EINVAL, entries, count))"

definition kfsw_app_hk_parse_class :: "build \<Rightarrow> string \<Rightarrow> int \<times> string \<times> u8" where
  "kfsw_app_hk_parse_class B text =
     (if \<not> starts_with ''class='' text then (0, text, KFSW_HK_CLASS_DEFAULT B)
      else (case strtoul0 (ulong_bits B) (drop 6 text) of (value', end', erange) \<Rightarrow>
        if end' = drop 6 text \<or> (hd0 end' \<noteq> CHR '' '' \<and> end' \<noteq> [])
        then (- EINVAL, text, KFSW_HK_CLASS_DEFAULT B)
        else if KFSW_HK_CLASS_MAX B < value'
        then (- ERANGE, text, KFSW_HK_CLASS_DEFAULT B)
        else (0, dropWhile (\<lambda>c. c = CHR '' '') end', of_nat value')))"

section \<open>The grammar of an entry\<close>

text \<open>
  A C integer literal as \<^verbatim>\<open>strtoul\<close> reads it in base 0, stated on its own: hexadecimal digits after
  \<^verbatim>\<open>0x\<close>, octal digits from a leading 0, decimal digits otherwise.
\<close>

definition num_value :: "nat \<Rightarrow> string \<Rightarrow> nat" where
  "num_value b ds = foldl (\<lambda>a c. a * b + digit_val c) 0 ds"

definition c_literal :: "string \<Rightarrow> nat \<Rightarrow> bool" where
  "c_literal l v \<longleftrightarrow>
     (\<exists>x ds. l = CHR ''0'' # x # ds \<and> (x = CHR ''x'' \<or> x = CHR ''X'') \<and> ds \<noteq> [] \<and>
        list_all (digit_in 16) ds \<and> v = num_value 16 ds)
   \<or> (l \<noteq> [] \<and> hd l = CHR ''0'' \<and> list_all (digit_in 8) l \<and> v = num_value 8 l)
   \<or> (l \<noteq> [] \<and> hd l \<noteq> CHR ''0'' \<and> list_all (digit_in 10) l \<and> v = num_value 10 l)"

lemma read_digits_split:
  "\<exists>ds. s = ds @ snd (read_digits b s acc) \<and> list_all (digit_in b) ds \<and>
        fst (read_digits b s acc) = foldl (\<lambda>a c. a * b + digit_val c) acc ds \<and>
        (digit_in b (hd0 s) \<longrightarrow> b \<le> 36 \<longrightarrow> ds \<noteq> [])"
proof (induction s arbitrary: acc)
  case Nil
  show ?case using not_digit_nul [of b] by auto
next
  case (Cons c s)
  show ?case
  proof (cases "digit_in b c")
    case True
    obtain ds where "s = ds @ snd (read_digits b s (acc * b + digit_val c))"
      "list_all (digit_in b) ds"
      "fst (read_digits b s (acc * b + digit_val c)) = foldl (\<lambda>a c. a * b + digit_val c) (acc * b + digit_val c) ds"
      using Cons.IH by blast
    with True show ?thesis by (intro exI [of _ "c # ds"]) simp
  qed simp
qed

lemma read_digits_literal:
  "list_all (digit_in b) ds \<Longrightarrow> \<not> digit_in b (hd0 r) \<Longrightarrow>
     read_digits b (ds @ r) 0 = (num_value b ds, r)"
proof -
  assume ds: "list_all (digit_in b) ds" and r: "\<not> digit_in b (hd0 r)"
  have "fst (read_digits b ds acc) = foldl (\<lambda>a c. a * b + digit_val c) acc ds" for acc
    using ds by (induction ds arbitrary: acc) auto
  with ds r show ?thesis
    by (simp add: read_digits_append list_all_iff read_digits_stop num_value_def)
qed

lemma base_cases:
  assumes "base_and_digits s = (b, ds)"
  obtains (hex) x where "b = 16" "s = CHR ''0'' # x # ds" "x = CHR ''x'' \<or> x = CHR ''X''"
  | (oct) "b = 8" "ds = s" "hd0 s = CHR ''0''" | (dec) "b = 10" "ds = s" "hd0 s \<noteq> CHR ''0''"
proof (cases "hd0 s = CHR ''0''")
  case z: True
  show thesis
  proof (cases "(hd0 (tl s) = CHR ''x'' \<or> hd0 (tl s) = CHR ''X'') \<and> digit_in 16 (hd0 (tl (tl s)))")
    case True
    then obtain c x t where "s = c # x # t" using z by (cases s; cases "tl s") auto
    then show thesis using True z assms by (intro hex [of x]) (auto simp: base_and_digits_def)
  next
    case False
    then show thesis using z assms by (intro oct) (auto simp: base_and_digits_def)
  qed
next
  case False
  then show thesis using assms by (intro dec) (auto simp: base_and_digits_def)
qed

text \<open>What \<^verbatim>\<open>strtoul\<close> consumes from a digit on is a literal with the value it returns.\<close>

lemma strtoul0_literal:
  assumes d: "isdigit (hd0 s)" and r: "strtoul0 w s = (v, r, False)"
  shows "\<exists>l. s = l @ r \<and> c_literal l v"
proof -
  obtain c t where s: "s = c # t" using d by (cases s) auto
  obtain b ds0 where bd: "base_and_digits s = (b, ds0)" by fastforce
  have b: "b = 8 \<or> b = 10 \<or> b = 16" using base_bounds [of s] bd by auto
  have hd: "digit_in b (hd0 ds0)"
    using d bd by (auto simp: s base_and_digits_def digit_in_10 split: if_splits)
      (simp_all add: digit_in_def digit_val_def)
  obtain ds where ds: "ds0 = ds @ snd (read_digits b ds0 0)" "list_all (digit_in b) ds" "ds \<noteq> []"
      "fst (read_digits b ds0 0) = num_value b ds"
    using read_digits_split [of ds0 b 0] hd b by (auto simp: num_value_def)
  from r d bd have vr: "v = num_value b ds" "r = snd (read_digits b ds0 0)"
    using ds(4) by (auto simp: strtoul0_digit Let_def split: prod.splits if_splits)
  have ds0: "ds0 = ds @ r" using ds(1) vr(2) by simp
  consider (hex) x where "b = 16" "s = CHR ''0'' # x # ds0" "x = CHR ''x'' \<or> x = CHR ''X''"
    | (oct) "b = 8" "ds0 = s" "hd0 s = CHR ''0''" | (dec) "b = 10" "ds0 = s" "hd0 s \<noteq> CHR ''0''"
    using base_cases [OF bd] d by blast
  then show ?thesis
  proof cases
    case hex
    then have s: "s = (CHR ''0'' # x # ds) @ r" using ds0 by simp
    show ?thesis
      using hex(1,3) ds(2,3) vr(1) unfolding s
      by (intro exI [of _ "CHR ''0'' # x # ds"]) (auto simp: c_literal_def)
  next
    case oct
    then have s: "s = ds @ r" using ds0 by simp
    show ?thesis
      using oct(1,3) ds(2,3) vr(1) unfolding s
      by (intro exI [of _ ds]) (auto simp: c_literal_def hd0_append hd0_not_Nil)
  next
    case dec
    then have s: "s = ds @ r" using ds0 by simp
    show ?thesis
      using dec(1,3) ds(2,3) vr(1) unfolding s
      by (intro exI [of _ ds]) (auto simp: c_literal_def hd0_append hd0_not_Nil)
  qed
qed

text \<open>A literal followed by a colon or by nothing is read whole.\<close>

lemma colon_not_digit: "b \<le> 16 \<Longrightarrow> \<not> digit_in b (CHR '':'')"
  by (simp add: digit_in_def digit_val_def)

lemma c_literal_isdigit: "c_literal l v \<Longrightarrow> isdigit (hd0 (l @ r))"
  by (cases l) (auto simp: c_literal_def digit_in_10 isdigit_def)

lemma literal_strtoul0:
  assumes l: "c_literal l v" and v: "v < 2 ^ w" and r: "r = [] \<or> hd0 r = CHR '':''"
  shows "strtoul0 w (l @ r) = (v, r, False)"
proof -
  have nd: "\<not> digit_in b (hd0 r)" if "b \<le> 16" for b
    using r that colon_not_digit by auto
  have nx: "hd0 r \<noteq> CHR ''x''" "hd0 r \<noteq> CHR ''X''" using r by auto
  consider (hex) x ds where "l = CHR ''0'' # x # ds" "x = CHR ''x'' \<or> x = CHR ''X''" "ds \<noteq> []"
      "list_all (digit_in 16) ds" "v = num_value 16 ds"
    | (oct) "l \<noteq> []" "hd l = CHR ''0''" "list_all (digit_in 8) l" "v = num_value 8 l"
    | (dec) "l \<noteq> []" "hd l \<noteq> CHR ''0''" "list_all (digit_in 10) l" "v = num_value 10 l"
    using l unfolding c_literal_def by blast
  then have "\<exists>b ds. base_and_digits (l @ r) = (b, ds @ r) \<and> b \<le> 16 \<and>
      list_all (digit_in b) ds \<and> v = num_value b ds"
  proof cases
    case hex
    then show ?thesis by (cases ds) (auto simp: base_and_digits_def)
  next
    case oct
    then obtain l' where l': "l = CHR ''0'' # l'" by (cases l) auto
    have "hd0 (l' @ r) \<noteq> CHR ''x'' \<and> hd0 (l' @ r) \<noteq> CHR ''X''"
      using oct(3) nx by (cases l') (auto simp: l' digit_in_def digit_val_def)
    with oct show ?thesis by (auto simp: base_and_digits_def l')
  next
    case dec
    then show ?thesis by (cases l) (auto simp: base_and_digits_def)
  qed
  then show ?thesis
    using nd v c_literal_isdigit [OF l] by (auto simp: strtoul0_digit read_digits_literal)
qed

lemma parse_parts_sound:
  "parse_parts B s ps = Inr (qs, cur) \<Longrightarrow> length ps \<le> 3 \<Longrightarrow>
     \<exists>ls vs. qs = ps @ vs \<and> s = join_with (CHR '':'') ls @ cur \<and> list_all2 c_literal ls vs \<and>
       vs \<noteq> [] \<and> list_all (\<lambda>v. v \<le> UINT16_MAX) vs \<and> length qs \<le> 3"
proof (induction B s ps arbitrary: qs cur rule: parse_parts.induct)
  case (1 B s ps)
  obtain v e er where st: "strtoul0 (ulong_bits B) s = (v, e, er)" by (rule prod_cases3)
  from 1(2) st have d: "length ps \<noteq> 3" "isdigit (hd0 s)" "\<not> er" "v \<le> UINT16_MAX"
    by (auto simp: parse_parts.simps [of B s ps] split: if_splits)
  from d st obtain l where l: "s = l @ e" "c_literal l v"
    using strtoul0_literal [of s "ulong_bits B" v e] by auto
  show ?case
  proof (cases "hd0 e = CHR '':''")
    case False
    with 1(2) st d have "qs = ps @ [v]" "cur = e"
      by (auto simp: parse_parts.simps [of B s ps])
    with l d 1(3) show ?thesis by (intro exI [of _ "[l]"] exI [of _ "[v]"]) auto
  next
    case True
    then have e: "e = CHR '':'' # tl e" by (cases e) auto
    from True 1(2) st d have rec: "parse_parts B (tl e) (ps @ [v]) = Inr (qs, cur)"
      by (auto simp: parse_parts.simps [of B s ps])
    have "\<exists>ls vs. qs = (ps @ [v]) @ vs \<and> tl e = join_with (CHR '':'') ls @ cur \<and>
        list_all2 c_literal ls vs \<and> vs \<noteq> [] \<and> list_all (\<lambda>v. v \<le> UINT16_MAX) vs \<and> length qs \<le> 3"
      using "1.IH" [OF _ st [symmetric] refl] True d rec 1(3) by auto
    then obtain ls vs where *: "qs = (ps @ [v]) @ vs" "tl e = join_with (CHR '':'') ls @ cur"
        "list_all2 c_literal ls vs" "vs \<noteq> []" "list_all (\<lambda>v. v \<le> UINT16_MAX) vs" "length qs \<le> 3"
      by blast
    then have "ls \<noteq> []" by auto
    then have "s = join_with (CHR '':'') (l # ls) @ cur"
      using l(1) e *(2) by (simp add: join_with_Cons)
    with * l(2) d(4) show ?thesis
      by (intro exI [of _ "l # ls"] exI [of _ "v # vs"]) auto
  qed
qed

lemma parse_parts_err: "parse_parts B s ps = Inl err \<Longrightarrow> err = - EINVAL"
proof (induction B s ps rule: parse_parts.induct)
  case (1 B s ps)
  then show ?case
    by (auto simp: parse_parts.simps [of B s ps] split: if_splits prod.splits)
qed

lemma parse_parts_complete:
  "list_all2 c_literal ls vs \<Longrightarrow> ls \<noteq> [] \<Longrightarrow> list_all (\<lambda>v. v \<le> UINT16_MAX) vs \<Longrightarrow>
   length ps + length ls \<le> 3 \<Longrightarrow> 32 \<le> ulong_bits B \<Longrightarrow>
     parse_parts B (join_with (CHR '':'') ls) ps = Inr (ps @ vs, [])"
proof (induction ls arbitrary: vs ps)
  case Nil
  then show ?case by simp
next
  case (Cons l ls)
  then obtain v vs' where vs: "vs = v # vs'" "c_literal l v" "list_all2 c_literal ls vs'"
    by (cases vs) auto
  have "(2::nat) ^ 32 \<le> 2 ^ ulong_bits B" using Cons.prems(5) by (intro power_increasing) auto
  then have v: "v < 2 ^ ulong_bits B" "v \<le> UINT16_MAX"
    using Cons.prems(3) vs by (auto simp: UINT16_MAX_def)
  show ?case
  proof (cases "ls = []")
    case True
    with vs v Cons.prems(4) literal_strtoul0 [OF vs(2) v(1), of "[]"] c_literal_isdigit [OF vs(2), of "[]"]
    show ?thesis by (auto simp: parse_parts.simps)
  next
    case False
    let ?r = "CHR '':'' # join_with (CHR '':'') ls"
    have "parse_parts B (join_with (CHR '':'') ls) (ps @ [v]) = Inr ((ps @ [v]) @ vs', [])"
      using Cons.IH [of vs' "ps @ [v]"] vs False Cons.prems by auto
    with vs v Cons.prems(4) False literal_strtoul0 [OF vs(2) v(1), of ?r] c_literal_isdigit [OF vs(2), of ?r]
    show ?thesis by (auto simp: parse_parts.simps [of B "l @ ?r"] join_with_Cons)
  qed
qed

text \<open>The entry a list of field values stands for.\<close>

definition entry_of :: "build \<Rightarrow> nat list \<Rightarrow> hk_entry" where
  "entry_of B vs =
     (if length vs = 2
      then \<lparr>entry_node = KFSW_HK_NODE_LOCAL B, entry_param_id = KFSW_PARAM_ID B (vs ! 0) (vs ! 1)\<rparr>
      else \<lparr>entry_node = of_nat (vs ! 0), entry_param_id = KFSW_PARAM_ID B (vs ! 1) (vs ! 2)\<rparr>)"

definition fields_fit :: "build \<Rightarrow> nat list \<Rightarrow> bool" where
  "fields_fit B vs \<longleftrightarrow>
     (length vs = 2 \<or> length vs = 3) \<and> list_all (\<lambda>v. v \<le> UINT16_MAX) vs \<and>
     vs ! (length vs - 2) \<le> UINT8_MAX \<and> vs ! (length vs - 1) \<le> KFSW_PARAM_OFFSET_MAX B"

lemma parse_entry_Some_iff:
  "kfsw_app_hk_parse_entry B (Some t) (Some e) = (0, Some e') \<longleftrightarrow>
     (\<exists>vs. parse_parts B t [] = Inr (vs, []) \<and> 2 \<le> length vs \<and>
        vs ! (length vs - 2) \<le> UINT8_MAX \<and> vs ! (length vs - 1) \<le> KFSW_PARAM_OFFSET_MAX B \<and>
        e' = entry_of B vs)"
proof (cases "parse_parts B t []")
  case (Inl err)
  then show ?thesis
    using parse_parts_err [OF Inl] by (simp add: kfsw_app_hk_parse_entry_def)
next
  case (Inr p)
  then obtain vs cur where p: "parse_parts B t [] = Inr (vs, cur)" by (cases p) auto
  show ?thesis
    by (simp add: kfsw_app_hk_parse_entry_def p entry_of_def not_less) auto
qed


lemma parse_entry_outcome:
  "(\<exists>e'. kfsw_app_hk_parse_entry B text entry = (0, Some e')) \<or>
   kfsw_app_hk_parse_entry B text entry = (- EINVAL, entry)"
  by (auto simp: kfsw_app_hk_parse_entry_def dest: parse_parts_err
      split: option.splits sum.splits prod.splits)

lemma parse_entry_grammar_iff:
  assumes "32 \<le> ulong_bits B"
  shows "kfsw_app_hk_parse_entry B (Some t) (Some e) = (0, Some e') \<longleftrightarrow>
    (\<exists>ls vs. t = join_with (CHR '':'') ls \<and> list_all2 c_literal ls vs \<and> fields_fit B vs \<and>
       e' = entry_of B vs)"
proof
  assume "kfsw_app_hk_parse_entry B (Some t) (Some e) = (0, Some e')"
  then obtain vs where vs: "parse_parts B t [] = Inr (vs, [])" "2 \<le> length vs"
      "vs ! (length vs - 2) \<le> UINT8_MAX" "vs ! (length vs - 1) \<le> KFSW_PARAM_OFFSET_MAX B"
      "e' = entry_of B vs"
    unfolding parse_entry_Some_iff by blast
  from parse_parts_sound [OF vs(1)] obtain ls where
    "t = join_with (CHR '':'') ls" "list_all2 c_literal ls vs" "list_all (\<lambda>v. v \<le> UINT16_MAX) vs"
    "length vs \<le> 3"
    by auto
  with vs show "\<exists>ls vs. t = join_with (CHR '':'') ls \<and> list_all2 c_literal ls vs \<and>
      fields_fit B vs \<and> e' = entry_of B vs"
    by (intro exI [of _ ls] exI [of _ vs]) (auto simp: fields_fit_def)
next
  assume "\<exists>ls vs. t = join_with (CHR '':'') ls \<and> list_all2 c_literal ls vs \<and>
      fields_fit B vs \<and> e' = entry_of B vs"
  then obtain ls vs where *: "t = join_with (CHR '':'') ls" "list_all2 c_literal ls vs"
      "fields_fit B vs" "e' = entry_of B vs" by blast
  then have "length ls = length vs" by (simp add: list_all2_lengthD)
  moreover from this *(3) have "ls \<noteq> []" by (auto simp: fields_fit_def)
  ultimately have "parse_parts B t [] = Inr (vs, [])"
    using * assms parse_parts_complete [of ls vs "[]" B] by (auto simp: fields_fit_def)
  with * show "kfsw_app_hk_parse_entry B (Some t) (Some e) = (0, Some e')"
    unfolding parse_entry_Some_iff by (auto simp: fields_fit_def)
qed

lemma c_literal_fmt_u: "c_literal (fmt_u n) n"
proof -
  have all: "list_all (digit_in 10) (fmt_u n)"
    using radix_digits [of 10 n] by (simp add: fmt_u_def list_all_iff)
  have "num_value 10 (fmt_u n) = n"
    using read_digits_literal [OF all, of "[]"] read_digits_radix [of 10 n] by (simp add: fmt_u_def)
  moreover have "hd (fmt_u n) = CHR ''0'' \<longleftrightarrow> n = 0"
    using hd_radix_zero [of 10 n] by (simp add: fmt_u_def)
  ultimately show ?thesis
    using all by (cases "n = 0")
      (auto simp: c_literal_def fmt_u_def radix.simps [of 10 0] num_value_def digit_in_def digit_val_def)
qed

section \<open>The list of entries\<close>

text \<open>The words of a text: maximal runs of characters other than a space.\<close>

fun split_words :: "string \<Rightarrow> string \<Rightarrow> string list" where
  "split_words acc [] = (if acc = [] then [] else [acc])"
| "split_words acc (c # s) =
     (if c = CHR '' '' then (if acc = [] then split_words [] s else acc # split_words [] s)
      else split_words (acc @ [c]) s)"

abbreviation space_words :: "string \<Rightarrow> string list" where
  "space_words s \<equiv> split_words [] s"

text \<open>What reading the words one by one means, with room for \<open>limit\<close> entries.\<close>

fun read_words :: "build \<Rightarrow> nat \<Rightarrow> string list \<Rightarrow> hk_entry list \<Rightarrow> int + hk_entry list" where
  "read_words B limit [] es = Inr es"
| "read_words B limit (w # ws) es =
     (if 24 \<le> length w then Inl (- EINVAL)
      else if length es = limit then Inl (- E2BIG)
      else (case kfsw_app_hk_parse_entry B (Some w) (Some \<lparr>entry_node = 0, entry_param_id = 0\<rparr>) of
              (rc, e) \<Rightarrow> if rc = 0 then read_words B limit ws (es @ [the e]) else Inl (- EINVAL)))"


lemma split_words_space: "split_words [] (CHR '' '' # s) = split_words [] s"
  by simp

lemma split_words_dropWhile: "space_words s = space_words (dropWhile (\<lambda>c. c = CHR '' '') s)"
  by (induction s) auto

lemma split_words_token:
  "split_words acc (s @ t) = split_words (acc @ s) t" if "CHR '' '' \<notin> set s"
  using that by (induction s arbitrary: acc) auto

lemma space_words_step:
  fixes s :: string
  defines "c \<equiv> dropWhile (\<lambda>c. c = CHR '' '') s"
  defines "tok \<equiv> takeWhile (\<lambda>c. c \<noteq> CHR '' '') c"
  shows "space_words s = (if c = [] then [] else tok # space_words (drop (length tok) c))"
proof (cases "c = []")
  case True
  have "space_words s = space_words c" unfolding c_def by (rule split_words_dropWhile)
  with True show ?thesis by simp
next
  case False
  then have "hd c \<noteq> CHR '' ''" unfolding c_def by (rule hd_dropWhile)
  with False have tok: "tok \<noteq> []" by (cases c) (auto simp: tok_def)
  have rest: "drop (length tok) c = dropWhile (\<lambda>c. c \<noteq> CHR '' '') c"
    by (simp add: tok_def dropWhile_eq_drop)
  have eq: "tok @ drop (length tok) c = c" unfolding rest unfolding tok_def by simp
  have "CHR '' '' \<notin> set tok" by (auto simp: tok_def dest: set_takeWhileD)
  then have "space_words (tok @ drop (length tok) c) = split_words tok (drop (length tok) c)"
    using split_words_token [of tok "[]"] by simp
  then have "space_words c = split_words tok (drop (length tok) c)" by (simp only: eq)
  also have "\<dots> = tok # space_words (drop (length tok) c)"
  proof (cases "drop (length tok) c")
    case Nil
    then show ?thesis using tok by simp
  next
    case (Cons x xs)
    with rest have "dropWhile (\<lambda>c. c \<noteq> CHR '' '') c = x # xs" by simp
    then have "x = CHR '' ''" using hd_dropWhile [of "\<lambda>c. c \<noteq> CHR '' ''" c] by simp
    then show ?thesis using tok by (simp add: Cons)
  qed
  finally have "space_words c = tok # space_words (drop (length tok) c)" .
  moreover have "space_words s = space_words c" unfolding c_def by (rule split_words_dropWhile)
  ultimately show ?thesis using False by simp
qed

lemma parse_entry_any_entry:
  "kfsw_app_hk_parse_entry B (Some t) (Some e) = (0, Some x) \<longleftrightarrow>
   kfsw_app_hk_parse_entry B (Some t) (Some e') = (0, Some x)"
  unfolding parse_entry_Some_iff by blast

lemma read_words_length: "read_words B limit ws es = Inr es' \<Longrightarrow> length es \<le> length es'"
proof (induction ws arbitrary: es)
  case (Cons w ws)
  then have "length (es @ [e]) \<le> length es'" if "read_words B limit ws (es @ [e]) = Inr es'" for e
    using that by blast
  with Cons.prems show ?case by (fastforce split: if_splits prod.splits)
qed simp

text \<open>One turn of the loop, on the branch that stores an entry.\<close>

lemma parse_entries_loop_stop:
  fixes cursor :: string
  defines "c \<equiv> dropWhile (\<lambda>c. c = CHR '' '') cursor"
  defines "tok \<equiv> takeWhile (\<lambda>c. c \<noteq> CHR '' '') c"
  shows "c = [] \<Longrightarrow> parse_entries_loop B cursor arr limit parsed = (0, arr, parsed)"
    and "c \<noteq> [] \<Longrightarrow> 24 \<le> length tok \<Longrightarrow> parse_entries_loop B cursor arr limit parsed = (- EINVAL, arr, parsed)"
    and "c \<noteq> [] \<Longrightarrow> length tok < 24 \<Longrightarrow> parsed = limit \<Longrightarrow>
      parse_entries_loop B cursor arr limit parsed = (- E2BIG, arr, parsed)"
    and "c \<noteq> [] \<Longrightarrow> length tok < 24 \<Longrightarrow> parsed \<noteq> limit \<Longrightarrow>
      kfsw_app_hk_parse_entry B (Some tok) (Some (arr ! parsed)) = (- EINVAL, Some (arr ! parsed)) \<Longrightarrow>
      parse_entries_loop B cursor arr limit parsed = (- EINVAL, arr, parsed)"
    and "c \<noteq> [] \<Longrightarrow> length tok < 24 \<Longrightarrow> parsed \<noteq> limit \<Longrightarrow>
      kfsw_app_hk_parse_entry B (Some tok) (Some (arr ! parsed)) = (0, Some e) \<Longrightarrow>
      parse_entries_loop B cursor arr limit parsed
        = parse_entries_loop B (drop (length tok) c) (arr[parsed := e]) limit (Suc parsed)"
  unfolding c_def tok_def by (simp_all add: parse_entries_loop.simps [of B cursor arr limit parsed]
      parse_entries_loop.simps [of B cursor arr limit limit] Let_def
      del: dropWhile_eq_Nil_conv)

text \<open>The loop and the reference, from an array whose first \<open>length es\<close> cells are \<open>es\<close>.\<close>

lemma parse_entries_loop_read_words:
  assumes "take (length es) arr = es" and "length es \<le> limit" and "limit \<le> length arr"
  shows "case read_words B limit (space_words cursor) es of
      Inl err \<Rightarrow> fst (parse_entries_loop B cursor arr limit (length es)) = err
    | Inr es' \<Rightarrow> parse_entries_loop B cursor arr limit (length es)
                  = (0, es' @ drop (length es') arr, length es')"
  using assms
proof (induction "length cursor" arbitrary: cursor es arr rule: less_induct)
  case less
  define c where "c = dropWhile (\<lambda>c. c = CHR '' '') cursor"
  define tok where "tok = takeWhile (\<lambda>c. c \<noteq> CHR '' '') c"
  note step = parse_entries_loop_stop [where cursor = cursor, folded c_def, folded tok_def]
  have words: "space_words cursor = (if c = [] then [] else tok # space_words (drop (length tok) c))"
    using space_words_step [of cursor] by (simp add: c_def tok_def)
  have arr: "es @ drop (length es) arr = arr" using less.prems(1) by (metis append_take_drop_id)
  let ?e0 = "\<lparr>entry_node = 0, entry_param_id = 0\<rparr> :: hk_entry"
  show ?case
  proof (cases "c = [] \<or> 24 \<le> length tok \<or> length es = limit")
    case True
    then show ?thesis by (cases "c = []"; cases "24 \<le> length tok") (simp_all add: step words arr)
  next
    case False
    then have go: "c \<noteq> []" "length tok < 24" "length es \<noteq> limit" by auto
    have shorter: "length (drop (length tok) c) < length cursor"
      using token_shorter [of "CHR '' ''" cursor] go(1) by (simp add: c_def tok_def)
    show ?thesis
    proof (cases "\<exists>e. kfsw_app_hk_parse_entry B (Some tok) (Some (arr ! length es)) = (0, Some e)")
      case True
      then obtain e where e: "kfsw_app_hk_parse_entry B (Some tok) (Some (arr ! length es)) = (0, Some e)" ..
      then have e0: "kfsw_app_hk_parse_entry B (Some tok) (Some ?e0) = (0, Some e)"
        using parse_entry_any_entry by blast
      let ?arr = "arr[length es := e]"
      have len: "length es < length arr" using go(3) less.prems by simp
      have "take (length (es @ [e])) ?arr = es @ [e]"
        using len less.prems(1) by (simp add: take_Suc_conv_app_nth)
      then have ih: "case read_words B limit (space_words (drop (length tok) c)) (es @ [e]) of
          Inl err \<Rightarrow> fst (parse_entries_loop B (drop (length tok) c) ?arr limit (length (es @ [e]))) = err
        | Inr es' \<Rightarrow> parse_entries_loop B (drop (length tok) c) ?arr limit (length (es @ [e]))
                  = (0, es' @ drop (length es') ?arr, length es')"
        using less.hyps [OF shorter, of "es @ [e]" ?arr] go(3) less.prems by simp
      show ?thesis
        using ih step(5) [OF go e] e0 go read_words_length [of B limit "space_words (drop (length tok) c)" "es @ [e]"]
        by (auto simp: words split: sum.splits)
    next
      case False
      then have no: "kfsw_app_hk_parse_entry B (Some tok) (Some (arr ! length es)) = (- EINVAL, Some (arr ! length es))"
          "fst (kfsw_app_hk_parse_entry B (Some tok) (Some ?e0)) \<noteq> 0"
        using parse_entry_outcome [of B "Some tok"] parse_entry_any_entry [of B tok]
        by (metis, metis fst_conv errno_nonzero(1) neg_equal_0_iff_equal)
      then show ?thesis using step(4) [OF go no(1)] go by (simp add: words split_beta)
    qed
  qed
qed


lemma read_words_err: "read_words B limit ws es = Inl err \<Longrightarrow> err = - EINVAL \<or> err = - E2BIG"
  by (induction ws arbitrary: es) (auto split: if_splits prod.splits)

lemma read_words_room: "read_words B limit ws es = Inr es' \<Longrightarrow> length es \<le> limit \<Longrightarrow> length es' \<le> limit"
proof (induction ws arbitrary: es)
  case (Cons w ws)
  then have "length es' \<le> limit" if "read_words B limit ws (es @ [e]) = Inr es'" "length es \<noteq> limit" for e
    using that by simp
  with Cons.prems show ?case by (fastforce split: if_splits prod.splits)
qed simp

lemma read_words_too_many:
  "length es \<le> limit \<Longrightarrow> limit < length es + length ws \<Longrightarrow> \<exists>err. read_words B limit ws es = Inl err"
proof (induction ws arbitrary: es)
  case (Cons w ws)
  show ?case
  proof (cases "length es = limit")
    case False
    obtain rc e where "kfsw_app_hk_parse_entry B (Some w) (Some \<lparr>entry_node = 0, entry_param_id = 0\<rparr>) = (rc, e)"
      by fastforce
    with False Cons.IH [of "es @ [the e]"] Cons.prems show ?thesis by simp
  qed simp
qed simp

lemma read_words_count: "read_words B limit ws es = Inr es' \<Longrightarrow> length es' = length es + length ws"
  by (induction ws arbitrary: es) (fastforce split: if_splits prod.splits)+

lemma parse_class_decimal:
  assumes "v < 2 ^ ulong_bits B" and "r = [] \<or> hd0 r = CHR '' ''"
  shows "kfsw_app_hk_parse_class B (''class='' @ fmt_u v @ r) =
      (if v \<le> KFSW_HK_CLASS_MAX B then (0, dropWhile (\<lambda>c. c = CHR '' '') r, of_nat v)
       else (- ERANGE, ''class='' @ fmt_u v @ r, KFSW_HK_CLASS_DEFAULT B))"
proof -
  have nd: "\<not> digit_in 10 (hd0 r)" "hd0 r \<noteq> CHR ''x''" "hd0 r \<noteq> CHR ''X''"
    using assms(2) by (auto simp: digit_in_def digit_val_def)
  have st: "strtoul0 (ulong_bits B) (fmt_u v @ r) = (v, r, False)"
    using nd assms(1) by (intro strtoul0_dec) auto
  show ?thesis
    using assms(2) st by (auto simp: kfsw_app_hk_parse_class_def starts_with_def fmt_u_def)
qed

text \<open>Evaluation of the parsers on concrete text.\<close>

lemmas strtoul_eval =
  strtoul0_def base_and_digits_def digit_in_def digit_val_def isdigit_def isspace_def Let_def

lemmas hk_eval =
  kfsw_app_hk_parse_entry_def kfsw_app_hk_parse_class_def parse_parts.simps strtoul_eval
  uint_max_defs starts_with_def sample_build_def

section \<open>Properties\<close>

text \<open>
  C13. \<open>kfsw_app_hk_parse_entry\<close> accepts exactly the texts \<^verbatim>\<open>[node:]table:offset\<close> whose fields are
  C integer literals (decimal, octal or hexadecimal, no sign, no space) that fit: every field at
  most 65535, the table at most 255, the offset at most \<^verbatim>\<open>KFSW_PARAM_OFFSET_MAX\<close>. The entry it
  stores is the one those fields name. On every other text it returns \<^verbatim>\<open>-EINVAL\<close> and leaves the
  entry as it was. \<^verbatim>\<open>unsigned long\<close> has at least 32 bits.
\<close>

theorem parse_entry_grammar:
  assumes "32 \<le> ulong_bits B"
  shows "(kfsw_app_hk_parse_entry B (Some t) (Some e) = (0, Some e') \<longleftrightarrow>
      (\<exists>ls vs. t = join_with (CHR '':'') ls \<and> list_all2 c_literal ls vs \<and> fields_fit B vs \<and>
         e' = entry_of B vs))
    \<and> ((\<exists>x. kfsw_app_hk_parse_entry B (Some t) (Some e) = (0, Some x))
        \<or> kfsw_app_hk_parse_entry B (Some t) (Some e) = (- EINVAL, Some e))"
  using parse_entry_grammar_iff [OF assms] parse_entry_outcome by blast

theorem parse_entry_grammar_witness:
  "32 \<le> ulong_bits sample_build \<and>
   (\<exists>ls vs. ''7:2:0x10'' = join_with (CHR '':'') ls \<and> list_all2 c_literal ls vs \<and>
      fields_fit sample_build vs \<and> \<lparr>entry_node = 7, entry_param_id = 528\<rparr> = entry_of sample_build vs)"
proof -
  have w: "32 \<le> ulong_bits sample_build" by (simp add: sample_build_def)
  have "kfsw_app_hk_parse_entry sample_build (Some ''7:2:0x10'')
      (Some \<lparr>entry_node = 0, entry_param_id = 0\<rparr>) = (0, Some \<lparr>entry_node = 7, entry_param_id = 528\<rparr>)"
    by (simp add: hk_eval)
  with w parse_entry_grammar [OF w] show ?thesis by blast
qed

text \<open>
  Printing an entry in decimal and parsing it gives it back: for every node below 65536, table
  up to 255 and offset within the limit, \<^verbatim>\<open>node:table:offset\<close> parses to that node and the
  parameter ID of that table and offset, and \<^verbatim>\<open>table:offset\<close> to the local node.
\<close>

lemma parse_entry_roundtrip:
  assumes "32 \<le> ulong_bits B" and "n \<le> UINT16_MAX" and "t \<le> UINT8_MAX"
    and "k \<le> KFSW_PARAM_OFFSET_MAX B" and "k \<le> UINT16_MAX"
  shows "kfsw_app_hk_parse_entry B (Some (fmt_u n @ '':'' @ fmt_u t @ '':'' @ fmt_u k)) (Some e)
      = (0, Some \<lparr>entry_node = of_nat n, entry_param_id = KFSW_PARAM_ID B t k\<rparr>)
    \<and> kfsw_app_hk_parse_entry B (Some (fmt_u t @ '':'' @ fmt_u k)) (Some e)
      = (0, Some \<lparr>entry_node = KFSW_HK_NODE_LOCAL B, entry_param_id = KFSW_PARAM_ID B t k\<rparr>)"
proof -
  have "fmt_u n @ '':'' @ fmt_u t @ '':'' @ fmt_u k = join_with (CHR '':'') [fmt_u n, fmt_u t, fmt_u k]"
    and "fmt_u t @ '':'' @ fmt_u k = join_with (CHR '':'') [fmt_u t, fmt_u k]"
    by simp_all
  moreover have "list_all2 c_literal [fmt_u n, fmt_u t, fmt_u k] [n, t, k]"
    and "list_all2 c_literal [fmt_u t, fmt_u k] [t, k]"
    by (simp_all add: c_literal_fmt_u)
  moreover have "fields_fit B [n, t, k]" and "fields_fit B [t, k]"
    using assms(2-) by (auto simp: fields_fit_def uint_max_defs)
  moreover have "entry_of B [n, t, k] = \<lparr>entry_node = of_nat n, entry_param_id = KFSW_PARAM_ID B t k\<rparr>"
    and "entry_of B [t, k] = \<lparr>entry_node = KFSW_HK_NODE_LOCAL B, entry_param_id = KFSW_PARAM_ID B t k\<rparr>"
    by (simp_all add: entry_of_def)
  ultimately show ?thesis
    unfolding parse_entry_grammar_iff [OF assms(1)] by metis
qed

lemma parse_entry_roundtrip_witness:
  "kfsw_app_hk_parse_entry sample_build (Some (fmt_u 65535 @ '':'' @ fmt_u 255 @ '':'' @ fmt_u 255))
     (Some \<lparr>entry_node = 0, entry_param_id = 0\<rparr>)
   = (0, Some \<lparr>entry_node = of_nat 65535, entry_param_id = KFSW_PARAM_ID sample_build 255 255\<rparr>)"
  by (rule parse_entry_roundtrip [THEN conjunct1]) (simp_all add: sample_build_def uint_max_defs)

text \<open>
  C14. \<open>kfsw_app_hk_parse_entries\<close> is the cursor loop over the words of the text. With a
  destination array of \<open>limit\<close> cells it returns 0 exactly when reading the words one after another
  (a word of 24 characters or more and a malformed one are \<^verbatim>\<open>-EINVAL\<close>, a word with no cell left is
  \<^verbatim>\<open>-E2BIG\<close>) gives at least one entry; then the array starts with those entries, the rest of it is
  untouched, the count is their number and never above \<open>limit\<close>. Otherwise the count is left alone.
\<close>

theorem parse_entries_words:
  assumes "length arr = limit" and "0 < limit"
  shows "case read_words B limit (space_words t) [] of
      Inl err \<Rightarrow>
        fst (kfsw_app_hk_parse_entries B (Some t) (Some arr) limit (Some n)) = err \<and> err \<noteq> 0 \<and>
        snd (snd (kfsw_app_hk_parse_entries B (Some t) (Some arr) limit (Some n))) = Some n
    | Inr es \<Rightarrow>
        length es \<le> limit \<and>
        kfsw_app_hk_parse_entries B (Some t) (Some arr) limit (Some n) =
          (if es = [] then (- EINVAL, Some arr, Some n)
           else (0, Some (es @ drop (length es) arr), Some (length es)))"
proof (cases "read_words B limit (space_words t) []")
  case (Inl err)
  moreover have "fst (parse_entries_loop B t arr limit 0) = err"
    using parse_entries_loop_read_words [of "[]" arr limit B t] assms Inl by simp
  moreover have "err \<noteq> 0" using read_words_err [OF Inl] by auto
  ultimately show ?thesis
    using assms by (auto simp: kfsw_app_hk_parse_entries_def split: prod.splits)
next
  case (Inr es)
  have "parse_entries_loop B t arr limit 0 = (0, es @ drop (length es) arr, length es)"
    using parse_entries_loop_read_words [of "[]" arr limit B t] assms Inr by simp
  with assms Inr read_words_room [OF Inr] show ?thesis
    by (simp add: kfsw_app_hk_parse_entries_def)
qed

theorem parse_entries_words_witness:
  "kfsw_app_hk_parse_entries sample_build (Some ''1:0 2:4  3:9:8'')
     (Some (replicate 4 \<lparr>entry_node = 0, entry_param_id = 0\<rparr>)) 4 (Some 0)
   = (0, Some [\<lparr>entry_node = 0, entry_param_id = 256\<rparr>, \<lparr>entry_node = 0, entry_param_id = 516\<rparr>,
               \<lparr>entry_node = 3, entry_param_id = 2312\<rparr>, \<lparr>entry_node = 0, entry_param_id = 0\<rparr>], Some 3)"
proof -
  let ?arr = "replicate 4 (\<lparr>entry_node = 0, entry_param_id = 0\<rparr> :: hk_entry)"
  have "read_words sample_build 4 (space_words ''1:0 2:4  3:9:8'') []
     = Inr [\<lparr>entry_node = 0, entry_param_id = 256\<rparr>, \<lparr>entry_node = 0, entry_param_id = 516\<rparr>,
            \<lparr>entry_node = 3, entry_param_id = 2312\<rparr>]"
    by (simp add: hk_eval)
  with parse_entries_words [of ?arr 4 sample_build "''1:0 2:4  3:9:8''" 0] show ?thesis
    by (simp add: numeral_eq_Suc)
qed

text \<open>
  A leading \<^verbatim>\<open>class=N\<close> in decimal, followed by the end or a space, is consumed with the spaces
  after it: a value up to \<^verbatim>\<open>KFSW_HK_CLASS_MAX\<close> is returned (it fits the byte, the limit being
  below 256), a larger one is \<^verbatim>\<open>-ERANGE\<close> with the text and the default class. A text that does not
  start with \<^verbatim>\<open>class=\<close> is left alone and means the default class.
\<close>

lemma parse_class_spec:
  assumes "v < 2 ^ ulong_bits B" and "r = [] \<or> hd0 r = CHR '' ''" and "KFSW_HK_CLASS_MAX B \<le> UINT8_MAX"
  shows "kfsw_app_hk_parse_class B (''class='' @ fmt_u v @ r) =
      (if v \<le> KFSW_HK_CLASS_MAX B then (0, dropWhile (\<lambda>c. c = CHR '' '') r, of_nat v)
       else (- ERANGE, ''class='' @ fmt_u v @ r, KFSW_HK_CLASS_DEFAULT B))
    \<and> (v \<le> KFSW_HK_CLASS_MAX B \<longrightarrow>
         unat (snd (snd (kfsw_app_hk_parse_class B (''class='' @ fmt_u v @ r)))) = v)
    \<and> (\<forall>s. \<not> starts_with ''class='' s \<longrightarrow>
         kfsw_app_hk_parse_class B s = (0, s, KFSW_HK_CLASS_DEFAULT B))"
proof -
  note eq = parse_class_decimal [OF assms(1,2)]
  have "unat (of_nat v :: u8) = v" if "v \<le> KFSW_HK_CLASS_MAX B"
    using that assms(3) by (simp add: unat_of_nat uint_max_defs)
  then show ?thesis unfolding eq by (simp add: kfsw_app_hk_parse_class_def)
qed

lemma parse_class_spec_witness:
  "kfsw_app_hk_parse_class sample_build (''class='' @ fmt_u 3 @ '' 3:0'') = (0, ''3:0'', 3)"
  using parse_class_spec [of 3 sample_build "'' 3:0''"] by (simp add: sample_build_def uint_max_defs)

text \<open>
  The digits after \<^verbatim>\<open>class=\<close> go to \<^verbatim>\<open>strtoul\<close> with no check of their own, so that a space or a sign
  is read with them, unlike in an entry.
\<close>

lemma class_space_and_sign_accepted:
  "kfsw_app_hk_parse_class sample_build ''class= 3 3:0'' = (0, ''3:0'', 3)"
  "kfsw_app_hk_parse_class sample_build ''class=-18446744073709551609 3:0'' = (0, ''3:0'', 7)"
  by (simp_all add: hk_eval)

end
