(* ===== verification/Hex_Text.thy ===== *)
theory Hex_Text
  imports Param_Def
begin

text \<open>
  Event payloads in hexadecimal. The command handlers print a payload into a character array with
  a loop over its bytes, once through \<^verbatim>\<open>snprintf(&text[i * 2], 3, "%02x", ...)\<close> and once through a
  table of digits (\<^verbatim>\<open>command_event_tail\<close> and \<^verbatim>\<open>command_journal_tail\<close> in
  \<^verbatim>\<open>src/app/src/commands/command_definitions.c\<close>). The loop is modelled once with its body as a
  parameter and every index checked; the locale \<open>hex_writer\<close> is what it needs of the body, and both
  bodies are instances.
\<close>

section \<open>The loop\<close>

text \<open>A write of some characters into an array; outside it, \<open>None\<close>.\<close>

definition write_at :: "char list \<Rightarrow> nat \<Rightarrow> char list \<Rightarrow> char list option" where
  "write_at buf pos t =
     (if pos + length t \<le> length buf then Some (take pos buf @ t @ drop (pos + length t) buf) else None)"

fun hex_loop ::
  "(char list \<Rightarrow> nat \<Rightarrow> u8 \<Rightarrow> char list option) \<Rightarrow> nat \<Rightarrow> nat \<Rightarrow> u8 list \<Rightarrow> char list \<Rightarrow> char list option" where
  "hex_loop put 0 i p buf = Some buf"
| "hex_loop put (Suc k) i p buf =
     (if i < length p then Option.bind (put buf i (p ! i)) (hex_loop put k (Suc i) p) else None)"

definition hex_text ::
  "(char list \<Rightarrow> nat \<Rightarrow> u8 \<Rightarrow> char list option) \<Rightarrow> char list \<Rightarrow> u8 list \<Rightarrow> nat \<Rightarrow> string option" where
  "hex_text put buf p n =
     Option.bind (hex_loop put n 0 p buf) (\<lambda>b. map_option cstr (write_at b (2 * n) [CHR 0x00]))"

text \<open>The two bodies.\<close>

definition put_snprintf :: "char list \<Rightarrow> nat \<Rightarrow> u8 \<Rightarrow> char list option" where
  "put_snprintf buf i x = write_at buf (i * 2) (snprintf 3 (fmt_x 2 (unat x)) @ [CHR 0x00])"

definition hex :: string where "hex = ''0123456789abcdef''"

definition put_table :: "char list \<Rightarrow> nat \<Rightarrow> u8 \<Rightarrow> char list option" where
  "put_table buf i x =
     Option.bind (write_at buf (2 * i) [hex ! unat (drop_bit 4 x)])
       (\<lambda>b. write_at b (2 * i + 1) [hex ! unat (x AND 15)])"

text \<open>\<^verbatim>\<open>snprintf(&buf[used], sizeof(buf) - used, ...)\<close> stays inside the array.\<close>

lemma write_snprintf:
  assumes "used < length buf"
  shows "\<exists>b. write_at buf used (snprintf (length buf - used) t @ [CHR 0x00]) = Some b \<and> length b = length buf"
proof -
  have "length (snprintf (length buf - used) t) < length buf - used"
    using assms by (intro length_snprintf) simp
  then show ?thesis by (auto simp: write_at_def)
qed

lemma write_snprintf_fits:
  "length t < length buf - used \<Longrightarrow>
   write_at buf used (snprintf (length buf - used) t @ [CHR 0x00]) =
     Some (take used buf @ t @ CHR 0x00 # drop (used + length t + 1) buf)"
  by (simp add: write_at_def snprintf_fits)

section \<open>What a body promises\<close>

definition hex_byte :: "u8 \<Rightarrow> string" where
  "hex_byte x = [digit_char (unat x div 16), digit_char (unat x mod 16)]"

lemma digit_char_not_nul: "n < 16 \<Longrightarrow> digit_char n \<noteq> CHR 0x00"
proof
  assume "n < 16" "digit_char n = CHR 0x00"
  then have "digit_val (CHR 0x00) = n" using digit_val_digit_char [of n] by simp
  with \<open>n < 16\<close> show False by (simp add: digit_val_def)
qed

lemma hex_byte_no_nul: "CHR 0x00 \<notin> set (hex_byte x)"
proof -
  have "unat x < 256" using unsigned_less [of x] by simp
  then have "unat x div 16 < 16" by (simp add: div_less_iff_less_mult)
  then show ?thesis
    using digit_char_not_nul [of "unat x div 16"] digit_char_not_nul [of "unat x mod 16"]
    by (simp add: hex_byte_def eq_commute)
qed

locale hex_writer =
  fixes put :: "char list \<Rightarrow> nat \<Rightarrow> u8 \<Rightarrow> char list option"
  assumes put_writes: "2 * i + 2 < length buf \<Longrightarrow>
    \<exists>b. put buf i x = Some b \<and> length b = length buf \<and> take (2 * i + 2) b = take (2 * i) buf @ hex_byte x"
begin

lemma loop_writes:
  assumes "i + k \<le> length p" "2 * (i + k) < length buf"
    and "take (2 * i) buf = concat (map hex_byte (take i p))"
  shows "\<exists>b. hex_loop put k i p buf = Some b \<and> length b = length buf \<and>
    take (2 * (i + k)) b = concat (map hex_byte (take (i + k) p))"
  using assms
proof (induction k arbitrary: i buf)
  case (Suc k)
  have "2 * i + 2 < length buf" using Suc.prems(2) by simp
  then obtain b where b: "put buf i (p ! i) = Some b" "length b = length buf"
      "take (2 * i + 2) b = take (2 * i) buf @ hex_byte (p ! i)"
    using put_writes by blast
  have "take (2 * Suc i) b = concat (map hex_byte (take (Suc i) p))"
    using b(3) Suc.prems by (simp add: take_Suc_conv_app_nth)
  then obtain c where "hex_loop put k (Suc i) p b = Some c" "length c = length b"
      "take (2 * (Suc i + k)) c = concat (map hex_byte (take (Suc i + k) p))"
    using Suc.IH [of "Suc i" b] Suc.prems b(2) by auto
  with b Suc.prems show ?case by simp
qed simp

lemma text_is_hex:
  assumes "n \<le> length p" "2 * n < length buf"
  shows "hex_text put buf p n = Some (concat (map hex_byte (take n p)))"
proof -
  obtain b where b: "hex_loop put n 0 p buf = Some b" "length b = length buf"
      "take (2 * n) b = concat (map hex_byte (take n p))"
    using loop_writes [of 0 n p buf] assms by auto
  have "cstr (concat (map hex_byte (take n p)) @ CHR 0x00 # drop (Suc (2 * n)) b)
      = concat (map hex_byte (take n p))"
    by (rule cstr_append) (auto simp: hex_byte_no_nul)
  with b assms show ?thesis by (simp add: hex_text_def write_at_def)
qed

end

section \<open>Both bodies keep it\<close>

lemma fmt_x_byte: "fmt_x 2 (unat (x :: u8)) = hex_byte x"
proof -
  have lt: "unat x < 256" using unsigned_less [of x] by simp
  show ?thesis
  proof (cases "unat x < 16")
    case True
    then show ?thesis by (simp add: fmt_x_def pad_zero_def hex_byte_def radix.simps)
  next
    case False
    with lt have "unat x div 16 < 16" by (simp add: div_less_iff_less_mult)
    with False show ?thesis
      by (simp add: fmt_x_def pad_zero_def hex_byte_def radix.simps [of 16 "unat x"]
          radix.simps [of 16 "unat x div 16"])
  qed
qed

lemma hex_nth: "k < 16 \<Longrightarrow> hex ! k = digit_char k"
proof -
  assume "k < 16"
  then have "k \<in> {0, 1, 2, 3, 4, 5, 6, 7, 8, 9, 10, 11, 12, 13, 14, 15}" by (simp only: insert_iff empty_iff) presburger
  then show ?thesis by (auto simp: hex_def digit_char_def char_of_def bit_0)
qed

interpretation snprintf_writer: hex_writer put_snprintf
proof
  fix i and x :: u8 and buf :: "char list"
  assume "2 * i + 2 < length buf"
  then show "\<exists>b. put_snprintf buf i x = Some b \<and> length b = length buf \<and>
      take (2 * i + 2) b = take (2 * i) buf @ hex_byte x"
    by (simp add: put_snprintf_def fmt_x_byte snprintf_def hex_byte_def write_at_def mult.commute)
qed

interpretation table_writer: hex_writer put_table
proof
  fix i and x :: u8 and buf :: "char list"
  assume len: "2 * i + 2 < length buf"
  have hi: "unat (drop_bit 4 x) = unat x div 16" by (simp add: drop_bit_eq_div unat_div)
  have lo: "unat (x AND 15) = unat x mod 16"
  proof -
    have "x AND 15 = take_bit 4 x" by (simp add: take_bit_eq_mask mask_eq_exp_minus_1)
    then show ?thesis by (simp add: take_bit_eq_mod unat_mod)
  qed
  have "unat x < 256" using unsigned_less [of x] by simp
  then have d: "unat x div 16 < 16" by (simp add: div_less_iff_less_mult)
  show "\<exists>b. put_table buf i x = Some b \<and> length b = length buf \<and>
      take (2 * i + 2) b = take (2 * i) buf @ hex_byte x"
    using len d by (auto simp: put_table_def hi lo hex_nth hex_byte_def write_at_def)
qed

text \<open>
  The two ways the command handlers print a payload, through \<^verbatim>\<open>snprintf\<close> and through a table
  of digits, write the same text into any array of twice the payload and one: two lower-case
  hexadecimal digits per byte, without touching anything outside the array.
\<close>

lemma hex_writers_agree:
  assumes "n \<le> length p" "2 * n + 1 \<le> length buf" "2 * n + 1 \<le> length buf'"
  shows "hex_text put_snprintf buf p n = Some (concat (map (\<lambda>x. fmt_x 2 (unat x)) (take n p))) \<and>
    hex_text put_table buf' p n = hex_text put_snprintf buf p n"
  using snprintf_writer.text_is_hex [of n p buf] table_writer.text_is_hex [of n p buf'] assms
  by (simp add: fmt_x_byte)

lemma hex_writers_agree_witness:
  "hex_text put_snprintf ''......'' [0x0f, 0xa2, 7] 2 = Some ''0fa2'' \<and>
   hex_text put_table ''......'' [0x0f, 0xa2, 7] 2 = Some ''0fa2''"
  using hex_writers_agree [of 2 "[0x0f, 0xa2, 7]" "''......''" "''......''"]
  by (simp add: fmt_x_def pad_zero_def radix.simps digit_char_def char_of_def bit_0)

end
