(* ===== verification/Commands.thy ===== *)
theory Commands
  imports Hk_Entries Hex_Text Param_System
begin

text \<open>
  The application's commands, \<^verbatim>\<open>src/app/src/commands/command_definitions.c\<close>: every handler, and the
  table the registry dispatches from. A handler gets the arguments, the source and the result the
  dispatcher prepared, and runs in the state monad over the services; \<open>None\<close> is an access outside
  the arguments or outside a payload buffer.
\<close>

section \<open>Arguments, results and services\<close>

datatype kfsw_command_type = KFSW_COMMAND_TYPE_U32 | KFSW_COMMAND_TYPE_I32 | KFSW_COMMAND_TYPE_TEXT

datatype kfsw_command_arg = Arg_u32 u32 | Arg_i32 int | Arg_text string

fun arg_type :: "kfsw_command_arg \<Rightarrow> kfsw_command_type" where
  "arg_type (Arg_u32 _) = KFSW_COMMAND_TYPE_U32"
| "arg_type (Arg_i32 _) = KFSW_COMMAND_TYPE_I32"
| "arg_type (Arg_text _) = KFSW_COMMAND_TYPE_TEXT"

text \<open>\<^verbatim>\<open>args[i].value.u32\<close> and \<^verbatim>\<open>args[i].value.text\<close>.\<close>

definition arg_u32 :: "kfsw_command_arg list \<Rightarrow> nat \<Rightarrow> u32 option" where
  "arg_u32 args i = (if i < length args then (case args ! i of Arg_u32 v \<Rightarrow> Some v | _ \<Rightarrow> None) else None)"

definition arg_text :: "kfsw_command_arg list \<Rightarrow> nat \<Rightarrow> string option" where
  "arg_text args i = (if i < length args then (case args ! i of Arg_text t \<Rightarrow> Some t | _ \<Rightarrow> None) else None)"

datatype kfsw_command_status =
    KFSW_COMMAND_OK | KFSW_COMMAND_INVALID_ARGUMENT | KFSW_COMMAND_DENIED | KFSW_COMMAND_BUSY
  | KFSW_COMMAND_FAILED | KFSW_COMMAND_UNAVAILABLE

record kfsw_command_result =
  status :: kfsw_command_status
  detail :: string

record kfsw_event_stats =
  held :: nat
  stat_capacity :: nat
  recorded :: nat
  overwritten :: nat
  rejected :: nat

record kfsw_event_record =
  sequence :: nat
  monotonic_us :: u64
  source :: nat
  rec_id :: nat
  severity :: nat
  payload_size :: nat
  payload :: "u8 list"

record kfsw_journal_stats =
  j_held :: nat
  j_queued :: nat
  j_dropped :: nat
  j_errors :: nat
  j_corrupt :: nat
  j_ready :: nat
  j_last_error :: int

record kfsw_journal_record =
  j_sequence :: nat
  j_boot :: nat
  j_event :: kfsw_event_record
  j_utc_seconds :: int
  j_utc_valid :: nat

text \<open>The services the handlers call, over the state \<open>'s\<close>.\<close>

record 's services =
  system_params :: "'s \<Rightarrow> system_state"
  k_uptime_get_32 :: "'s \<Rightarrow> u32"
  storage_ready :: "'s \<Rightarrow> bool"
  storage_free_bytes :: "'s \<Rightarrow> u64"
  kfsw_golden_install :: "'s \<Rightarrow> int \<times> 's"
  k_work_schedule_reboot :: "nat \<Rightarrow> 's \<Rightarrow> int \<times> 's"
  kfsw_lastwords_write :: "nat \<Rightarrow> u32 \<Rightarrow> nat \<Rightarrow> 's \<Rightarrow> unit \<times> 's"
  kfsw_boot_get_count :: "'s \<Rightarrow> nat"
  sys_reboot :: "'s \<Rightarrow> unit \<times> 's"
  kfsw_event_get_stats :: "'s \<Rightarrow> kfsw_event_stats"
  kfsw_event_get :: "u16 \<Rightarrow> 's \<Rightarrow> int \<times> kfsw_event_record"
  kfsw_event_source_name :: "nat \<Rightarrow> string"
  kfsw_hk_define_class :: "u8 \<Rightarrow> hk_entry list \<Rightarrow> u8 \<Rightarrow> 's \<Rightarrow> int \<times> 's"
  kfsw_hk_set_period :: "u8 \<Rightarrow> u32 \<Rightarrow> 's \<Rightarrow> int \<times> 's"
  kfsw_hk_clear :: "u8 \<Rightarrow> 's \<Rightarrow> int \<times> 's"
  hk_last_save_error :: "'s \<Rightarrow> int"
  kfsw_journal_get_stats :: "'s \<Rightarrow> kfsw_journal_stats"
  kfsw_journal_get :: "u16 \<Rightarrow> 's \<Rightarrow> int \<times> kfsw_journal_record"

type_synonym 's outcome = "('s, (int \<times> kfsw_command_result) option) act"

type_synonym 's handler = "kfsw_command_arg list \<Rightarrow> u16 \<Rightarrow> kfsw_command_result \<Rightarrow> 's outcome"

definition KFSW_COMMAND_REBOOT_DELAY_MS :: nat where "KFSW_COMMAND_REBOOT_DELAY_MS = 500"

text \<open>\<^verbatim>\<open>snprintf(result->detail, sizeof(result->detail), ...)\<close>.\<close>

definition put_detail :: "build \<Rightarrow> string \<Rightarrow> kfsw_command_result \<Rightarrow> kfsw_command_result" where
  "put_detail B s res = res\<lparr>detail := snprintf (KFSW_COMMAND_MAX_DETAIL_SIZE B) s\<rparr>"

definition reply :: "int \<Rightarrow> kfsw_command_result \<Rightarrow> 's outcome" where
  "reply rc res = ret (Some (rc, res))"

definition with_u32 :: "kfsw_command_arg list \<Rightarrow> nat \<Rightarrow> (u32 \<Rightarrow> 's outcome) \<Rightarrow> 's outcome" where
  "with_u32 args i k = (case arg_u32 args i of None \<Rightarrow> ret None | Some v \<Rightarrow> k v)"

definition with_text :: "kfsw_command_arg list \<Rightarrow> nat \<Rightarrow> (string \<Rightarrow> 's outcome) \<Rightarrow> 's outcome" where
  "with_text args i k = (case arg_text args i of None \<Rightarrow> ret None | Some t \<Rightarrow> k t)"

section \<open>Noop, info, reboot and recovery\<close>

definition command_noop :: "build \<Rightarrow> 's handler" where
  "command_noop B args node res =
     reply 0 (put_detail B (''noop from node '' @ fmt_u (unat node)) (res\<lparr>status := KFSW_COMMAND_OK\<rparr>))"

definition command_info :: "config \<Rightarrow> build \<Rightarrow> 's services \<Rightarrow> 's handler" where
  "command_info cfg B S args node res =
     (if cfg CONFIG_KFSW_STORAGE
      then do {
        up \<leftarrow> ask (k_uptime_get_32 S);
        rdy \<leftarrow> ask (storage_ready S);
        free \<leftarrow> ask (storage_free_bytes S);
        reply 0 ((put_detail B (''uptime_ms='' @ fmt_u (unat up) @ '' storage='' @
                   (if rdy then ''ready'' else ''down'') @ '' free_bytes='' @ fmt_u (unat free)) res)
                \<lparr>status := KFSW_COMMAND_OK\<rparr>)
      }
      else do {
        up \<leftarrow> ask (k_uptime_get_32 S);
        reply 0 ((put_detail B (''uptime_ms='' @ fmt_u (unat up) @ '' storage=absent'') res)
                \<lparr>status := KFSW_COMMAND_OK\<rparr>)
      })"

text \<open>The deferred work: a note for the next boot, then the reset.\<close>

definition reboot_work_handler :: "config \<Rightarrow> 's services \<Rightarrow> nat \<Rightarrow> ('s, unit) act" where
  "reboot_work_handler cfg S KFSW_LASTWORDS_COMMANDED = do {
     kfsw_log_warning ''Rebooting on command'';
     (if cfg CONFIG_KFSW_LASTWORDS then do {
        up \<leftarrow> ask (k_uptime_get_32 S);
        count \<leftarrow> ask (\<lambda>s. if cfg CONFIG_KFSW_PARAM then kfsw_boot_get_count S s else 0);
        call (kfsw_lastwords_write S KFSW_LASTWORDS_COMMANDED up count)
      } else ret ());
     call (sys_reboot S)
   }"

definition pin_accepted :: "config \<Rightarrow> 's services \<Rightarrow> string \<Rightarrow> 's \<Rightarrow> bool" where
  "pin_accepted cfg S t s =
     (if cfg CONFIG_KFSW_PARAM then kfsw_system_reboot_pin_matches (system_params S s) (Some t)
      else t = ''0000'')"

definition refuse_pin :: "build \<Rightarrow> string \<Rightarrow> u16 \<Rightarrow> kfsw_command_result \<Rightarrow> 's outcome" where
  "refuse_pin B what node res = do {
     kfsw_log_warning (what @ '' refused: node '' @ fmt_u (unat node) @ '' quoted the wrong pin'');
     reply (- EACCES) (put_detail B ''wrong pin'' (res\<lparr>status := KFSW_COMMAND_DENIED\<rparr>))
   }"

definition schedule_reboot ::
  "build \<Rightarrow> 's services \<Rightarrow> string \<Rightarrow> u16 \<Rightarrow> kfsw_command_result \<Rightarrow> 's outcome" where
  "schedule_reboot B S what node res = do {
     rc \<leftarrow> call (k_work_schedule_reboot S KFSW_COMMAND_REBOOT_DELAY_MS);
     if rc < 0 then reply (- EBUSY) (res\<lparr>status := KFSW_COMMAND_BUSY\<rparr>)
     else do {
       kfsw_log_warning (what @ '' requested by node '' @ fmt_u (unat node));
       reply 0 (put_detail B (''rebooting in '' @ fmt_u KFSW_COMMAND_REBOOT_DELAY_MS @ '' ms'')
                 (res\<lparr>status := KFSW_COMMAND_OK\<rparr>))
     }
   }"

definition command_golden_install :: "config \<Rightarrow> build \<Rightarrow> 's services \<Rightarrow> 's handler" where
  "command_golden_install cfg B S args node res =
     with_text args 0 (\<lambda>pin. do {
       ok \<leftarrow> ask (pin_accepted cfg S pin);
       if \<not> ok then refuse_pin B ''Recovery'' node res
       else do {
         outcome \<leftarrow> call (kfsw_golden_install S);
         if outcome \<noteq> 0
         then reply outcome
                (put_detail B (''install failed ('' @ fmt_d outcome @ '')'')
                  (res\<lparr>status := (if outcome = - ENOENT then KFSW_COMMAND_DENIED
                                  else KFSW_COMMAND_FAILED)\<rparr>))
         else schedule_reboot B S ''Recovery image'' node res
       }
     })"

definition command_reboot :: "config \<Rightarrow> build \<Rightarrow> 's services \<Rightarrow> 's handler" where
  "command_reboot cfg B S args node res =
     with_text args 0 (\<lambda>pin. do {
       ok \<leftarrow> ask (pin_accepted cfg S pin);
       if \<not> ok then refuse_pin B ''Reboot'' node res
       else schedule_reboot B S ''Reboot'' node res
     })"

section \<open>Events\<close>

definition command_event_stats :: "build \<Rightarrow> 's services \<Rightarrow> 's handler" where
  "command_event_stats B S args node res = do {
     st \<leftarrow> ask (kfsw_event_get_stats S);
     reply 0 ((put_detail B (''held='' @ fmt_u (held st) @ ''/'' @ fmt_u (stat_capacity st) @
                '' recorded='' @ fmt_u (recorded st) @ '' overwritten='' @ fmt_u (overwritten st) @
                '' rejected='' @ fmt_u (rejected st)) res)\<lparr>status := KFSW_COMMAND_OK\<rparr>)
   }"

text \<open>The payload loop and the terminator of \<^verbatim>\<open>command_event_tail\<close>.\<close>

definition event_payload_text :: "char list \<Rightarrow> kfsw_event_record \<Rightarrow> string option" where
  "event_payload_text buf r = hex_text put_snprintf buf (payload r) (payload_size r)"

definition command_event_tail :: "build \<Rightarrow> 's services \<Rightarrow> char list \<Rightarrow> 's handler" where
  "command_event_tail B S payload_text args node res =
     with_u32 args 0 (\<lambda>age.
       if UINT16_MAX < unat age
       then reply (- EINVAL) (res\<lparr>status := KFSW_COMMAND_INVALID_ARGUMENT\<rparr>)
       else do {
         got \<leftarrow> ask (kfsw_event_get S (ucast age));
         if fst got \<noteq> 0
         then reply (fst got) (put_detail B (''no record at age '' @ fmt_u (unat age))
                               (res\<lparr>status := KFSW_COMMAND_FAILED\<rparr>))
         else (case event_payload_text payload_text (snd got) of
                 None \<Rightarrow> ret None
               | Some text \<Rightarrow>
                   let r = snd got
                   in reply 0 ((put_detail B (''seq='' @ fmt_u (sequence r) @ '' t_ms='' @
                        fmt_u (unat (ucast (monotonic_us r div 1000) :: u32)) @ '' src='' @
                        kfsw_event_source_name S (source r) @ '' id='' @ fmt_u (rec_id r) @ '' sev='' @
                        fmt_u (severity r) @ '' data='' @ text) res)\<lparr>status := KFSW_COMMAND_OK\<rparr>))
       })"

section \<open>Housekeeping\<close>

text \<open>
  The tail the three handlers share: applied but not saved, refused, or done. Only a failure sets
  the status.
\<close>

definition hk_finish ::
  "build \<Rightarrow> 's services \<Rightarrow> int \<Rightarrow> string \<Rightarrow> string \<Rightarrow> kfsw_command_result \<Rightarrow> 's outcome" where
  "hk_finish B S outcome failed good res =
     (if outcome = KFSW_HK_APPLIED_UNSAVED B
      then do {
        e \<leftarrow> ask (hk_last_save_error S);
        reply outcome (put_detail B (''applied in RAM; save failed: '' @ fmt_d e)
                       (res\<lparr>status := KFSW_COMMAND_FAILED\<rparr>))
      }
      else if outcome \<noteq> 0
      then reply outcome (put_detail B (failed @ fmt_d outcome) (res\<lparr>status := KFSW_COMMAND_FAILED\<rparr>))
      else reply 0 (put_detail B good res))"

text \<open>Class and entries of a \<^verbatim>\<open>hk_define\<close> text, into the handler's array.\<close>

definition parse_definition :: "build \<Rightarrow> hk_entry list \<Rightarrow> string \<Rightarrow> int + hk_entry list \<times> u8" where
  "parse_definition B entries text =
     (case kfsw_app_hk_parse_class B text of (rc, rest, cls) \<Rightarrow>
        if rc \<noteq> 0 then Inl rc
        else (case kfsw_app_hk_parse_entries B (Some rest) (Some entries) (CONFIG_KFSW_HK_ENTRIES B) (Some 0) of
                (rc, es, count) \<Rightarrow>
                  if rc \<noteq> 0 then Inl rc else Inr (take (the count) (the es), cls)))"

definition command_hk_define :: "build \<Rightarrow> 's services \<Rightarrow> hk_entry list \<Rightarrow> 's handler" where
  "command_hk_define B S entries args node res =
     with_text args 1 (\<lambda>text. with_u32 args 0 (\<lambda>report.
       if UINT8_MAX < unat report
       then reply (- EINVAL) (res\<lparr>status := KFSW_COMMAND_INVALID_ARGUMENT\<rparr>)
       else (case parse_definition B entries text of
               Inl rc \<Rightarrow>
                 reply rc (put_detail B
                   (if rc = - ERANGE then ''class must be 0..7''
                    else if rc = - E2BIG
                    then ''more than '' @ fmt_u (CONFIG_KFSW_HK_ENTRIES B) @ '' entries''
                    else ''cannot read '' @ [CHR 0x27] @ text @ [CHR 0x27] @ '' as [node:]table:offset'')
                   (res\<lparr>status := KFSW_COMMAND_INVALID_ARGUMENT\<rparr>))
             | Inr (es, cls) \<Rightarrow> do {
                 outcome \<leftarrow> call (kfsw_hk_define_class S (ucast report) es cls);
                 hk_finish B S outcome (''define report '' @ fmt_u (unat report) @ '': '')
                   (''report '' @ fmt_u (unat report) @ '' defines '' @ fmt_u (length es) @ '' values'') res
               })))"

definition command_hk_period :: "build \<Rightarrow> 's services \<Rightarrow> 's handler" where
  "command_hk_period B S args node res =
     with_u32 args 0 (\<lambda>report.
       if UINT8_MAX < unat report
       then reply (- EINVAL) (res\<lparr>status := KFSW_COMMAND_INVALID_ARGUMENT\<rparr>)
       else with_u32 args 1 (\<lambda>period. do {
         outcome \<leftarrow> call (kfsw_hk_set_period S (ucast report) period);
         hk_finish B S outcome (''period for report '' @ fmt_u (unat report) @ '': '')
           (''report '' @ fmt_u (unat report) @ '' every '' @ fmt_u (unat period) @ '' ms'') res
       }))"

definition command_hk_clear :: "build \<Rightarrow> 's services \<Rightarrow> 's handler" where
  "command_hk_clear B S args node res =
     with_u32 args 0 (\<lambda>report.
       if UINT8_MAX < unat report
       then reply (- EINVAL) (res\<lparr>status := KFSW_COMMAND_INVALID_ARGUMENT\<rparr>)
       else do {
         outcome \<leftarrow> call (kfsw_hk_clear S (ucast report));
         hk_finish B S outcome (''clear report '' @ fmt_u (unat report) @ '': '')
           (''report '' @ fmt_u (unat report) @ '' cleared'') res
       })"

section \<open>The journal\<close>

definition command_journal_stats :: "build \<Rightarrow> 's services \<Rightarrow> 's handler" where
  "command_journal_stats B S args node res = do {
     st \<leftarrow> ask (kfsw_journal_get_stats S);
     reply 0 (put_detail B (''held='' @ fmt_u (j_held st) @ '' queued='' @ fmt_u (j_queued st) @
               '' drop='' @ fmt_u (j_dropped st) @ '' err='' @ fmt_u (j_errors st) @
               '' bad='' @ fmt_u (j_corrupt st) @ '' ready='' @ fmt_u (j_ready st) @
               '' last='' @ fmt_d (j_last_error st)) (res\<lparr>status := KFSW_COMMAND_OK\<rparr>))
   }"

text \<open>The record of an age, with the status and the detail of a failed read already set.\<close>

definition journal_record ::
  "build \<Rightarrow> 's services \<Rightarrow> u32 \<Rightarrow> kfsw_command_result
     \<Rightarrow> ('s, int \<times> kfsw_journal_record option \<times> kfsw_command_result) act" where
  "journal_record B S age res = do {
     got \<leftarrow> ask (\<lambda>s. if unat age \<le> UINT16_MAX
                      then map_prod id Some (kfsw_journal_get S (ucast age) s)
                      else (- EINVAL, None));
     ret (fst got, snd got,
          if fst got = - ENOENT
          then put_detail B (''no record at age '' @ fmt_u (unat age)) (res\<lparr>status := KFSW_COMMAND_FAILED\<rparr>)
          else if fst got \<noteq> 0
          then put_detail B (''journal read: '' @ fmt_d (fst got)) (res\<lparr>status := KFSW_COMMAND_UNAVAILABLE\<rparr>)
          else res\<lparr>status := KFSW_COMMAND_OK\<rparr>)
   }"

text \<open>The payload loop and the terminator of \<^verbatim>\<open>command_journal_tail\<close>.\<close>

definition journal_payload_text :: "char list \<Rightarrow> kfsw_event_record \<Rightarrow> string option" where
  "journal_payload_text buf r = hex_text put_table buf (payload r) (payload_size r)"

definition command_journal_tail :: "build \<Rightarrow> 's services \<Rightarrow> char list \<Rightarrow> 's handler" where
  "command_journal_tail B S data args node res =
     with_u32 args 0 (\<lambda>age. do {
       (rc, r, res') \<leftarrow> journal_record B S age res;
       if rc \<noteq> 0 then reply 0 res'
       else (case Option.bind r (\<lambda>r. map_option (Pair r) (journal_payload_text data (j_event r))) of
               None \<Rightarrow> ret None
             | Some (r, text) \<Rightarrow>
                 reply 0 (put_detail B (''seq='' @ fmt_u (j_sequence r) @ '' boot='' @ fmt_u (j_boot r) @
                   '' src='' @ kfsw_event_source_name S (source (j_event r)) @ '' id='' @
                   fmt_u (rec_id (j_event r)) @ '' sev='' @ fmt_u (severity (j_event r)) @
                   '' data='' @ text) res'))
     })"

definition command_journal_time :: "build \<Rightarrow> 's services \<Rightarrow> 's handler" where
  "command_journal_time B S args node res =
     with_u32 args 0 (\<lambda>age. do {
       (rc, r, res') \<leftarrow> journal_record B S age res;
       if rc = 0
       then (case r of
               None \<Rightarrow> ret None
             | Some r \<Rightarrow>
                 reply 0 (put_detail B (''seq='' @ fmt_u (j_sequence r) @ '' up_us='' @
                   fmt_u (unat (monotonic_us (j_event r))) @ '' utc='' @ fmt_d (j_utc_seconds r) @
                   '' valid='' @ fmt_u (j_utc_valid r)) res'))
       else reply 0 res'
     })"

section \<open>The table\<close>

record 's kfsw_command_definition =
  cmd_id :: nat
  cmd_name :: string
  cmd_help :: string
  mutating :: bool
  arg_count :: nat
  arg_types :: "kfsw_command_type list"
  handler_fn :: "'s handler"

definition KFSW_COMMAND_ID_NOOP :: nat where "KFSW_COMMAND_ID_NOOP = 1"
definition KFSW_COMMAND_ID_INFO :: nat where "KFSW_COMMAND_ID_INFO = 2"
definition KFSW_COMMAND_ID_REBOOT :: nat where "KFSW_COMMAND_ID_REBOOT = 3"
definition KFSW_COMMAND_ID_GOLDEN_INSTALL :: nat where "KFSW_COMMAND_ID_GOLDEN_INSTALL = 24"
definition KFSW_COMMAND_ID_EVENT_STATS :: nat where "KFSW_COMMAND_ID_EVENT_STATS = 4"
definition KFSW_COMMAND_ID_EVENT_TAIL :: nat where "KFSW_COMMAND_ID_EVENT_TAIL = 5"
definition KFSW_COMMAND_ID_HK_DEFINE :: nat where "KFSW_COMMAND_ID_HK_DEFINE = 6"
definition KFSW_COMMAND_ID_HK_PERIOD :: nat where "KFSW_COMMAND_ID_HK_PERIOD = 7"
definition KFSW_COMMAND_ID_HK_CLEAR :: nat where "KFSW_COMMAND_ID_HK_CLEAR = 8"
definition KFSW_COMMAND_ID_JOURNAL_STATS :: nat where "KFSW_COMMAND_ID_JOURNAL_STATS = 9"
definition KFSW_COMMAND_ID_JOURNAL_TAIL :: nat where "KFSW_COMMAND_ID_JOURNAL_TAIL = 10"
definition KFSW_COMMAND_ID_JOURNAL_TIME :: nat where "KFSW_COMMAND_ID_JOURNAL_TIME = 11"

lemmas command_ids =
  KFSW_COMMAND_ID_NOOP_def KFSW_COMMAND_ID_INFO_def KFSW_COMMAND_ID_REBOOT_def
  KFSW_COMMAND_ID_GOLDEN_INSTALL_def KFSW_COMMAND_ID_EVENT_STATS_def KFSW_COMMAND_ID_EVENT_TAIL_def
  KFSW_COMMAND_ID_HK_DEFINE_def KFSW_COMMAND_ID_HK_PERIOD_def KFSW_COMMAND_ID_HK_CLEAR_def
  KFSW_COMMAND_ID_JOURNAL_STATS_def KFSW_COMMAND_ID_JOURNAL_TAIL_def KFSW_COMMAND_ID_JOURNAL_TIME_def

text \<open>What the handlers' automatic arrays hold before they are written.\<close>

record scratch =
  payload_text_buf :: "char list"
  data_buf :: "char list"
  entries_arr :: "hk_entry list"

definition scratch_ok :: "build \<Rightarrow> scratch \<Rightarrow> bool" where
  "scratch_ok B x \<longleftrightarrow>
     length (payload_text_buf x) = KFSW_EVENT_MAX_PAYLOAD_SIZE B * 2 + 1 \<and>
     length (data_buf x) = KFSW_EVENT_MAX_PAYLOAD_SIZE B * 2 + 1 \<and>
     length (entries_arr x) = CONFIG_KFSW_HK_ENTRIES B"

definition journal_commands :: "build \<Rightarrow> 's services \<Rightarrow> scratch \<Rightarrow> 's kfsw_command_definition list" where
  "journal_commands B S x =
    [\<lparr>cmd_id = KFSW_COMMAND_ID_JOURNAL_STATS, cmd_name = ''journal_stats'',
      cmd_help = ''Read persistent journal status.'', mutating = False, arg_count = 0, arg_types = [],
      handler_fn = command_journal_stats B S\<rparr>,
     \<lparr>cmd_id = KFSW_COMMAND_ID_JOURNAL_TAIL, cmd_name = ''journal_tail'',
      cmd_help = ''Read a journal event by age, newest is 0.'', mutating = False, arg_count = 1,
      arg_types = [KFSW_COMMAND_TYPE_U32], handler_fn = command_journal_tail B S (data_buf x)\<rparr>,
     \<lparr>cmd_id = KFSW_COMMAND_ID_JOURNAL_TIME, cmd_name = ''journal_time'',
      cmd_help = ''Read a journal event's sequence and time by age.'', mutating = False, arg_count = 1,
      arg_types = [KFSW_COMMAND_TYPE_U32], handler_fn = command_journal_time B S\<rparr>]"

definition event_commands :: "build \<Rightarrow> 's services \<Rightarrow> scratch \<Rightarrow> 's kfsw_command_definition list" where
  "event_commands B S x =
    [\<lparr>cmd_id = KFSW_COMMAND_ID_EVENT_STATS, cmd_name = ''event_stats'',
      cmd_help = ''Report event record counters.'', mutating = False, arg_count = 0, arg_types = [],
      handler_fn = command_event_stats B S\<rparr>,
     \<lparr>cmd_id = KFSW_COMMAND_ID_EVENT_TAIL, cmd_name = ''event_tail'',
      cmd_help = ''Read one recorded event by age, newest is 0.'', mutating = False, arg_count = 1,
      arg_types = [KFSW_COMMAND_TYPE_U32], handler_fn = command_event_tail B S (payload_text_buf x)\<rparr>]"

definition hk_commands :: "build \<Rightarrow> 's services \<Rightarrow> scratch \<Rightarrow> 's kfsw_command_definition list" where
  "hk_commands B S x =
    [\<lparr>cmd_id = KFSW_COMMAND_ID_HK_DEFINE, cmd_name = ''hk_define'',
      cmd_help = ''Name what a report collects: <report> '' @ [CHR 0x22] @
        ''[class=N] [node:]table:offset ...'' @ [CHR 0x22] @ ''.'',
      mutating = False, arg_count = 2, arg_types = [KFSW_COMMAND_TYPE_U32, KFSW_COMMAND_TYPE_TEXT],
      handler_fn = command_hk_define B S (entries_arr x)\<rparr>,
     \<lparr>cmd_id = KFSW_COMMAND_ID_HK_PERIOD, cmd_name = ''hk_period'',
      cmd_help = ''Collect repeatedly: hk_period <report> <ms>, 0 to stop.'', mutating = False,
      arg_count = 2, arg_types = [KFSW_COMMAND_TYPE_U32, KFSW_COMMAND_TYPE_U32],
      handler_fn = command_hk_period B S\<rparr>,
     \<lparr>cmd_id = KFSW_COMMAND_ID_HK_CLEAR, cmd_name = ''hk_clear'',
      cmd_help = ''Forget a report: hk_clear <report>.'', mutating = False, arg_count = 1,
      arg_types = [KFSW_COMMAND_TYPE_U32], handler_fn = command_hk_clear B S\<rparr>]"

definition app_commands ::
  "config \<Rightarrow> build \<Rightarrow> 's services \<Rightarrow> scratch \<Rightarrow> 's kfsw_command_definition list" where
  "app_commands cfg B S x =
    (if cfg CONFIG_KFSW_JOURNAL then journal_commands B S x else []) @
    [\<lparr>cmd_id = KFSW_COMMAND_ID_NOOP, cmd_name = ''noop'', cmd_help = ''Round trip with no effect.'',
      mutating = False, arg_count = 0, arg_types = [], handler_fn = command_noop B\<rparr>,
     \<lparr>cmd_id = KFSW_COMMAND_ID_INFO, cmd_name = ''info'',
      cmd_help = ''Report uptime and storage state.'', mutating = False, arg_count = 0,
      arg_types = [], handler_fn = command_info cfg B S\<rparr>] @
    (if cfg CONFIG_KFSW_EVENT then event_commands B S x else []) @
    (if cfg CONFIG_KFSW_HK then hk_commands B S x else []) @
    (if cfg CONFIG_KFSW_GOLDEN then
      [\<lparr>cmd_id = KFSW_COMMAND_ID_GOLDEN_INSTALL, cmd_name = ''golden_install'',
        cmd_help = ''Install the recovery image and restart: golden_install <pin>.'', mutating = True,
        arg_count = 1, arg_types = [KFSW_COMMAND_TYPE_TEXT],
        handler_fn = command_golden_install cfg B S\<rparr>] else []) @
    (if cfg CONFIG_REBOOT then
      [\<lparr>cmd_id = KFSW_COMMAND_ID_REBOOT, cmd_name = ''reboot'',
        cmd_help = ''Reset this node after a short delay: reboot <pin>.'', mutating = True,
        arg_count = 1, arg_types = [KFSW_COMMAND_TYPE_TEXT],
        handler_fn = command_reboot cfg B S\<rparr>] else [])"

section \<open>Results\<close>

text \<open>A complete result: the handler returned, and the detail is terminated inside its buffer.\<close>

definition complete :: "build \<Rightarrow> (int \<times> kfsw_command_result) option \<Rightarrow> bool" where
  "complete B r \<longleftrightarrow>
     (\<exists>rc res. r = Some (rc, res) \<and> length (detail res) < KFSW_COMMAND_MAX_DETAIL_SIZE B)"

definition detail_fits :: "build \<Rightarrow> kfsw_command_result \<Rightarrow> bool" where
  "detail_fits B res \<longleftrightarrow> length (detail res) < KFSW_COMMAND_MAX_DETAIL_SIZE B"

lemma detail_fits_put [simp]:
  "detail_fits B res \<Longrightarrow> detail_fits B (put_detail B s res)"
  "detail_fits B res \<Longrightarrow> detail_fits B (res\<lparr>status := st\<rparr>)"
  by (auto simp: detail_fits_def put_detail_def intro: length_snprintf)

lemma ends_reply [ends_intros]: "detail_fits B res \<Longrightarrow> ends (complete B) (reply rc res)"
  by (simp add: reply_def ends_def complete_def detail_fits_def)

lemma quiet_reply [quiet_intros]: "quiet (reply rc res)"
  by (simp add: reply_def quiet_ret)

lemma quiet_with_u32 [quiet_intros]: "(\<And>v. quiet (k v)) \<Longrightarrow> quiet (with_u32 args i k)"
  by (simp add: with_u32_def quiet_ret split: option.splits)

lemma quiet_with_text [quiet_intros]: "(\<And>v. quiet (k v)) \<Longrightarrow> quiet (with_text args i k)"
  by (simp add: with_text_def quiet_ret split: option.splits)

lemma quiet_case_option [quiet_intros]:
  "quiet a \<Longrightarrow> (\<And>x. quiet (f x)) \<Longrightarrow> quiet (case o' of None \<Rightarrow> a | Some x \<Rightarrow> f x)"
  by (cases o') auto

lemma quiet_case_prod [quiet_intros]: "(\<And>x y. quiet (f x y)) \<Longrightarrow> quiet (case p of (x, y) \<Rightarrow> f x y)"
  by (cases p) auto

lemma with_arg [simp]:
  "with_u32 (Arg_u32 v # as) 0 k = k v" "with_u32 (a # Arg_u32 v # as) (Suc 0) k = k v"
  "with_text (Arg_text t # as) 0 k2 = k2 t" "with_text (a # Arg_text t # as) (Suc 0) k2 = k2 t"
  by (simp_all add: with_u32_def with_text_def arg_u32_def arg_text_def)

lemma arg_type_inv:
  "arg_type a = KFSW_COMMAND_TYPE_U32 \<longleftrightarrow> (\<exists>v. a = Arg_u32 v)"
  "arg_type a = KFSW_COMMAND_TYPE_TEXT \<longleftrightarrow> (\<exists>t. a = Arg_text t)"
  by (cases a; simp)+

lemma quiet_journal_record [quiet_intros]: "quiet (journal_record B S age res)"
  unfolding journal_record_def by (intro quiet_intros)

lemma quiet_hk_finish [quiet_intros]: "quiet (hk_finish B S rc f g res)"
  unfolding hk_finish_def by (intro quiet_intros)

lemma quiet_refuse_pin [quiet_intros]: "quiet (refuse_pin B what node res)"
  unfolding refuse_pin_def by (intro quiet_intros)

lemma quiet_read_commands:
  "quiet (command_noop B args node res)" "quiet (command_info cfg B S args node res)"
  "quiet (command_event_stats B S args node res)" "quiet (command_event_tail B S buf args node res)"
  "quiet (command_journal_stats B S args node res)" "quiet (command_journal_tail B S buf args node res)"
  "quiet (command_journal_time B S args node res)"
  unfolding command_noop_def command_info_def command_event_stats_def command_event_tail_def
    command_journal_stats_def command_journal_tail_def command_journal_time_def Let_def
  by (intro quiet_intros)+

lemma ends_hk_finish: "detail_fits B res \<Longrightarrow> ends (complete B) (hk_finish B S rc f g res)"
  unfolding hk_finish_def by (intro ends_intros ends_ask_bind detail_fits_put)

lemma ends_schedule: "detail_fits B res \<Longrightarrow> ends (complete B) (schedule_reboot B S what node res)"
  unfolding schedule_reboot_def by (intro ends_intros ends_bind detail_fits_put)

lemma ends_refuse: "detail_fits B res \<Longrightarrow> ends (complete B) (refuse_pin B what node res)"
  unfolding refuse_pin_def by (intro ends_intros ends_bind detail_fits_put)

text \<open>What the event and journal services return on success: a payload that fits its array.\<close>

definition record_fits :: "build \<Rightarrow> kfsw_event_record \<Rightarrow> bool" where
  "record_fits B r \<longleftrightarrow> payload_size r \<le> KFSW_EVENT_MAX_PAYLOAD_SIZE B \<and>
     length (payload r) = KFSW_EVENT_MAX_PAYLOAD_SIZE B"

definition records_fit :: "build \<Rightarrow> 's services \<Rightarrow> bool" where
  "records_fit B S \<longleftrightarrow>
     (\<forall>age s. fst (kfsw_event_get S age s) = 0 \<longrightarrow> record_fits B (snd (kfsw_event_get S age s))) \<and>
     (\<forall>age s. fst (kfsw_journal_get S age s) = 0 \<longrightarrow> record_fits B (j_event (snd (kfsw_journal_get S age s))))"

lemma event_payload_total:
  "record_fits B r \<Longrightarrow> length buf = KFSW_EVENT_MAX_PAYLOAD_SIZE B * 2 + 1 \<Longrightarrow>
   \<exists>t. event_payload_text buf r = Some t \<and> journal_payload_text buf r = Some t"
  by (simp add: event_payload_text_def journal_payload_text_def record_fits_def
      snprintf_writer.text_is_hex table_writer.text_is_hex)

lemma ends_event_tail:
  assumes "records_fit B S" "length buf = KFSW_EVENT_MAX_PAYLOAD_SIZE B * 2 + 1" "detail_fits B res"
  shows "ends (complete B) (command_event_tail B S buf [Arg_u32 age] node res)"
  unfolding command_event_tail_def with_arg
proof (intro ends_intros ends_ask_bind)
  fix s assume "\<not> fst (kfsw_event_get S (ucast age) s) \<noteq> 0"
  then obtain t where "event_payload_text buf (snd (kfsw_event_get S (ucast age) s)) = Some t"
    using assms(1,2) event_payload_total unfolding records_fit_def by blast
  then show "ends (complete B) (case event_payload_text buf (snd (kfsw_event_get S (ucast age) s)) of
      None \<Rightarrow> ret None
    | Some text \<Rightarrow> let r = snd (kfsw_event_get S (ucast age) s)
        in reply 0 ((put_detail B (''seq='' @ fmt_u (sequence r) @ '' t_ms='' @
              fmt_u (unat (ucast (monotonic_us r div 1000) :: u32)) @ '' src='' @
              kfsw_event_source_name S (source r) @ '' id='' @ fmt_u (rec_id r) @ '' sev='' @
              fmt_u (severity r) @ '' data='' @ text) res)\<lparr>status := KFSW_COMMAND_OK\<rparr>))"
    using assms(3) by (simp add: Let_def ends_reply)
qed (use assms(3) in simp_all)

lemma journal_cases:
  assumes "records_fit B S" "detail_fits B res"
    and "\<And>r res'. record_fits B (j_event r) \<Longrightarrow> detail_fits B res' \<Longrightarrow> ends P (f (0, Some r, res'))"
    and "\<And>rc r res'. rc \<noteq> 0 \<Longrightarrow> detail_fits B res' \<Longrightarrow> ends P (f (rc, r, res'))"
  shows "ends P (journal_record B S age res \<bind> f)"
proof -
  have "P (fst (run_state (f (fst (run_state (journal_record B S age res) w))) w))" for w
  proof -
    obtain rc r res' where e: "fst (run_state (journal_record B S age res) w) = (rc, r, res')" by (metis prod_cases3)
    have "detail_fits B res'" using e assms(2) by (auto simp: journal_record_def split: if_splits)
    moreover have "rc = 0 \<Longrightarrow> \<exists>r'. r = Some r' \<and> record_fits B (j_event r')"
      using e assms(1) by (auto simp: journal_record_def records_fit_def split: if_splits)
    ultimately show ?thesis
      using assms(3,4) e unfolding ends_def by (cases "rc = 0") auto
  qed
  then show ?thesis
    using quiet_journal_record [of B S age res] by (simp add: ends_def journal_record_def)
qed

lemma ends_journal_tail:
  assumes "records_fit B S" "length buf = KFSW_EVENT_MAX_PAYLOAD_SIZE B * 2 + 1" "detail_fits B res"
  shows "ends (complete B) (command_journal_tail B S buf [Arg_u32 age] node res)"
  unfolding command_journal_tail_def with_arg
proof (rule journal_cases [OF assms(1,3)])
  fix r res' assume "record_fits B (j_event r)" and fits: "detail_fits B res'"
  then obtain t where "journal_payload_text buf (j_event r) = Some t"
    using assms(2) event_payload_total by blast
  with fits show "ends (complete B) (case (0, Some r, res') of (rc, r, res') \<Rightarrow>
      if rc \<noteq> 0 then reply 0 res'
      else (case Option.bind r (\<lambda>r. map_option (Pair r) (journal_payload_text buf (j_event r))) of
               None \<Rightarrow> ret None
             | Some (r, text) \<Rightarrow>
                 reply 0 (put_detail B (''seq='' @ fmt_u (j_sequence r) @ '' boot='' @ fmt_u (j_boot r) @
                   '' src='' @ kfsw_event_source_name S (source (j_event r)) @ '' id='' @
                   fmt_u (rec_id (j_event r)) @ '' sev='' @ fmt_u (severity (j_event r)) @
                   '' data='' @ text) res')))"
    by (simp add: ends_reply)
qed (simp add: ends_reply)

lemma ends_journal_time:
  assumes "records_fit B S" "detail_fits B res"
  shows "ends (complete B) (command_journal_time B S [Arg_u32 age] node res)"
  unfolding command_journal_time_def with_arg
  by (rule journal_cases [OF assms]) (simp_all add: ends_reply)

lemma ends_plain:
  assumes "detail_fits B res"
  shows "ends (complete B) (command_noop B args node res)"
    "ends (complete B) (command_info cfg B S args node res)"
    "ends (complete B) (command_event_stats B S args node res)"
    "ends (complete B) (command_journal_stats B S args node res)"
    "ends (complete B) (command_hk_period B S [Arg_u32 a, Arg_u32 b] node res)"
    "ends (complete B) (command_hk_clear B S [Arg_u32 a] node res)"
    "ends (complete B) (command_reboot cfg B S [Arg_text t] node res)"
    "ends (complete B) (command_golden_install cfg B S [Arg_text t] node res)"
  unfolding command_noop_def command_info_def command_event_stats_def command_journal_stats_def
    command_hk_period_def command_hk_clear_def command_reboot_def command_golden_install_def
    with_arg One_nat_def
  by (intro ends_intros ends_bind ends_hk_finish ends_schedule ends_refuse detail_fits_put assms)+

lemma ends_hk_define:
  assumes "detail_fits B res"
  shows "ends (complete B) (command_hk_define B S es [Arg_u32 a, Arg_text t] node res)"
proof (cases "parse_definition B es t")
  case (Inl rc)
  with assms show ?thesis
    by (simp add: command_hk_define_def ends_reply)
next
  case (Inr p)
  obtain e c where "p = (e, c)" by fastforce
  with Inr assms show ?thesis
    by (simp add: command_hk_define_def ends_reply ends_bind ends_hk_finish)
qed

lemmas command_lists = app_commands_def journal_commands_def event_commands_def hk_commands_def

lemma ends_handler:
  assumes "c \<in> set (app_commands cfg B S x)" "map arg_type args = arg_types c"
    and "scratch_ok B x" "records_fit B S" "detail_fits B res"
  shows "ends (complete B) (handler_fn c args node res)"
  using assms
  by (auto simp: command_lists scratch_ok_def arg_type_inv ends_plain ends_hk_define ends_event_tail
      ends_journal_tail ends_journal_time map_eq_Cons_conv split: if_splits)

text \<open>
  C5. Called with arguments of the types its definition declares, every command of every
  composition returns: it reads no argument beyond those declared and none as another type, writes
  no payload digit outside its array, and leaves a detail text that is terminated inside
  \<^verbatim>\<open>result->detail\<close>. The records the event and journal services return are assumed to have a
  payload of at most \<^verbatim>\<open>KFSW_EVENT_MAX_PAYLOAD_SIZE\<close> bytes.
\<close>

theorem commands_complete:
  assumes "c \<in> set (app_commands cfg B S x)" "map arg_type args = arg_types c"
    and "scratch_ok B x" "records_fit B S" "detail_fits B res"
  shows "complete B (fst (run_state (handler_fn c args node res) w))"
  using ends_handler [OF assms] by (simp add: ends_def)

definition command_key :: "'s kfsw_command_definition \<Rightarrow> nat \<times> string" where
  "command_key c = (cmd_id c, cmd_name c)"

definition all_command_keys :: "(nat \<times> string) list" where
  "all_command_keys =
    [(9, ''journal_stats''), (10, ''journal_tail''), (11, ''journal_time''), (1, ''noop''), (2, ''info''),
     (4, ''event_stats''), (5, ''event_tail''), (6, ''hk_define''), (7, ''hk_period''),
     (8, ''hk_clear''), (24, ''golden_install''), (3, ''reboot'')]"

lemma command_keys_subseq: "subseq (map command_key (app_commands cfg B S x)) all_command_keys"
proof -
  have all: "all_command_keys =
      [(9, ''journal_stats''), (10, ''journal_tail''), (11, ''journal_time'')] @
      [(1, ''noop''), (2, ''info'')] @ [(4, ''event_stats''), (5, ''event_tail'')] @
      [(6, ''hk_define''), (7, ''hk_period''), (8, ''hk_clear'')] @ [(24, ''golden_install'')] @ [(3, ''reboot'')]"
    by (simp add: all_command_keys_def)
  show ?thesis
    unfolding all app_commands_def map_append
    by (intro list_emb_append_mono)
      (simp_all add: command_key_def journal_commands_def event_commands_def hk_commands_def command_ids)
qed

lemma command_types_ok:
  "c \<in> set (app_commands cfg B S x) \<Longrightarrow> length (arg_types c) = arg_count c \<and> arg_count c \<le> 4"
  by (auto simp: command_lists split: if_splits)

text \<open>
  In every composition the commands have pairwise different IDs and names and declare as many
  argument types as arguments, at most four.
\<close>

lemma command_table_unique:
  "distinct (map cmd_id (app_commands cfg B S x)) \<and> distinct (map cmd_name (app_commands cfg B S x)) \<and>
   list_all (\<lambda>c. length (arg_types c) = arg_count c \<and> arg_count c \<le> 4) (app_commands cfg B S x)"
proof (intro conjI)
  have keys: "map cmd_id cs = map fst (map command_key cs)" "map cmd_name cs = map snd (map command_key cs)"
    for cs :: "'a kfsw_command_definition list" by (simp_all add: command_key_def)
  show "distinct (map cmd_id (app_commands cfg B S x))"
    unfolding keys by (rule distinct_subseq, rule subseq_map, rule command_keys_subseq)
      (simp add: all_command_keys_def)
  show "distinct (map cmd_name (app_commands cfg B S x))"
    unfolding keys by (rule distinct_subseq, rule subseq_map, rule command_keys_subseq)
      (simp add: all_command_keys_def)
  show "list_all (\<lambda>c. length (arg_types c) = arg_count c \<and> arg_count c \<le> 4) (app_commands cfg B S x)"
    unfolding list_all_iff by (intro ballI command_types_ok)
qed

text \<open>
  C38. A command that is not marked as changing something, other than the three housekeeping ones,
  leaves every service as it found it, whatever its arguments.
\<close>

theorem unmarked_commands_quiet:
  assumes "c \<in> set (app_commands cfg B S x)" "\<not> mutating c"
    and "cmd_id c \<notin> {KFSW_COMMAND_ID_HK_DEFINE, KFSW_COMMAND_ID_HK_PERIOD, KFSW_COMMAND_ID_HK_CLEAR}"
  shows "svc (snd (run_state (handler_fn c args node res) w)) = svc w"
proof -
  have "quiet (handler_fn c args node res)"
    using assms by (auto simp: command_lists quiet_read_commands split: if_splits)
  then show ?thesis by (rule quietD)
qed

text \<open>
  C8. With the parameter service, a node quotes the stored pin or neither \<^verbatim>\<open>reboot\<close> nor
  \<^verbatim>\<open>golden_install\<close> does anything: the services stay as they were, the command is denied and the
  refusal is logged. With the stored pin \<^verbatim>\<open>reboot\<close> schedules the reset once and answers busy or
  accepted by what the scheduler said.
\<close>

theorem reboot_needs_stored_pin:
  assumes "cfg CONFIG_KFSW_PARAM"
    and "pin = cstr (system_reboot_pin (system_params S (svc w)))"
  shows "(t \<noteq> pin \<longrightarrow>
      run_state (command_reboot cfg B S [Arg_text t] node res) w =
        (Some (- EACCES, put_detail B ''wrong pin'' (res\<lparr>status := KFSW_COMMAND_DENIED\<rparr>)),
         w\<lparr>out := out w @ [Log_warning (''Reboot refused: node '' @ fmt_u (unat node) @ '' quoted the wrong pin'')]\<rparr>) \<and>
      run_state (command_golden_install cfg B S [Arg_text t] node res) w =
        (Some (- EACCES, put_detail B ''wrong pin'' (res\<lparr>status := KFSW_COMMAND_DENIED\<rparr>)),
         w\<lparr>out := out w @ [Log_warning (''Recovery refused: node '' @ fmt_u (unat node) @ '' quoted the wrong pin'')]\<rparr>)) \<and>
    (t = pin \<longrightarrow>
      svc (snd (run_state (command_reboot cfg B S [Arg_text t] node res) w)) =
        snd (k_work_schedule_reboot S 500 (svc w)) \<and>
      map_option (status \<circ> snd) (fst (run_state (command_reboot cfg B S [Arg_text t] node res) w)) =
        Some (if fst (k_work_schedule_reboot S 500 (svc w)) < 0 then KFSW_COMMAND_BUSY else KFSW_COMMAND_OK))"
  using assms
  by (auto simp: command_reboot_def command_golden_install_def pin_accepted_def pin_matches_iff
      refuse_pin_def schedule_reboot_def reply_def put_detail_def KFSW_COMMAND_REBOOT_DELAY_MS_def)

text \<open>Services over the list of calls that change something, for the witnesses.\<close>

datatype effect = Scheduled nat | Installed | Defined u8 "hk_entry list" u8 | Period u8 u32 | Cleared u8

definition sample_record :: kfsw_event_record where
  "sample_record = \<lparr>sequence = 7, monotonic_us = 12345678, source = 1, rec_id = 3, severity = 2,
     payload_size = 2, payload = [0xab, 0x01] @ replicate 14 0\<rparr>"

definition sample_services :: "effect list services" where
  "sample_services =
     \<lparr>system_params = (\<lambda>_. system_state_init None), k_uptime_get_32 = (\<lambda>_. 1000),
      storage_ready = (\<lambda>_. True), storage_free_bytes = (\<lambda>_. 4096),
      kfsw_golden_install = (\<lambda>s. (0, s @ [Installed])),
      k_work_schedule_reboot = (\<lambda>ms s. (1, s @ [Scheduled ms])),
      kfsw_lastwords_write = (\<lambda>_ _ _ s. ((), s)), kfsw_boot_get_count = (\<lambda>_. 4), sys_reboot = (\<lambda>s. ((), s)),
      kfsw_event_get_stats = (\<lambda>_. \<lparr>held = 1, stat_capacity = 8, recorded = 1, overwritten = 0, rejected = 0\<rparr>),
      kfsw_event_get = (\<lambda>_ _. (0, sample_record)), kfsw_event_source_name = (\<lambda>_. ''boot''),
      kfsw_hk_define_class = (\<lambda>r es c s. (0, s @ [Defined r es c])),
      kfsw_hk_set_period = (\<lambda>r p s. (0, s @ [Period r p])), kfsw_hk_clear = (\<lambda>r s. (0, s @ [Cleared r])),
      hk_last_save_error = (\<lambda>_. 0),
      kfsw_journal_get_stats = (\<lambda>_. \<lparr>j_held = 1, j_queued = 0, j_dropped = 0, j_errors = 0, j_corrupt = 0,
        j_ready = 1, j_last_error = 0\<rparr>),
      kfsw_journal_get = (\<lambda>_ _. (0, \<lparr>j_sequence = 7, j_boot = 4, j_event = sample_record,
        j_utc_seconds = 0, j_utc_valid = 0\<rparr>))\<rparr>"

definition sample_scratch :: scratch where
  "sample_scratch = \<lparr>payload_text_buf = replicate 33 (CHR 0x00), data_buf = replicate 33 (CHR 0x00),
     entries_arr = replicate 8 \<lparr>entry_node = 0, entry_param_id = 0\<rparr>\<rparr>"

definition sample_result :: kfsw_command_result where
  "sample_result = \<lparr>status = KFSW_COMMAND_OK, detail = []\<rparr>"

theorem reboot_needs_stored_pin_witness:
  "svc (snd (run_state (command_reboot (\<lambda>_. True) sample_build sample_services [Arg_text ''0000''] 5 sample_result)
      \<lparr>svc = [], out = []\<rparr>)) = [Scheduled 500] \<and>
   svc (snd (run_state (command_reboot (\<lambda>_. True) sample_build sample_services [Arg_text ''0007''] 5 sample_result)
      \<lparr>svc = [], out = []\<rparr>)) = []"
  using reboot_needs_stored_pin [of "\<lambda>_. True" "''0000''" sample_services "\<lparr>svc = [], out = []\<rparr>" "''0000''"
      sample_build 5 sample_result]
    reboot_needs_stored_pin [of "\<lambda>_. True" "''0000''" sample_services "\<lparr>svc = [], out = []\<rparr>" "''0007''"
      sample_build 5 sample_result]
  by (simp add: sample_services_def system_state_init_def cstr_cbuf)

theorem commands_complete_witness:
  "complete sample_build (fst (run_state
     (command_event_tail sample_build sample_services (payload_text_buf sample_scratch) [Arg_u32 0] 5 sample_result)
     \<lparr>svc = [], out = []\<rparr>))"
proof -
  let ?c = "event_commands sample_build sample_services sample_scratch ! 1"
  have c: "?c \<in> set (app_commands (\<lambda>_. True) sample_build sample_services sample_scratch)"
    by (simp add: app_commands_def event_commands_def)
  have "scratch_ok sample_build sample_scratch" "records_fit sample_build sample_services"
    "detail_fits sample_build sample_result"
    by (simp_all add: scratch_ok_def sample_scratch_def sample_build_def records_fit_def record_fits_def
        sample_services_def sample_record_def detail_fits_def sample_result_def)
  from commands_complete [OF c _ this, of "[Arg_u32 0]"] show ?thesis
    by (simp add: event_commands_def)
qed

theorem unmarked_commands_quiet_witness:
  "svc (snd (run_state (command_noop sample_build [] 5 sample_result) \<lparr>svc = [Installed], out = []\<rparr>)) = [Installed]"
proof -
  have "app_commands (\<lambda>_. False) sample_build sample_services sample_scratch ! 0
      \<in> set (app_commands (\<lambda>_. False) sample_build sample_services sample_scratch)"
    by (simp add: app_commands_def)
  from unmarked_commands_quiet [OF this, of "[]" 5 sample_result "\<lparr>svc = [Installed], out = []\<rparr>"]
  show ?thesis by (simp add: app_commands_def command_ids)
qed

text \<open>
  The three housekeeping commands are not marked either, and they do change the service; the
  recovery command has an ID outside the range 1 to 15 its header reserves for the set.
\<close>

lemma hk_clear_unmarked_changes:
  "\<exists>c \<in> set (app_commands (\<lambda>_. True) sample_build sample_services sample_scratch).
     \<not> mutating c \<and>
     svc (snd (run_state (handler_fn c [Arg_u32 2] 5 sample_result) \<lparr>svc = [], out = []\<rparr>)) = [Cleared 2]"
proof
  let ?c = "hk_commands sample_build sample_services sample_scratch ! 2"
  show "?c \<in> set (app_commands (\<lambda>_. True) sample_build sample_services sample_scratch)"
    by (simp add: app_commands_def hk_commands_def)
  show "\<not> mutating ?c \<and>
     svc (snd (run_state (handler_fn ?c [Arg_u32 2] 5 sample_result) \<lparr>svc = [], out = []\<rparr>)) = [Cleared 2]"
    by (simp add: hk_commands_def command_hk_clear_def hk_finish_def reply_def sample_services_def
        uint_max_defs sample_build_def)
qed

lemma golden_install_id_unreserved:
  "\<exists>c \<in> set (app_commands (\<lambda>_. True) B S x). cmd_name c = ''golden_install'' \<and> cmd_id c = 24"
  by (simp add: app_commands_def command_ids)

section \<open>Defining a report\<close>

lemma parse_entries_split:
  assumes "length arr = CONFIG_KFSW_HK_ENTRIES B"
  shows "case read_words B (CONFIG_KFSW_HK_ENTRIES B) (space_words t) [] of
      Inl err \<Rightarrow> fst (kfsw_app_hk_parse_entries B (Some t) (Some arr) (CONFIG_KFSW_HK_ENTRIES B) (Some 0)) \<noteq> 0
    | Inr es \<Rightarrow>
        if es = [] then fst (kfsw_app_hk_parse_entries B (Some t) (Some arr) (CONFIG_KFSW_HK_ENTRIES B) (Some 0)) \<noteq> 0
        else kfsw_app_hk_parse_entries B (Some t) (Some arr) (CONFIG_KFSW_HK_ENTRIES B) (Some 0) =
          (0, Some (es @ drop (length es) arr), Some (length es))"
proof (cases "CONFIG_KFSW_HK_ENTRIES B = 0")
  case True
  have "read_words B 0 ws [] = Inr es \<Longrightarrow> es = []" for ws es by (cases ws) (auto split: if_splits)
  with True show ?thesis by (auto simp: kfsw_app_hk_parse_entries_def split: sum.splits)
next
  case False
  note loop = parse_entries_loop_read_words [of "[]" arr "CONFIG_KFSW_HK_ENTRIES B" B t]
  show ?thesis
  proof (cases "read_words B (CONFIG_KFSW_HK_ENTRIES B) (space_words t) []")
    case (Inl err)
    with loop assms have "fst (parse_entries_loop B t arr (CONFIG_KFSW_HK_ENTRIES B) 0) = err" by simp
    with False Inl read_words_err [OF Inl] show ?thesis
      by (auto simp: kfsw_app_hk_parse_entries_def split: prod.splits)
  next
    case (Inr es)
    with loop assms False show ?thesis by (simp add: kfsw_app_hk_parse_entries_def)
  qed
qed

text \<open>What a \<^verbatim>\<open>hk_define\<close> text means: its class and the entries its words name.\<close>

definition definition_of :: "build \<Rightarrow> string \<Rightarrow> (hk_entry list \<times> u8) option" where
  "definition_of B text =
     (case kfsw_app_hk_parse_class B text of (rc, rest, cls) \<Rightarrow>
        if rc \<noteq> 0 then None
        else (case read_words B (CONFIG_KFSW_HK_ENTRIES B) (space_words rest) [] of
                Inl err \<Rightarrow> None
              | Inr es \<Rightarrow> if es = [] then None else Some (es, cls)))"

lemma parse_definition_spec:
  assumes "length arr = CONFIG_KFSW_HK_ENTRIES B"
  shows "case parse_definition B arr text of
      Inl rc \<Rightarrow> rc \<noteq> 0 \<and> definition_of B text = None
    | Inr d \<Rightarrow> definition_of B text = Some d"
proof -
  obtain rc rest c where pc: "kfsw_app_hk_parse_class B text = (rc, rest, c)" by (metis prod_cases3)
  show ?thesis
    using parse_entries_split [OF assms, of rest]
    by (auto simp: parse_definition_def definition_of_def pc split: sum.splits if_splits prod.splits)
qed

lemma svc_hk_finish: "svc (snd (run_state (hk_finish B S rc f g res) w)) = svc w"
  by (rule quietD) (rule quiet_hk_finish)

lemma command_hk_define_svc:
  assumes "length arr = CONFIG_KFSW_HK_ENTRIES B" "unat report \<le> UINT8_MAX"
  shows "svc (snd (run_state (command_hk_define B S arr [Arg_u32 report, Arg_text text] node res) w)) =
    (case definition_of B text of None \<Rightarrow> svc w
     | Some (es, cls) \<Rightarrow> snd (kfsw_hk_define_class S (ucast report) es cls (svc w)))"
  using parse_definition_spec [OF assms(1), of "text"] assms(2)
  by (cases "parse_definition B arr text") (auto simp: command_hk_define_def reply_def svc_hk_finish split_beta)

text \<open>
  C6. \<^verbatim>\<open>hk_define\<close> reaches the housekeeping service in exactly one case: the report fits a byte, the
  text starts with an acceptable class or none, and the words after it are one to
  \<^verbatim>\<open>CONFIG_KFSW_HK_ENTRIES\<close> valid entries. Then it defines exactly those entries, in order, with
  that class, for that report; in every other case the service is not touched and the result is an
  invalid argument.
\<close>

theorem hk_define_effect:
  assumes "length arr = CONFIG_KFSW_HK_ENTRIES B"
  shows "let (r, w') = run_state (command_hk_define B S arr [Arg_u32 report, Arg_text text] node res) w in
    (case definition_of B text of
       Some (es, cls) \<Rightarrow>
         if unat report \<le> UINT8_MAX
         then svc w' = snd (kfsw_hk_define_class S (ucast report) es cls (svc w)) \<and>
              unat (ucast report :: u8) = unat report
         else svc w' = svc w \<and> r = Some (- EINVAL, res\<lparr>status := KFSW_COMMAND_INVALID_ARGUMENT\<rparr>)
     | None \<Rightarrow>
         svc w' = svc w \<and>
         (\<exists>rc res'. r = Some (rc, res') \<and> rc \<noteq> 0 \<and> status res' = KFSW_COMMAND_INVALID_ARGUMENT))"
proof (cases "unat report \<le> UINT8_MAX")
  case False
  then show ?thesis
    by (auto simp: command_hk_define_def reply_def split: option.splits)
next
  case True
  then have byte: "unat (ucast report :: u8) = unat report"
    by (simp add: uint_max_defs unsigned_ucast_eq take_bit_eq_mod)
  from True show ?thesis
    using parse_definition_spec [OF assms, of "text"]
    by (cases "parse_definition B arr text")
      (auto simp: command_hk_define_def reply_def put_detail_def svc_hk_finish split_beta byte
        simp del: split_paired_Ex)
qed

theorem hk_define_effect_witness:
  "svc (snd (run_state (command_hk_define sample_build sample_services (entries_arr sample_scratch)
      [Arg_u32 2, Arg_text ''class=3 1:4 5:2:0''] 9 sample_result) \<lparr>svc = [], out = []\<rparr>)) =
   [Defined 2 [\<lparr>entry_node = 0, entry_param_id = 260\<rparr>, \<lparr>entry_node = 5, entry_param_id = 512\<rparr>] 3]"
proof -
  have "definition_of sample_build ''class=3 1:4 5:2:0'' =
      Some ([\<lparr>entry_node = 0, entry_param_id = 260\<rparr>, \<lparr>entry_node = 5, entry_param_id = 512\<rparr>], 3)"
    by (simp add: definition_of_def hk_eval)
  then show ?thesis
    using hk_define_effect [of "entries_arr sample_scratch" sample_build sample_services 2
        "''class=3 1:4 5:2:0''" 9 sample_result "\<lparr>svc = [], out = []\<rparr>"]
    by (simp add: sample_scratch_def sample_build_def sample_services_def uint_max_defs split_beta)
qed

end
