(* ===== verification/Startup.thy ===== *)
theory Startup
  imports Param_System
begin

text \<open>
  \<^verbatim>\<open>main\<close> of \<^verbatim>\<open>src/app/src/main.c\<close>: the start-up sequence, phase by phase in the order of the file, and
  the report loop. The services it starts are outside this repository: what a call returns and does
  to them is the parameter \<open>perform\<close>, every call is recorded with its result in \<open>trace\<close>, and the
  locals of \<^verbatim>\<open>main\<close> that live across phases are fields of the state. Each \<^verbatim>\<open>#if\<close> is a test of the
  build switches, so that one development covers every composition.
\<close>

section \<open>State\<close>

text \<open>
  The calls of \<^verbatim>\<open>main\<close>. A function without a result counts as returning 0; \<^verbatim>\<open>kfsw_hk_get_stats\<close>
  stands for the \<^verbatim>\<open>last_load_error\<close> it fills in.
\<close>

datatype service_call =
    kfsw_platform_watchdog_init | kfsw_platform_watchdog_start | kfsw_radio_uhf_get_info
  | kfsw_storage_init | kfsw_storage_mount | kfsw_boot_diagnostics_start
  | kfsw_boot_confirm_image | kfsw_storage_tmp_mount | kfsw_param_init "string list"
  | kfsw_param_persist_load | kfsw_boot_count_restart | kfsw_param_persist_save
  | k_sleep_ms nat | kfsw_button_test_init | kfsw_fbo_init | kfsw_temp_example_init
  | kfsw_command_init "string list" | kfsw_csp_set_revision | kfsw_radio_uhf_crypto_init
  | kfsw_csp_init | kfsw_param_server_start | kfsw_csp_start | kfsw_radio_uhf_crypto_connect
  | kfsw_log_remote_server_start | kfsw_fwu_files_mount | kfsw_ftp_init | kfsw_ftp_start
  | kfsw_fwu_lite_server_start | kfsw_remexec_init | kfsw_remexec_server_start
  | kfsw_command_server_start | kfsw_hk_init | kfsw_hk_get_stats | kfsw_hk_start
  | kfsw_hk_server_start | kfsw_resmon_start | kfsw_scrub_start | kfsw_limits_init
  | kfsw_gndwdt_start | kfsw_health_register_app nat | kfsw_csp_liveness_start
  | kfsw_health_start | kfsw_shell_prompt_apply | kfsw_shell_echo_apply
  | kfsw_lastwords_watch_supply | kfsw_clock_from_host | kfsw_journal_start
  | kfsw_boot_service_start | kfsw_health_report_app

text \<open>Texts and numbers of the build that \<^verbatim>\<open>main\<close> only prints, and the deadline it registers.\<close>

record boot_build =
  CONFIG_KFSW_WATCHDOG_TIMEOUT_MS :: nat
  KFSW_STORAGE_MOUNT_POINT :: string
  KFSW_STORAGE_TMP_MOUNT_POINT :: string
  CSP_ADDRESS :: nat
  PARAM_PORT :: nat
  FTP_CSP_PORT :: nat
  FWU_LITE_CSP_PORT :: nat
  REMEXEC_CSP_PORT :: nat
  COMMAND_CSP_PORT :: nat
  CONFIG_KFSW_APP_HEALTH_DEADLINE_MS :: nat

record 's boot_services =
  perform :: "service_call \<Rightarrow> 's \<Rightarrow> int \<times> 's"
  radio_info :: "'s \<Rightarrow> string \<times> nat"
  uart_info :: "'s \<Rightarrow> string \<times> nat"
  boot_system :: "'s \<Rightarrow> system_state"

record 's boot =
  services_state :: 's
  trace :: "(service_call \<times> int) list"
  log_lines :: "line list"
  startup_failures :: u32
  csp_started :: bool
  health_watching :: bool

type_synonym ('s, 'a) boot_act = "('s boot, 'a) state"

abbreviation bret :: "'a \<Rightarrow> ('s, 'a) boot_act" where "bret \<equiv> State_Monad.return"

definition modify_boot :: "('s boot \<Rightarrow> 's boot) \<Rightarrow> ('s, unit) boot_act" where
  "modify_boot f = State (\<lambda>b. ((), f b))"

definition read_boot :: "('s boot \<Rightarrow> 'a) \<Rightarrow> ('s, 'a) boot_act" where
  "read_boot f = State (\<lambda>b. (f b, b))"

definition logs :: "line \<Rightarrow> ('s, unit) boot_act" where
  "logs l = modify_boot (\<lambda>b. b\<lparr>log_lines := log_lines b @ [l]\<rparr>)"

definition invoke :: "'s boot_services \<Rightarrow> service_call \<Rightarrow> ('s, int) boot_act" where
  "invoke S c = State (\<lambda>b.
     let (rc, s') = perform S c (services_state b)
     in (rc, b\<lparr>services_state := s', trace := trace b @ [(c, rc)]\<rparr>))"

text \<open>\<^verbatim>\<open>startup_failures++\<close> and the error log.\<close>

definition failed :: "string \<Rightarrow> ('s, unit) boot_act" where
  "failed msg = do {
     modify_boot (\<lambda>b. b\<lparr>startup_failures := startup_failures b + 1\<rparr>);
     logs (Log_error msg)
   }"

text \<open>
  The shape most steps have: call, and on a result other than 0 count and log it, otherwise log
  what was started, if anything.
\<close>

definition start_step ::
  "'s boot_services \<Rightarrow> service_call \<Rightarrow> (int \<Rightarrow> string) \<Rightarrow> string option \<Rightarrow> ('s, int) boot_act" where
  "start_step S c err good = do {
     rc \<leftarrow> invoke S c;
     (if rc \<noteq> 0 then failed (err rc) else (case good of None \<Rightarrow> bret () | Some m \<Rightarrow> logs (Log_info m)));
     bret rc
   }"

definition only_if :: "bool \<Rightarrow> ('s, unit) boot_act \<Rightarrow> ('s, unit) boot_act" where
  "only_if p m = (if p then m else bret ())"

definition step :: "'s boot_services \<Rightarrow> service_call \<Rightarrow> (int \<Rightarrow> string) \<Rightarrow> string option \<Rightarrow> ('s, unit) boot_act" where
  "step S c err good = do { rc \<leftarrow> start_step S c err good; bret () }"

section \<open>Phases\<close>

definition boot_watchdog :: "config \<Rightarrow> boot_build \<Rightarrow> 's boot_services \<Rightarrow> ('s, unit) boot_act" where
  "boot_watchdog cfg K S = only_if (cfg CONFIG_KFSW_WATCHDOG) (do {
     rc \<leftarrow> invoke S kfsw_platform_watchdog_init;
     if rc = - ENODEV then logs (Log_info ''No watchdog device bound; running unguarded'')
     else if rc \<noteq> 0 then failed (''Failed to initialize the watchdog: '' @ fmt_d rc)
     else only_if (cfg CONFIG_KFSW_WATCHDOG_AUTO_START)
       (step S kfsw_platform_watchdog_start (\<lambda>rc. ''Failed to start the watchdog: '' @ fmt_d rc)
         (Some (''Watchdog armed with a '' @ fmt_u (CONFIG_KFSW_WATCHDOG_TIMEOUT_MS K) @ '' ms timeout'')))
   })"

definition boot_radio :: "config \<Rightarrow> 's boot_services \<Rightarrow> ('s, unit) boot_act" where
  "boot_radio cfg S = only_if (cfg CONFIG_KFSW_RADIO_UHF) (do {
     rc \<leftarrow> invoke S kfsw_radio_uhf_get_info;
     if rc \<noteq> 0 then failed (''Failed to read UHF radio composition: '' @ fmt_d rc)
     else do {
       info \<leftarrow> read_boot (\<lambda>b. radio_info S (services_state b));
       logs (Log_info (''UHF radio selected: '' @ fst info @ ''; expected serial '' @ fmt_u (snd info) @ '' baud''))
     }
   })"

definition boot_storage :: "config \<Rightarrow> boot_build \<Rightarrow> 's boot_services \<Rightarrow> ('s, unit) boot_act" where
  "boot_storage cfg K S = only_if (cfg CONFIG_KFSW_STORAGE) (do {
     r0 \<leftarrow> invoke S kfsw_storage_init;
     rc \<leftarrow> (if r0 = 0 then invoke S kfsw_storage_mount else bret r0);
     if rc \<noteq> 0 then failed (''Failed to mount storage: '' @ fmt_d rc)
     else logs (Log_info (''Storage mounted at '' @ KFSW_STORAGE_MOUNT_POINT K))
   })"

definition boot_image :: "config \<Rightarrow> boot_build \<Rightarrow> 's boot_services \<Rightarrow> ('s, unit) boot_act" where
  "boot_image cfg K S = do {
     only_if (cfg CONFIG_BOOTLOADER_MCUBOOT \<and> cfg CONFIG_MCUBOOT_IMG_MANAGER)
       (step S kfsw_boot_diagnostics_start (\<lambda>rc. ''Boot trial diagnostics unavailable: '' @ fmt_d rc) None);
     only_if (cfg CONFIG_KFSW_BOOT_CONFIRM_AT_START)
       (step S kfsw_boot_confirm_image (\<lambda>rc. ''Could not confirm this image: '' @ fmt_d rc) None);
     only_if (cfg CONFIG_KFSW_STORAGE_TMP)
       (step S kfsw_storage_tmp_mount
         (\<lambda>rc. ''Failed to mount '' @ KFSW_STORAGE_TMP_MOUNT_POINT K @ '': '' @ fmt_d rc) None)
   }"

definition opt :: "bool \<Rightarrow> string \<Rightarrow> string list" where
  "opt p s = (if p then [s] else [])"

definition parameter_sets :: "config \<Rightarrow> string list" where
  "parameter_sets cfg =
     [''kfsw_board_param_definitions'', ''kfsw_system_param_definitions'',
      ''kfsw_telemetry_param_definitions''] @
     opt (cfg CONFIG_KFSW_CSP) ''kfsw_csp_param_definitions'' @
     opt (cfg CONFIG_KFSW_STORAGE) ''kfsw_storage_param_definitions'' @
     opt (cfg CONFIG_KFSW_WATCHDOG) ''kfsw_watchdog_param_definitions'' @
     opt (cfg CONFIG_KFSW_PARAM_TEST_DEFINITIONS) ''kfsw_test_param_definitions'' @
     [''kfsw_log_param_definitions'', ''kfsw_param_param_definitions'', ''kfsw_boot_param_definitions''] @
     opt (cfg CONFIG_KFSW_EVENT) ''kfsw_event_param_definitions'' @
     opt (cfg CONFIG_KFSW_GNDWDT) ''kfsw_gndwdt_param_definitions'' @
     opt (cfg CONFIG_KFSW_RESMON) ''kfsw_resmon_param_definitions'' @
     opt (cfg CONFIG_KFSW_SCRUB) ''kfsw_scrub_param_definitions'' @
     opt (cfg CONFIG_KFSW_LIMITS) ''kfsw_limits_param_definitions'' @
     opt (cfg CONFIG_KFSW_HK) ''kfsw_hk_param_definitions'' @
     opt (cfg CONFIG_KFSW_FBO) ''kfsw_fbo_param_definitions'' @
     opt (cfg CONFIG_KFSW_COMMAND) ''kfsw_command_param_definitions'' @
     opt (cfg CONFIG_KFSW_FTP) ''kfsw_ftp_param_definitions'' @
     opt (cfg CONFIG_KFSW_FWU) ''kfsw_fwu_param_definitions'' @
     opt (cfg CONFIG_KFSW_HEALTH) ''kfsw_health_param_definitions'' @
     opt (cfg CONFIG_KFSW_TABLE) ''kfsw_table_param_definitions'' @
     opt (cfg CONFIG_KFSW_REMEXEC) ''kfsw_remexec_param_definitions'' @
     opt (cfg CONFIG_KFSW_RADIO_UHF) ''kfsw_radio_uhf_param_definitions'' @
     opt (cfg CONFIG_KFSW_BUTTON_TEST) ''kfsw_button_test_param_definitions'' @
     opt (cfg CONFIG_KFSW_TEMPERATURE_SENSOR_EXAMPLE) ''kfsw_temp_example_param_definitions''"

text \<open>
  The parameters: on success the snapshot is loaded, the restart count continues from it and is
  written back only if there was one, and the configured delay is slept.
\<close>

definition boot_restore :: "config \<Rightarrow> 's boot_services \<Rightarrow> ('s, bool) boot_act" where
  "boot_restore cfg S =
     (if cfg CONFIG_KFSW_PARAM_PERSISTENCE then do {
        rc \<leftarrow> invoke S kfsw_param_persist_load;
        (if rc = - ENOENT then logs (Log_info ''No parameter snapshot; using compiled defaults'')
         else if rc \<noteq> 0
         then failed (''Parameter snapshot restore failed ('' @ fmt_d rc @ ''); using defaults'')
         else logs (Log_info ''Persistent parameters restored''));
        bret (rc = 0)
      } else bret False)"

definition boot_delay :: "'s boot_services \<Rightarrow> ('s, unit) boot_act" where
  "boot_delay S = do {
     ms \<leftarrow> read_boot (\<lambda>b. unat (kfsw_system_boot_delay_ms (boot_system S (services_state b))));
     only_if (ms \<noteq> 0) (do {
       logs (Log_info (''Delaying service start by '' @ fmt_u ms @ '' ms''));
       rc \<leftarrow> invoke S (k_sleep_ms ms);
       bret ()
     })
   }"

definition boot_params :: "config \<Rightarrow> 's boot_services \<Rightarrow> ('s, unit) boot_act" where
  "boot_params cfg S = only_if (cfg CONFIG_KFSW_PARAM) (do {
     rc \<leftarrow> start_step S (kfsw_param_init (parameter_sets cfg))
       (\<lambda>rc. ''Failed to initialize parameters: '' @ fmt_d rc) (Some ''Parameter table initialized'');
     only_if (rc = 0) (do {
       had_snapshot \<leftarrow> boot_restore cfg S;
       r \<leftarrow> invoke S kfsw_boot_count_restart;
       only_if (cfg CONFIG_KFSW_PARAM_PERSISTENCE \<and> had_snapshot)
         (step S kfsw_param_persist_save (\<lambda>rc. ''Could not record the restart count ('' @ fmt_d rc @ '')'') None);
       boot_delay S
     })
   })"

definition boot_modules :: "config \<Rightarrow> 's boot_services \<Rightarrow> ('s, unit) boot_act" where
  "boot_modules cfg S = do {
     only_if (cfg CONFIG_KFSW_BUTTON_TEST)
       (step S kfsw_button_test_init (\<lambda>rc. ''Failed to initialize button_test: '' @ fmt_d rc)
         (Some ''button_test initialized''));
     only_if (cfg CONFIG_KFSW_FBO)
       (step S kfsw_fbo_init (\<lambda>rc. ''Failed to initialize file based operations: '' @ fmt_d rc) None);
     only_if (cfg CONFIG_KFSW_TEMPERATURE_SENSOR_EXAMPLE)
       (step S kfsw_temp_example_init (\<lambda>rc. ''Failed to initialize the temperature example: '' @ fmt_d rc)
         (Some ''Temperature example initialized''))
   }"

definition command_sets :: "config \<Rightarrow> string list" where
  "command_sets cfg =
     [''kfsw_app_command_definitions''] @
     opt (cfg CONFIG_KFSW_FBO) ''kfsw_fbo_command_definitions'' @
     opt (cfg CONFIG_KFSW_GNDWDT) ''kfsw_gndwdt_command_definitions'' @
     opt (cfg CONFIG_KFSW_TEMPERATURE_SENSOR_EXAMPLE) ''kfsw_temp_example_command_definitions''"

definition boot_commands :: "config \<Rightarrow> 's boot_services \<Rightarrow> ('s, unit) boot_act" where
  "boot_commands cfg S = only_if (cfg CONFIG_KFSW_COMMAND)
     (step S (kfsw_command_init (command_sets cfg)) (\<lambda>rc. ''Failed to initialize commands: '' @ fmt_d rc)
       (Some ''Command registry initialized''))"

definition boot_router :: "config \<Rightarrow> boot_build \<Rightarrow> 's boot_services \<Rightarrow> ('s, unit) boot_act" where
  "boot_router cfg K S = do {
     r \<leftarrow> invoke S kfsw_csp_set_revision;
     only_if (cfg CONFIG_KFSW_RADIO_UHF_CRYPTO)
       (step S kfsw_radio_uhf_crypto_init (\<lambda>rc. ''Radio protection initialization: '' @ fmt_d rc) None);
     rc \<leftarrow> start_step S kfsw_csp_init (\<lambda>rc. ''Failed to initialize CSP: '' @ fmt_d rc)
       (Some (''CSP initialized as node '' @ fmt_u (CSP_ADDRESS K)));
     only_if (rc = 0) (do {
       only_if (cfg CONFIG_KFSW_CSP_KISS_UART) (do {
         info \<leftarrow> read_boot (\<lambda>b. uart_info S (services_state b));
         logs (Log_info (''CSP KISS UART initialized on '' @ fst info @ '' at '' @ fmt_u (snd info) @ '' baud''))
       });
       only_if (cfg CONFIG_KFSW_PARAM_CSP)
         (step S kfsw_param_server_start (\<lambda>rc. ''Failed to start parameter server: '' @ fmt_d rc)
           (Some (''Parameter server started on CSP port '' @ fmt_u (PARAM_PORT K))));
       rs \<leftarrow> invoke S kfsw_csp_start;
       if rs \<noteq> 0 then failed (''Failed to start CSP router: '' @ fmt_d rs)
       else do {
         modify_boot (\<lambda>b. b\<lparr>csp_started := True\<rparr>);
         logs (Log_info ''CSP router started'');
         only_if (cfg CONFIG_KFSW_RADIO_UHF_CRYPTO) (do { r \<leftarrow> invoke S kfsw_radio_uhf_crypto_connect; bret () });
         only_if (cfg CONFIG_KFSW_CSP_KISS_UART) (logs (Log_info ''CSP UART interface started''))
       }
     })
   }"

text \<open>\<^verbatim>\<open>if (csp_started)\<close>.\<close>

definition if_csp :: "('s, unit) boot_act \<Rightarrow> ('s, unit) boot_act" where
  "if_csp m = do { up \<leftarrow> read_boot csp_started; only_if up m }"

definition boot_ftp :: "boot_build \<Rightarrow> 's boot_services \<Rightarrow> ('s, unit) boot_act" where
  "boot_ftp K S = do {
     r0 \<leftarrow> invoke S kfsw_ftp_init;
     rc \<leftarrow> (if r0 = 0 then invoke S kfsw_ftp_start else bret r0);
     if rc \<noteq> 0 then failed (''Failed to start FTP service: '' @ fmt_d rc)
     else logs (Log_info (''FTP service started on CSP port '' @ fmt_u (FTP_CSP_PORT K)))
   }"

definition boot_csp_servers :: "config \<Rightarrow> boot_build \<Rightarrow> 's boot_services \<Rightarrow> ('s, unit) boot_act" where
  "boot_csp_servers cfg K S = do {
     only_if (cfg CONFIG_KFSW_LOG_REMOTE) (if_csp
       (step S kfsw_log_remote_server_start (\<lambda>rc. ''Failed to start the remote log server: '' @ fmt_d rc) None));
     only_if (cfg CONFIG_KFSW_FWU_FILES)
       (step S kfsw_fwu_files_mount (\<lambda>rc. ''Failed to mount firmware slots: '' @ fmt_d rc) None);
     only_if (cfg CONFIG_KFSW_FTP) (if_csp (boot_ftp K S));
     only_if (cfg CONFIG_KFSW_FWU_LITE_CSP) (if_csp
       (step S kfsw_fwu_lite_server_start (\<lambda>rc. ''Failed to start the firmware upload server: '' @ fmt_d rc)
         (Some (''Firmware upload server started on CSP port '' @ fmt_u (FWU_LITE_CSP_PORT K)))));
     only_if (cfg CONFIG_KFSW_REMEXEC) (do {
       rc \<leftarrow> start_step S kfsw_remexec_init (\<lambda>rc. ''Remote execution allowlist refused: '' @ fmt_d rc) None;
       only_if (rc = 0) (if_csp
         (step S kfsw_remexec_server_start (\<lambda>rc. ''Failed to start the remote execution server: '' @ fmt_d rc)
           (Some (''Remote execution server started on CSP port '' @ fmt_u (REMEXEC_CSP_PORT K)))))
     });
     only_if (cfg CONFIG_KFSW_COMMAND_CSP) (if_csp
       (step S kfsw_command_server_start (\<lambda>rc. ''Failed to start command server: '' @ fmt_d rc)
         (Some (''Command server started on CSP port '' @ fmt_u (COMMAND_CSP_PORT K)))))
   }"

definition boot_csp :: "config \<Rightarrow> boot_build \<Rightarrow> 's boot_services \<Rightarrow> ('s, unit) boot_act" where
  "boot_csp cfg K S = only_if (cfg CONFIG_KFSW_CSP) (do { boot_router cfg K S; boot_csp_servers cfg K S })"

definition boot_hk :: "config \<Rightarrow> 's boot_services \<Rightarrow> ('s, unit) boot_act" where
  "boot_hk cfg S = only_if (cfg CONFIG_KFSW_HK) (do {
     rc \<leftarrow> start_step S kfsw_hk_init (\<lambda>rc. ''Failed to initialize housekeeping: '' @ fmt_d rc) None;
     only_if (rc = 0) (do {
       step S kfsw_hk_get_stats (\<lambda>e. ''HK restore failed ('' @ fmt_d e @ ''); using defaults'') None;
       step S kfsw_hk_start (\<lambda>rc. ''Failed to start housekeeping: '' @ fmt_d rc) None;
       only_if (cfg CONFIG_KFSW_HK_CSP) (if_csp
         (step S kfsw_hk_server_start (\<lambda>rc. ''Failed to start the housekeeping server: '' @ fmt_d rc) None))
     })
   })"

definition boot_monitors :: "config \<Rightarrow> 's boot_services \<Rightarrow> ('s, unit) boot_act" where
  "boot_monitors cfg S = do {
     only_if (cfg CONFIG_KFSW_RESMON)
       (step S kfsw_resmon_start (\<lambda>rc. ''Failed to start the resource monitor: '' @ fmt_d rc) None);
     only_if (cfg CONFIG_KFSW_SCRUB)
       (step S kfsw_scrub_start (\<lambda>rc. ''Failed to start the image scrub: '' @ fmt_d rc) None);
     only_if (cfg CONFIG_KFSW_LIMITS)
       (step S kfsw_limits_init (\<lambda>rc. ''Failed to load the limits: '' @ fmt_d rc) None);
     only_if (cfg CONFIG_KFSW_GNDWDT)
       (step S kfsw_gndwdt_start (\<lambda>rc. ''Failed to start the ground watchdog: '' @ fmt_d rc) None)
   }"

definition boot_health :: "config \<Rightarrow> boot_build \<Rightarrow> 's boot_services \<Rightarrow> ('s, unit) boot_act" where
  "boot_health cfg K S = only_if (cfg CONFIG_KFSW_HEALTH) (do {
     rc \<leftarrow> start_step S (kfsw_health_register_app (CONFIG_KFSW_APP_HEALTH_DEADLINE_MS K))
       (\<lambda>rc. ''Failed to register the application for health: '' @ fmt_d rc) None;
     only_if (rc = 0) (modify_boot (\<lambda>b. b\<lparr>health_watching := True\<rparr>));
     only_if (cfg CONFIG_KFSW_CSP_LIVENESS)
       (step S kfsw_csp_liveness_start (\<lambda>rc. ''Failed to watch the CSP router for health: '' @ fmt_d rc) None);
     step S kfsw_health_start (\<lambda>rc. ''Failed to start health monitoring: '' @ fmt_d rc) None
   })"

definition boot_late :: "config \<Rightarrow> 's boot_services \<Rightarrow> ('s, unit) boot_act" where
  "boot_late cfg S = do {
     only_if (cfg CONFIG_KFSW_DEBUG_SHELL) (do {
       r \<leftarrow> invoke S kfsw_shell_prompt_apply;
       only_if (cfg CONFIG_KFSW_COMMAND) (do { r \<leftarrow> invoke S kfsw_shell_echo_apply; bret () })
     });
     only_if (cfg CONFIG_KFSW_LASTWORDS) (do {
       rc \<leftarrow> invoke S kfsw_lastwords_watch_supply;
       if rc = 0 then logs (Log_info ''Watching the supply'')
       else only_if (rc \<noteq> - ENOTSUP) (logs (Log_warning (''Supply watch unavailable: '' @ fmt_d rc)))
     });
     only_if (cfg CONFIG_KFSW_CSP \<and> cfg CONFIG_BOARD_NATIVE_SIM)
       (do { r \<leftarrow> invoke S kfsw_clock_from_host; bret () });
     only_if (cfg CONFIG_KFSW_JOURNAL)
       (step S kfsw_journal_start (\<lambda>rc. ''Journal unavailable; writer will retry: '' @ fmt_d rc) None)
   }"

definition services_marker :: "u32 \<Rightarrow> line" where
  "services_marker n =
     Log_marker (''@SERVICES '' @ (if n = 0 then ''ok'' else ''degraded'') @ '' failures='' @ fmt_u (unat n))"

definition boot_finish :: "'s boot_services \<Rightarrow> ('s, unit) boot_act" where
  "boot_finish S = do {
     n \<leftarrow> read_boot startup_failures;
     logs (services_marker n);
     r \<leftarrow> invoke S kfsw_boot_service_start;
     bret ()
   }"

text \<open>Everything \<^verbatim>\<open>main\<close> does before its loop: between the watchdog and the report, and as a whole.\<close>

definition startup_body :: "config \<Rightarrow> boot_build \<Rightarrow> 's boot_services \<Rightarrow> ('s, unit) boot_act" where
  "startup_body cfg K S = do {
     logs (Log_info ''K-FSW application starting'');
     boot_radio cfg S;
     boot_storage cfg K S;
     boot_image cfg K S;
     boot_params cfg S;
     boot_modules cfg S;
     boot_commands cfg S;
     boot_csp cfg K S;
     boot_hk cfg S;
     boot_monitors cfg S;
     boot_health cfg K S;
     boot_late cfg S
   }"

definition startup :: "config \<Rightarrow> boot_build \<Rightarrow> 's boot_services \<Rightarrow> ('s, unit) boot_act" where
  "startup cfg K S = do { boot_watchdog cfg K S; startup_body cfg K S; boot_finish S }"

text \<open>One pass of the \<^verbatim>\<open>for (;;)\<close> loop, and a number of them.\<close>

definition main_cycle :: "config \<Rightarrow> boot_build \<Rightarrow> 's boot_services \<Rightarrow> ('s, unit) boot_act" where
  "main_cycle cfg K S =
     (if cfg CONFIG_KFSW_HEALTH then do {
        watching \<leftarrow> read_boot health_watching;
        only_if watching (do { r \<leftarrow> invoke S kfsw_health_report_app; bret () });
        ms \<leftarrow> read_boot (\<lambda>b. if cfg CONFIG_KFSW_PARAM
                then unat (kfsw_system_app_report_ms (boot_system S (services_state b)))
                else CONFIG_KFSW_APP_HEALTH_DEADLINE_MS K div 4);
        r \<leftarrow> invoke S (k_sleep_ms ms);
        bret ()
      } else do { r \<leftarrow> invoke S (k_sleep_ms 60000); bret () })"

fun main_cycles :: "config \<Rightarrow> boot_build \<Rightarrow> 's boot_services \<Rightarrow> nat \<Rightarrow> ('s, unit) boot_act" where
  "main_cycles cfg K S 0 = bret ()"
| "main_cycles cfg K S (Suc n) = do { main_cycle cfg K S; main_cycles cfg K S n }"

definition boot_init :: "'s \<Rightarrow> 's boot" where
  "boot_init s = \<lparr>services_state = s, trace = [], log_lines = [], startup_failures = 0,
     csp_started = False, health_watching = False\<rparr>"

section \<open>What every step keeps\<close>

text \<open>
  The calls whose result \<^verbatim>\<open>main\<close> never counts: functions without a result, results it casts to \<^verbatim>\<open>void\<close>,
  and the supply watch, whose failure is only a warning.
\<close>

fun silent :: "service_call \<Rightarrow> bool" where
  "silent kfsw_boot_count_restart = True" | "silent (k_sleep_ms ms) = True"
| "silent kfsw_csp_set_revision = True" | "silent kfsw_radio_uhf_crypto_connect = True"
| "silent kfsw_shell_prompt_apply = True" | "silent kfsw_shell_echo_apply = True"
| "silent kfsw_lastwords_watch_supply = True" | "silent kfsw_clock_from_host = True"
| "silent kfsw_boot_service_start = True"
| "silent _ = False"

text \<open>
  The servers started behind the test of \<^verbatim>\<open>csp_started\<close>. The parameter server is not one of them: it
  is started between the initialisation of CSP and the start of its router.
\<close>

definition csp_server :: "service_call \<Rightarrow> bool" where
  "csp_server c \<longleftrightarrow> c \<in> {kfsw_log_remote_server_start, kfsw_ftp_init, kfsw_ftp_start,
     kfsw_fwu_lite_server_start, kfsw_remexec_server_start, kfsw_command_server_start,
     kfsw_hk_server_start}"

text \<open>The calls for which every result but 0 is counted, and those of them that may stand anywhere.\<close>

definition countable :: "service_call \<Rightarrow> bool" where
  "countable c \<longleftrightarrow> \<not> silent c \<and> c \<notin> {kfsw_platform_watchdog_init, kfsw_param_persist_load}"

definition ordinary :: "service_call \<Rightarrow> bool" where
  "ordinary c \<longleftrightarrow> countable c \<and> \<not> csp_server c \<and> c \<notin> {kfsw_param_server_start, kfsw_csp_start}"

fun is_error :: "line \<Rightarrow> bool" where
  "is_error (Log_error m) = True"
| "is_error _ = False"

lemma marker_no_error [simp]: "\<not> is_error (services_marker n)"
  by (simp add: services_marker_def)

lemma run_boot [simp]:
  "run_state (modify_boot f) b = ((), f b)" "run_state (read_boot g) b = (g b, b)"
  "run_state (logs l) b = ((), b\<lparr>log_lines := log_lines b @ [l]\<rparr>)"
  "run_state (failed msg) b =
     ((), b\<lparr>startup_failures := startup_failures b + 1, log_lines := log_lines b @ [Log_error msg]\<rparr>)"
  "run_state (invoke S c) b =
     (fst (perform S c (services_state b)),
      b\<lparr>services_state := snd (perform S c (services_state b)),
        trace := trace b @ [(c, fst (perform S c (services_state b)))]\<rparr>)"
  by (simp_all add: modify_boot_def read_boot_def logs_def failed_def invoke_def split_beta)

lemma run_only_if [simp]: "run_state (only_if p m) b = (if p then run_state m b else ((), b))"
  by (simp add: only_if_def)

lemma run_if_csp [simp]: "run_state (if_csp m) b = (if csp_started b then run_state m b else ((), b))"
  by (simp add: if_csp_def)

text \<open>
  A law relates the state before and after an action, with a bound on the number of calls. The
  locale lists the blocks \<^verbatim>\<open>main\<close> is made of; a law that each of them keeps holds of the whole
  start-up, whatever the composition.
\<close>

locale boot_law =
  fixes law :: "nat \<Rightarrow> 's boot \<Rightarrow> 's boot \<Rightarrow> bool"
    and S :: "'s boot_services"
  assumes same: "law 0 b b"
    and both: "law m a b \<Longrightarrow> law n b d \<Longrightarrow> law (m + n) a d"
    and more: "law m a b \<Longrightarrow> m \<le> n \<Longrightarrow> law n a b"
    and writes_log: "\<not> is_error l \<Longrightarrow> law 0 b (b\<lparr>log_lines := log_lines b @ [l]\<rparr>)"
    and watches: "law 0 b (b\<lparr>health_watching := h\<rparr>)"
    and silent_call: "silent c \<Longrightarrow> law 1 b (snd (run_state (invoke S c) b))"
    and ordinary_step: "ordinary c \<Longrightarrow> law 1 b (snd (run_state (start_step S c err good) b))"
    and server_step: "csp_server c \<Longrightarrow> law 1 b (snd (run_state (if_csp (step S c err good)) b))"
    and watchdog: "law 2 b (snd (run_state (boot_watchdog cfg K S) b))"
    and radio: "law 1 b (snd (run_state (boot_radio cfg S) b))"
    and storage: "law 2 b (snd (run_state (boot_storage cfg K S) b))"
    and restore: "law 1 b (snd (run_state (boot_restore cfg S) b))"
    and ftp: "law 2 b (snd (run_state (if_csp (boot_ftp K S)) b))"
    and router: "law 6 b (snd (run_state (boot_router cfg K S) b))"
begin

definition obeys :: "nat \<Rightarrow> ('s, 'a) boot_act \<Rightarrow> bool" where
  "obeys n m \<longleftrightarrow> (\<forall>b. law n b (snd (run_state m b)))"

lemma obeys_ret: "obeys 0 (bret x)"
  by (simp add: obeys_def same)

lemma obeys_bind: "obeys m a \<Longrightarrow> (\<And>x. obeys n (f x)) \<Longrightarrow> obeys (m + n) (a \<bind> f)"
  unfolding obeys_def by (auto simp: split_beta intro: both)

lemma obeys_only_if: "obeys n m \<Longrightarrow> obeys n (only_if p m)"
  unfolding obeys_def using more [OF same] by simp

lemma obeys_if: "obeys m a \<Longrightarrow> obeys n b \<Longrightarrow> obeys (max m n) (if p then a else b)"
  unfolding obeys_def by (auto intro: more)

lemma obeys_read: "(\<And>x. obeys n (f x)) \<Longrightarrow> obeys n (read_boot g \<bind> f)"
  by (simp add: obeys_def)

lemma obeys_log: "\<not> is_error l \<Longrightarrow> obeys 0 (logs l)"
  by (simp add: obeys_def writes_log)

lemma obeys_watch: "obeys 0 (modify_boot (\<lambda>b. b\<lparr>health_watching := True\<rparr>))"
  by (simp add: obeys_def watches)

lemma obeys_silent: "silent c \<Longrightarrow> obeys 1 (invoke S c)"
  unfolding obeys_def using silent_call by blast

lemma obeys_start: "ordinary c \<Longrightarrow> obeys 1 (start_step S c err good)"
  unfolding obeys_def using ordinary_step by blast

lemma obeys_step: "ordinary c \<Longrightarrow> obeys 1 (step S c err good)"
  unfolding step_def using obeys_bind [OF obeys_start obeys_ret] by simp

lemma obeys_server: "csp_server c \<Longrightarrow> obeys 1 (if_csp (step S c err good))"
  unfolding obeys_def using server_step by blast

lemma obeys_blocks:
  "obeys 2 (boot_watchdog cfg K S)" "obeys 1 (boot_radio cfg S)" "obeys 2 (boot_storage cfg K S)"
  "obeys 1 (boot_restore cfg S)" "obeys 2 (if_csp (boot_ftp K S))" "obeys 6 (boot_router cfg K S)"
  unfolding obeys_def using watchdog radio storage restore ftp router by blast+

lemma obeys_more: "obeys m a \<Longrightarrow> m \<le> n \<Longrightarrow> obeys n a"
  unfolding obeys_def using more by blast

lemmas obeys_rules =
  obeys_ret obeys_read obeys_bind obeys_only_if obeys_if obeys_log obeys_watch obeys_silent obeys_start
  obeys_step obeys_server obeys_blocks

lemma body_obeys: "obeys 55 (startup_body cfg K S)"
  unfolding startup_body_def boot_image_def boot_params_def boot_delay_def boot_modules_def boot_commands_def
    boot_csp_def boot_csp_servers_def boot_hk_def boot_monitors_def boot_health_def boot_late_def
  by (rule obeys_more, (rule obeys_rules | (simp add: ordinary_def countable_def csp_server_def; fail))+)

lemma finish_obeys: "obeys 1 (boot_finish S)"
  unfolding boot_finish_def
  by (rule obeys_more, (rule obeys_rules | (simp; fail))+)

lemma startup_obeys: "obeys 60 (startup cfg K S)"
  unfolding startup_def
  by (rule obeys_more, (rule obeys_bind obeys_blocks body_obeys finish_obeys | (simp; fail))+)

lemma body_law: "law 55 b (snd (run_state (startup_body cfg K S) b))"
  using body_obeys unfolding obeys_def by blast

lemma startup_law: "law 60 b (snd (run_state (startup cfg K S) b))"
  using startup_obeys unfolding obeys_def by blast

end

section \<open>Counting failures\<close>

definition counted :: "service_call \<times> int \<Rightarrow> bool" where
  "counted x \<longleftrightarrow> snd x \<noteq> 0 \<and> \<not> silent (fst x) \<and>
     \<not> (fst x = kfsw_platform_watchdog_init \<and> snd x = - ENODEV) \<and>
     \<not> (fst x = kfsw_param_persist_load \<and> snd x = - ENOENT)"

text \<open>The error lines logged so far.\<close>

definition errors :: "'s boot \<Rightarrow> nat" where
  "errors b = length (filter is_error (log_lines b))"

definition count_law :: "nat \<Rightarrow> 's boot \<Rightarrow> 's boot \<Rightarrow> bool" where
  "count_law n b b' \<longleftrightarrow>
     (\<exists>t. trace b' = trace b @ t \<and> length t \<le> n \<and>
          startup_failures b' = startup_failures b + of_nat (length (filter counted t)) \<and>
          errors b' = errors b + length (filter counted t))"

lemma count_lawI:
  "trace b' = trace b @ t \<Longrightarrow> length t \<le> n \<Longrightarrow>
   startup_failures b' = startup_failures b + of_nat (length (filter counted t)) \<Longrightarrow>
   errors b' = errors b + length (filter counted t) \<Longrightarrow> count_law n b b'"
  unfolding count_law_def by blast

lemma errors_simps [simp]:
  "errors (b\<lparr>log_lines := ls\<rparr>) = length (filter is_error ls)"
  "errors (b\<lparr>services_state := s\<rparr>) = errors b" "errors (b\<lparr>trace := t\<rparr>) = errors b"
  "errors (b\<lparr>startup_failures := n\<rparr>) = errors b" "errors (b\<lparr>csp_started := u\<rparr>) = errors b"
  "errors (b\<lparr>health_watching := h\<rparr>) = errors b"
  "length (filter is_error (log_lines b)) = errors b"
  by (simp_all add: errors_def)

lemma count_law_trans: "count_law m a b \<Longrightarrow> count_law n b d \<Longrightarrow> count_law (m + n) a d"
proof -
  assume "count_law m a b" "count_law n b d"
  then obtain t u where "trace b = trace a @ t" "length t \<le> m"
      "startup_failures b = startup_failures a + of_nat (length (filter counted t))"
      "errors b = errors a + length (filter counted t)"
      "trace d = trace b @ u" "length u \<le> n"
      "startup_failures d = startup_failures b + of_nat (length (filter counted u))"
      "errors d = errors b + length (filter counted u)"
    unfolding count_law_def by blast
  then show ?thesis by (intro count_lawI [of _ _ "t @ u"]) simp_all
qed

lemma counted_countable: "countable c \<Longrightarrow> counted (c, rc) \<longleftrightarrow> rc \<noteq> 0"
  by (auto simp: counted_def countable_def)

lemma server_countable: "csp_server c \<Longrightarrow> countable c"
  by (auto simp: csp_server_def countable_def)

text \<open>One counted step, whatever it logs.\<close>

lemma count_start_step:
  assumes "countable c"
  shows "count_law 1 b (snd (run_state (start_step S c err good) b))"
  using counted_countable [OF assms]
  by (intro count_lawI [of _ _ "[(c, fst (perform S c (services_state b)))]"])
    (auto simp: start_step_def split: option.splits)

lemma count_step:
  assumes "countable c"
  shows "count_law 1 b (snd (run_state (step S c err good) b))"
  using count_start_step [OF assms, of b S err good] by (simp add: step_def split_beta)

lemma count_same: "count_law n b b"
  by (intro count_lawI [of _ _ "[]"]) simp_all

lemma count_watchdog_block:
  "count_law 2 b (snd (run_state (do {
     rc \<leftarrow> invoke S kfsw_platform_watchdog_init;
     if rc = - ENODEV then logs (Log_info l)
     else if rc \<noteq> 0 then failed (e rc)
     else only_if p (step S kfsw_platform_watchdog_start err good) }) b))"
proof -
  define rc where "rc = fst (perform S kfsw_platform_watchdog_init (services_state b))"
  define b1 where "b1 = b\<lparr>services_state := snd (perform S kfsw_platform_watchdog_init (services_state b)),
     trace := trace b @ [(kfsw_platform_watchdog_init, rc)]\<rparr>"
  show ?thesis
  proof (cases "rc = 0")
    case True
    have "count_law 1 b b1"
      using True by (intro count_lawI [of _ _ "[(kfsw_platform_watchdog_init, rc)]"])
        (simp_all add: b1_def counted_def)
    moreover have "count_law 1 b1 (snd (run_state (only_if p (step S kfsw_platform_watchdog_start err good)) b1))"
      using count_step [of kfsw_platform_watchdog_start b1 S err good] count_same [of 1 b1]
      by (simp add: countable_def)
    ultimately have "count_law 2 b (snd (run_state (only_if p (step S kfsw_platform_watchdog_start err good)) b1))"
      using count_law_trans [of 1 b b1 1] by (simp add: numeral_2_eq_2)
    moreover have "rc \<noteq> - ENODEV" using True by (simp add: errno_defs)
    ultimately show ?thesis using True by (cases p) (simp_all add: b1_def rc_def)
  next
    case False
    then show ?thesis
      by (intro count_lawI [of _ _ "[(kfsw_platform_watchdog_init, rc)]"])
        (auto simp: rc_def counted_def)
  qed
qed

lemma count_two_calls:
  assumes "\<And>rc. counted (c, rc) \<longleftrightarrow> rc \<noteq> 0" "\<And>rc. counted (d, rc) \<longleftrightarrow> rc \<noteq> 0"
  shows "count_law 2 b (snd (run_state (do {
     r0 \<leftarrow> invoke S c;
     rc \<leftarrow> (if r0 = 0 then invoke S d else bret r0);
     if rc \<noteq> 0 then failed (err rc) else logs (Log_info l) }) b))"
proof (cases "fst (perform S c (services_state b)) = 0")
  case True
  let ?s = "snd (perform S c (services_state b))"
  show ?thesis
    using True assms
    by (intro count_lawI [of _ _ "[(c, 0), (d, fst (perform S d ?s))]"]) simp_all
next
  case False
  then show ?thesis
    using assms by (intro count_lawI [of _ _ "[(c, fst (perform S c (services_state b)))]"]) simp_all
qed

lemma count_router_start:
  "count_law 2 b (snd (run_state (do {
     rs \<leftarrow> invoke S kfsw_csp_start;
     if rs \<noteq> 0 then failed (err rs)
     else do {
       modify_boot (\<lambda>b. b\<lparr>csp_started := True\<rparr>);
       logs (Log_info l);
       only_if p (do { r \<leftarrow> invoke S kfsw_radio_uhf_crypto_connect; bret () });
       only_if q (logs (Log_info l'))
     } }) b))"
proof -
  let ?rs = "fst (perform S kfsw_csp_start (services_state b))"
  let ?s = "snd (perform S kfsw_csp_start (services_state b))"
  show ?thesis
    by (intro count_lawI [of _ _ "(kfsw_csp_start, ?rs) # (if ?rs = 0 \<and> p then
        [(kfsw_radio_uhf_crypto_connect, fst (perform S kfsw_radio_uhf_crypto_connect ?s))] else [])"])
      (auto simp: counted_def split_beta)
qed

lemma count_only_if: "count_law n b (snd (run_state m b)) \<Longrightarrow> count_law n b (snd (run_state (only_if p m) b))"
  by (simp add: count_same)

lemma count_if_csp: "count_law n b (snd (run_state m b)) \<Longrightarrow> count_law n b (snd (run_state (if_csp m) b))"
  by (simp add: count_same)

lemma count_bind:
  assumes "\<And>b. count_law m b (snd (run_state a b))" "\<And>x b. count_law n b (snd (run_state (f x) b))"
  shows "count_law (m + n) b (snd (run_state (a \<bind> f) b))"
  using count_law_trans [OF assms] by (simp add: split_beta)

lemma count_silent: "silent c \<Longrightarrow> count_law 1 b (snd (run_state (invoke S c) b))"
  by (intro count_lawI [of _ _ "[(c, fst (perform S c (services_state b)))]"]) (simp_all add: counted_def)

lemma count_router_tail:
  assumes "\<And>b. count_law 0 b (snd (run_state u b))" "\<And>b. count_law 1 b (snd (run_state v b))"
    "\<And>b. count_law 2 b (snd (run_state w b))"
  shows "count_law 3 b (snd (run_state (do { u; v; w :: ('s, unit) boot_act }) b))"
proof -
  have "count_law (0 + (1 + 2)) b (snd (run_state (do { u; v; w }) b))"
    by (intro count_bind assms)
  then show ?thesis by (simp only: numeral_eq_Suc pred_numeral_simps add_0 One_nat_def plus_nat.simps BitM.simps)
qed

lemma count_router: "count_law 6 b (snd (run_state (boot_router cfg K S) b))"
proof -
  have "count_law (1 + (1 + (1 + 3))) b (snd (run_state (boot_router cfg K S) b))"
    unfolding boot_router_def
    by (intro count_bind count_only_if count_silent count_start_step count_step count_router_tail
        count_router_start)
      (simp_all add: countable_def count_same count_lawI)
  then show ?thesis by simp
qed

interpretation counting: boot_law count_law S for S
proof unfold_locales
  show "count_law n a b" if "count_law m a b" "m \<le> n" for m n a b
    using that unfolding count_law_def by (meson le_trans)
  show "count_law 0 b (b\<lparr>log_lines := log_lines b @ [l]\<rparr>)" if "\<not> is_error l" for b l
    using that by (intro count_lawI [of _ _ "[]"]) simp_all
  show "count_law 0 b (b\<lparr>health_watching := h\<rparr>)" for b h
    by (intro count_lawI [of _ _ "[]"]) simp_all
  show "count_law 1 b (snd (run_state (if_csp (step S c err good)) b))" if "csp_server c" for b c err good
    using that by (intro count_if_csp count_step server_countable)
  show "count_law 2 b (snd (run_state (boot_watchdog cfg K S) b))" for b cfg K
    unfolding boot_watchdog_def by (intro count_only_if count_watchdog_block)
  show "count_law 1 b (snd (run_state (boot_radio cfg S) b))" for b cfg
    unfolding boot_radio_def
    by (intro count_only_if count_lawI [of _ _ "[(kfsw_radio_uhf_get_info, fst (perform S kfsw_radio_uhf_get_info (services_state b)))]"])
      (simp_all add: counted_def)
  show "count_law 2 b (snd (run_state (boot_storage cfg K S) b))" for b cfg K
    unfolding boot_storage_def by (intro count_only_if count_two_calls) (simp_all add: counted_def)
  show "count_law 1 b (snd (run_state (boot_restore cfg S) b))" for b cfg
    by (cases "cfg CONFIG_KFSW_PARAM_PERSISTENCE")
      (auto simp: boot_restore_def count_same counted_def
        intro!: count_lawI [of _ _ "[(kfsw_param_persist_load, fst (perform S kfsw_param_persist_load (services_state b)))]"])
  show "count_law 2 b (snd (run_state (if_csp (boot_ftp K S)) b))" for b K
    unfolding boot_ftp_def by (intro count_if_csp count_two_calls) (simp_all add: counted_def)
  show "count_law 1 b (snd (run_state (invoke S c) b))" if "silent c" for b c
    using that by (rule count_silent)
  show "count_law 1 b (snd (run_state (start_step S c err good) b))" if "ordinary c" for b c err good
    using that by (intro count_start_step) (simp add: ordinary_def)
qed (simp_all add: count_same count_law_trans count_router)

section \<open>The order of the CSP servers\<close>

text \<open>
  In a trace: the parameter server and the router are started after CSP was initialised with success,
  every other server after the router was started with success.
\<close>

fun servers_ordered :: "bool \<Rightarrow> bool \<Rightarrow> (service_call \<times> int) list \<Rightarrow> bool" where
  "servers_ordered init up [] = True"
| "servers_ordered init up ((c, rc) # t) =
     ((c \<in> {kfsw_param_server_start, kfsw_csp_start} \<longrightarrow> init) \<and> (csp_server c \<longrightarrow> up) \<and>
      servers_ordered (init \<or> c = kfsw_csp_init \<and> rc = 0) (up \<or> c = kfsw_csp_start \<and> rc = 0) t)"

lemma servers_ordered_append:
  "servers_ordered init up (t @ u) \<longleftrightarrow>
   servers_ordered init up t \<and>
   servers_ordered (init \<or> (kfsw_csp_init, 0) \<in> set t) (up \<or> (kfsw_csp_start, 0) \<in> set t) u"
  by (induction init up t rule: servers_ordered.induct)
    (auto simp: disj_ac eq_commute [of kfsw_csp_start] eq_commute [of kfsw_csp_init])

definition csp_inv :: "'s boot \<Rightarrow> bool" where
  "csp_inv b \<longleftrightarrow> servers_ordered False False (trace b) \<and> (csp_started b \<longleftrightarrow> (kfsw_csp_start, 0) \<in> set (trace b))"

definition csp_ready :: "'s boot \<Rightarrow> bool" where
  "csp_ready b \<longleftrightarrow> csp_inv b \<and> (kfsw_csp_init, 0) \<in> set (trace b)"

text \<open>What the state must be for a call to be in order.\<close>

definition in_order :: "service_call \<Rightarrow> 's boot \<Rightarrow> bool" where
  "in_order c b \<longleftrightarrow> c \<noteq> kfsw_csp_start \<and> (csp_server c \<longrightarrow> csp_started b) \<and>
     (c = kfsw_param_server_start \<longrightarrow> (kfsw_csp_init, 0) \<in> set (trace b))"

definition csp_law :: "nat \<Rightarrow> 's boot \<Rightarrow> 's boot \<Rightarrow> bool" where
  "csp_law n b b' \<longleftrightarrow> (csp_inv b \<longrightarrow> csp_inv b')"

lemma csp_inv_same:
  "csp_inv b \<Longrightarrow> trace b' = trace b \<Longrightarrow> csp_started b' = csp_started b \<Longrightarrow> csp_inv b'"
  by (simp add: csp_inv_def)

lemma csp_start_step:
  "csp_inv b \<Longrightarrow> in_order c b \<Longrightarrow>
   csp_inv (snd (run_state (start_step S c err good) b))"
  by (auto simp: csp_inv_def in_order_def servers_ordered_append start_step_def split: option.splits)

lemma csp_step:
  "csp_inv b \<Longrightarrow> in_order c b \<Longrightarrow>
   csp_inv (snd (run_state (step S c err good) b))"
  using csp_start_step [of b c S err good] by (simp add: step_def split_beta)

lemma csp_invoke:
  "csp_inv b \<Longrightarrow> in_order c b \<Longrightarrow>
   csp_inv (snd (run_state (invoke S c) b))"
  by (auto simp: csp_inv_def in_order_def servers_ordered_append)

lemma csp_bind:
  "csp_inv (snd (run_state a b)) \<Longrightarrow> (\<And>x b. csp_inv b \<Longrightarrow> csp_inv (snd (run_state (f x) b))) \<Longrightarrow>
   csp_inv (snd (run_state (a \<bind> f) b))"
  by (simp add: split_beta)

lemma csp_only_if: "csp_inv b \<Longrightarrow> csp_inv (snd (run_state m b)) \<Longrightarrow> csp_inv (snd (run_state (only_if p m) b))"
  by simp

lemma csp_quiet:
  "csp_inv b \<Longrightarrow> csp_inv (snd (run_state (logs l) b))"
  "csp_inv b \<Longrightarrow> csp_inv (snd (run_state (failed msg) b))"
  "csp_inv b \<Longrightarrow> csp_inv (snd (run_state (bret x) b))"
  by (auto elim: csp_inv_same)

lemma csp_router_start:
  assumes "csp_ready b"
  shows "csp_inv (snd (run_state (do {
     rs \<leftarrow> invoke S kfsw_csp_start;
     if rs \<noteq> 0 then failed (err rs)
     else do {
       modify_boot (\<lambda>b. b\<lparr>csp_started := True\<rparr>);
       logs l;
       only_if p (do { r \<leftarrow> invoke S kfsw_radio_uhf_crypto_connect; bret () });
       only_if q (logs l')
     } }) b))"
  using assms
  by (auto simp: csp_ready_def csp_inv_def servers_ordered_append csp_server_def split_beta)

lemma csp_if: "(p \<Longrightarrow> csp_inv (snd (run_state x b))) \<Longrightarrow> (\<not> p \<Longrightarrow> csp_inv (snd (run_state y b))) \<Longrightarrow>
  csp_inv (snd (run_state (if p then x else y) b))"
  by simp

lemma csp_read: "csp_inv (snd (run_state (f (g b)) b)) \<Longrightarrow> csp_inv (snd (run_state (read_boot g \<bind> f) b))"
  by simp

lemmas csp_rules = csp_quiet csp_only_if csp_read csp_invoke csp_step csp_start_step csp_if

text \<open>Once CSP is initialised the state stays ready, and the router is started in such a state only.\<close>

lemma ready_step:
  "csp_ready b \<Longrightarrow> csp_ready (snd (run_state (step S kfsw_param_server_start err good) b))"
  using csp_step [of b kfsw_param_server_start S err good]
  by (auto simp: csp_ready_def in_order_def csp_server_def step_def start_step_def split: option.splits)

lemma ready_quiet: "csp_ready b \<Longrightarrow> csp_ready (b\<lparr>log_lines := ls\<rparr>)"
  by (auto simp: csp_ready_def elim: csp_inv_same)

lemma ready_bind:
  "csp_ready (snd (run_state a b)) \<Longrightarrow> (\<And>b. csp_ready b \<Longrightarrow> csp_inv (snd (run_state m b))) \<Longrightarrow>
   csp_inv (snd (run_state (a \<bind> (\<lambda>_. m)) b))"
  by (simp add: split_beta)

lemma csp_init_block:
  assumes "csp_inv b" "\<And>b. csp_ready b \<Longrightarrow> csp_inv (snd (run_state m b))"
  shows "csp_inv (snd (run_state (do { rc \<leftarrow> start_step S kfsw_csp_init err good; only_if (rc = 0) m }) b))"
proof -
  define b1 where "b1 = snd (run_state (start_step S kfsw_csp_init err good) b)"
  define rc where "rc = fst (run_state (start_step S kfsw_csp_init err good) b)"
  have "csp_inv b1" unfolding b1_def
    by (rule csp_start_step [OF assms(1)]) (simp add: in_order_def csp_server_def)
  moreover have "rc = 0 \<Longrightarrow> (kfsw_csp_init, 0) \<in> set (trace b1)"
    by (auto simp: rc_def b1_def start_step_def split: option.splits)
  ultimately show ?thesis
    using assms(2) by (auto simp: csp_ready_def split_beta simp flip: rc_def b1_def)
qed

lemma csp_router: "csp_inv b \<Longrightarrow> csp_inv (snd (run_state (boot_router cfg K S) b))"
  unfolding boot_router_def
  by (rule csp_init_block csp_bind csp_router_start ready_bind csp_rules | assumption
      | (simp add: in_order_def csp_server_def ready_quiet ready_step; fail))+

lemma csp_ftp: "csp_inv b \<Longrightarrow> csp_started b \<Longrightarrow> csp_inv (snd (run_state (boot_ftp K S) b))"
  by (auto simp: boot_ftp_def csp_inv_def servers_ordered_append)

interpretation ordering: boot_law csp_law S for S
proof unfold_locales
  show "csp_law 1 b (snd (run_state (if_csp (step S c err good)) b))" if "csp_server c" for b c err good
    using that csp_step [of b c S err good] by (auto simp: csp_law_def in_order_def csp_server_def)
  show "csp_law 2 b (snd (run_state (boot_watchdog cfg K S) b))" for b cfg K
    unfolding boot_watchdog_def csp_law_def
    by (intro impI) (rule csp_bind csp_rules | assumption | (simp add: in_order_def csp_server_def; fail))+
  show "csp_law 1 b (snd (run_state (boot_radio cfg S) b))" for b cfg
    unfolding boot_radio_def csp_law_def
    by (intro impI) (rule csp_read csp_bind csp_rules | assumption | (simp add: in_order_def csp_server_def; fail))+
  show "csp_law 2 b (snd (run_state (boot_storage cfg K S) b))" for b cfg K
    unfolding boot_storage_def csp_law_def
    by (intro impI) (rule csp_bind csp_rules | assumption | (simp add: in_order_def csp_server_def; fail))+
  show "csp_law 1 b (snd (run_state (boot_restore cfg S) b))" for b cfg
    unfolding boot_restore_def csp_law_def
    by (intro impI) (rule csp_bind csp_rules | assumption | (simp add: in_order_def csp_server_def; fail))+
  show "csp_law 2 b (snd (run_state (if_csp (boot_ftp K S)) b))" for b K
    using csp_ftp [of b K S] by (simp add: csp_law_def)
  show "csp_law 1 b (snd (run_state (invoke S c) b))" if "silent c" for b c
    unfolding csp_law_def using that by (intro impI csp_invoke) (auto simp: in_order_def csp_server_def)
  show "csp_law 1 b (snd (run_state (start_step S c err good) b))" if "ordinary c" for b c err good
    unfolding csp_law_def using that by (intro impI csp_start_step) (auto simp: ordinary_def in_order_def)
  show "csp_law 6 b (snd (run_state (boot_router cfg K S) b))" for b cfg K
    unfolding csp_law_def by (intro impI csp_router)
qed (auto simp: csp_law_def elim: csp_inv_same)

section \<open>Properties\<close>

lemma boot_finish_run:
  "\<exists>rc. trace (snd (run_state (boot_finish S) b)) = trace b @ [(kfsw_boot_service_start, rc)] \<and>
        log_lines (snd (run_state (boot_finish S) b)) = log_lines b @ [services_marker (startup_failures b)] \<and>
        startup_failures (snd (run_state (boot_finish S) b)) = startup_failures b"
  by (simp add: boot_finish_def)

lemma silent_iff:
  "silent c \<longleftrightarrow> c \<in> {kfsw_lastwords_watch_supply, kfsw_radio_uhf_crypto_connect, kfsw_clock_from_host} \<or>
     c \<in> {kfsw_boot_count_restart, kfsw_csp_set_revision, kfsw_shell_prompt_apply, kfsw_shell_echo_apply,
       kfsw_boot_service_start} \<union> range k_sleep_ms"
  by (cases c) auto

lemma init_empty: "trace (boot_init s) = []" "errors (boot_init s) = 0" "startup_failures (boot_init s) = 0"
  unfolding errors_def by (simp_all add: boot_init_def)

lemma counted_spelled:
  "\<forall>(c, rc) \<in> X. counted (c, rc) \<longleftrightarrow> rc \<noteq> 0 \<and> \<not> (
     c = kfsw_platform_watchdog_init \<and> rc = - ENODEV \<or> c = kfsw_param_persist_load \<and> rc = - ENOENT \<or>
     c \<in> {kfsw_lastwords_watch_supply, kfsw_radio_uhf_crypto_connect, kfsw_clock_from_host} \<or>
     c \<in> {kfsw_boot_count_restart, kfsw_csp_set_revision, kfsw_shell_prompt_apply, kfsw_shell_echo_apply,
       kfsw_boot_service_start} \<union> range k_sleep_ms)"
  unfolding counted_def silent_iff by fastforce

lemma count_law_extends: "count_law n b b' \<Longrightarrow> \<exists>t. trace b' = trace b @ t"
  unfolding count_law_def by blast

lemma length_filter_60: "length t \<le> 60 \<Longrightarrow> unat (of_nat (length (filter P t)) :: u32) = length (filter P t)"
proof -
  assume "length t \<le> 60"
  then have "length (filter P t) \<le> 60" using length_filter_le [of P t] le_trans by blast
  then show ?thesis by (simp add: unat_of_nat take_bit_eq_mod)
qed

text \<open>
  C3. For every composition and whatever the services answer, \<^verbatim>\<open>startup_failures\<close> is the number of
  results other than 0 that the start-up counts, and the number of error lines it logs. The results
  that are not counted are exactly: a missing watchdog device (\<^verbatim>\<open>-ENODEV\<close>), a missing snapshot
  (\<^verbatim>\<open>-ENOENT\<close>), whatever the supply watch, the connection of the UHF radio protection or the host
  clock return, and the calls that have no result. The last line logged is the \<^verbatim>\<open>@SERVICES\<close> marker with
  the number counted, it says ok exactly when nothing was counted, and the boot service is started
  after everything else.
\<close>

theorem startup_counts_failures:
  "let b = snd (run_state (startup cfg K S) (boot_init s)) in
     unat (startup_failures b) = length (filter counted (trace b)) \<and>
     length (filter is_error (log_lines b)) = length (filter counted (trace b)) \<and>
     (\<forall>(c, rc) \<in> set (trace b). counted (c, rc) \<longleftrightarrow> rc \<noteq> 0 \<and> \<not> (
        c = kfsw_platform_watchdog_init \<and> rc = - ENODEV \<or> c = kfsw_param_persist_load \<and> rc = - ENOENT \<or>
        c \<in> {kfsw_lastwords_watch_supply, kfsw_radio_uhf_crypto_connect, kfsw_clock_from_host} \<or>
        c \<in> {kfsw_boot_count_restart, kfsw_csp_set_revision, kfsw_shell_prompt_apply, kfsw_shell_echo_apply,
          kfsw_boot_service_start} \<union> range k_sleep_ms)) \<and>
     last (log_lines b) = services_marker (startup_failures b) \<and>
     (startup_failures b = 0 \<longleftrightarrow> (\<forall>x \<in> set (trace b). \<not> counted x)) \<and>
     fst (last (trace b)) = kfsw_boot_service_start"
proof -
  define b where "b = snd (run_state (startup cfg K S) (boot_init s))"
  define m where "m = snd (run_state (do { boot_watchdog cfg K S; startup_body cfg K S }) (boot_init s))"
  have b: "b = snd (run_state (boot_finish S) m)"
    by (simp add: b_def m_def startup_def split_beta)
  have "count_law 60 (boot_init s) b" unfolding b_def by (rule counting.startup_law)
  then have len: "length (trace b) \<le> 60"
    and cnt: "startup_failures b = of_nat (length (filter counted (trace b)))"
    and err: "length (filter is_error (log_lines b)) = length (filter counted (trace b))"
    by (auto simp: count_law_def init_empty)
  have n: "unat (startup_failures b) = length (filter counted (trace b))"
    unfolding cnt by (rule length_filter_60 [OF len])
  have "startup_failures b = 0 \<longleftrightarrow> unat (startup_failures b) = 0" by (simp add: unat_eq_zero)
  also have "\<dots> \<longleftrightarrow> (\<forall>x \<in> set (trace b). \<not> counted x)" unfolding n by (auto simp: filter_empty_conv)
  finally have z: "startup_failures b = 0 \<longleftrightarrow> (\<forall>x \<in> set (trace b). \<not> counted x)" .
  obtain rc where f: "trace b = trace m @ [(kfsw_boot_service_start, rc)]"
      "log_lines b = log_lines m @ [services_marker (startup_failures m)]"
      "startup_failures b = startup_failures m"
    using boot_finish_run [of S m] unfolding b by blast
  have "last (log_lines b) = services_marker (startup_failures b)" "fst (last (trace b)) = kfsw_boot_service_start"
    unfolding f by simp_all
  with n z err show ?thesis
    unfolding Let_def b_def [symmetric] by (intro conjI counted_spelled)
qed

text \<open>
  C30. With a watchdog in the composition, initialising it is the first call of the start-up,
  before storage, parameters or any service.
\<close>

theorem watchdog_armed_first:
  assumes "cfg CONFIG_KFSW_WATCHDOG"
  shows "\<exists>rc t. trace (snd (run_state (startup cfg K S) (boot_init s))) =
    (kfsw_platform_watchdog_init, rc) # t"
proof -
  define m where "m = snd (run_state (boot_watchdog cfg K S) (boot_init s))"
  define n where "n = snd (run_state (startup_body cfg K S) m)"
  have fin: "snd (run_state (startup cfg K S) (boot_init s)) = snd (run_state (boot_finish S) n)"
    by (simp add: m_def n_def startup_def split_beta)
  have "\<exists>rc t. trace m = (kfsw_platform_watchdog_init, rc) # t"
    using assms
    by (simp add: m_def boot_watchdog_def boot_init_def step_def start_step_def only_if_def split_beta)
  moreover obtain t where "trace n = trace m @ t"
    using count_law_extends [OF counting.body_law] unfolding n_def by blast
  moreover obtain rc where "trace (snd (run_state (boot_finish S) n)) = trace n @ [(kfsw_boot_service_start, rc)]"
    using boot_finish_run [of S n] by blast
  ultimately show ?thesis unfolding fin by auto
qed

text \<open>
  C4. The order of the CSP servers, in every composition: the parameter server and the router are started
  only after CSP was initialised with success; every other server (remote log, file transfer, firmware
  upload, remote execution, commands, housekeeping) only after the router was started with success. The
  parameter server does not wait for the router.
\<close>

theorem csp_servers_in_order:
  "servers_ordered False False (trace (snd (run_state (startup cfg K S) (boot_init s))))"
proof -
  have "csp_inv (boot_init s)" by (simp add: csp_inv_def boot_init_def)
  with ordering.startup_law [of "boot_init s" cfg K S] show ?thesis
    by (simp add: csp_law_def csp_inv_def)
qed

text \<open>
  C27. The parameter phase: the table is initialised first; only if that worked the snapshot is
  loaded, then the restart count continues, and it is saved back exactly when a snapshot had been
  loaded; then the configured delay is slept, if it is not 0.
\<close>

theorem snapshot_saved_only_if_loaded:
  assumes "cfg CONFIG_KFSW_PARAM" "cfg CONFIG_KFSW_PARAM_PERSISTENCE"
  shows "let (r0, s1) = perform S (kfsw_param_init (parameter_sets cfg)) (services_state b);
      (r1, s2) = perform S kfsw_param_persist_load s1;
      (r2, s3) = perform S kfsw_boot_count_restart s2;
      (r3, s4) = perform S kfsw_param_persist_save s3;
      s5 = (if r1 = 0 then s4 else s3);
      ms = unat (kfsw_system_boot_delay_ms (boot_system S s5))
    in trace (snd (run_state (boot_params cfg S) b)) =
      trace b @ (kfsw_param_init (parameter_sets cfg), r0) #
        (if r0 \<noteq> 0 then []
         else [(kfsw_param_persist_load, r1), (kfsw_boot_count_restart, r2)] @
           (if r1 = 0 then [(kfsw_param_persist_save, r3)] else []) @
           (if ms \<noteq> 0 then [(k_sleep_ms ms, fst (perform S (k_sleep_ms ms) s5))] else []))"
  using assms
  by (auto simp: boot_params_def boot_restore_def boot_delay_def step_def start_step_def split_beta Let_def)

text \<open>Services that all answer 0, with the compiled parameters, for the witnesses.\<close>

definition sample_boot :: "unit boot_services" where
  "sample_boot = \<lparr>perform = (\<lambda>c s. (0, s)), radio_info = (\<lambda>_. (''uhf'', 9600)),
     uart_info = (\<lambda>_. (''uart0'', 115200)), boot_system = (\<lambda>_. system_state_init (Some 4000))\<rparr>"

definition sample_boot_build :: boot_build where
  "sample_boot_build = \<lparr>CONFIG_KFSW_WATCHDOG_TIMEOUT_MS = 8000, KFSW_STORAGE_MOUNT_POINT = ''/lfs'',
     KFSW_STORAGE_TMP_MOUNT_POINT = ''/tmp'', CSP_ADDRESS = 10, PARAM_PORT = 14, FTP_CSP_PORT = 15,
     FWU_LITE_CSP_PORT = 16, REMEXEC_CSP_PORT = 17, COMMAND_CSP_PORT = 18,
     CONFIG_KFSW_APP_HEALTH_DEADLINE_MS = 4000\<rparr>"

theorem startup_counts_failures_witness:
  "last (log_lines (snd (run_state (startup (\<lambda>_. False) sample_boot_build sample_boot) (boot_init ())))) =
   Log_marker ''@SERVICES ok failures=0''"
proof -
  have t: "trace (snd (run_state (startup (\<lambda>_. False) sample_boot_build sample_boot) (boot_init ()))) =
      [(kfsw_boot_service_start, 0)]"
    by (simp add: startup_def startup_body_def boot_watchdog_def boot_radio_def boot_storage_def
        boot_image_def boot_params_def boot_modules_def boot_commands_def boot_csp_def boot_hk_def
        boot_monitors_def boot_health_def boot_late_def boot_finish_def boot_init_def sample_boot_def)
  then show ?thesis
    using startup_counts_failures [of "\<lambda>_. False" sample_boot_build sample_boot "()"]
    by (simp add: Let_def counted_def services_marker_def fmt_u_def radix.simps)
qed

theorem watchdog_armed_first_witness:
  "\<exists>rc t. trace (snd (run_state (startup (\<lambda>_. True) sample_boot_build sample_boot) (boot_init ()))) =
     (kfsw_platform_watchdog_init, rc) # t"
  by (rule watchdog_armed_first) simp

theorem snapshot_saved_only_if_loaded_witness:
  "trace (snd (run_state (boot_params (\<lambda>_. True) sample_boot) (boot_init ()))) =
    [(kfsw_param_init (parameter_sets (\<lambda>_. True)), 0), (kfsw_param_persist_load, 0),
     (kfsw_boot_count_restart, 0), (kfsw_param_persist_save, 0)]"
  using snapshot_saved_only_if_loaded [of "\<lambda>_. True" sample_boot "boot_init ()"]
  by (simp add: sample_boot_def boot_init_def Let_def kfsw_system_boot_delay_ms_def system_state_init_def)

text \<open>
  C10. Once the application is registered with health, each pass of the main loop reports exactly
  once and then sleeps a period that is positive and at most half the deadline it registered, as
  long as the report period is a value its validator accepted: two reports are never more than
  half the deadline of sleep apart, for any number of passes.
\<close>

theorem reports_within_half_deadline:
  assumes "cfg CONFIG_KFSW_HEALTH" "cfg CONFIG_KFSW_PARAM" "health_watching b"
    and "deadline_in_range (Some (CONFIG_KFSW_APP_HEALTH_DEADLINE_MS K))"
    and "\<And>s. stored_value (\<lambda>v. validate_app_report_ms (Some (CONFIG_KFSW_APP_HEALTH_DEADLINE_MS K)) (V16 v))
      (of_nat (KFSW_APP_REPORT_MS_DEFAULT (Some (CONFIG_KFSW_APP_HEALTH_DEADLINE_MS K))))
      (kfsw_system_app_report_ms (boot_system S s))"
  shows "\<exists>ps. length ps = n \<and>
    trace (snd (run_state (main_cycles cfg K S n) b)) =
      trace b @ concat (map (\<lambda>(r, ms, x). [(kfsw_health_report_app, r), (k_sleep_ms ms, x)]) ps) \<and>
    (\<forall>(r, ms, x) \<in> set ps. 0 < ms \<and> 2 * ms \<le> CONFIG_KFSW_APP_HEALTH_DEADLINE_MS K)"
  using assms(3)
proof (induction n arbitrary: b)
  case (Suc n)
  let ?p = "perform S" and ?s = "services_state b"
  let ?s1 = "snd (?p kfsw_health_report_app ?s)"
  let ?ms = "unat (kfsw_system_app_report_ms (boot_system S ?s1))"
  define b' where "b' = snd (run_state (main_cycle cfg K S) b)"
  have tr: "trace b' = trace b @ [(kfsw_health_report_app, fst (?p kfsw_health_report_app ?s)),
      (k_sleep_ms ?ms, fst (?p (k_sleep_ms ?ms) ?s1))]" and w: "health_watching b'"
    using assms(1,2) Suc.prems by (simp_all add: b'_def main_cycle_def)
  have "good_report (Some (CONFIG_KFSW_APP_HEALTH_DEADLINE_MS K)) (kfsw_system_app_report_ms (boot_system S ?s1))"
    by (rule validated_parameter.stored_good [OF report_contract assms(5)]) (rule assms(4))
  then have ms: "0 < ?ms \<and> 2 * ?ms \<le> CONFIG_KFSW_APP_HEALTH_DEADLINE_MS K" by (simp add: good_report_def)
  obtain ps where "length ps = n"
      "trace (snd (run_state (main_cycles cfg K S n) b')) =
        trace b' @ concat (map (\<lambda>(r, ms, x). [(kfsw_health_report_app, r), (k_sleep_ms ms, x)]) ps)"
      "\<forall>(r, ms, x) \<in> set ps. 0 < ms \<and> 2 * ms \<le> CONFIG_KFSW_APP_HEALTH_DEADLINE_MS K"
    using Suc.IH [OF w] by blast
  moreover have "snd (run_state (main_cycles cfg K S (Suc n)) b) = snd (run_state (main_cycles cfg K S n) b')"
    by (simp add: b'_def split_beta)
  ultimately show ?case
    using tr ms
    by (intro exI [of _ "(fst (?p kfsw_health_report_app ?s), ?ms, fst (?p (k_sleep_ms ?ms) ?s1)) # ps"])
      (simp del: main_cycles.simps)
qed simp

theorem reports_within_half_deadline_witness:
  "\<exists>ps. length ps = 3 \<and>
    trace (snd (run_state (main_cycles (\<lambda>_. True) sample_boot_build sample_boot 3)
      ((boot_init ())\<lparr>health_watching := True\<rparr>))) =
      concat (map (\<lambda>(r, ms, x). [(kfsw_health_report_app, r), (k_sleep_ms ms, x)]) ps) \<and>
    (\<forall>(r, ms, x) \<in> set ps. 0 < ms \<and> 2 * ms \<le> 4000)"
proof -
  have d: "deadline_in_range (Some (CONFIG_KFSW_APP_HEALTH_DEADLINE_MS sample_boot_build))"
    by (simp add: sample_boot_build_def deadline_in_range_def)
  have st: "stored_value (\<lambda>v. validate_app_report_ms (Some (CONFIG_KFSW_APP_HEALTH_DEADLINE_MS sample_boot_build)) (V16 v))
      (of_nat (KFSW_APP_REPORT_MS_DEFAULT (Some (CONFIG_KFSW_APP_HEALTH_DEADLINE_MS sample_boot_build))))
      (kfsw_system_app_report_ms (boot_system sample_boot s))" for s
    using stored_value.initial
    by (simp add: sample_boot_def sample_boot_build_def kfsw_system_app_report_ms_def system_state_init_def)
  show ?thesis
    using reports_within_half_deadline [of "\<lambda>_. True" "(boot_init ())\<lparr>health_watching := True\<rparr>", OF _ _ _ d st, of 3]
    by (simp add: boot_init_def sample_boot_build_def)
qed

end
