(* ===== verification/Csp_Liveness.thy ===== *)
theory Csp_Liveness
  imports Kfsw_Base
begin

text \<open>
  The CSP liveness probe, \<^verbatim>\<open>src/app/src/csp_liveness.c\<close>: a delayable work item that pings the node's
  own address through the router, reports to health when the ping came back and schedules itself
  again. The module is a state machine: its statics, whether the work is pending, and the calls it
  has made with the results the other services gave. The reachable states are those of any
  interleaving of \<^verbatim>\<open>kfsw_csp_liveness_start\<close> and runs of pending work.
\<close>

section \<open>The module\<close>

record liveness_build =
  CONFIG_KFSW_CSP_LIVENESS_TIMEOUT_MS :: nat
  CONFIG_KFSW_CSP_LIVENESS_DEADLINE_MS :: nat
  CONFIG_KFSW_CSP_LIVENESS_PERIOD_MS :: nat

definition LIVENESS_PAYLOAD_SIZE :: nat where "LIVENESS_PAYLOAD_SIZE = 1"

datatype live_event =
    Register string nat int
  | Ping u16 nat nat int
  | Report u8
  | Reschedule nat
  | Warned string

record liveness =
  liveness_handle :: u8
  registered :: bool
  probes :: u32
  failures :: u32
  pending :: bool
  events :: "live_event list"

definition liveness_init :: liveness where
  "liveness_init =
     \<lparr>liveness_handle = 0, registered = False, probes = 0, failures = 0, pending = False, events = []\<rparr>"

definition happen :: "live_event \<Rightarrow> liveness \<Rightarrow> liveness" where
  "happen e st = st\<lparr>events := events st @ [e]\<rparr>"

definition k_work_reschedule :: "nat \<Rightarrow> liveness \<Rightarrow> liveness" where
  "k_work_reschedule ms st = (happen (Reschedule ms) st)\<lparr>pending := True\<rparr>"

text \<open>\<^verbatim>\<open>address\<close> is what \<^verbatim>\<open>kfsw_csp_get_info\<close> answers, \<^verbatim>\<open>result\<close> what the ping returns.\<close>

definition liveness_work_handler :: "liveness_build \<Rightarrow> u16 \<Rightarrow> int \<Rightarrow> liveness \<Rightarrow> liveness" where
  "liveness_work_handler K address result st =
     (let st1 = happen (Ping address (CONFIG_KFSW_CSP_LIVENESS_TIMEOUT_MS K) LIVENESS_PAYLOAD_SIZE result) st;
          st2 = (if unat (probes st1) < UINT32_MAX then st1\<lparr>probes := probes st1 + 1\<rparr> else st1);
          st3 = (if result = 0 then happen (Report (liveness_handle st2)) st2
                 else happen (Warned (''CSP liveness probe failed ('' @ fmt_d result @ '')''))
                        (if unat (failures st2) < UINT32_MAX then st2\<lparr>failures := failures st2 + 1\<rparr> else st2))
      in k_work_reschedule (CONFIG_KFSW_CSP_LIVENESS_PERIOD_MS K) st3)"

text \<open>\<^verbatim>\<open>reg\<close> is what \<^verbatim>\<open>kfsw_health_register\<close> returns and leaves in the handle.\<close>

definition kfsw_csp_liveness_start :: "liveness_build \<Rightarrow> int \<times> u8 \<Rightarrow> liveness \<Rightarrow> int \<times> liveness" where
  "kfsw_csp_liveness_start K reg st =
     (if registered st then (- EALREADY, st)
      else
        let st1 = (happen (Register ''csp'' (CONFIG_KFSW_CSP_LIVENESS_DEADLINE_MS K) (fst reg)) st)
                    \<lparr>liveness_handle := snd reg\<rparr>
        in if fst reg \<noteq> 0 then (fst reg, st1)
           else
             let st2 = st1\<lparr>registered := True\<rparr>;
                 st3 = happen (Report (liveness_handle st2)) st2
             in (0, k_work_reschedule (CONFIG_KFSW_CSP_LIVENESS_PERIOD_MS K) st3))"

definition kfsw_csp_liveness_get_counters ::
  "u32 option \<Rightarrow> u32 option \<Rightarrow> liveness \<Rightarrow> u32 option \<times> u32 option" where
  "kfsw_csp_liveness_get_counters probe_count failure_count st =
     (map_option (\<lambda>_. probes st) probe_count, map_option (\<lambda>_. failures st) failure_count)"

text \<open>The states the module can be in. Work runs only when it is pending, and is then no longer.\<close>

inductive live_reach :: "liveness_build \<Rightarrow> liveness \<Rightarrow> bool" for K where
  init: "live_reach K liveness_init"
| start: "live_reach K st \<Longrightarrow> live_reach K (snd (kfsw_csp_liveness_start K reg st))"
| work: "live_reach K st \<Longrightarrow> pending st \<Longrightarrow>
    live_reach K (liveness_work_handler K address result (st\<lparr>pending := False\<rparr>))"

inductive_cases live_reachE: "live_reach K st"

section \<open>The invariant\<close>

definition is_ping :: "live_event \<Rightarrow> bool" where
  "is_ping e = (case e of Ping _ _ _ _ \<Rightarrow> True | _ \<Rightarrow> False)"

definition is_failed_ping :: "live_event \<Rightarrow> bool" where
  "is_failed_ping e = (case e of Ping _ _ _ rc \<Rightarrow> rc \<noteq> 0 | _ \<Rightarrow> False)"

definition is_report :: "live_event \<Rightarrow> bool" where
  "is_report e = (case e of Report _ \<Rightarrow> True | _ \<Rightarrow> False)"

definition count :: "('a \<Rightarrow> bool) \<Rightarrow> 'a list \<Rightarrow> nat" where
  "count P xs = length (filter P xs)"

lemma count_simps [simp]: "count P [] = 0" "count P (xs @ ys) = count P xs + count P ys"
  "count P (x # xs) = (if P x then Suc (count P xs) else count P xs)"
  by (simp_all add: count_def)

definition live_inv :: "liveness \<Rightarrow> bool" where
  "live_inv st \<longleftrightarrow>
     (pending st \<longleftrightarrow> registered st) \<and>
     unat (probes st) = min UINT32_MAX (count is_ping (events st)) \<and>
     unat (failures st) = min UINT32_MAX (count is_failed_ping (events st)) \<and>
     count is_report (events st) + count is_failed_ping (events st) =
       count is_ping (events st) + (if registered st then 1 else 0)"

lemmas live_event_defs = is_ping_def is_failed_ping_def is_report_def

lemma live_inv_init: "live_inv liveness_init"
  by (simp add: live_inv_def liveness_init_def)

lemma live_inv_start: "live_inv st \<Longrightarrow> live_inv (snd (kfsw_csp_liveness_start K reg st))"
  by (auto simp: live_inv_def kfsw_csp_liveness_start_def k_work_reschedule_def happen_def Let_def
      live_event_defs)

text \<open>A counter that stops at its maximum.\<close>

lemma saturating:
  assumes "unat (x :: u32) = min UINT32_MAX n"
  shows "unat (if unat x < UINT32_MAX then x + 1 else x) = min UINT32_MAX (Suc n)"
  using assms by (auto simp: uint_max_defs unat_word_ariths)

lemma live_inv_work:
  assumes "live_inv st" "pending st"
  shows "live_inv (liveness_work_handler K address result (st\<lparr>pending := False\<rparr>))"
proof -
  have p: "unat (if unat (probes st) < UINT32_MAX then probes st + 1 else probes st) =
      min UINT32_MAX (Suc (count is_ping (events st)))"
    and f: "unat (if unat (failures st) < UINT32_MAX then failures st + 1 else failures st) =
      min UINT32_MAX (Suc (count is_failed_ping (events st)))"
    using assms(1) by (intro saturating; simp add: live_inv_def)+
  from assms show ?thesis
    using p f
    by (auto simp: live_inv_def liveness_work_handler_def k_work_reschedule_def happen_def Let_def
        live_event_defs split: if_splits)
qed

lemma live_reach_inv: "live_reach K st \<Longrightarrow> live_inv st"
  by (induction rule: live_reach.induct) (simp_all add: live_inv_init live_inv_start live_inv_work)

lemma count_mono: "(\<And>x. P x \<Longrightarrow> Q x) \<Longrightarrow> count P xs \<le> count Q xs"
  by (induction xs) auto

lemma failed_le_pings: "count is_failed_ping es \<le> count is_ping es"
  by (rule count_mono) (auto simp: live_event_defs split: live_event.splits)

section \<open>Properties\<close>

text \<open>
  C11. In every reachable state: once registered the probe is always pending, so it never stops;
  both counters are exact until they saturate, failures never exceed probes; and health has been
  told the router lives exactly once per ping that came back, plus once at the start.
\<close>

theorem liveness_invariant:
  assumes "live_reach K st"
  shows "(pending st \<longleftrightarrow> registered st) \<and>
    unat (probes st) = min UINT32_MAX (count is_ping (events st)) \<and>
    unat (failures st) = min UINT32_MAX (count is_failed_ping (events st)) \<and>
    failures st \<le> probes st \<and>
    count is_report (events st) =
      (count is_ping (events st) - count is_failed_ping (events st)) + (if registered st then 1 else 0)"
proof -
  have inv: "live_inv st" using live_reach_inv [OF assms] .
  moreover have "failures st \<le> probes st"
    using inv failed_le_pings [of "events st"] by (simp add: live_inv_def word_le_nat_alt)
  moreover note failed_le_pings [of "events st"]
  ultimately show ?thesis by (auto simp: live_inv_def)
qed

definition sample_liveness_build :: liveness_build where
  "sample_liveness_build = \<lparr>CONFIG_KFSW_CSP_LIVENESS_TIMEOUT_MS = 500,
     CONFIG_KFSW_CSP_LIVENESS_DEADLINE_MS = 20000, CONFIG_KFSW_CSP_LIVENESS_PERIOD_MS = 5000\<rparr>"

theorem liveness_invariant_witness:
  "\<exists>st. live_reach sample_liveness_build st \<and> registered st \<and> unat (failures st) = 1 \<and>
     count is_report (events st) = 1"
proof -
  let ?K = sample_liveness_build
  define st where "st = liveness_work_handler ?K 10 (- 110)
    ((snd (kfsw_csp_liveness_start ?K (0, 3) liveness_init))\<lparr>pending := False\<rparr>)"
  have ev: "events st = [Register ''csp'' 20000 0, Report 3, Reschedule 5000, Ping 10 500 1 (- 110),
      Warned (''CSP liveness probe failed ('' @ fmt_d (- 110) @ '')''), Reschedule 5000]"
    and reg: "registered st"
    by (simp_all add: st_def kfsw_csp_liveness_start_def liveness_work_handler_def happen_def
        k_work_reschedule_def liveness_init_def sample_liveness_build_def LIVENESS_PAYLOAD_SIZE_def Let_def
        uint_max_defs)
  have "live_reach ?K st"
    unfolding st_def
    by (intro live_reach.work live_reach.start live_reach.init)
      (simp add: kfsw_csp_liveness_start_def k_work_reschedule_def liveness_init_def happen_def)
  with liveness_invariant [OF this] ev reg show ?thesis
    by (intro exI [of _ st]) (simp add: live_event_defs uint_max_defs)
qed

text \<open>
  A failed probe is silent towards health: the run reports exactly when the ping returned 0,
  with the handle it registered, and in both cases schedules the next probe; a second start is
  refused with \<^verbatim>\<open>-EALREADY\<close> and changes nothing.
\<close>

lemma liveness_reports_only_success:
  "(Report h \<in> set (drop (length (events st)) (events (liveness_work_handler K address result st)))
      \<longleftrightarrow> result = 0 \<and> h = liveness_handle st) \<and>
   last (events (liveness_work_handler K address result st)) = Reschedule (CONFIG_KFSW_CSP_LIVENESS_PERIOD_MS K) \<and>
   pending (liveness_work_handler K address result st) \<and>
   (registered st \<longrightarrow> kfsw_csp_liveness_start K reg st = (- EALREADY, st))"
  by (auto simp: liveness_work_handler_def kfsw_csp_liveness_start_def k_work_reschedule_def happen_def Let_def)

lemma liveness_reports_only_success_witness:
  "kfsw_csp_liveness_start sample_liveness_build (0, 4)
     (snd (kfsw_csp_liveness_start sample_liveness_build (0, 3) liveness_init)) =
   (- EALREADY, snd (kfsw_csp_liveness_start sample_liveness_build (0, 3) liveness_init))"
  using liveness_reports_only_success [of 3 "snd (kfsw_csp_liveness_start sample_liveness_build (0, 3) liveness_init)"
      sample_liveness_build 10 0 "(0, 4)"]
  by (simp add: kfsw_csp_liveness_start_def liveness_init_def k_work_reschedule_def happen_def)

end
