(* ===== verification/Join_Text.thy ===== *)
theory Join_Text
  imports Hk_Entries Hex_Text
begin

text \<open>
  Joining the words of a command line into a fixed array, as two shell files do it before they send
  the text to another node. \<open>bounded_joiner\<close> is what they rely on: the joined text arrives whole or
  not at all, and splitting it at the spaces gives the words back.
\<close>

text \<open>Words the shell's splitting gives back: not empty and without a space.\<close>

definition plain_words :: "string list \<Rightarrow> bool" where
  "plain_words ws \<longleftrightarrow> (\<forall>w \<in> set ws. w \<noteq> [] \<and> CHR '' '' \<notin> set w)"

lemma space_words_join: "plain_words ws \<Longrightarrow> space_words (join_with (CHR '' '') ws) = ws"
proof (induction "CHR '' ''" ws rule: join_with.induct)
  case (2 w)
  then show ?case
    using split_words_token [of w "[]" "[]"] by (simp add: plain_words_def)
next
  case (3 w v ws)
  have "split_words [] (w @ CHR '' '' # join_with (CHR '' '') (v # ws)) =
      w # split_words [] (join_with (CHR '' '') (v # ws))"
    using 3(2) split_words_token [of w "[]"] by (simp add: plain_words_def)
  with 3 show ?case by (simp add: plain_words_def)
qed simp

lemma no_nul_join: "\<forall>w \<in> set ws. CHR 0x00 \<notin> set w \<Longrightarrow> CHR 0x00 \<notin> set (join_with (CHR '' '') ws)"
  by (induction "CHR '' ''" ws rule: join_with.induct) auto

lemma length_join_with_append: "length (join_with c xs) \<le> length (join_with c (xs @ ys))"
  using length_join_with_take [of c "length xs" "xs @ ys"] by simp

locale bounded_joiner =
  fixes join_into :: "string list \<Rightarrow> char list \<Rightarrow> (int \<times> char list) option"
    and covered :: "string list \<Rightarrow> bool"
  assumes fits: "covered ws \<Longrightarrow> length (join_with (CHR '' '') ws) < length line \<Longrightarrow>
      \<exists>t. join_into ws line = Some (0, join_with (CHR '' '') ws @ CHR 0x00 # t) \<and>
          length (join_with (CHR '' '') ws @ CHR 0x00 # t) = length line"
    and too_long: "covered ws \<Longrightarrow> line \<noteq> [] \<Longrightarrow> length line \<le> length (join_with (CHR '' '') ws) \<Longrightarrow>
      \<exists>rc l. join_into ws line = Some (rc, l) \<and> rc \<noteq> 0 \<and> length l = length line"
begin

lemma never_outside:
  assumes "covered ws" "line \<noteq> []"
  shows "\<exists>rc l. join_into ws line = Some (rc, l) \<and> length l = length line \<and>
    (rc = 0 \<longleftrightarrow> length (join_with (CHR '' '') ws) < length line)"
proof (cases "length (join_with (CHR '' '') ws) < length line")
  case True
  then show ?thesis using fits [OF assms(1)] by blast
next
  case False
  then have "length line \<le> length (join_with (CHR '' '') ws)" by simp
  then show ?thesis using too_long [OF assms] False by (metis not_less)
qed

lemma joined_text:
  assumes "covered ws" "length (join_with (CHR '' '') ws) < length line" "\<forall>w \<in> set ws. CHR 0x00 \<notin> set w"
  shows "\<exists>l. join_into ws line = Some (0, l) \<and> cstr l = join_with (CHR '' '') ws"
  using fits [OF assms(1,2)] cstr_append [OF no_nul_join, OF assms(3)] by blast

lemma words_recovered:
  assumes "covered ws" "join_into ws line = Some (0, l)" "line \<noteq> []"
    and "plain_words ws" "\<forall>w \<in> set ws. CHR 0x00 \<notin> set w"
  shows "space_words (cstr l) = ws"
proof -
  have "length (join_with (CHR '' '') ws) < length line"
    using never_outside [OF assms(1,3)] assms(2) by auto
  then obtain l' where "join_into ws line = Some (0, l')" "cstr l' = join_with (CHR '' '') ws"
    using joined_text [OF assms(1) _ assms(5)] by blast
  then show ?thesis using assms(2) space_words_join [OF assms(4)] by simp
qed

end

end
