(* ===== verification/Shell_Common.thy ===== *)
theory Shell_Common
  imports Commands Join_Text
begin

text \<open>
  What the shell groups share: \<^verbatim>\<open>src/app/src/shell/shell_remote.c\<close> (reading a node, reporting a failed
  request) and \<^verbatim>\<open>src/app/src/shell/shell_command.c\<close> (running a registered command here or on another
  node and printing its reply field by field). A handler returns its result, or \<open>None\<close> when it reads
  or writes outside an array. Zephyr's \<^verbatim>\<open>shell_strtoul\<close> and the command service are parameters.
  The locale \<open>node_parser\<close> is the contract of the node parsers of the shell files.
\<close>

section \<open>Services of the shell\<close>

text \<open>
  \<open>shell_strtoul text base\<close> is the value and what \<^verbatim>\<open>*err\<close>, which starts at 0, holds afterwards.
  \<open>kfsw_command_find\<close> is \<open>None\<close> for a name it does not know, otherwise the number of arguments and
  their types.
\<close>

record 's shell_env =
  shell_strtoul :: "string \<Rightarrow> nat \<Rightarrow> nat \<times> int"
  kfsw_command_is_initialized :: "'s \<Rightarrow> bool"
  kfsw_command_find :: "string \<Rightarrow> 's \<Rightarrow> (nat \<times> kfsw_command_type list) option"
  kfsw_command_parse_arg :: "string \<Rightarrow> kfsw_command_type \<Rightarrow> int \<times> kfsw_command_arg"
  type_number :: "kfsw_command_type \<Rightarrow> int"
  kfsw_command_invoke :: "string \<Rightarrow> kfsw_command_arg list \<Rightarrow> 's \<Rightarrow> kfsw_command_result \<times> 's"
  kfsw_command_invoke_remote ::
    "u16 \<Rightarrow> string \<Rightarrow> kfsw_command_arg list \<Rightarrow> 's \<Rightarrow> (int \<times> kfsw_command_result) \<times> 's"
  kfsw_command_invoke_remote_retry ::
    "u16 \<Rightarrow> string \<Rightarrow> kfsw_command_arg list \<Rightarrow> 's \<Rightarrow> (int \<times> kfsw_command_result) \<times> 's"
  kfsw_command_status_name :: "kfsw_command_status \<Rightarrow> string"

type_synonym 's shell_handler = "string list \<Rightarrow> ('s, int option) act"

text \<open>\<^verbatim>\<open>argv[i]\<close>.\<close>

definition with_argv :: "string list \<Rightarrow> nat \<Rightarrow> (string \<Rightarrow> ('s, 'a option) act) \<Rightarrow> ('s, 'a option) act" where
  "with_argv argv i k = (if i < length argv then k (argv ! i) else ret None)"

section \<open>Remote nodes\<close>

definition kfsw_shell_parse_node :: "build \<Rightarrow> 's shell_env \<Rightarrow> string \<Rightarrow> u16 \<Rightarrow> ('s, int \<times> u16) act" where
  "kfsw_shell_parse_node B E txt node =
     (let (parsed, parse_error) = shell_strtoul E txt 10
      in if parse_error \<noteq> 0 \<or> parsed = 0 \<or> KFSW_CSP_BROADCAST_ADDRESS B \<le> parsed
         then do {
           shell_error (''Node must be 1..'' @ fmt_u (KFSW_CSP_BROADCAST_ADDRESS B - 1) @ '': '' @ txt);
           ret (- EINVAL, node)
         }
         else ret (0, of_nat parsed))"

definition kfsw_shell_no_answer :: "int \<Rightarrow> bool" where
  "kfsw_shell_no_answer rc \<longleftrightarrow>
     rc = - ETIMEDOUT \<or> rc = - EAGAIN \<or> rc = - ENOTCONN \<or> rc = - ECONNRESET \<or> rc = - EHOSTUNREACH"

definition kfsw_shell_remote_failed :: "string \<Rightarrow> u16 \<Rightarrow> int \<Rightarrow> ('s, int) act" where
  "kfsw_shell_remote_failed what node rc = do {
     (if kfsw_shell_no_answer rc
      then kfsw_log_warning (what @ '': node '' @ fmt_u (unat node) @ '' did not answer'')
      else shell_error (what @ '': node '' @ fmt_u (unat node) @ '' failed ('' @ fmt_d rc @ '')''));
     ret rc
   }"

section \<open>Printing a reply\<close>

text \<open>The loop of \<^verbatim>\<open>all_fields\<close>, with its two flags.\<close>

fun all_fields_loop :: "string \<Rightarrow> bool \<Rightarrow> bool \<Rightarrow> bool" where
  "all_fields_loop [] in_word has_equals = (\<not> in_word \<or> has_equals)"
| "all_fields_loop (c # cs) in_word has_equals =
     (if c = CHR '' ''
      then if in_word \<and> \<not> has_equals then False else all_fields_loop cs False False
      else all_fields_loop cs True (has_equals \<or> c = CHR ''=''))"

definition all_fields :: "string \<Rightarrow> bool" where
  "all_fields t = all_fields_loop t False False"

text \<open>One field: the name before the first \<^verbatim>\<open>=\<close> and the value after it.\<close>

definition field_line :: "string \<Rightarrow> line" where
  "field_line f =
     (if CHR ''='' \<in> set f
      then Print (takeWhile (\<lambda>c. c \<noteq> CHR ''='') f @ '': '' @ tl (dropWhile (\<lambda>c. c \<noteq> CHR ''='') f))
      else Print f)"

definition kfsw_shell_print_fields :: "build \<Rightarrow> string \<Rightarrow> ('s, unit) act" where
  "kfsw_shell_print_fields B t =
     (if t = [] \<or> \<not> all_fields t
      then (if t \<noteq> [] then shell_print t else ret ())
      else emit_all (map field_line (space_words (take (KFSW_COMMAND_MAX_DETAIL_SIZE B - 1) t))))"

section \<open>Running a command\<close>

definition KFSW_SHELL_THIS_NODE :: u16 where "KFSW_SHELL_THIS_NODE = 0"

definition parse_argument ::
  "build \<Rightarrow> 's shell_env \<Rightarrow> string \<Rightarrow> kfsw_command_type \<Rightarrow> ('s, int \<times> kfsw_command_arg) act" where
  "parse_argument B E txt type =
     (let (outcome, arg) = kfsw_command_parse_arg E txt type
      in do {
        (if outcome = 0 then ret ()
         else if outcome = - ENAMETOOLONG
         then shell_error (''argument is longer than '' @ fmt_u (KFSW_COMMAND_MAX_TEXT_SIZE B) @ '' bytes'')
         else if outcome = - ENOTSUP
         then shell_error (''argument type '' @ fmt_d (type_number E type) @ '' is not supported here'')
         else shell_error (''invalid argument '' @ [CHR 0x27] @ txt @ [CHR 0x27]));
        ret (outcome, arg)
      })"

text \<open>
  The argument loop from \<open>index\<close>, with what is in \<^verbatim>\<open>args\<close> so far: a failed argument ends it with its
  error. Reading past the declared types or writing past \<^verbatim>\<open>args\<close> is \<open>None\<close>.
\<close>

fun parse_arguments ::
  "build \<Rightarrow> 's shell_env \<Rightarrow> kfsw_command_type list \<Rightarrow> string list \<Rightarrow> nat \<Rightarrow> kfsw_command_arg list
     \<Rightarrow> ('s, (int + kfsw_command_arg list) option) act" where
  "parse_arguments B E types [] index args = ret (Some (Inr args))"
| "parse_arguments B E types (t # ts) index args =
     (if index < length types \<and> index < KFSW_COMMAND_MAX_ARGS B
      then do {
        r \<leftarrow> parse_argument B E t (types ! index);
        if fst r \<noteq> 0 then ret (Some (Inl (fst r)))
        else parse_arguments B E types ts (Suc index) (args @ [snd r])
      }
      else ret None)"

definition invoke_remote ::
  "config \<Rightarrow> 's shell_env \<Rightarrow> u16 \<Rightarrow> string \<Rightarrow> kfsw_command_arg list \<Rightarrow> bool
     \<Rightarrow> kfsw_command_result \<Rightarrow> ('s, int \<times> kfsw_command_result) act" where
  "invoke_remote cfg E node name args retry res =
     (if cfg CONFIG_KFSW_COMMAND_CSP
      then do {
        r \<leftarrow> call (if retry then kfsw_command_invoke_remote_retry E node name args
                   else kfsw_command_invoke_remote E node name args);
        (if fst r \<noteq> 0 then do { rc \<leftarrow> kfsw_shell_remote_failed name node (fst r); ret () } else ret ());
        ret r
      }
      else do {
        shell_error ''Reaching another node needs CONFIG_KFSW_COMMAND_CSP'';
        ret (- ENOTSUP, res)
      })"

definition zero_result :: kfsw_command_result where
  "zero_result = \<lparr>status = KFSW_COMMAND_OK, detail = []\<rparr>"

text \<open>The end of \<^verbatim>\<open>kfsw_shell_run_command\<close>: what the result says.\<close>

definition show_result :: "build \<Rightarrow> 's shell_env \<Rightarrow> u16 \<Rightarrow> string \<Rightarrow> kfsw_command_result \<Rightarrow> ('s, int) act" where
  "show_result B E node name res =
     (if status res \<noteq> KFSW_COMMAND_OK
      then do {
        shell_error (name @ '': '' @ kfsw_command_status_name E (status res) @
          (if detail res \<noteq> [] then '', '' else []) @ detail res);
        ret (- EIO)
      }
      else do {
        (if node \<noteq> KFSW_SHELL_THIS_NODE then shell_print (''node: '' @ fmt_u (unat node)) else ret ());
        kfsw_shell_print_fields B (detail res);
        ret 0
      })"

definition split_retry :: "u16 \<Rightarrow> string list \<Rightarrow> bool \<times> string list" where
  "split_retry node argv =
     (if node \<noteq> KFSW_SHELL_THIS_NODE \<and> argv \<noteq> [] \<and> last argv = ''--retry''
      then (True, butlast argv) else (False, argv))"

definition kfsw_shell_run_command ::
  "config \<Rightarrow> build \<Rightarrow> 's shell_env \<Rightarrow> u16 \<Rightarrow> string \<Rightarrow> 's shell_handler" where
  "kfsw_shell_run_command cfg B E node name argv = do {
     up \<leftarrow> ask (kfsw_command_is_initialized E);
     if \<not> up then do { shell_error ''Command registry is not initialized''; ret (Some (- EACCES)) }
     else let (retry, argv') = split_retry node argv in do {
       found \<leftarrow> ask (kfsw_command_find E name);
       case found of
         None \<Rightarrow> do { shell_error (name @ '' is not in this build''); ret (Some (- ENOENT)) }
       | Some (n, types) \<Rightarrow>
           if length argv' \<noteq> n
           then do {
             shell_error (name @ '' takes '' @ fmt_u n @ '' argument(s), got '' @ fmt_u (length argv'));
             ret (Some (- EINVAL))
           }
           else do {
             parsed \<leftarrow> parse_arguments B E types argv' 0 [];
             case parsed of
               None \<Rightarrow> ret None
             | Some (Inl outcome) \<Rightarrow> ret (Some outcome)
             | Some (Inr args) \<Rightarrow>
                 if node = KFSW_SHELL_THIS_NODE
                 then do {
                   res \<leftarrow> call (kfsw_command_invoke E name args);
                   rc \<leftarrow> show_result B E node name res;
                   ret (Some rc)
                 }
                 else do {
                   r \<leftarrow> invoke_remote cfg E node name args retry zero_result;
                   if fst r \<noteq> 0 then ret (Some (fst r))
                   else do { rc \<leftarrow> show_result B E node name (snd r); ret (Some rc) }
                 }
           }
     }
   }"

section \<open>Reading a node\<close>

text \<open>The number a text is read as in base 10, if it is one.\<close>

definition shell_number :: "'s shell_env \<Rightarrow> string \<Rightarrow> nat option" where
  "shell_number E t = (let (v, e) = shell_strtoul E t 10 in if e = 0 then Some v else None)"

definition node_in_range :: "nat \<Rightarrow> nat option \<Rightarrow> bool" where
  "node_in_range limit n = (case n of None \<Rightarrow> False | Some v \<Rightarrow> 0 < v \<and> v < limit)"

locale node_parser =
  fixes parse :: "string \<Rightarrow> u16 \<Rightarrow> ('s, int \<times> u16) act"
    and number :: "string \<Rightarrow> nat option"
    and limit :: nat
  assumes accepts: "node_in_range limit (number t) \<Longrightarrow>
      run_state (parse t n) w = ((0, of_nat (the (number t))), w)"
    and refuses: "\<not> node_in_range limit (number t) \<Longrightarrow>
      \<exists>msg. run_state (parse t n) w = ((- EINVAL, n), w\<lparr>out := out w @ [Error msg]\<rparr>)"
begin

lemma quiet_parse: "quiet (parse t n)"
proof -
  have "svc (snd (run_state (parse t n) w)) = svc w" for w
    using accepts [of t n w] refuses [of t n w] by (cases "node_in_range limit (number t)") auto
  then show ?thesis by (simp add: quiet_def)
qed

lemma parse_zero_iff: "fst (fst (run_state (parse t n) w)) = 0 \<longleftrightarrow> node_in_range limit (number t)"
  using accepts [of t n w] refuses [of t n w] by (cases "node_in_range limit (number t)") auto

lemma parse_value:
  assumes "limit \<le> 65536" "fst (fst (run_state (parse t n) w)) = 0"
  shows "number t = Some (unat (snd (fst (run_state (parse t n) w)))) \<and>
    0 < unat (snd (fst (run_state (parse t n) w))) \<and> unat (snd (fst (run_state (parse t n) w))) < limit"
proof -
  have r: "node_in_range limit (number t)" using assms(2) parse_zero_iff by blast
  then obtain v where v: "number t = Some v" "0 < v" "v < limit"
    by (auto simp: node_in_range_def split: option.splits)
  with accepts [OF r, of n w] assms(1) show ?thesis by (simp add: unat_of_nat take_bit_eq_mod)
qed

end

lemma parse_node_contract:
  "node_parser (kfsw_shell_parse_node B E) (shell_number E) (KFSW_CSP_BROADCAST_ADDRESS B)"
  by unfold_locales
    (auto simp: kfsw_shell_parse_node_def shell_number_def node_in_range_def split_beta not_less split: if_splits)

interpretation shell_node: node_parser "kfsw_shell_parse_node B E" "shell_number E"
    "KFSW_CSP_BROADCAST_ADDRESS B" for B E
  by (rule parse_node_contract)

lemma quiet_remote_failed [quiet_intros]: "quiet (kfsw_shell_remote_failed what node rc)"
  unfolding kfsw_shell_remote_failed_def by (intro quiet_intros)

lemma run_remote_failed: "fst (run_state (kfsw_shell_remote_failed what node rc) w) = rc"
  by (simp add: kfsw_shell_remote_failed_def)

section \<open>Fields\<close>

lemma all_fields_loop_words:
  "all_fields_loop s (acc \<noteq> []) (CHR ''='' \<in> set acc) = list_all (\<lambda>f. CHR ''='' \<in> set f) (split_words acc s)"
proof (induction s arbitrary: acc)
  case (Cons c s)
  show ?case
    using Cons.IH [of "[]"] Cons.IH [of "acc @ [c]"] by (cases acc) (auto simp: disj_commute eq_commute)
qed auto

lemma all_fields_iff: "all_fields t \<longleftrightarrow> (\<forall>f \<in> set (space_words t). CHR ''='' \<in> set f)"
  using all_fields_loop_words [of t "[]"] by (simp add: all_fields_def list_all_iff)

lemma field_split:
  assumes "CHR ''='' \<in> set f"
  obtains k v where "f = k @ CHR ''='' # v" "CHR ''='' \<notin> set k" "field_line f = Print (k @ '': '' @ v)"
proof -
  obtain k v where f: "f = k @ CHR ''='' # v" "CHR ''='' \<notin> set k"
    using split_list_first [OF assms] by blast
  have "takeWhile (\<lambda>c. c \<noteq> CHR ''='') f = k" "dropWhile (\<lambda>c. c \<noteq> CHR ''='') f = CHR ''='' # v"
    unfolding f(1) using f(2) by (induction k) auto
  with f that show thesis by (simp add: field_line_def)
qed

lemma fields_split:
  assumes "\<forall>f \<in> set fs. CHR ''='' \<in> set f"
  shows "\<exists>kvs. fs = map (\<lambda>(k, v). k @ CHR ''='' # v) kvs \<and> (\<forall>(k, v) \<in> set kvs. CHR ''='' \<notin> set k) \<and>
    map field_line fs = map (\<lambda>(k, v). Print (k @ '': '' @ v)) kvs"
  using assms
proof (induction fs)
  case (Cons f fs)
  obtain k v where "f = k @ CHR ''='' # v" "CHR ''='' \<notin> set k" "field_line f = Print (k @ '': '' @ v)"
    using field_split Cons.prems by (metis list.set_intros(1))
  moreover obtain kvs where "fs = map (\<lambda>(k, v). k @ CHR ''='' # v) kvs" "\<forall>(k, v) \<in> set kvs. CHR ''='' \<notin> set k"
    "map field_line fs = map (\<lambda>(k, v). Print (k @ '': '' @ v)) kvs"
    using Cons by auto
  ultimately show ?case by (intro exI [of _ "(k, v) # kvs"]) simp
qed simp

lemma quiet_print_fields [quiet_intros]: "quiet (kfsw_shell_print_fields B t)"
  unfolding kfsw_shell_print_fields_def by (intro quiet_intros)

section \<open>Arguments\<close>

lemma parse_argument_run:
  "\<exists>ls. run_state (parse_argument B E t ty) w = (kfsw_command_parse_arg E t ty, w\<lparr>out := out w @ ls\<rparr>)"
proof -
  have "w\<lparr>out := out w\<rparr> = w" by simp
  then have "\<exists>ls. w = w\<lparr>out := out w @ ls\<rparr>" by (intro exI [of _ "[]"]) simp
  then show ?thesis by (auto simp: parse_argument_def split_beta)
qed

definition args_ok :: "'s shell_env \<Rightarrow> string list \<Rightarrow> kfsw_command_type list \<Rightarrow> bool" where
  "args_ok E ts types \<longleftrightarrow> list_all2 (\<lambda>t ty. fst (kfsw_command_parse_arg E t ty) = 0) ts types"

definition parsed_args :: "'s shell_env \<Rightarrow> string list \<Rightarrow> kfsw_command_type list \<Rightarrow> kfsw_command_arg list" where
  "parsed_args E ts types = map2 (\<lambda>t ty. snd (kfsw_command_parse_arg E t ty)) ts types"

lemma parse_arguments_run:
  assumes "index + length ts = length types" "length types \<le> KFSW_COMMAND_MAX_ARGS B"
  shows "\<exists>w' r. run_state (parse_arguments B E types ts index args) w = (Some r, w') \<and> svc w' = svc w \<and>
    (if args_ok E ts (drop index types) then r = Inr (args @ parsed_args E ts (drop index types))
     else \<exists>e. r = Inl e \<and> e \<noteq> 0)"
  using assms
proof (induction ts arbitrary: index args w)
  case Nil
  then show ?case by (simp add: args_ok_def parsed_args_def)
next
  case (Cons t ts)
  have i: "index < length types" using Cons.prems by simp
  then have d: "drop index types = types ! index # drop (Suc index) types" by (simp add: Cons_nth_drop_Suc)
  obtain ls where run: "run_state (parse_argument B E t (types ! index)) w =
      (kfsw_command_parse_arg E t (types ! index), w\<lparr>out := out w @ ls\<rparr>)"
    using parse_argument_run by blast
  show ?case
  proof (cases "fst (kfsw_command_parse_arg E t (types ! index)) = 0")
    case True
    have "Suc index + length ts = length types" using Cons.prems by simp
    from Cons.IH [OF this Cons.prems(2), of "args @ [snd (kfsw_command_parse_arg E t (types ! index))]"
        "w\<lparr>out := out w @ ls\<rparr>"]
    show ?thesis
      using True i Cons.prems by (auto simp: run d args_ok_def parsed_args_def split: if_splits)
  next
    case False
    then show ?thesis using i Cons.prems by (auto simp: run d args_ok_def)
  qed
qed

lemma quiet_show_result [quiet_intros]: "quiet (show_result B E node name res)"
  unfolding show_result_def by (intro quiet_intros)

lemma show_result_zero: "fst (run_state (show_result B E node name res) w) = 0 \<longleftrightarrow> status res = KFSW_COMMAND_OK"
  by (simp add: show_result_def split_beta)

text \<open>What the shell relies on of the registry: a type per argument, and no more than fit the array.\<close>

definition registry_ok :: "build \<Rightarrow> 's shell_env \<Rightarrow> bool" where
  "registry_ok B E \<longleftrightarrow> (\<forall>name s n types. kfsw_command_find E name s = Some (n, types) \<longrightarrow>
     length types = n \<and> n \<le> KFSW_COMMAND_MAX_ARGS B)"

lemma run_command_returns:
  assumes "registry_ok B E"
  shows "fst (run_state (kfsw_shell_run_command cfg B E node name argv) w) \<noteq> None"
proof (cases "kfsw_command_find E name (svc w)")
  case (Some p)
  obtain n types where p: "p = (n, types)" by fastforce
  obtain retry av where sr: "split_retry node argv = (retry, av)" by fastforce
  have reg: "length types = n" "n \<le> KFSW_COMMAND_MAX_ARGS B"
    using assms Some p by (auto simp: registry_ok_def)
  show ?thesis
  proof (cases "length av = n")
    case True
    obtain w1 r where run: "run_state (parse_arguments B E types av 0 []) w = (Some r, w1)"
      using parse_arguments_run [of 0 av types B E "[]" w] True reg by auto
    show ?thesis
      by (cases r) (auto simp: True sr Some p run kfsw_shell_run_command_def split_beta)
  qed (simp add: sr Some p kfsw_shell_run_command_def)
qed (auto simp: kfsw_shell_run_command_def split: prod.splits)


section \<open>Properties\<close>

text \<open>
  A node is accepted exactly when its text is a number from 1 to below the broadcast address;
  then the node stored is that number, not a truncation of it. Otherwise the result is
  \<^verbatim>\<open>-EINVAL\<close>, the caller's variable keeps its value, and in no case is a service touched.
\<close>

lemma parse_node_range:
  assumes "KFSW_CSP_BROADCAST_ADDRESS B \<le> 65536"
  shows "let (r, w') = run_state (kfsw_shell_parse_node B E t node) w in
    svc w' = svc w \<and>
    (if node_in_range (KFSW_CSP_BROADCAST_ADDRESS B) (shell_number E t)
     then fst r = 0 \<and> shell_number E t = Some (unat (snd r))
     else r = (- EINVAL, node))"
proof -
  have q: "svc (snd (run_state (kfsw_shell_parse_node B E t node) w)) = svc w"
    by (rule quietD [OF shell_node.quiet_parse])
  show ?thesis
  proof (cases "node_in_range (KFSW_CSP_BROADCAST_ADDRESS B) (shell_number E t)")
    case True
    then show ?thesis
      using q shell_node.parse_value [OF assms, where t = t] shell_node.parse_zero_iff [of B E t node w]
      by (auto simp: split_beta)
  next
    case False
    then show ?thesis using q shell_node.refuses [OF False, of node w] by (auto simp: split_beta)
  qed
qed

text \<open>A service environment for the witnesses: decimal numbers, one command with one argument.\<close>

definition sample_strtoul :: "string \<Rightarrow> nat \<Rightarrow> nat \<times> int" where
  "sample_strtoul t base =
     (let (v, rest, erange) = strtoul0 64 t in if t = [] \<or> rest \<noteq> [] then (0, - EINVAL)
      else if erange then (v, - ERANGE) else (v, 0))"

definition sample_env :: "string list shell_env" where
  "sample_env =
     \<lparr>shell_strtoul = sample_strtoul, kfsw_command_is_initialized = (\<lambda>_. True),
      kfsw_command_find = (\<lambda>n _. if n = ''reboot'' then Some (1, [KFSW_COMMAND_TYPE_TEXT]) else None),
      kfsw_command_parse_arg = (\<lambda>t ty. (0, Arg_text t)), type_number = (\<lambda>_. 0),
      kfsw_command_invoke = (\<lambda>n args s. (\<lparr>status = KFSW_COMMAND_OK, detail = ''a=1 b=2''\<rparr>, s @ [n])),
      kfsw_command_invoke_remote = (\<lambda>node n args s. ((0, \<lparr>status = KFSW_COMMAND_OK, detail = []\<rparr>), s @ [n])),
      kfsw_command_invoke_remote_retry = (\<lambda>node n args s. ((0, \<lparr>status = KFSW_COMMAND_OK, detail = []\<rparr>), s @ [n, n])),
      kfsw_command_status_name = (\<lambda>_. ''status'')\<rparr>"

lemma parse_node_range_witness:
  "run_state (kfsw_shell_parse_node sample_build sample_env ''12'' 7) \<lparr>svc = [], out = []\<rparr> =
     ((0, 12), \<lparr>svc = [], out = []\<rparr>) \<and>
   fst (run_state (kfsw_shell_parse_node sample_build sample_env ''16383'' 7) \<lparr>svc = [], out = []\<rparr>) = (- EINVAL, 7)"
proof -
  have n: "shell_number sample_env ''12'' = Some 12" "shell_number sample_env ''16383'' = Some 16383"
    by (simp_all add: shell_number_def sample_env_def sample_strtoul_def strtoul_eval)
  have l: "KFSW_CSP_BROADCAST_ADDRESS sample_build = 16383" by (simp add: sample_build_def)
  have a: "run_state (kfsw_shell_parse_node sample_build sample_env ''12'' 7) \<lparr>svc = [], out = []\<rparr> =
     ((0, 12), \<lparr>svc = [], out = []\<rparr>)"
    using shell_node.accepts [of sample_build sample_env "''12''" 7 "\<lparr>svc = [], out = []\<rparr>"]
    by (simp add: n l node_in_range_def)
  show ?thesis
    using a parse_node_range [of sample_build sample_env "''16383''" 7 "\<lparr>svc = [], out = []\<rparr>"]
    by (simp add: n l node_in_range_def split_beta)
qed

text \<open>
  A reply shorter than the print buffer is shown field by field exactly when every word of it
  is a \<^verbatim>\<open>name=value\<close>: one line per word, in order, the name before the first \<^verbatim>\<open>=\<close> and the value after
  it; any other text is shown as one line, and an empty one not at all.
\<close>

lemma print_fields_shows_fields:
  assumes "length t < KFSW_COMMAND_MAX_DETAIL_SIZE B"
  shows "if t = [] then run_state (kfsw_shell_print_fields B t) w = ((), w)
    else if \<exists>f \<in> set (space_words t). CHR ''='' \<notin> set f
    then run_state (kfsw_shell_print_fields B t) w = ((), w\<lparr>out := out w @ [Print t]\<rparr>)
    else \<exists>kvs. space_words t = map (\<lambda>(k, v). k @ CHR ''='' # v) kvs \<and>
      (\<forall>(k, v) \<in> set kvs. CHR ''='' \<notin> set k) \<and>
      run_state (kfsw_shell_print_fields B t) w =
        ((), w\<lparr>out := out w @ map (\<lambda>(k, v). Print (k @ '': '' @ v)) kvs\<rparr>)"
proof (cases "\<forall>f \<in> set (space_words t). CHR ''='' \<in> set f")
  case True
  have tk: "take (KFSW_COMMAND_MAX_DETAIL_SIZE B - 1) t = t" using assms by simp
  have run: "t \<noteq> [] \<Longrightarrow> run_state (kfsw_shell_print_fields B t) w =
      ((), w\<lparr>out := out w @ map field_line (space_words t)\<rparr>)"
    using True unfolding kfsw_shell_print_fields_def tk by (simp add: all_fields_iff)
  show ?thesis
  proof (cases "t = []")
    case t: False
    obtain kvs where kvs: "space_words t = map (\<lambda>(k, v). k @ CHR ''='' # v) kvs"
        "\<forall>(k, v) \<in> set kvs. CHR ''='' \<notin> set k"
        "map field_line (space_words t) = map (\<lambda>(k, v). Print (k @ '': '' @ v)) kvs"
      using fields_split [OF True] by blast
    have nb: "\<not> (\<exists>f \<in> set (space_words t). CHR ''='' \<notin> set f)" using True by blast
    show ?thesis
      unfolding if_not_P [OF t] if_not_P [OF nb]
      using kvs(1,2) run [OF t, unfolded kvs(3)] by (intro exI [of _ kvs] conjI)
  qed (simp add: kfsw_shell_print_fields_def)
next
  case False
  then show ?thesis by (auto simp: kfsw_shell_print_fields_def all_fields_iff)
qed

lemma print_fields_shows_fields_witness:
  "\<exists>kvs. space_words ''a=1 b=c=2'' = map (\<lambda>(k, v). k @ CHR ''='' # v) kvs \<and>
     (\<forall>(k, v) \<in> set kvs. CHR ''='' \<notin> set k) \<and>
     run_state (kfsw_shell_print_fields sample_build ''a=1 b=c=2'') \<lparr>svc = (), out = []\<rparr> =
       ((), \<lparr>svc = (), out = map (\<lambda>(k, v). Print (k @ '': '' @ v)) kvs\<rparr>)"
  using print_fields_shows_fields [of "''a=1 b=c=2''" sample_build "\<lparr>svc = (), out = []\<rparr>"]
  by (simp add: sample_build_def)

text \<open>The one service call a command makes.\<close>

definition command_call ::
  "config \<Rightarrow> 's shell_env \<Rightarrow> u16 \<Rightarrow> string \<Rightarrow> kfsw_command_arg list \<Rightarrow> bool \<Rightarrow> 's \<Rightarrow> 's" where
  "command_call cfg E node name args retry s =
     (if node = KFSW_SHELL_THIS_NODE then snd (kfsw_command_invoke E name args s)
      else if \<not> cfg CONFIG_KFSW_COMMAND_CSP then s
      else if retry then snd (kfsw_command_invoke_remote_retry E node name args s)
      else snd (kfsw_command_invoke_remote E node name args s))"

lemma invoke_remote_svc:
  "node \<noteq> KFSW_SHELL_THIS_NODE \<Longrightarrow>
   svc (snd (run_state (invoke_remote cfg E node name args retry res) w)) =
     command_call cfg E node name args retry (svc w)"
  by (simp add: invoke_remote_def command_call_def split_beta quietD [OF quiet_remote_failed])

text \<open>A command this node knows, with the right number of arguments, is one call of the service here.\<close>

lemma run_local_command:
  assumes "kfsw_command_is_initialized E (svc w)" "kfsw_command_find E name (svc w) = Some (length types, types)"
    and "length types \<le> KFSW_COMMAND_MAX_ARGS B" "length argv = length types"
  shows "\<exists>r w'. run_state (kfsw_shell_run_command cfg B E KFSW_SHELL_THIS_NODE name argv) w = (Some r, w') \<and>
    (if args_ok E argv types
     then svc w' = snd (kfsw_command_invoke E name (parsed_args E argv types) (svc w)) \<and>
       (r = 0 \<longleftrightarrow> status (fst (kfsw_command_invoke E name (parsed_args E argv types) (svc w))) = KFSW_COMMAND_OK)
     else svc w' = svc w \<and> r \<noteq> 0)"
proof -
  obtain w1 r where run: "run_state (parse_arguments B E types argv 0 []) w = (Some r, w1)" "svc w1 = svc w"
      "if args_ok E argv types then r = Inr (parsed_args E argv types) else \<exists>e. r = Inl e \<and> e \<noteq> 0"
    using parse_arguments_run [of 0 argv types B E "[]" w] assms by auto
  show ?thesis
    using assms run
    by (auto simp: split_retry_def kfsw_shell_run_command_def show_result_zero quietD [OF quiet_show_result]
        split_beta split: if_splits)
qed

text \<open>
  C7. Running a command is one call of the command service with the converted arguments, or none:
  it happens exactly when the registry is up, knows the name, the number of arguments is right and
  every one of them converts; on every other path no service changes and the result is not 0. The
  argument array is never overrun as long as the registry declares at most
  \<^verbatim>\<open>KFSW_COMMAND_MAX_ARGS\<close> arguments, each with a type. On this node 0 is returned exactly when the
  command reported success.
\<close>

theorem run_command_effect:
  assumes "\<And>s n types. kfsw_command_find E name s = Some (n, types) \<Longrightarrow>
    length types = n \<and> n \<le> KFSW_COMMAND_MAX_ARGS B"
  shows "let (retry, av) = split_retry node argv;
      (r, w') = run_state (kfsw_shell_run_command cfg B E node name argv) w
    in r \<noteq> None \<and>
      (case kfsw_command_find E name (svc w) of
         None \<Rightarrow> svc w' = svc w \<and> r \<noteq> Some 0
       | Some (n, types) \<Rightarrow>
           if kfsw_command_is_initialized E (svc w) \<and> length av = n \<and> args_ok E av types
           then svc w' = command_call cfg E node name (parsed_args E av types) retry (svc w) \<and>
             (node = KFSW_SHELL_THIS_NODE \<longrightarrow>
                (r = Some 0 \<longleftrightarrow>
                 status (fst (kfsw_command_invoke E name (parsed_args E av types) (svc w))) = KFSW_COMMAND_OK))
           else svc w' = svc w \<and> r \<noteq> Some 0)"
proof -
  obtain retry av where sr: "split_retry node argv = (retry, av)" by fastforce
  show ?thesis
  proof (cases "kfsw_command_find E name (svc w)")
    case None
    then show ?thesis by (simp add: sr kfsw_shell_run_command_def)
  next
    case (Some p)
    obtain n types where p: "p = (n, types)" by fastforce
    have reg: "length types = n" "n \<le> KFSW_COMMAND_MAX_ARGS B"
      using assms [of "svc w" n types] Some p by auto
    show ?thesis
    proof (cases "kfsw_command_is_initialized E (svc w) \<and> length av = n")
      case False
      then show ?thesis by (auto simp: sr Some p kfsw_shell_run_command_def)
    next
      case True
      obtain w1 r where run: "run_state (parse_arguments B E types av 0 []) w = (Some r, w1)" "svc w1 = svc w"
          "if args_ok E av types then r = Inr (parsed_args E av types) else \<exists>e. r = Inl e \<and> e \<noteq> 0"
        using parse_arguments_run [of 0 av types B E "[]" w] True reg by auto
      show ?thesis
        using True run
        by (auto simp: sr Some p kfsw_shell_run_command_def show_result_zero quietD [OF quiet_show_result]
            invoke_remote_svc split_beta command_call_def split: if_splits)
    qed
  qed
qed

theorem run_command_effect_witness:
  "svc (snd (run_state (kfsw_shell_run_command (\<lambda>_. True) sample_build sample_env 5 ''reboot'' [''0000'', ''--retry''])
      \<lparr>svc = [], out = []\<rparr>)) = [''reboot'', ''reboot'']"
proof -
  have r: "\<And>s n types. kfsw_command_find sample_env ''reboot'' s = Some (n, types) \<Longrightarrow>
      length types = n \<and> n \<le> KFSW_COMMAND_MAX_ARGS sample_build"
    by (auto simp: sample_env_def sample_build_def)
  show ?thesis
    using run_command_effect [of sample_env "''reboot''" sample_build 5 "[''0000'', ''--retry'']" "\<lambda>_. True"
        "\<lparr>svc = [], out = []\<rparr>", OF r]
    by (simp add: split_retry_def KFSW_SHELL_THIS_NODE_def args_ok_def parsed_args_def command_call_def
        split_beta sample_env_def)
qed

end
