(* ===== verification/Shell_Group.thy ===== *)
theory Shell_Group
  imports Shell_Common
begin

text \<open>
  What the shell files have in common as groups: a \<^verbatim>\<open>SHELL_STATIC_SUBCMD_SET_CREATE\<close> table of
  handlers with the argument counts the shell checks before it calls one. A handler that reads an
  argument it was not given or leaves one of its arrays has no result. The locale \<open>shell_group\<close> is
  the contract of a group: every call the shell lets through returns. Inside it the contract is
  carried from one line to a whole session of an operator; every group is an instance.
\<close>

section \<open>Returning\<close>

abbreviation returns :: "('s, 'a option) act \<Rightarrow> bool" where
  "returns m \<equiv> ends (\<lambda>r. r \<noteq> None) m"

named_theorems returns_intros \<open>composition of handlers that return\<close>

lemma returns_ret [returns_intros]: "returns (ret (Some x))"
  by (simp add: ends_def)

lemma ends_with_argv [returns_intros]:
  "i < length argv \<Longrightarrow> ends P (k (argv ! i)) \<Longrightarrow> ends P (with_argv argv i k)"
  by (simp add: with_argv_def)

lemma ends_case_sum [returns_intros]:
  "(\<And>x. ends P (f x)) \<Longrightarrow> (\<And>y. ends P (g y)) \<Longrightarrow> ends P (case s of Inl x \<Rightarrow> f x | Inr y \<Rightarrow> g y)"
  by (cases s) simp_all

lemma ends_case_prod [returns_intros]: "(\<And>x y. ends P (f x y)) \<Longrightarrow> ends P (case p of (x, y) \<Rightarrow> f x y)"
  by (cases p) simp

lemma ends_case_option:
  "ends P f \<Longrightarrow> (\<And>x. ends P (g x)) \<Longrightarrow> ends P (case z of None \<Rightarrow> f | Some x \<Rightarrow> g x)"
  by (cases z) simp_all

lemmas [returns_intros] = ends_if ends_bind

text \<open>A sequence whose first part returns and whose second part returns for every value of it.\<close>

lemma returns_bind:
  "returns m \<Longrightarrow> (\<And>x. returns (f (Some x))) \<Longrightarrow> returns (m \<bind> f)"
  by (auto simp: ends_def split_beta) (metis option.exhaust option.sel)

text \<open>The same with a postcondition of the first part.\<close>

lemma ends_then: "ends Q m \<Longrightarrow> (\<And>x. Q x \<Longrightarrow> ends P (f x)) \<Longrightarrow> ends P (m \<bind> f)"
  by (simp add: ends_def split_beta)

lemma ends_call: "(\<And>s. P (fst (f s))) \<Longrightarrow> ends P (call f)"
  by (simp add: ends_def)

lemma ends_weaken: "ends Q m \<Longrightarrow> (\<And>x. Q x \<Longrightarrow> P x) \<Longrightarrow> ends P m"
  by (simp add: ends_def)

lemma returns_run_command:
  "registry_ok B E \<Longrightarrow> returns (kfsw_shell_run_command cfg B E node name argv)"
  using run_command_returns by (auto simp: ends_def)

text \<open>An \<^verbatim>\<open>int\<close> function called last.\<close>

definition lift_int :: "('s, int) act \<Rightarrow> ('s, int option) act" where
  "lift_int m = do { rc \<leftarrow> m; ret (Some rc) }"

lemma returns_lift_int [returns_intros]: "returns (lift_int m)"
  by (simp add: lift_int_def ends_def split_beta)

lemma quiet_lift_int [quiet_intros]: "quiet m \<Longrightarrow> quiet (lift_int m)"
  unfolding lift_int_def by (intro quiet_intros)

section \<open>Tables of subcommands\<close>

text \<open>A subcommand with the mandatory and optional argument counts, its own name included.\<close>

record 's subcommand =
  sub_name :: string
  sub_handler :: "'s shell_handler"
  mandatory :: nat
  optional :: nat

definition sub :: "string \<Rightarrow> 's shell_handler \<Rightarrow> nat \<Rightarrow> nat \<Rightarrow> 's subcommand" where
  "sub n h m k = \<lparr>sub_name = n, sub_handler = h, mandatory = m, optional = k\<rparr>"

lemma sub_select [simp]:
  "sub_name (sub n h m k) = n" "sub_handler (sub n h m k) = h"
  "mandatory (sub n h m k) = m" "optional (sub n h m k) = k"
  by (simp_all add: sub_def)

text \<open>The count the shell checks, and a line of an operator: a subcommand and its arguments.\<close>

definition allowed :: "'s subcommand \<Rightarrow> string list \<Rightarrow> bool" where
  "allowed sc argv \<longleftrightarrow> mandatory sc \<le> length argv \<and> length argv \<le> mandatory sc + optional sc"

definition group_total :: "'s subcommand list \<Rightarrow> bool" where
  "group_total subs \<longleftrightarrow> (\<forall>sc \<in> set subs. \<forall>argv. allowed sc argv \<longrightarrow> returns (sub_handler sc argv))"

lemma group_total_Nil [simp]: "group_total []"
  by (simp add: group_total_def)

lemma group_total_append [simp]: "group_total (xs @ ys) \<longleftrightarrow> group_total xs \<and> group_total ys"
  by (auto simp: group_total_def)

lemma group_total_Cons [simp]:
  "group_total (sub n h m k # xs) \<longleftrightarrow>
     (\<forall>argv. m \<le> length argv \<longrightarrow> length argv \<le> m + k \<longrightarrow> returns (h argv)) \<and> group_total xs"
  by (auto simp: group_total_def allowed_def)

lemma group_total_if [simp]: "group_total (if b then xs else ys) \<longleftrightarrow> (if b then group_total xs else group_total ys)"
  by simp

text \<open>The results of a session, as long as every line has one.\<close>

fun run_lines :: "('s subcommand \<times> string list) list \<Rightarrow> ('s, int list option) act" where
  "run_lines [] = ret (Some [])"
| "run_lines ((sc, argv) # ls) = do {
     r \<leftarrow> sub_handler sc argv;
     case r of
       None \<Rightarrow> ret None
     | Some rc \<Rightarrow> do {
         rs \<leftarrow> run_lines ls;
         ret (map_option (\<lambda>xs. rc # xs) rs)
       }
   }"

definition lines_of :: "'s subcommand list \<Rightarrow> ('s subcommand \<times> string list) list \<Rightarrow> bool" where
  "lines_of subs ls \<longleftrightarrow> (\<forall>(sc, argv) \<in> set ls. sc \<in> set subs \<and> allowed sc argv)"

lemma run_lines_returns:
  assumes "group_total subs"
  shows "lines_of subs ls \<Longrightarrow> returns (run_lines ls)"
proof (induction ls rule: run_lines.induct)
  case (2 sc argv ls)
  have "returns (sub_handler sc argv)" and ls: "returns (run_lines ls)"
    using 2 assms by (auto simp: lines_of_def group_total_def)
  moreover have "returns (do { rs \<leftarrow> run_lines ls; ret (map_option (\<lambda>xs. rc # xs) rs) })" for rc
    by (rule returns_bind [OF ls]) (simp add: returns_ret del: not_None_eq)
  ultimately show ?case
    unfolding run_lines.simps by (intro returns_bind) (auto simp del: not_None_eq)
qed (simp add: ends_def)

lemma run_lines_length:
  "fst (run_state (run_lines ls) w) = Some rs \<Longrightarrow> length rs = length ls"
  by (induction ls arbitrary: w rs rule: run_lines.induct)
    (auto simp: split_beta split: option.splits)

locale shell_group =
  fixes subs :: "'x \<Rightarrow> 's subcommand list"
    and ok :: "'x \<Rightarrow> bool"
  assumes total: "ok x \<Longrightarrow> group_total (subs x)"
    and names: "distinct (map sub_name (subs x))"
begin

lemma line_returns: "ok x \<Longrightarrow> sc \<in> set (subs x) \<Longrightarrow> allowed sc argv \<Longrightarrow> returns (sub_handler sc argv)"
  using total by (simp add: group_total_def)

text \<open>A name stands for one handler.\<close>

lemma one_handler: "sc \<in> set (subs x) \<Longrightarrow> sc' \<in> set (subs x) \<Longrightarrow> sub_name sc = sub_name sc' \<Longrightarrow> sc = sc'"
  using names [of x] by (simp add: distinct_map inj_on_def)

lemma session_returns:
  assumes "ok x" "lines_of (subs x) ls"
  shows "\<exists>rs. fst (run_state (run_lines ls) w) = Some rs \<and> length rs = length ls"
  using run_lines_returns [OF total [OF assms(1)] assms(2)] run_lines_length by (fastforce simp: ends_def)

end

end
