(* ===== verification/Shell_Walk.thy ===== *)
theory Shell_Walk
  imports Shell_Group
begin

text \<open>
  Walks with a callback, the way the services offer their tables, files and counters to the shell: a
  walk hands its items to the callback one by one until it returns \<^verbatim>\<open>false\<close>. The locale
  \<open>item_callback\<close> is the contract of a callback, an invariant of its context for the items it is
  given, and carries it over a whole walk; \<open>walk_callback\<close> is the case without a condition on items; every callback of the shell files is an instance.
\<close>

text \<open>What a walk offers and what it returns after handing out a number of items.\<close>

type_synonym 'i visit = "'i list \<times> (nat \<Rightarrow> int)"

section \<open>Walks\<close>

text \<open>A callback works on its context and says whether to go on; outside an array it has no result.\<close>

type_synonym ('s, 'i, 'c) callback = "'i \<Rightarrow> 'c \<Rightarrow> ('s, ('c \<times> bool) option) act"

fun walk :: "('s, 'i, 'c) callback \<Rightarrow> 'i list \<Rightarrow> 'c \<Rightarrow> nat \<Rightarrow> ('s, ('c \<times> nat) option) act" where
  "walk f [] c n = ret (Some (c, n))"
| "walk f (i # is) c n = do {
     r \<leftarrow> f i c;
     case r of
       None \<Rightarrow> ret None
     | Some (c', go) \<Rightarrow> if go then walk f is c' (Suc n) else ret (Some (c', Suc n))
   }"

definition visit_with :: "('s \<Rightarrow> 'i visit \<times> 's) \<Rightarrow> ('s, 'i, 'c) callback \<Rightarrow> 'c \<Rightarrow> ('s, (int \<times> 'c) option) act" where
  "visit_with src f c = do {
     v \<leftarrow> call src;
     r \<leftarrow> walk f (fst v) c 0;
     ret (map_option (\<lambda>(c', n). (snd v n, c')) r)
   }"

section \<open>Callbacks\<close>

text \<open>
  What a walk needs of its callback: from a context that satisfies the invariant, and for an item
  that satisfies a condition, it returns a context that satisfies the invariant.
\<close>

locale item_callback =
  fixes f :: "('s, 'i, 'c) callback"
    and I :: "'c \<Rightarrow> bool"
    and J :: "'i \<Rightarrow> bool"
  assumes step: "I c \<Longrightarrow> J i \<Longrightarrow> ends (\<lambda>r. \<exists>c' go. r = Some (c', go) \<and> I c') (f i c)"
begin

lemma walk_items:
  "I c \<Longrightarrow> \<forall>i \<in> set is. J i \<Longrightarrow> ends (\<lambda>r. \<exists>c' m. r = Some (c', m) \<and> I c') (walk f is c n)"
proof (induction "is" arbitrary: c n)
  case (Cons i "is")
  have "J i" and rest: "\<forall>i \<in> set is. J i" using Cons.prems by auto
  show ?case
    unfolding walk.simps
  proof (rule ends_then [OF step [OF Cons.prems(1) \<open>J i\<close>]], elim exE conjE)
    fix r and c' :: 'c and go :: bool assume r: "r = Some (c', go)" and c': "I c'"
    show "ends (\<lambda>r. \<exists>c' m. r = Some (c', m) \<and> I c')
        (case r of None \<Rightarrow> ret None | Some (c', go) \<Rightarrow> if go then walk f is c' (Suc n) else ret (Some (c', Suc n)))"
      using Cons.IH [OF c' rest] c' by (cases go) (auto simp: r intro: ends_ret)
  qed
qed (simp add: ends_def)

lemma visit_items:
  assumes "I c" "\<And>s. \<forall>i \<in> set (fst (fst (src s))). J i"
  shows "ends (\<lambda>r. \<exists>rc c'. r = Some (rc, c') \<and> I c') (visit_with src f c)"
  unfolding visit_with_def
proof (rule ends_then [OF ends_call [where P = "\<lambda>v. \<forall>i \<in> set (fst v). J i"]])
  show "\<forall>i \<in> set (fst (fst (src s))). J i" for s by (rule assms(2))
  show "ends (\<lambda>r. \<exists>rc c'. r = Some (rc, c') \<and> I c')
      (do { r \<leftarrow> walk f (fst v) c 0; ret (map_option (\<lambda>(c', n). (snd v n, c')) r) })"
    if "\<forall>i \<in> set (fst v). J i" for v :: "'i visit"
    by (rule ends_then [OF walk_items [OF assms(1) that]]) (auto simp: ends_def)
qed

text \<open>What comes after a walk may rely on the invariant.\<close>

lemma items_then:
  assumes "I c" "\<And>s. \<forall>i \<in> set (fst (fst (src s))). J i" "\<And>rc c'. I c' \<Longrightarrow> ends P (k (Some (rc, c')))"
  shows "ends P (visit_with src f c \<bind> k)"
  by (rule ends_then [OF visit_items [OF assms(1,2)]]) (use assms(3) in auto)

end

text \<open>A callback that takes any item.\<close>

locale walk_callback = item_callback f I "\<lambda>_. True"
  for f :: "('s, 'i, 'c) callback" and I :: "'c \<Rightarrow> bool"
begin

lemma visit_keeps: "I c \<Longrightarrow> ends (\<lambda>r. \<exists>rc c'. r = Some (rc, c') \<and> I c') (visit_with src f c)"
  by (rule visit_items) simp_all

lemma visit_then:
  assumes "I c" "\<And>rc c'. I c' \<Longrightarrow> ends P (k (Some (rc, c')))"
  shows "ends P (visit_with src f c \<bind> k)"
  by (rule items_then) (use assms in simp_all)

end

end
