(* ===== verification/Shell_Param.thy ===== *)
theory Shell_Param
  imports Shell_Walk
begin

text \<open>
  The parameter shell group, \<^verbatim>\<open>src/app/src/shell/shell_param.c\<close>: values as text, the listings, one
  parameter read or written here or on another node, whole tables fetched from a node in windows,
  and the snapshot. The parameter service is a parameter of every definition. A walk over
  descriptors is what it hands to the callback until the callback returns \<^verbatim>\<open>false\<close>, with its result
  as a function of how many were handed out. The text of a float is a parameter too.
\<close>

section \<open>Data\<close>

text \<open>
  \<^verbatim>\<open>struct kfsw_param_value\<close>: the members of the scalar union that are read, unsigned; a signed member
  is the same bits.
\<close>

record kfsw_param_value =
  v_type :: param_type
  v_u8 :: u8
  v_u16 :: u16
  v_u32 :: u32
  v_u64 :: u64
  v_text :: string
  v_size :: nat
  v_bytes :: "u8 list"

record kfsw_param_info =
  i_name :: string
  i_table :: u8
  i_table_name :: "string option"
  i_offset :: u8
  i_type :: param_type
  i_flags :: u32
  i_unit :: "string option"
  i_description :: "string option"

record kfsw_param_table_info =
  t_id :: u8
  t_name :: string
  t_count :: u16
  t_description :: "string option"

record 's param_services =
  kfsw_param_get :: "string \<Rightarrow> 's \<Rightarrow> (int \<times> kfsw_param_value) \<times> 's"
  kfsw_param_set :: "string \<Rightarrow> kfsw_param_value \<Rightarrow> 's \<Rightarrow> int \<times> 's"
  kfsw_param_remote_get :: "u16 \<Rightarrow> string \<Rightarrow> 's \<Rightarrow> (int \<times> kfsw_param_value) \<times> 's"
  kfsw_param_remote_set :: "u16 \<Rightarrow> string \<Rightarrow> kfsw_param_value \<Rightarrow> 's \<Rightarrow> int \<times> 's"
  kfsw_param_remote_get_many :: "u16 \<Rightarrow> string list \<Rightarrow> 's \<Rightarrow> (int \<times> kfsw_param_value list) \<times> 's"
  kfsw_param_visit :: "'s \<Rightarrow> kfsw_param_info visit \<times> 's"
  kfsw_param_remote_visit :: "u16 \<Rightarrow> 's \<Rightarrow> kfsw_param_info visit \<times> 's"
  kfsw_param_remote_visit_table :: "u16 \<Rightarrow> u8 \<Rightarrow> 's \<Rightarrow> kfsw_param_info visit \<times> 's"
  kfsw_param_remote_tables :: "u16 \<Rightarrow> 's \<Rightarrow> kfsw_param_table_info visit \<times> 's"
  kfsw_param_visit_tables :: "'s \<Rightarrow> kfsw_param_table_info visit \<times> 's"
  kfsw_param_get_info :: "string \<Rightarrow> 's \<Rightarrow> int \<times> kfsw_param_info"
  kfsw_param_parse_text :: "string \<Rightarrow> kfsw_param_value \<Rightarrow> int \<times> kfsw_param_value"
  kfsw_param_type_name :: "param_type \<Rightarrow> string"
  kfsw_param_mode_name :: "u32 \<Rightarrow> string"
  kfsw_param_band_name :: "u8 \<Rightarrow> string"
  kfsw_param_persist_table_count :: "u8 \<Rightarrow> 's \<Rightarrow> int \<times> u16"
  kfsw_param_persist_bytes :: "'s \<Rightarrow> nat"
  kfsw_param_persist_save :: "'s \<Rightarrow> int \<times> 's"
  kfsw_param_persist_load :: "'s \<Rightarrow> int \<times> 's"
  kfsw_param_persist_clear :: "'s \<Rightarrow> int \<times> 's"
  kfsw_param_restore_defaults :: "'s \<Rightarrow> int \<times> 's"
  csp_address :: "'s \<Rightarrow> u16"
  float_text :: "kfsw_param_value \<Rightarrow> string"
  double_text :: "kfsw_param_value \<Rightarrow> string"

record param_shell_build =
  KFSW_PARAM_NAME_MAX :: nat
  KFSW_PARAM_STRING_MAX :: nat
  KFSW_PARAM_TABLE_CORE_FIRST :: nat
  KFSW_PARAM_TABLE_MODULE_LAST :: nat
  CONFIG_KFSW_PARAM_REMOTE_POOL_SIZE :: nat

record 's param_ctx =
  px_cfg :: config
  px_B :: build
  px_P :: param_shell_build
  px_E :: "'s shell_env"
  px_K :: "'s param_services"
  px_text :: "char list"

definition THIS_NODE :: u16 where "THIS_NODE = 0"
definition KFSW_PARAM_TABLE_COLUMN :: nat where "KFSW_PARAM_TABLE_COLUMN = 10"
definition TABLE_NAME_COLUMN :: nat where "TABLE_NAME_COLUMN = 12"
definition KFSW_PARAM_TYPE_COLUMN :: nat where "KFSW_PARAM_TYPE_COLUMN = 6"
definition KFSW_PARAM_MODE_COLUMN :: nat where "KFSW_PARAM_MODE_COLUMN = 4"
definition KFSW_PARAM_TABLE_NAMES_MAX :: nat where "KFSW_PARAM_TABLE_NAMES_MAX = 32"
definition KFSW_PARAM_REMOTE_WINDOW :: nat where "KFSW_PARAM_REMOTE_WINDOW = 8"

definition KFSW_PARAM_NAME_COLUMN :: "param_shell_build \<Rightarrow> nat" where
  "KFSW_PARAM_NAME_COLUMN P = KFSW_PARAM_NAME_MAX P"

definition KFSW_PARAM_VALUE_TEXT_SIZE :: "param_shell_build \<Rightarrow> nat" where
  "KFSW_PARAM_VALUE_TEXT_SIZE P = KFSW_PARAM_STRING_MAX P + 3"

record param_list_context =
  filter_table :: bool
  lc_table :: u8
  counts :: "u16 list"
  names :: "string list"
  offsets :: "u8 list"
  types :: "param_type list"
  param_flags :: "u32 list"
  name_count :: nat
  header_printed :: bool
  local :: bool

text \<open>\<^verbatim>\<open>{.shell = sh, ...}\<close>: the members not named are zero.\<close>

definition list_context :: "param_shell_build \<Rightarrow> bool \<Rightarrow> bool \<Rightarrow> param_list_context" where
  "list_context P flt lcl =
     \<lparr>filter_table = flt, lc_table = 0,
      counts = replicate (KFSW_PARAM_TABLE_MODULE_LAST P + 1) 0,
      names = replicate KFSW_PARAM_TABLE_NAMES_MAX [], offsets = replicate KFSW_PARAM_TABLE_NAMES_MAX 0,
      types = replicate KFSW_PARAM_TABLE_NAMES_MAX KFSW_PARAM_INVALID,
      param_flags = replicate KFSW_PARAM_TABLE_NAMES_MAX 0,
      name_count = 0, header_printed = False, local = lcl\<rparr>"

section \<open>Values as text\<close>

definition dash :: "nat \<Rightarrow> string" where
  "dash n = take n ''--------------------------------''"

text \<open>The loop of an array value into \<open>text\<close>, with \<open>used\<close> characters written.\<close>

function data_loop :: "u8 list \<Rightarrow> nat \<Rightarrow> nat \<Rightarrow> nat \<Rightarrow> char list \<Rightarrow> (nat \<times> char list) option" where
  "data_loop bytes sz index used buf =
     (if index < sz \<and> used + 5 < length buf
      then if index < length bytes
        then let t = (if index = 0 then ''['' else '','') @ fmt_u (unat (bytes ! index))
             in Option.bind (write_at buf used (snprintf (length buf - used) t @ [CHR 0x00]))
                  (\<lambda>b. data_loop bytes sz (Suc index) (used + length t) b)
        else None
      else Some (used, buf))"
  by pat_completeness auto
termination
  by (relation "measure (\<lambda>(bytes, sz, index, used, buf). sz - index)") auto

declare data_loop.simps [simp del]

definition data_text :: "kfsw_param_value \<Rightarrow> char list \<Rightarrow> string option" where
  "data_text v buf =
     Option.bind (data_loop (v_bytes v) (v_size v) 0 0 buf) (\<lambda>(used, b).
       map_option cstr (write_at b used (snprintf (length b - used) '']'' @ [CHR 0x00])))"

text \<open>\<^verbatim>\<open>format_param_value(text, size, value)\<close>: what \<open>text\<close>, an array of \<open>size\<close> characters, then holds.\<close>

definition format_param_value ::
  "config \<Rightarrow> 's param_services \<Rightarrow> char list \<Rightarrow> kfsw_param_value \<Rightarrow> string option" where
  "format_param_value cfg K buf v =
     (let n = length buf
      in case v_type v of
        KFSW_PARAM_U8 \<Rightarrow> Some (snprintf n (fmt_u (unat (v_u8 v))))
      | KFSW_PARAM_U16 \<Rightarrow> Some (snprintf n (fmt_u (unat (v_u16 v))))
      | KFSW_PARAM_U32 \<Rightarrow> Some (snprintf n (fmt_u (unat (v_u32 v))))
      | KFSW_PARAM_U64 \<Rightarrow> Some (snprintf n (fmt_u (unat (v_u64 v))))
      | KFSW_PARAM_I8 \<Rightarrow> Some (snprintf n (fmt_d (sint (v_u8 v))))
      | KFSW_PARAM_I16 \<Rightarrow> Some (snprintf n (fmt_d (sint (v_u16 v))))
      | KFSW_PARAM_I32 \<Rightarrow> Some (snprintf n (fmt_d (sint (v_u32 v))))
      | KFSW_PARAM_I64 \<Rightarrow> Some (snprintf n (fmt_d (sint (v_u64 v))))
      | KFSW_PARAM_X8 \<Rightarrow> Some (snprintf n (''0x'' @ fmt_x 2 (unat (v_u8 v))))
      | KFSW_PARAM_X16 \<Rightarrow> Some (snprintf n (''0x'' @ fmt_x 4 (unat (v_u16 v))))
      | KFSW_PARAM_X32 \<Rightarrow> Some (snprintf n (''0x'' @ fmt_x 8 (unat (v_u32 v))))
      | KFSW_PARAM_X64 \<Rightarrow> Some (snprintf n (''0x'' @ fmt_x 16 (unat (v_u64 v))))
      | KFSW_PARAM_FLOAT \<Rightarrow>
          Some (snprintf n (if cfg CONFIG_KFSW_PARAM_FLOAT then float_text K v else ''<unsupported>''))
      | KFSW_PARAM_DOUBLE \<Rightarrow>
          Some (snprintf n (if cfg CONFIG_KFSW_PARAM_FLOAT then double_text K v else ''<unsupported>''))
      | KFSW_PARAM_STRING \<Rightarrow> Some (snprintf n ([CHR 0x22] @ v_text v @ [CHR 0x22]))
      | KFSW_PARAM_DATA \<Rightarrow> data_text v buf
      | KFSW_PARAM_INVALID \<Rightarrow> Some (snprintf n ''<unsupported>''))"

definition format_value :: "'s param_ctx \<Rightarrow> kfsw_param_value \<Rightarrow> string option" where
  "format_value X v = format_param_value (px_cfg X) (px_K X) (px_text X) v"

definition print_param_value :: "'s param_ctx \<Rightarrow> u16 \<Rightarrow> string \<Rightarrow> kfsw_param_value \<Rightarrow> ('s, unit option) act" where
  "print_param_value X node name v =
     (case format_value X v of
        None \<Rightarrow> ret None
      | Some t \<Rightarrow> do {
          (if node = THIS_NODE then shell_print (name @ '' = '' @ t)
           else shell_print (fmt_u (unat node) @ '':'' @ name @ '' = '' @ t));
          ret (Some ())
        })"

definition print_param_error :: "string \<Rightarrow> string \<Rightarrow> int \<Rightarrow> ('s, int) act" where
  "print_param_error operation name rc = do {
     shell_error
       (if rc = - ENOENT then operation @ '': parameter '' @ [CHR 0x27] @ name @ [CHR 0x27] @ '' not found''
        else if rc = - EACCES
        then operation @ '': parameter '' @ [CHR 0x27] @ name @ [CHR 0x27] @ '' is read-only or service is not ready''
        else if rc = - EMSGSIZE
        then operation @ '': value type or size does not match '' @ [CHR 0x27] @ name @ [CHR 0x27]
        else operation @ '': parameter '' @ [CHR 0x27] @ name @ [CHR 0x27] @ '' failed ('' @ fmt_d rc @ '')'');
     ret rc
   }"

section \<open>Rows and callbacks\<close>

definition print_list_header :: "param_shell_build \<Rightarrow> ('s, unit) act" where
  "print_list_header P = emit_all
     [Print (pad_right KFSW_PARAM_TABLE_COLUMN ''table'' @ ''  addr  '' @
        pad_right (KFSW_PARAM_NAME_COLUMN P) ''name'' @ ''  '' @ pad_right KFSW_PARAM_TYPE_COLUMN ''type'' @ ''  '' @
        pad_right KFSW_PARAM_MODE_COLUMN ''mode'' @ ''  value''),
      Print (dash KFSW_PARAM_TABLE_COLUMN @ ''  '' @ dash 4 @ ''  '' @ dash (KFSW_PARAM_NAME_COLUMN P) @ ''  '' @
        dash KFSW_PARAM_TYPE_COLUMN @ ''  '' @ dash KFSW_PARAM_MODE_COLUMN @ ''  -----'')]"

definition print_describe_header :: "param_shell_build \<Rightarrow> ('s, unit) act" where
  "print_describe_header P = emit_all
     [Print (pad_right KFSW_PARAM_TABLE_COLUMN ''table'' @ ''  addr  '' @
        pad_right (KFSW_PARAM_NAME_COLUMN P) ''name'' @ ''  '' @ pad_right KFSW_PARAM_TYPE_COLUMN ''type'' @ ''  '' @
        pad_right KFSW_PARAM_MODE_COLUMN ''mode'' @ ''  '' @ pad_right 6 ''unit'' @ ''  description''),
      Print (dash KFSW_PARAM_TABLE_COLUMN @ ''  '' @ dash 4 @ ''  '' @ dash (KFSW_PARAM_NAME_COLUMN P) @ ''  '' @
        dash KFSW_PARAM_TYPE_COLUMN @ ''  '' @ dash KFSW_PARAM_MODE_COLUMN @ ''  '' @ dash 6 @ ''  -----------'')]"

definition table_text :: "kfsw_param_info \<Rightarrow> string" where
  "table_text info =
     snprintf (KFSW_PARAM_TABLE_COLUMN + 1)
       (case i_table_name info of Some n \<Rightarrow> n | None \<Rightarrow> fmt_u (unat (i_table info)))"

text \<open>The columns every row starts with.\<close>

definition row :: "'s param_ctx \<Rightarrow> string \<Rightarrow> u8 \<Rightarrow> string \<Rightarrow> param_type \<Rightarrow> u32 \<Rightarrow> string" where
  "row X tbl offs name ty fl =
     pad_right KFSW_PARAM_TABLE_COLUMN tbl @ ''  0x'' @ fmt_x 2 (unat offs) @ ''  '' @
     pad_right (KFSW_PARAM_NAME_COLUMN (px_P X)) name @ ''  '' @
     pad_right KFSW_PARAM_TYPE_COLUMN (kfsw_param_type_name (px_K X) ty) @ ''  '' @
     pad_right KFSW_PARAM_MODE_COLUMN (kfsw_param_mode_name (px_K X) fl) @ ''  ''"

definition collect_table_names :: "('s, kfsw_param_info, param_list_context) callback" where
  "collect_table_names info c =
     (if i_table info \<noteq> lc_table c then ret (Some (c, True))
      else if KFSW_PARAM_TABLE_NAMES_MAX \<le> name_count c then ret (Some (c, False))
      else let n = name_count c
           in if n < length (names c) \<and> n < length (offsets c) \<and> n < length (types c) \<and> n < length (param_flags c)
              then ret (Some (c\<lparr>names := (names c)[n := i_name info], offsets := (offsets c)[n := i_offset info],
                     types := (types c)[n := i_type info], param_flags := (param_flags c)[n := i_flags info],
                     name_count := Suc n\<rparr>, True))
              else ret None)"

definition tally_table :: "param_shell_build \<Rightarrow> ('s, kfsw_param_info, param_list_context) callback" where
  "tally_table P info c =
     (let t = unat (i_table info)
      in if t \<le> KFSW_PARAM_TABLE_MODULE_LAST P
         then if t < length (counts c)
           then ret (Some (c\<lparr>counts := (counts c)[t := counts c ! t + 1]\<rparr>, True))
           else ret None
         else ret (Some (c, True)))"

definition print_param_description :: "'s param_ctx \<Rightarrow> ('s, kfsw_param_info, param_list_context) callback" where
  "print_param_description X info c =
     (if filter_table c \<and> i_table info \<noteq> lc_table c then ret (Some (c, True))
      else do {
        (if \<not> header_printed c then print_describe_header (px_P X) else ret ());
        shell_print (row X (table_text info) (i_offset info) (i_name info) (i_type info) (i_flags info) @
          pad_right 6 (case i_unit info of Some u \<Rightarrow> u | None \<Rightarrow> ''-'') @ ''  '' @
          (case i_description info of Some d \<Rightarrow> d | None \<Rightarrow> ''-''));
        ret (Some (c\<lparr>header_printed := True\<rparr>, True))
      })"

text \<open>The value column of \<^verbatim>\<open>print_param_info\<close>: only the local table has a value to show.\<close>

definition value_column :: "'s param_ctx \<Rightarrow> kfsw_param_info \<Rightarrow> bool \<Rightarrow> ('s, string option) act" where
  "value_column X info lcl =
     (let none = Some (snprintf (length (px_text X)) ''-'')
      in if lcl
         then do {
           g \<leftarrow> call (kfsw_param_get (px_K X) (i_name info));
           ret (if fst g = 0 then format_value X (snd g) else none)
         }
         else ret none)"

definition print_param_info :: "'s param_ctx \<Rightarrow> ('s, kfsw_param_info, param_list_context) callback" where
  "print_param_info X info c =
     (if filter_table c \<and> i_table info \<noteq> lc_table c then ret (Some (c, True))
      else do {
        (if \<not> header_printed c then print_list_header (px_P X) else ret ());
        vt \<leftarrow> value_column X info (local c);
        case vt of
          None \<Rightarrow> ret None
        | Some t \<Rightarrow> do {
            shell_print (row X (table_text info) (i_offset info) (i_name info) (i_type info) (i_flags info) @ t);
            ret (Some (c\<lparr>header_printed := True\<rparr>, True))
          }
      })"

definition table_holds :: "kfsw_param_table_info \<Rightarrow> string" where
  "table_holds info = (case t_description info of Some d \<Rightarrow> d | None \<Rightarrow> [])"

definition print_table_info :: "'s param_ctx \<Rightarrow> ('s, kfsw_param_table_info, param_list_context) callback" where
  "print_table_info X info c =
     (let start = pad_left 3 (fmt_u (unat (t_id info))) @ ''  '' @ pad_right 7 (kfsw_param_band_name (px_K X) (t_id info)) @
          ''  '' @ pad_right TABLE_NAME_COLUMN (t_name info) @ ''  '' @ pad_left 6 (fmt_u (unat (t_count info)))
      in if px_cfg X CONFIG_KFSW_PARAM_PERSISTENCE
         then do {
           kept \<leftarrow> ask (kfsw_param_persist_table_count (px_K X) (t_id info));
           shell_print (start @ ''  '' @ pad_left 4 (fmt_u (unat (snd kept))) @ ''  '' @ table_holds info);
           ret (Some (c, True))
         }
         else do {
           shell_print (start @ ''  '' @ table_holds info);
           ret (Some (c, True))
         })"

section \<open>Arguments\<close>

definition parse_param_node :: "'s param_ctx \<Rightarrow> string \<Rightarrow> u16 \<Rightarrow> ('s, int \<times> u16) act" where
  "parse_param_node X txt node =
     (let (parsed, parse_error) = shell_strtoul (px_E X) txt 10
      in if parse_error \<noteq> 0 \<or> parsed = 0 \<or> KFSW_CSP_BROADCAST_ADDRESS (px_B X) < parsed
         then do {
           shell_error (''CSP node must be in range 1..'' @ fmt_u (KFSW_CSP_BROADCAST_ADDRESS (px_B X)));
           ret (- EINVAL, node)
         }
         else do {
           a \<leftarrow> ask (csp_address (px_K X));
           ret (0, if parsed = unat a then THIS_NODE else of_nat parsed)
         })"

definition parse_table_id :: "'s param_ctx \<Rightarrow> string \<Rightarrow> u8 \<Rightarrow> ('s, int \<times> u8) act" where
  "parse_table_id X txt tbl =
     (let (parsed, parse_error) = shell_strtoul (px_E X) txt 10
      in if parse_error \<noteq> 0 \<or> parsed < KFSW_PARAM_TABLE_CORE_FIRST (px_P X) \<or>
            KFSW_PARAM_TABLE_MODULE_LAST (px_P X) < parsed
         then do {
           shell_error (''table must be in range '' @ fmt_u (KFSW_PARAM_TABLE_CORE_FIRST (px_P X)) @ ''..'' @
             fmt_u (KFSW_PARAM_TABLE_MODULE_LAST (px_P X)));
           ret (- EINVAL, tbl)
         }
         else ret (0, of_nat parsed))"

text \<open>
  The optional node of \<^verbatim>\<open>get\<close> and \<^verbatim>\<open>set\<close>: with \<open>n\<close> arguments there is none. The result, the node and
  the index of the name.
\<close>

definition param_target :: "'s param_ctx \<Rightarrow> string list \<Rightarrow> nat \<Rightarrow> ('s, (int \<times> u16 \<times> nat) option) act" where
  "param_target X argv n =
     (if px_cfg X CONFIG_KFSW_PARAM_CSP \<and> length argv \<noteq> n
      then with_argv argv 1 (\<lambda>a1. do {
        r \<leftarrow> parse_param_node X a1 0;
        ret (Some (fst r, snd r, 2))
      })
      else ret (Some (0, THIS_NODE, 1)))"

definition fetch :: "'s param_ctx \<Rightarrow> u16 \<Rightarrow> string \<Rightarrow> ('s, int \<times> kfsw_param_value) act" where
  "fetch X node name =
     call (if node = THIS_NODE then kfsw_param_get (px_K X) name else kfsw_param_remote_get (px_K X) node name)"

section \<open>One parameter\<close>

definition cmd_param_get :: "'s param_ctx \<Rightarrow> 's shell_handler" where
  "cmd_param_get X argv = do {
     t \<leftarrow> param_target X argv 2;
     case t of
       None \<Rightarrow> ret None
     | Some (rc, node, i) \<Rightarrow>
         if rc \<noteq> 0 then ret (Some rc)
         else with_argv argv i (\<lambda>name. do {
           g \<leftarrow> fetch X node name;
           if node \<noteq> THIS_NODE \<and> kfsw_shell_no_answer (fst g)
           then lift_int (kfsw_shell_remote_failed ''param get'' node (fst g))
           else if fst g \<noteq> 0 then lift_int (print_param_error ''get'' name (fst g))
           else do { p \<leftarrow> print_param_value X node name (snd g); ret (map_option (\<lambda>_. 0) p) }
         })
   }"

text \<open>Writing the value; a local one is read back.\<close>

definition store :: "'s param_ctx \<Rightarrow> u16 \<Rightarrow> string \<Rightarrow> kfsw_param_value \<Rightarrow> ('s, int \<times> kfsw_param_value) act" where
  "store X node name v =
     (if node = THIS_NODE
      then do {
        rc \<leftarrow> call (kfsw_param_set (px_K X) name v);
        if rc = 0 then call (kfsw_param_get (px_K X) name) else ret (rc, v)
      }
      else do { rc \<leftarrow> call (kfsw_param_remote_set (px_K X) node name v); ret (rc, v) })"

definition report_stored :: "'s param_ctx \<Rightarrow> u16 \<Rightarrow> string \<Rightarrow> ('s, unit) act" where
  "report_stored X node name =
     (if node = THIS_NODE
      then do {
        i \<leftarrow> ask (kfsw_param_get_info (px_K X) name);
        if fst i = 0 \<and> kfsw_param_mode_name (px_K X) (i_flags (snd i)) = ''b''
        then shell_print ''stored; takes effect after reboot'' else ret ()
      }
      else ret ())"

definition set_value :: "'s param_ctx \<Rightarrow> u16 \<Rightarrow> string \<Rightarrow> kfsw_param_value \<Rightarrow> ('s, int option) act" where
  "set_value X node name v = do {
     r \<leftarrow> store X node name v;
     if node \<noteq> THIS_NODE \<and> kfsw_shell_no_answer (fst r)
     then lift_int (kfsw_shell_remote_failed ''param set'' node (fst r))
     else if fst r \<noteq> 0 then lift_int (print_param_error ''set'' name (fst r))
     else do {
       p \<leftarrow> print_param_value X node name (snd r);
       case p of
         None \<Rightarrow> ret None
       | Some _ \<Rightarrow> do { report_stored X node name; ret (Some 0) }
     }
   }"

definition cmd_param_set :: "'s param_ctx \<Rightarrow> 's shell_handler" where
  "cmd_param_set X argv = do {
     t \<leftarrow> param_target X argv 3;
     case t of
       None \<Rightarrow> ret None
     | Some (rc, node, i) \<Rightarrow>
         if rc \<noteq> 0 then ret (Some rc)
         else with_argv argv i (\<lambda>name. with_argv argv (Suc i) (\<lambda>txt. do {
           g \<leftarrow> fetch X node name;
           if node \<noteq> THIS_NODE \<and> kfsw_shell_no_answer (fst g)
           then lift_int (kfsw_shell_remote_failed ''param set'' node (fst g))
           else if fst g \<noteq> 0 then lift_int (print_param_error ''set'' name (fst g))
           else let (prc, v) = kfsw_param_parse_text (px_K X) txt (snd g)
                in if prc \<noteq> 0
                   then do {
                     shell_error (''set: invalid '' @ kfsw_param_type_name (px_K X) (v_type v) @ '' value '' @
                       [CHR 0x27] @ txt @ [CHR 0x27]);
                     ret (Some prc)
                   }
                   else set_value X node name v
         }))
   }"

section \<open>Listings\<close>

definition print_local :: "'s param_ctx \<Rightarrow> param_list_context \<Rightarrow> ('s, (int \<times> param_list_context) option) act" where
  "print_local X c = visit_with (kfsw_param_visit (px_K X)) (print_param_info X) c"

definition cmd_param_describe :: "'s param_ctx \<Rightarrow> 's shell_handler" where
  "cmd_param_describe X argv = do {
     t \<leftarrow> (if 1 < length argv then parse_table_id X (argv ! 1) 0 else ret (0, 0));
     if fst t \<noteq> 0 then ret (Some (fst t))
     else do {
       r \<leftarrow> visit_with (kfsw_param_visit (px_K X)) (print_param_description X)
         ((list_context (px_P X) (1 < length argv) True)\<lparr>lc_table := snd t\<rparr>);
       case r of
         None \<Rightarrow> ret None
       | Some (rc, c) \<Rightarrow>
           if rc \<noteq> 0 then do { shell_error (''describe: '' @ fmt_d rc); ret (Some rc) }
           else do {
             (if \<not> header_printed c then shell_print ''no parameters'' else ret ());
             ret (Some 0)
           }
     }
   }"

definition collect_remote_table_id :: "param_shell_build \<Rightarrow> ('s, kfsw_param_table_info, u8 list) callback" where
  "collect_remote_table_id P info ids =
     ret (Some (if length ids < KFSW_PARAM_TABLE_MODULE_LAST P + 1 then ids @ [t_id info] else ids, True))"

fun remote_tables_loop ::
  "'s param_ctx \<Rightarrow> u16 \<Rightarrow> u8 list \<Rightarrow> param_list_context \<Rightarrow> ('s, (int \<times> param_list_context) option) act" where
  "remote_tables_loop X node [] c = ret (Some (0, c))"
| "remote_tables_loop X node (t # ts) c = do {
     r \<leftarrow> visit_with (kfsw_param_remote_visit_table (px_K X) node t) (print_param_info X) c;
     case r of
       None \<Rightarrow> ret None
     | Some (rc, c') \<Rightarrow> if rc \<noteq> 0 then ret (Some (rc, c')) else remote_tables_loop X node ts c'
   }"

definition list_remote_parameters ::
  "'s param_ctx \<Rightarrow> u16 \<Rightarrow> param_list_context \<Rightarrow> ('s, (int \<times> param_list_context) option) act" where
  "list_remote_parameters X node c = do {
     r \<leftarrow> visit_with (kfsw_param_remote_tables (px_K X) node) (collect_remote_table_id (px_P X)) [];
     case r of
       None \<Rightarrow> ret None
     | Some (rc, ids) \<Rightarrow>
         if rc = - ENOTSUP then visit_with (kfsw_param_remote_visit (px_K X) node) (print_param_info X) c
         else if rc \<noteq> 0 then ret (Some (rc, c))
         else remote_tables_loop X node ids c
   }"

definition listall_finish :: "'s param_ctx \<Rightarrow> bool \<Rightarrow> int \<Rightarrow> ('s, int option) act" where
  "listall_finish X lcl rc =
     (if px_cfg X CONFIG_KFSW_PARAM_CSP \<and> rc = - ENOSPC \<and> \<not> lcl
      then do {
        shell_error (''parameter list failed: the remote cache holds '' @
          fmt_u (CONFIG_KFSW_PARAM_REMOTE_POOL_SIZE (px_P X)) @
          '' descriptors; raise CONFIG_KFSW_PARAM_REMOTE_POOL_SIZE'');
        ret (Some rc)
      }
      else do {
        (if rc \<noteq> 0 then shell_error (''parameter list failed ('' @ fmt_d rc @ '')'') else ret ());
        ret (Some rc)
      })"

definition list_here :: "'s param_ctx \<Rightarrow> ('s, int option) act" where
  "list_here X = do {
     r \<leftarrow> print_local X (list_context (px_P X) False True);
     case r of None \<Rightarrow> ret None | Some (rc, c) \<Rightarrow> listall_finish X True rc
   }"

definition cmd_param_listall :: "'s param_ctx \<Rightarrow> 's shell_handler" where
  "cmd_param_listall X argv =
     (if px_cfg X CONFIG_KFSW_PARAM_CSP \<and> length argv \<noteq> 1
      then with_argv argv 1 (\<lambda>a1. do {
        n \<leftarrow> parse_param_node X a1 0;
        if fst n \<noteq> 0 then ret (Some (fst n))
        else if snd n = THIS_NODE then list_here X
        else do {
          r \<leftarrow> list_remote_parameters X (snd n) (list_context (px_P X) False False);
          case r of
            None \<Rightarrow> ret None
          | Some (rc, c) \<Rightarrow>
              if kfsw_shell_no_answer rc
              then lift_int (kfsw_shell_remote_failed ''param listall'' (snd n) rc)
              else listall_finish X False rc
        }
      })
      else list_here X)"

section \<open>One table\<close>

definition print_local_table :: "'s param_ctx \<Rightarrow> param_list_context \<Rightarrow> ('s, int option) act" where
  "print_local_table X c = do {
     r \<leftarrow> print_local X c;
     case r of
       None \<Rightarrow> ret None
     | Some (rc, c') \<Rightarrow>
         if rc \<noteq> 0 then do { shell_error (''parameter table failed ('' @ fmt_d rc @ '')''); ret (Some rc) }
         else do {
           (if \<not> header_printed c'
            then shell_print (''table '' @ fmt_u (unat (lc_table c')) @ '' holds no parameters here'') else ret ());
           ret (Some 0)
         }
   }"

text \<open>
  The rows of one window from row \<open>offset\<close>, \<open>k\<close> of them to go. \<open>win\<close> is the window the values were
  read into, if they were.
\<close>

fun print_window ::
  "'s param_ctx \<Rightarrow> param_list_context \<Rightarrow> nat \<Rightarrow> bool \<Rightarrow> kfsw_param_value list \<Rightarrow> nat \<Rightarrow> nat \<Rightarrow> ('s, unit option) act" where
  "print_window X c base read_ok win 0 off = ret (Some ())"
| "print_window X c base read_ok win (Suc k) off =
     (let index = base + off
      in if index < length (names c) \<and> index < length (offsets c) \<and> index < length (types c) \<and>
            index < length (param_flags c) \<and> (read_ok \<longrightarrow> off < length win)
         then case (if read_ok then format_value X (win ! off) else Some (snprintf (length (px_text X)) ''-'')) of
             None \<Rightarrow> ret None
           | Some t \<Rightarrow> do {
               shell_print (row X (snprintf (KFSW_PARAM_TABLE_COLUMN + 1) (fmt_u (unat (lc_table c))))
                 (offsets c ! index) (names c ! index) (types c ! index) (param_flags c ! index) @ t);
               print_window X c base read_ok win k (Suc off)
             }
         else ret None)"

function table_windows :: "'s param_ctx \<Rightarrow> u16 \<Rightarrow> param_list_context \<Rightarrow> nat \<Rightarrow> ('s, int option) act" where
  "table_windows X node c base =
     (if base < name_count c
      then let span = min (name_count c - base) KFSW_PARAM_REMOTE_WINDOW
           in if base + span \<le> length (names c)
              then do {
                r \<leftarrow> call (kfsw_param_remote_get_many (px_K X) node (take span (drop base (names c))));
                (if fst r \<noteq> 0 then do { e \<leftarrow> kfsw_shell_remote_failed ''param table'' node (fst r); ret () } else ret ());
                p \<leftarrow> print_window X c base (fst r = 0) (snd r) span 0;
                case p of
                  None \<Rightarrow> ret None
                | Some _ \<Rightarrow> table_windows X node c (base + KFSW_PARAM_REMOTE_WINDOW)
              }
              else ret None
      else ret (Some 0))"
  by pat_completeness auto
termination
  by (relation "measure (\<lambda>(X, node, c, base). name_count c - base)") (auto simp: KFSW_PARAM_REMOTE_WINDOW_def)

declare table_windows.simps [simp del]

text \<open>The names of the table, from the table alone or, from a node that cannot, from everything.\<close>

definition collect_names :: "'s param_ctx \<Rightarrow> u16 \<Rightarrow> param_list_context \<Rightarrow> ('s, (int \<times> param_list_context) option) act" where
  "collect_names X node c = do {
     r \<leftarrow> visit_with (kfsw_param_remote_visit_table (px_K X) node (lc_table c)) collect_table_names c;
     case r of
       None \<Rightarrow> ret None
     | Some (rc, c') \<Rightarrow>
         if rc = - ENOTSUP then visit_with (kfsw_param_remote_visit (px_K X) node) collect_table_names c'
         else ret (Some (rc, c'))
   }"

definition remote_table :: "'s param_ctx \<Rightarrow> u16 \<Rightarrow> param_list_context \<Rightarrow> ('s, int option) act" where
  "remote_table X node c = do {
     r \<leftarrow> collect_names X node c;
     case r of
       None \<Rightarrow> ret None
     | Some (rc, c') \<Rightarrow>
         if rc \<noteq> 0 then lift_int (kfsw_shell_remote_failed ''param table'' node rc)
         else if name_count c' = 0
         then do {
           shell_print (''node '' @ fmt_u (unat node) @ '' carries no table '' @ fmt_u (unat (lc_table c')));
           ret (Some 0)
         }
         else do { print_list_header (px_P X); table_windows X node c' 0 }
   }"

definition cmd_param_table :: "'s param_ctx \<Rightarrow> 's shell_handler" where
  "cmd_param_table X argv =
     (let c = list_context (px_P X) True True
      in if px_cfg X CONFIG_KFSW_PARAM_CSP \<and> length argv \<noteq> 2
         then with_argv argv 1 (\<lambda>a1. do {
           n \<leftarrow> parse_param_node X a1 0;
           if fst n \<noteq> 0 then ret (Some (fst n))
           else with_argv argv 2 (\<lambda>a2. do {
             t \<leftarrow> parse_table_id X a2 0;
             if fst t \<noteq> 0 then ret (Some (fst t))
             else if snd n = THIS_NODE then print_local_table X (c\<lparr>lc_table := snd t\<rparr>)
             else remote_table X (snd n) (c\<lparr>lc_table := snd t\<rparr>)
           })
         })
         else with_argv argv 1 (\<lambda>a1. do {
           t \<leftarrow> parse_table_id X a1 0;
           if fst t \<noteq> 0 then ret (Some (fst t)) else print_local_table X (c\<lparr>lc_table := snd t\<rparr>)
         }))"

section \<open>The tables of a node\<close>

text \<open>\<^verbatim>\<open>struct table_search\<close>: the table looked for, and what was found.\<close>

definition find_table :: "u8 \<Rightarrow> ('s, kfsw_param_table_info, kfsw_param_table_info option) callback" where
  "find_table wanted info found =
     (if t_id info \<noteq> wanted then ret (Some (found, True)) else ret (Some (Some info, False)))"

definition print_table_heading :: "('s, unit) act" where
  "print_table_heading = emit_all
     [Print (pad_left 3 '' id'' @ ''  '' @ pad_right 7 ''layer'' @ ''  '' @ pad_right TABLE_NAME_COLUMN ''name'' @ ''  '' @
        pad_left 6 ''params'' @ ''  holds''),
      Print (dash 3 @ ''  '' @ dash 7 @ ''  '' @ dash TABLE_NAME_COLUMN @ ''  '' @ dash 6 @ ''  '' @ dash 5)]"

definition table_row :: "'s param_ctx \<Rightarrow> u8 \<Rightarrow> string \<Rightarrow> nat \<Rightarrow> string \<Rightarrow> string" where
  "table_row X tid name n holds =
     pad_left 3 (fmt_u (unat tid)) @ ''  '' @ pad_right 7 (kfsw_param_band_name (px_K X) tid) @ ''  '' @
     pad_right TABLE_NAME_COLUMN name @ ''  '' @ pad_left 6 (fmt_u n) @ ''  '' @ holds"

definition print_remote_table :: "'s param_ctx \<Rightarrow> ('s, kfsw_param_table_info, unit) callback" where
  "print_remote_table X info c = do {
     shell_print (table_row X (t_id info) (t_name info) (unat (t_count info)) (table_holds info));
     ret (Some (c, True))
   }"

fun tally_rows :: "'s param_ctx \<Rightarrow> param_list_context \<Rightarrow> nat list \<Rightarrow> ('s, int option) act" where
  "tally_rows X c [] = ret (Some 0)"
| "tally_rows X c (t # ts) =
     (if t < length (counts c)
      then if counts c ! t = 0 then tally_rows X c ts
        else do {
          s \<leftarrow> visit_with (kfsw_param_visit_tables (px_K X)) (find_table (of_nat t)) None;
          case s of
            None \<Rightarrow> ret None
          | Some (rc, found) \<Rightarrow> do {
              shell_print (case found of
                  Some info \<Rightarrow> table_row X (of_nat t) (t_name info) (unat (counts c ! t)) (table_holds info)
                | None \<Rightarrow> table_row X (of_nat t) ''-'' (unat (counts c ! t)) []);
              tally_rows X c ts
            }
        }
      else ret None)"

definition print_remote_tables :: "'s param_ctx \<Rightarrow> u16 \<Rightarrow> ('s, int option) act" where
  "print_remote_tables X node = do {
     print_table_heading;
     r \<leftarrow> visit_with (kfsw_param_remote_tables (px_K X) node) (print_remote_table X) ();
     case r of
       None \<Rightarrow> ret None
     | Some (rc, u) \<Rightarrow>
         if rc = 0 then ret (Some 0)
         else if rc \<noteq> - ENOTSUP then lift_int (kfsw_shell_remote_failed ''param whichtables'' node rc)
         else do {
           v \<leftarrow> visit_with (kfsw_param_remote_visit (px_K X) node) (tally_table (px_P X)) (list_context (px_P X) False False);
           case v of
             None \<Rightarrow> ret None
           | Some (rc2, c) \<Rightarrow>
               if rc2 \<noteq> 0 then lift_int (kfsw_shell_remote_failed ''param whichtables'' node rc2)
               else tally_rows X c
                 [KFSW_PARAM_TABLE_CORE_FIRST (px_P X) ..< KFSW_PARAM_TABLE_MODULE_LAST (px_P X) + 1]
         }
   }"

definition whichtables_here :: "'s param_ctx \<Rightarrow> ('s, int option) act" where
  "whichtables_here X = do {
     (if px_cfg X CONFIG_KFSW_PARAM_PERSISTENCE
      then emit_all
        [Print (pad_left 3 '' id'' @ ''  '' @ pad_right 7 ''layer'' @ ''  '' @ pad_right TABLE_NAME_COLUMN ''name'' @ ''  '' @
           pad_left 6 ''params'' @ ''  '' @ pad_left 4 ''kept'' @ ''  holds''),
         Print (dash 3 @ ''  '' @ dash 7 @ ''  '' @ dash TABLE_NAME_COLUMN @ ''  '' @ dash 6 @ ''  '' @ dash 4 @ ''  '' @ dash 5)]
      else print_table_heading);
     r \<leftarrow> visit_with (kfsw_param_visit_tables (px_K X)) (print_table_info X) (list_context (px_P X) False True);
     case r of
       None \<Rightarrow> ret None
     | Some (rc, c) \<Rightarrow> do {
         (if rc \<noteq> 0 then shell_error (''parameter tables failed ('' @ fmt_d rc @ '')'') else ret ());
         ret (Some rc)
       }
   }"

definition cmd_param_whichtables :: "'s param_ctx \<Rightarrow> 's shell_handler" where
  "cmd_param_whichtables X argv =
     (if px_cfg X CONFIG_KFSW_PARAM_CSP \<and> length argv = 2
      then with_argv argv 1 (\<lambda>a1. do {
        n \<leftarrow> parse_param_node X a1 0;
        if fst n \<noteq> 0 then ret (Some (fst n))
        else if snd n \<noteq> THIS_NODE then print_remote_tables X (snd n)
        else whichtables_here X
      })
      else whichtables_here X)"

section \<open>The snapshot\<close>

definition cmd_param_save :: "'s param_ctx \<Rightarrow> 's shell_handler" where
  "cmd_param_save X argv = do {
     rc \<leftarrow> call (kfsw_param_persist_save (px_K X));
     if rc \<noteq> 0 then do { shell_error (''Parameter snapshot save: FAIL ('' @ fmt_d rc @ '')''); ret (Some rc) }
     else do { shell_print ''Parameter snapshot save: PASS''; ret (Some 0) }
   }"

definition plural :: "nat \<Rightarrow> string" where
  "plural n = (if n = 1 then [] else ''s'')"

definition cmd_param_persist :: "'s param_ctx \<Rightarrow> 's shell_handler" where
  "cmd_param_persist X argv =
     with_argv argv 1 (\<lambda>a1. do {
       t \<leftarrow> parse_table_id X a1 0;
       if fst t \<noteq> 0 then ret (Some (fst t))
       else do {
         k \<leftarrow> ask (kfsw_param_persist_table_count (px_K X) (snd t));
         if fst k = - ENOENT
         then do { shell_error (''No table '' @ fmt_u (unat (snd t)) @ '' on this node''); ret (Some (fst k)) }
         else if fst k \<noteq> 0
         then do { shell_error (''table '' @ fmt_u (unat (snd t)) @ '': '' @ fmt_d (fst k)); ret (Some (fst k)) }
         else do {
           (if snd k = 0 then shell_warn (''Table '' @ fmt_u (unat (snd t)) @ '' keeps nothing across a reset'')
            else ret ());
           rc \<leftarrow> call (kfsw_param_persist_save (px_K X));
           if rc \<noteq> 0 then do { shell_error (''Parameter snapshot save: FAIL ('' @ fmt_d rc @ '')''); ret (Some rc) }
           else do {
             b \<leftarrow> ask (kfsw_param_persist_bytes (px_K X));
             shell_print (''Snapshot written, '' @ fmt_u b @ '' byte'' @ plural b @ ''; table '' @
               fmt_u (unat (snd t)) @ '' contributes '' @ fmt_u (unat (snd k)) @ '' value'' @ plural (unat (snd k)));
             ret (Some 0)
           }
         }
       }
     })"

definition cmd_param_load :: "'s param_ctx \<Rightarrow> 's shell_handler" where
  "cmd_param_load X argv = do {
     rc \<leftarrow> call (kfsw_param_persist_load (px_K X));
     if rc = - ENOENT then do { shell_error ''Parameter snapshot load: no saved snapshot''; ret (Some rc) }
     else if rc \<noteq> 0 then do { shell_error (''Parameter snapshot load: FAIL ('' @ fmt_d rc @ '')''); ret (Some rc) }
     else do { shell_print ''Parameter snapshot load: PASS''; ret (Some 0) }
   }"

definition cmd_param_defaults :: "'s param_ctx \<Rightarrow> 's shell_handler" where
  "cmd_param_defaults X argv = do {
     rc \<leftarrow> call (kfsw_param_restore_defaults (px_K X));
     if rc \<noteq> 0 then do { shell_error (''Parameter defaults: FAIL ('' @ fmt_d rc @ '')''); ret (Some rc) }
     else do { shell_print ''Parameter defaults: PASS (saved snapshot unchanged)''; ret (Some 0) }
   }"

definition cmd_param_clear :: "'s param_ctx \<Rightarrow> 's shell_handler" where
  "cmd_param_clear X argv = do {
     rc \<leftarrow> call (kfsw_param_persist_clear (px_K X));
     if rc \<noteq> 0 then do { shell_error (''Parameter snapshot clear: FAIL ('' @ fmt_d rc @ '')''); ret (Some rc) }
     else do { shell_print ''Parameter snapshot clear: PASS (RAM unchanged)''; ret (Some 0) }
   }"

definition param_subcommands :: "'s param_ctx \<Rightarrow> 's subcommand list" where
  "param_subcommands X =
     (let persist = px_cfg X CONFIG_KFSW_PARAM_PERSISTENCE; one = (if px_cfg X CONFIG_KFSW_PARAM_CSP then 1 else 0)
      in (if persist then [sub ''clear'' (cmd_param_clear X) 1 0, sub ''defaults'' (cmd_param_defaults X) 1 0] else []) @
         [sub ''get'' (cmd_param_get X) 2 one] @
         (if persist then [sub ''load'' (cmd_param_load X) 1 0] else []) @
         [sub ''listall'' (cmd_param_listall X) 1 one, sub ''describe'' (cmd_param_describe X) 1 1] @
         (if persist then [sub ''persist'' (cmd_param_persist X) 2 0, sub ''save'' (cmd_param_save X) 1 0] else []) @
         [sub ''set'' (cmd_param_set X) 3 one, sub ''table'' (cmd_param_table X) 2 one,
          sub ''whichtables'' (cmd_param_whichtables X) 1 one])"

section \<open>Array values\<close>

text \<open>The text of an array, and of a beginning of it, as the loop writes them.\<close>

definition list_prefix :: "u8 list \<Rightarrow> string" where
  "list_prefix bs = (if bs = [] then [] else ''['' @ join_with (CHR '','') (map (\<lambda>b. fmt_u (unat b)) bs))"

lemma list_prefix_snoc:
  "list_prefix (bs @ [b]) = list_prefix bs @ (if bs = [] then ''['' else '','') @ fmt_u (unat b)"
  by (simp add: list_prefix_def join_with_snoc)

lemma length_fmt_u8: "length (fmt_u (unat (b :: u8))) \<le> 3"
proof -
  have "unat b < 256" using unsigned_less [of b] by simp
  then have "unat b div 10 < 100" "unat b div 10 div 10 < 10" by linarith+
  then show ?thesis
    by (simp add: fmt_u_def radix.simps [of 10 "unat b"] radix.simps [of 10 "unat b div 10"]
        radix.simps [of 10 "unat b div 10 div 10"])
qed

lemma digits_no_nul: "CHR 0x00 \<notin> set (fmt_u n)"
proof
  assume "CHR 0x00 \<in> set (fmt_u n)"
  then have "digit_in 10 (CHR 0x00)" using radix_digits [of 10 n] by (auto simp: fmt_u_def)
  then show False by simp
qed

lemma no_nul_join_with: "\<forall>w \<in> set ws. CHR 0x00 \<notin> set w \<Longrightarrow> c \<noteq> CHR 0x00 \<Longrightarrow> CHR 0x00 \<notin> set (join_with c ws)"
  by (induction c ws rule: join_with.induct) auto

lemma list_prefix_no_nul: "CHR 0x00 \<notin> set (list_prefix bs)"
  using no_nul_join_with [of "map (\<lambda>b. fmt_u (unat b)) bs" "CHR '',''"]
  by (auto simp: list_prefix_def digits_no_nul)

lemma data_loop_text:
  assumes "sz \<le> length bytes" "index \<le> sz" "used = length (list_prefix (take index bytes))"
    "take used buf = list_prefix (take index bytes)" "used + 1 < length buf"
  shows "\<exists>k b. data_loop bytes sz index used buf = Some (length (list_prefix (take k bytes)), b) \<and>
    index \<le> k \<and> k \<le> sz \<and> length b = length buf \<and>
    take (length (list_prefix (take k bytes))) b = list_prefix (take k bytes) \<and>
    length (list_prefix (take k bytes)) + 1 < length buf \<and>
    (k < sz \<longrightarrow> length buf \<le> length (list_prefix (take k bytes)) + 5)"
  using assms
proof (induction bytes sz index used buf rule: data_loop.induct)
  case (1 bytes sz index used buf)
  show ?case
  proof (cases "index < sz \<and> used + 5 < length buf")
    case False
    then have "data_loop bytes sz index used buf = Some (used, buf)"
      by (subst data_loop.simps) (rule if_not_P)
    with False "1.prems" show ?thesis by (intro exI [of _ index] exI [of _ buf]) auto
  next
    case True
    then have i: "index < length bytes" using "1.prems" by simp
    let ?t = "(if index = 0 then ''['' else '','') @ fmt_u (unat (bytes ! index))"
    have tl: "length ?t \<le> 4" using length_fmt_u8 [of "bytes ! index"] by (cases "index = 0") auto
    have nxt: "list_prefix (take (Suc index) bytes) = list_prefix (take index bytes) @ ?t"
      using i by (auto simp: take_Suc_conv_app_nth list_prefix_snoc)
    define b where "b = take used buf @ ?t @ CHR 0x00 # drop (used + length ?t + 1) buf"
    have w: "write_at buf used (snprintf (length buf - used) ?t @ [CHR 0x00]) = Some b"
      unfolding b_def using True tl by (intro write_snprintf_fits) linarith
    have lenb: "length b = length buf" using True tl by (auto simp: b_def)
    have step: "data_loop bytes sz index used buf = data_loop bytes sz (Suc index) (used + length ?t) b"
      using True i w by (simp add: data_loop.simps [of bytes sz index used buf] Let_def)
    have "take (used + length ?t) b = take used buf @ ?t" using True by (simp add: b_def)
    then have tk: "take (used + length ?t) b = list_prefix (take (Suc index) bytes)"
      using "1.prems"(4) nxt by simp
    have "\<exists>k c. data_loop bytes sz (Suc index) (used + length ?t) b = Some (length (list_prefix (take k bytes)), c) \<and>
        Suc index \<le> k \<and> k \<le> sz \<and> length c = length b \<and>
        take (length (list_prefix (take k bytes))) c = list_prefix (take k bytes) \<and>
        length (list_prefix (take k bytes)) + 1 < length b \<and>
        (k < sz \<longrightarrow> length b \<le> length (list_prefix (take k bytes)) + 5)"
      by (rule "1.IH" [OF True i refl w])
        (use True "1.prems" nxt tk tl lenb in auto)
    then show ?thesis unfolding step lenb using Suc_leD by blast
  qed
qed

definition value_ok :: "kfsw_param_value \<Rightarrow> bool" where
  "value_ok v \<longleftrightarrow> (v_type v = KFSW_PARAM_DATA \<longrightarrow> v_size v \<le> length (v_bytes v))"

lemma data_text_shows:
  assumes "v_size v \<le> length (v_bytes v)" "2 \<le> length buf"
  shows "\<exists>k \<le> v_size v. data_text v buf = Some (list_prefix (take k (v_bytes v)) @ '']'') \<and>
    length (list_prefix (take k (v_bytes v)) @ '']'') < length buf \<and>
    (k < v_size v \<longrightarrow> length buf \<le> length (list_prefix (take k (v_bytes v))) + 5)"
proof -
  obtain k b where r: "data_loop (v_bytes v) (v_size v) 0 0 buf = Some (length (list_prefix (take k (v_bytes v))), b)"
      "k \<le> v_size v" "length b = length buf"
      "take (length (list_prefix (take k (v_bytes v)))) b = list_prefix (take k (v_bytes v))"
      "length (list_prefix (take k (v_bytes v))) + 1 < length buf"
      "k < v_size v \<longrightarrow> length buf \<le> length (list_prefix (take k (v_bytes v))) + 5"
    using data_loop_text [of "v_size v" "v_bytes v" 0 0 buf] assms by (auto simp: list_prefix_def)
  let ?p = "list_prefix (take k (v_bytes v))"
  have "write_at b (length ?p) (snprintf (length b - length ?p) '']'' @ [CHR 0x00]) =
      Some (take (length ?p) b @ '']'' @ CHR 0x00 # drop (length ?p + length '']'' + 1) b)"
    using r(3,5) by (intro write_snprintf_fits) simp
  moreover have "cstr ((?p @ '']'') @ CHR 0x00 # drop (length ?p + length '']'' + 1) b) = ?p @ '']''"
    by (rule cstr_append) (simp add: list_prefix_no_nul)
  ultimately show ?thesis
    using r by (intro exI [of _ k]) (simp add: data_text_def)
qed

lemma format_total: "value_ok v \<Longrightarrow> 2 \<le> length buf \<Longrightarrow> \<exists>t. format_param_value cfg K buf v = Some t"
  using data_text_shows [of v buf]
  by (cases "v_type v") (auto simp: format_param_value_def value_ok_def Let_def)


section \<open>The environment\<close>

text \<open>
  What the group needs of its environment: the text array has the size of the code, array values
  hold as many bytes as they say, and a read of many values returns them all.
\<close>

definition param_ctx_ok :: "'s param_ctx \<Rightarrow> bool" where
  "param_ctx_ok X \<longleftrightarrow>
     length (px_text X) = KFSW_PARAM_VALUE_TEXT_SIZE (px_P X) \<and>
     (\<forall>n s. value_ok (snd (fst (kfsw_param_get (px_K X) n s)))) \<and>
     (\<forall>a n s. value_ok (snd (fst (kfsw_param_remote_get (px_K X) a n s)))) \<and>
     (\<forall>t v. value_ok v \<longrightarrow> value_ok (snd (kfsw_param_parse_text (px_K X) t v))) \<and>
     (\<forall>a ns s. fst (fst (kfsw_param_remote_get_many (px_K X) a ns s)) = 0 \<longrightarrow>
        length ns \<le> length (snd (fst (kfsw_param_remote_get_many (px_K X) a ns s))) \<and>
        (\<forall>v \<in> set (snd (fst (kfsw_param_remote_get_many (px_K X) a ns s))). value_ok v))"

lemma format_value_total: "param_ctx_ok X \<Longrightarrow> value_ok v \<Longrightarrow> \<exists>t. format_value X v = Some t"
  by (simp add: format_value_def param_ctx_ok_def KFSW_PARAM_VALUE_TEXT_SIZE_def format_total)

text \<open>The four arrays of names, and the array of counts, keep their length.\<close>

definition names_ok :: "param_list_context \<Rightarrow> bool" where
  "names_ok c \<longleftrightarrow> length (names c) = KFSW_PARAM_TABLE_NAMES_MAX \<and> length (offsets c) = KFSW_PARAM_TABLE_NAMES_MAX \<and>
     length (types c) = KFSW_PARAM_TABLE_NAMES_MAX \<and> length (param_flags c) = KFSW_PARAM_TABLE_NAMES_MAX \<and>
     name_count c \<le> KFSW_PARAM_TABLE_NAMES_MAX"

definition counts_ok :: "param_shell_build \<Rightarrow> param_list_context \<Rightarrow> bool" where
  "counts_ok P c \<longleftrightarrow> length (counts c) = KFSW_PARAM_TABLE_MODULE_LAST P + 1"

lemma list_context_ok [simp]: "names_ok (list_context P f l)" "counts_ok P (list_context P f l)"
  by (simp_all add: names_ok_def counts_ok_def list_context_def)

lemma names_ok_table [simp]: "names_ok (c\<lparr>lc_table := t\<rparr>) = names_ok c"
  by (simp add: names_ok_def)

interpretation collecting: walk_callback collect_table_names names_ok
  by unfold_locales (auto simp: collect_table_names_def names_ok_def ends_def Let_def)

interpretation tallying: walk_callback "tally_table P" "counts_ok P" for P
  by unfold_locales (auto simp: tally_table_def counts_ok_def ends_def Let_def)

interpretation describing: walk_callback "print_param_description X" "\<lambda>_. True" for X
  by unfold_locales (auto simp: print_param_description_def ends_def print_describe_header_def)

interpretation table_ids: walk_callback "collect_remote_table_id P"
    "\<lambda>ids. length ids \<le> KFSW_PARAM_TABLE_MODULE_LAST P + 1" for P
  by unfold_locales (auto simp: collect_remote_table_id_def ends_def)

interpretation finding: walk_callback "find_table t" "\<lambda>_. True" for t
  by unfold_locales (auto simp: find_table_def ends_def)

interpretation remote_rows: walk_callback "print_remote_table X" "\<lambda>_. True" for X
  by unfold_locales (auto simp: print_remote_table_def ends_def)

interpretation table_rows: walk_callback "print_table_info X" "\<lambda>_. True" for X
  by unfold_locales (auto simp: print_table_info_def ends_def Let_def)

lemma value_column_some:
  assumes "param_ctx_ok X"
  shows "ends (\<lambda>t. t \<noteq> None) (value_column X info lcl)"
proof -
  have "format_value X (snd (fst (kfsw_param_get (px_K X) n s))) \<noteq> None" for n s
    using format_value_total [OF assms] assms by (auto simp: param_ctx_ok_def)
  then show ?thesis by (auto simp: value_column_def ends_def Let_def simp del: not_None_eq)
qed

interpretation listing: walk_callback "print_param_info X" "\<lambda>_. param_ctx_ok X" for X
proof
  fix c i assume ok: "param_ctx_ok X"
  show "ends (\<lambda>r. \<exists>c' go. r = Some (c', go) \<and> param_ctx_ok X) (print_param_info X i c)"
    unfolding print_param_info_def
  proof (intro ends_if)
    show "ends (\<lambda>r. \<exists>c' go. r = Some (c', go) \<and> param_ctx_ok X)
       (do { (if \<not> header_printed c then print_list_header (px_P X) else ret ());
          vt \<leftarrow> value_column X i (local c);
          case vt of None \<Rightarrow> ret None
          | Some t \<Rightarrow> do {
              shell_print (row X (table_text i) (i_offset i) (i_name i) (i_type i) (i_flags i) @ t);
              ret (Some (c\<lparr>header_printed := True\<rparr>, True)) } })"
      by (rule ends_bind, rule ends_then [OF value_column_some [OF ok]]) (auto simp: ends_def ok)
  qed (auto simp: ends_def ok)
qed


section \<open>Every subcommand returns\<close>

lemma value_ok_fetch:
  "param_ctx_ok X \<Longrightarrow> ends (\<lambda>g. value_ok (snd g)) (fetch X node name)"
  by (auto simp: fetch_def param_ctx_ok_def ends_def)

lemma value_ok_store:
  "param_ctx_ok X \<Longrightarrow> value_ok v \<Longrightarrow> ends (\<lambda>g. value_ok (snd g)) (store X node name v)"
  by (auto simp: store_def param_ctx_ok_def ends_def split_beta)

lemma print_value_returns: "param_ctx_ok X \<Longrightarrow> value_ok v \<Longrightarrow> returns (print_param_value X node name v)"
  using format_value_total [of X v] by (auto simp: print_param_value_def ends_def)

lemma param_target_some:
  assumes "1 < length argv"
  shows "ends (\<lambda>r. \<exists>rc node i. r = Some (rc, node, i) \<and> (i = 1 \<or> i = 2 \<and> length argv \<noteq> n)) (param_target X argv n)"
  using assms by (auto simp: param_target_def with_argv_def ends_def split_beta)

lemma get_returns:
  assumes ok: "param_ctx_ok X" and n: "2 \<le> length argv" "length argv \<le> 3"
  shows "returns (cmd_param_get X argv)"
  unfolding cmd_param_get_def
proof (rule ends_then [OF param_target_some [of argv 2 X]])
  show "1 < length argv" using n by simp
next
  fix t :: "(int \<times> u16 \<times> nat) option"
  assume "\<exists>rc node i. t = Some (rc, node, i) \<and> (i = 1 \<or> i = 2 \<and> length argv \<noteq> 2)"
  then obtain rc node i where t: "t = Some (rc, node, i)" "i < length argv" using n by auto
  have p: "returns (do { p \<leftarrow> print_param_value X node nm v; ret (map_option (\<lambda>_. 0 :: int) p) })"
    if "value_ok v" for nm v
    by (rule returns_bind [OF print_value_returns [OF ok that]]) (simp add: ends_def)
  show "returns (case t of None \<Rightarrow> ret None
      | Some (rc, node, i) \<Rightarrow>
         if rc \<noteq> 0 then ret (Some rc)
         else with_argv argv i (\<lambda>name. do {
           g \<leftarrow> fetch X node name;
           if node \<noteq> THIS_NODE \<and> kfsw_shell_no_answer (fst g)
           then lift_int (kfsw_shell_remote_failed ''param get'' node (fst g))
           else if fst g \<noteq> 0 then lift_int (print_param_error ''get'' name (fst g))
           else do { p \<leftarrow> print_param_value X node name (snd g); ret (map_option (\<lambda>_. 0) p) }
         }))"
    unfolding t option.case prod.case
    by (intro ends_if returns_ret ends_with_argv t(2) ends_then [OF value_ok_fetch [OF ok]] returns_lift_int p)
qed

lemma set_value_returns:
  assumes ok: "param_ctx_ok X" and v: "value_ok v"
  shows "returns (set_value X node name v)"
  unfolding set_value_def
  by (intro ends_then [OF value_ok_store [OF ok v]] ends_if returns_lift_int
      returns_bind [OF print_value_returns [OF ok]])
    (simp_all add: ends_def split_beta)

lemma set_returns:
  assumes ok: "param_ctx_ok X" and n: "3 \<le> length argv" "length argv \<le> 4"
  shows "returns (cmd_param_set X argv)"
  unfolding cmd_param_set_def
proof (rule ends_then [OF param_target_some [of argv 3 X]])
  show "1 < length argv" using n by simp
next
  fix t :: "(int \<times> u16 \<times> nat) option"
  assume "\<exists>rc node i. t = Some (rc, node, i) \<and> (i = 1 \<or> i = 2 \<and> length argv \<noteq> 3)"
  then obtain rc node i where t: "t = Some (rc, node, i)" "i < length argv" "Suc i < length argv" using n by auto
  have p: "value_ok (snd (kfsw_param_parse_text (px_K X) tx v))" if "value_ok v" for tx v
    using ok that by (simp add: param_ctx_ok_def)
  have s: "returns (let (prc, v) = kfsw_param_parse_text (px_K X) tx v0
                in if prc \<noteq> 0
                   then do { shell_error (m v); ret (Some prc) }
                   else set_value X node name v)" if "value_ok v0" for name tx v0 m
    using p [OF that, of tx] set_value_returns [OF ok]
    by (auto simp: split_beta ends_ret intro!: ends_bind)
  show "returns (case t of None \<Rightarrow> ret None
      | Some (rc, node, i) \<Rightarrow>
         if rc \<noteq> 0 then ret (Some rc)
         else with_argv argv i (\<lambda>name. with_argv argv (Suc i) (\<lambda>txt. do {
           g \<leftarrow> fetch X node name;
           if node \<noteq> THIS_NODE \<and> kfsw_shell_no_answer (fst g)
           then lift_int (kfsw_shell_remote_failed ''param set'' node (fst g))
           else if fst g \<noteq> 0 then lift_int (print_param_error ''set'' name (fst g))
           else let (prc, v) = kfsw_param_parse_text (px_K X) txt (snd g)
                in if prc \<noteq> 0
                   then do {
                     shell_error (''set: invalid '' @ kfsw_param_type_name (px_K X) (v_type v) @ '' value '' @
                       [CHR 0x27] @ txt @ [CHR 0x27]);
                     ret (Some prc)
                   }
                   else set_value X node name v
         })))"
    unfolding t option.case prod.case
    by (intro ends_if returns_ret ends_with_argv t(2) t(3) ends_then [OF value_ok_fetch [OF ok]] returns_lift_int s)
qed


lemma listing_some:
  "param_ctx_ok X \<Longrightarrow> ends (\<lambda>r. \<exists>rc c'. r = Some (rc, c')) (visit_with src (print_param_info X) c)"
  by (rule ends_weaken [OF listing.visit_keeps]) auto

lemma print_local_keeps:
  "param_ctx_ok X \<Longrightarrow> ends (\<lambda>r. \<exists>rc c'. r = Some (rc, c')) (print_local X c)"
  unfolding print_local_def by (rule listing_some)

lemma describe_returns: "returns (cmd_param_describe X argv)"
  unfolding cmd_param_describe_def
  by (intro ends_bind ends_if returns_ret describing.visit_then TrueI)
    (auto simp: ends_def split_beta)

lemma listall_finish_returns [returns_intros]: "returns (listall_finish X l rc)"
  by (simp add: listall_finish_def ends_def split_beta)

lemma remote_tables_loop_some:
  "param_ctx_ok X \<Longrightarrow> ends (\<lambda>r. \<exists>rc c'. r = Some (rc, c')) (remote_tables_loop X node ts c)"
proof (induction ts arbitrary: c)
  case (Cons t ts)
  then show ?case
    unfolding remote_tables_loop.simps by (intro listing.visit_then) (auto intro!: ends_if simp: ends_ret)
qed (simp add: ends_def)

lemma list_remote_some:
  assumes "param_ctx_ok X"
  shows "ends (\<lambda>r. \<exists>rc c'. r = Some (rc, c')) (list_remote_parameters X node c)"
  unfolding list_remote_parameters_def
  by (intro table_ids.visit_then)
    (auto intro!: ends_if listing_some [OF assms] remote_tables_loop_some [OF assms] simp: ends_ret)

lemma list_here_returns: "param_ctx_ok X \<Longrightarrow> returns (list_here X)"
  unfolding list_here_def
  by (rule ends_then [OF print_local_keeps]) (auto intro!: returns_intros simp del: not_None_eq)

lemma listall_returns:
  assumes ok: "param_ctx_ok X" and n: "1 \<le> length argv"
  shows "returns (cmd_param_listall X argv)"
proof -
  have r: "returns (do {
      r \<leftarrow> list_remote_parameters X node c;
      case r of
        None \<Rightarrow> ret None
      | Some (rc, c) \<Rightarrow>
          if kfsw_shell_no_answer rc then lift_int (kfsw_shell_remote_failed m node rc)
          else listall_finish X False rc })" for node c m
    by (rule ends_then [OF list_remote_some [OF ok]]) (auto intro!: returns_intros simp del: not_None_eq)
  show ?thesis
    unfolding cmd_param_listall_def
    by (intro returns_intros list_here_returns [OF ok] r) (use n in auto)
qed

lemma print_local_table_returns: "param_ctx_ok X \<Longrightarrow> returns (print_local_table X c)"
  unfolding print_local_table_def
  by (rule ends_then [OF print_local_keeps]) (auto intro!: returns_intros simp del: not_None_eq)

lemma print_window_returns:
  assumes "param_ctx_ok X" "names_ok c" "base + off + k \<le> name_count c"
    "rd \<Longrightarrow> off + k \<le> length win" "\<forall>v \<in> set win. rd \<longrightarrow> value_ok v"
  shows "returns (print_window X c base rd win k off)"
  using assms(3,4)
proof (induction k arbitrary: off)
  case (Suc k)
  have i: "base + off < KFSW_PARAM_TABLE_NAMES_MAX" using Suc.prems(1) assms(2) by (auto simp: names_ok_def)
  have w: "rd \<longrightarrow> off < length win" using Suc.prems(2) by auto
  obtain t where t: "(if rd then format_value X (win ! off) else Some (snprintf (length (px_text X)) ''-'')) = Some t"
    using format_value_total [OF assms(1), of "win ! off"] w assms(5) by (cases rd) auto
  have ih: "returns (print_window X c base rd win k (Suc off))"
    using Suc.prems by (intro Suc.IH) auto
  show ?case
    using i w assms(2) ih by (simp add: Let_def t names_ok_def ends_bind)
qed (simp add: ends_def)

definition fetch_windows :: "'s param_services \<Rightarrow> u16 \<Rightarrow> string list list \<Rightarrow> 's \<Rightarrow> 's" where
  "fetch_windows K node nss s = fold (\<lambda>ns s. snd (kfsw_param_remote_get_many K node ns s)) nss s"

lemma quiet_print_window: "quiet (print_window X c base rd win k off)"
  by (induction X c base rd win k off rule: print_window.induct)
    (auto intro!: quiet_intros simp: Let_def split: option.splits)

lemma table_windows_step:
  fixes X :: "'s param_ctx" and c :: param_list_context and base :: nat
  defines "span \<equiv> min (name_count c - base) KFSW_PARAM_REMOTE_WINDOW"
  defines "ns \<equiv> take span (drop base (names c))"
  assumes ok: "param_ctx_ok X" "names_ok c" and base: "base < name_count c"
  shows "\<exists>w1. svc w1 = snd (kfsw_param_remote_get_many (px_K X) node ns (svc w)) \<and>
    run_state (table_windows X node c base) w =
    run_state (table_windows X node c (base + KFSW_PARAM_REMOTE_WINDOW)) w1"
proof -
  have len: "base + span \<le> length (names c)" "length ns = span" "base + 0 + span \<le> name_count c"
    using base ok(2) by (auto simp: names_ok_def span_def ns_def)
  obtain rc vs s1 where got: "kfsw_param_remote_get_many (px_K X) node ns (svc w) = ((rc, vs), s1)"
    by (metis surj_pair)
  have "\<forall>a ns s. fst (fst (kfsw_param_remote_get_many (px_K X) a ns s)) = 0 \<longrightarrow>
        length ns \<le> length (snd (fst (kfsw_param_remote_get_many (px_K X) a ns s))) \<and>
        (\<forall>v \<in> set (snd (fst (kfsw_param_remote_get_many (px_K X) a ns s))). value_ok v)"
    using ok(1) by (simp add: param_ctx_ok_def)
  from this [rule_format, of node ns "svc w"] have vs: "rc = 0 \<longrightarrow> span \<le> length vs \<and> (\<forall>v \<in> set vs. value_ok v)"
    by (simp add: got len(2))
  have pw: "returns (print_window X c base (rc = 0) vs span 0)"
    using vs len(3) by (intro print_window_returns ok) auto
  define w0 where "w0 = snd (run_state (if rc \<noteq> 0
      then do { e \<leftarrow> kfsw_shell_remote_failed ''param table'' node rc; ret () } else ret ()) (w\<lparr>svc := s1\<rparr>))"
  have w0: "svc w0 = s1"
    unfolding w0_def by (subst quietD) (auto intro: quiet_intros)
  obtain w1 where w1: "run_state (print_window X c base (rc = 0) vs span 0) w0 = (Some (), w1)" "svc w1 = s1"
    using pw quietD [OF quiet_print_window, of X c base "rc = 0" vs span 0 w0] w0
    by (cases "run_state (print_window X c base (rc = 0) vs span 0) w0") (auto simp: ends_def, metis fst_conv)
  have "run_state (table_windows X node c base) w =
      run_state (print_window X c base (rc = 0) vs span 0 \<bind>
        (\<lambda>p. case p of None \<Rightarrow> ret None | Some _ \<Rightarrow> table_windows X node c (base + KFSW_PARAM_REMOTE_WINDOW))) w0"
    unfolding table_windows.simps [of X node c base] Let_def if_P [OF base] span_def [symmetric] if_P [OF len(1)]
      ns_def [symmetric]
    by (simp add: got w0_def split_beta)
  then show ?thesis using w1 got by (intro exI [of _ w1]) simp
qed

lemma table_windows_svc:
  assumes "param_ctx_ok X" "names_ok c"
  shows "fst (run_state (table_windows X node c base) w) = Some 0 \<and>
   svc (snd (run_state (table_windows X node c base) w)) =
     fetch_windows (px_K X) node (chunks KFSW_PARAM_REMOTE_WINDOW (drop base (take (name_count c) (names c)))) (svc w)"
proof (induction "name_count c - base" arbitrary: base w rule: less_induct)
  case less
  show ?case
  proof (cases "base < name_count c")
    case True
    let ?all = "drop base (take (name_count c) (names c))"
    have w0: "0 < KFSW_PARAM_REMOTE_WINDOW" by (simp add: KFSW_PARAM_REMOTE_WINDOW_def)
    have all: "?all \<noteq> []" using True assms(2) by (auto simp: names_ok_def)
    have ns: "take KFSW_PARAM_REMOTE_WINDOW ?all = take (min (name_count c - base) KFSW_PARAM_REMOTE_WINDOW) (drop base (names c))"
      by (simp add: drop_take take_take min.commute)
    have rest: "drop KFSW_PARAM_REMOTE_WINDOW ?all = drop (base + KFSW_PARAM_REMOTE_WINDOW) (take (name_count c) (names c))"
      by (simp add: add.commute)
    obtain w1 where w1: "svc w1 = snd (kfsw_param_remote_get_many (px_K X) node (take KFSW_PARAM_REMOTE_WINDOW ?all) (svc w))"
        "run_state (table_windows X node c base) w = run_state (table_windows X node c (base + KFSW_PARAM_REMOTE_WINDOW)) w1"
      using table_windows_step [OF assms True, of node w] unfolding ns by blast
    have "name_count c - (base + KFSW_PARAM_REMOTE_WINDOW) < name_count c - base"
      using True by (simp add: KFSW_PARAM_REMOTE_WINDOW_def)
    from less.hyps [OF this, of w1] show ?thesis
      unfolding chunks_step [OF w0 all] rest w1(2) by (simp add: fetch_windows_def w1(1))
  qed (simp add: table_windows.simps [of X node c base] fetch_windows_def)
qed

lemma table_windows_returns:
  "param_ctx_ok X \<Longrightarrow> names_ok c \<Longrightarrow> returns (table_windows X node c base)"
  using table_windows_svc by (force simp: ends_def)

lemma collect_names_some:
  "names_ok c \<Longrightarrow> ends (\<lambda>r. \<exists>rc c'. r = Some (rc, c') \<and> names_ok c') (collect_names X node c)"
  unfolding collect_names_def
  by (erule collecting.visit_then) (auto intro!: ends_if collecting.visit_keeps simp: ends_ret)

lemma remote_table_returns:
  assumes "param_ctx_ok X" "names_ok c"
  shows "returns (remote_table X node c)"
  unfolding remote_table_def
  by (rule ends_then [OF collect_names_some [OF assms(2)]])
    (auto intro!: returns_intros table_windows_returns assms(1) simp del: not_None_eq)

lemma table_returns:
  assumes ok: "param_ctx_ok X" and n: "2 \<le> length argv" "length argv \<le> 3"
  shows "returns (cmd_param_table X argv)"
  unfolding cmd_param_table_def Let_def
  by (intro returns_intros print_local_table_returns [OF ok] remote_table_returns [OF ok]) (use n in auto)

lemma tally_rows_returns: "\<forall>t \<in> set ts. t < length (counts c) \<Longrightarrow> returns (tally_rows X c ts)"
proof (induction ts)
  case (Cons t ts)
  then have ih: "returns (tally_rows X c ts)" by simp
  have "returns (visit_with src (find_table i) None \<bind>
      (\<lambda>s. case s of None \<Rightarrow> ret None | Some (rc, found) \<Rightarrow> shell_print (m found) \<bind> (\<lambda>_. tally_rows X c ts)))"
    for src i m
    by (rule finding.visit_then) (auto intro!: ends_bind ih simp del: not_None_eq)
  with ih Cons.prems show ?case by (auto intro: ends_if simp del: not_None_eq)
qed (simp add: ends_def)

lemma print_remote_tables_returns: "returns (print_remote_tables X node)"
proof -
  have "returns (do {
      v \<leftarrow> visit_with src (tally_table (px_P X)) (list_context (px_P X) False False);
      case v of
        None \<Rightarrow> ret None
      | Some (rc2, c) \<Rightarrow>
          if rc2 \<noteq> 0 then lift_int (kfsw_shell_remote_failed m node rc2)
          else tally_rows X c [KFSW_PARAM_TABLE_CORE_FIRST (px_P X) ..< KFSW_PARAM_TABLE_MODULE_LAST (px_P X) + 1] })"
    for src m
    by (rule tallying.visit_then [OF list_context_ok(2)])
      (auto intro!: returns_intros tally_rows_returns simp: counts_ok_def simp del: not_None_eq)
  then show ?thesis
    unfolding print_remote_tables_def
    by (intro ends_bind remote_rows.visit_then TrueI) (auto intro!: returns_intros simp del: not_None_eq)
qed

lemma whichtables_here_returns: "returns (whichtables_here X)"
  unfolding whichtables_here_def
  by (intro ends_bind table_rows.visit_then TrueI) (auto simp: ends_def split_beta)

lemma param_group_total: "param_ctx_ok X \<Longrightarrow> group_total (param_subcommands X)"
  by (auto simp: param_subcommands_def Let_def cmd_param_clear_def cmd_param_defaults_def cmd_param_load_def
      cmd_param_save_def cmd_param_persist_def cmd_param_whichtables_def simp del: not_None_eq
      intro!: returns_intros get_returns set_returns listall_returns describe_returns table_returns
      whichtables_here_returns print_remote_tables_returns)

interpretation param_group: shell_group param_subcommands param_ctx_ok
proof unfold_locales
  show "distinct (map sub_name (param_subcommands X))" for X :: "'s param_ctx"
    by (cases "px_cfg X CONFIG_KFSW_PARAM_PERSISTENCE") (simp_all add: param_subcommands_def Let_def)
qed (rule param_group_total)

section \<open>Properties\<close>

lemma walk_collects:
  "names_ok c \<Longrightarrow>
   \<exists>c' m. run_state (walk collect_table_names is c n) w = (Some (c', m), w) \<and> names_ok c' \<and> lc_table c' = lc_table c \<and>
     take (name_count c') (names c') =
       take KFSW_PARAM_TABLE_NAMES_MAX (take (name_count c) (names c) @
         map i_name (filter (\<lambda>i. i_table i = lc_table c) is))"
proof (induction "is" arbitrary: c n)
  case (Cons i "is")
  show ?case
  proof (cases "i_table i = lc_table c \<and> name_count c < KFSW_PARAM_TABLE_NAMES_MAX")
    case True
    define d where "d = c\<lparr>names := (names c)[name_count c := i_name i], offsets := (offsets c)[name_count c := i_offset i],
       types := (types c)[name_count c := i_type i], param_flags := (param_flags c)[name_count c := i_flags i],
       name_count := Suc (name_count c)\<rparr>"
    have "names_ok d" "lc_table d = lc_table c"
      "take (name_count d) (names d) = take (name_count c) (names c) @ [i_name i]"
      using True Cons.prems by (auto simp: d_def names_ok_def take_Suc_conv_app_nth)
    moreover have "run_state (walk collect_table_names (i # is) c n) w = run_state (walk collect_table_names is d (Suc n)) w"
      using True Cons.prems by (simp add: collect_table_names_def names_ok_def d_def Let_def)
    ultimately show ?thesis using Cons.IH [of d "Suc n"] True by simp
  next
    case False
    then show ?thesis
      using Cons.IH [OF Cons.prems, of "Suc n"] Cons.prems
      by (cases "i_table i = lc_table c") (auto simp: collect_table_names_def names_ok_def)
  qed
qed (auto simp: names_ok_def)

lemma collects_table:
  assumes v: "kfsw_param_remote_visit_table (px_K X) node (lc_table c) (svc w) = ((infos, res), s1)"
    and res: "\<And>n. res n = 0" and c: "names_ok c" "name_count c = 0"
  shows "\<exists>c'. run_state (collect_names X node c) w = (Some (0, c'), w\<lparr>svc := s1\<rparr>) \<and> names_ok c' \<and>
    take (name_count c') (names c') =
      take KFSW_PARAM_TABLE_NAMES_MAX (map i_name (filter (\<lambda>i. i_table i = lc_table c) infos))"
  using walk_collects [OF c(1), of infos 0 "w\<lparr>svc := s1\<rparr>"] c(2)
  by (auto simp: collect_names_def visit_with_def v res)

text \<open>
  C22. A table of another node is fetched in windows: the names the node lists for the table, the
  first 32 of them, are asked for in order, each in one request and every request with between one
  and eight names. No other parameter is asked for, no request is repeated, and whatever the
  requests answer the command returns 0.
\<close>

theorem param_table_requests:
  assumes "param_ctx_ok X" "names_ok c" "name_count c = 0"
    and "kfsw_param_remote_visit_table (px_K X) node (lc_table c) (svc w) = ((infos, res), s1)" "\<And>n. res n = 0"
  defines "wanted \<equiv> take KFSW_PARAM_TABLE_NAMES_MAX (map i_name (filter (\<lambda>i. i_table i = lc_table c) infos))"
  shows "\<exists>nss. concat nss = wanted \<and> (\<forall>ns \<in> set nss. 0 < length ns \<and> length ns \<le> 8) \<and>
    fst (run_state (remote_table X node c) w) = Some 0 \<and>
    svc (snd (run_state (remote_table X node c) w)) =
      fold (\<lambda>ns s. snd (kfsw_param_remote_get_many (px_K X) node ns s)) nss s1"
proof -
  obtain c' where c': "run_state (collect_names X node c) w = (Some (0, c'), w\<lparr>svc := s1\<rparr>)" "names_ok c'"
      "take (name_count c') (names c') = wanted"
    using collects_table [OF assms(4,5,2,3)] unfolding wanted_def by blast
  show ?thesis
  proof (intro exI [of _ "chunks KFSW_PARAM_REMOTE_WINDOW wanted"] conjI)
    show "concat (chunks KFSW_PARAM_REMOTE_WINDOW wanted) = wanted" "\<forall>ns \<in> set (chunks KFSW_PARAM_REMOTE_WINDOW wanted). 0 < length ns \<and> length ns \<le> 8"
      using chunks_cover [of KFSW_PARAM_REMOTE_WINDOW wanted] by (auto simp: KFSW_PARAM_REMOTE_WINDOW_def)
    have none: "name_count c' = 0 \<longleftrightarrow> wanted = []"
      using c'(2,3) by (auto simp: names_ok_def KFSW_PARAM_TABLE_NAMES_MAX_def)
    have "svc (snd (run_state (print_list_header (px_P X)) u)) = svc u" for u :: "'a world"
      by (simp add: print_list_header_def)
    moreover note tw = table_windows_svc [OF assms(1) c'(2), of node 0, unfolded c'(3)]
    ultimately show "fst (run_state (remote_table X node c) w) = Some 0"
      "svc (snd (run_state (remote_table X node c) w)) =
         fold (\<lambda>ns s. snd (kfsw_param_remote_get_many (px_K X) node ns s)) (chunks KFSW_PARAM_REMOTE_WINDOW wanted) s1"
      using tw by (auto simp: remote_table_def c'(1) none fetch_windows_def split_beta)
  qed
qed

text \<open>
  C23. An array value is shown as \<^verbatim>\<open>[b0,b1,...]\<close>: the text fits its buffer with the terminator, it is
  the first bytes of the value in decimal, and bytes are left out only when fewer than six
  characters were left for them.
\<close>

theorem param_data_shown:
  assumes "v_type v = KFSW_PARAM_DATA" "v_size v \<le> length (v_bytes v)" "2 \<le> length buf"
  shows "\<exists>k \<le> v_size v. format_param_value cfg K buf v = Some (list_prefix (take k (v_bytes v)) @ '']'') \<and>
    length (list_prefix (take k (v_bytes v)) @ '']'') < length buf \<and>
    (k < v_size v \<longrightarrow> length buf \<le> length (list_prefix (take k (v_bytes v))) + 5)"
  using data_text_shows [OF assms(2,3)] by (simp add: format_param_value_def Let_def assms(1))

text \<open>An array of no bytes is shown as a closing bracket alone.\<close>

lemma empty_data_text:
  "v_type v = KFSW_PARAM_DATA \<Longrightarrow> v_size v = 0 \<Longrightarrow> 2 \<le> length buf \<Longrightarrow>
   format_param_value cfg K buf v = Some '']''"
  using data_text_shows [of v buf] by (simp add: format_param_value_def Let_def list_prefix_def)

text \<open>
  C16. A local \<^verbatim>\<open>param set\<close>, on every path: the parameter is read, the text is converted against the value
  read, and if both worked the service is written once, with the converted value. Then the parameter is
  read again, and the line printed shows what this second read returned, not the text that was given;
  a second line says that the value takes effect after a reboot exactly for a parameter of that mode.
  The first step that fails ends the command with its error and an error line, and no later one is
  made. Reading may change the service, as a sampled or a cleared parameter does. (Only a value that
  claims more bytes than its memory has is without a result.)
\<close>

theorem param_set_shows_stored:
  "let (g, s1) = kfsw_param_get (px_K X) name (svc w);
       (prc, v) = kfsw_param_parse_text (px_K X) new (snd g);
       (src, s2) = kfsw_param_set (px_K X) name v s1;
       (g', s3) = kfsw_param_get (px_K X) name s2;
       (irc, info) = kfsw_param_get_info (px_K X) name s3;
       (r, w') = run_state (cmd_param_set X [c, name, new]) w
   in if fst g \<noteq> 0 then r = Some (fst g) \<and> svc w' = s1 \<and> (\<exists>e. out w' = out w @ [Error e])
      else if prc \<noteq> 0 then r = Some prc \<and> svc w' = s1 \<and> (\<exists>e. out w' = out w @ [Error e])
      else if src \<noteq> 0 then r = Some src \<and> svc w' = s2 \<and> (\<exists>e. out w' = out w @ [Error e])
      else if fst g' \<noteq> 0 then r = Some (fst g') \<and> svc w' = s3 \<and> (\<exists>e. out w' = out w @ [Error e])
      else case format_value X (snd g') of
          None \<Rightarrow> r = None
        | Some t \<Rightarrow> r = Some 0 \<and> svc w' = s3 \<and>
            out w' = out w @ Print (name @ '' = '' @ t) #
              (if irc = 0 \<and> kfsw_param_mode_name (px_K X) (i_flags info) = ''b''
               then [Print ''stored; takes effect after reboot''] else [])"
proof -
  have t: "run_state (param_target X [c, name, new] 3) w = (Some (0, THIS_NODE, 1), w)" for w
    by (simp add: param_target_def)
  show ?thesis
    by (auto simp: cmd_param_set_def t with_argv_def fetch_def set_value_def store_def report_stored_def
        print_param_error_def print_param_value_def lift_int_def Let_def split_beta split: option.splits)
qed

text \<open>
  Services for the witnesses: one parameter of a byte, twelve descriptors on the other node, and a
  log of the requests for many values.
\<close>

definition byte_value :: "u8 \<Rightarrow> kfsw_param_value" where
  "byte_value b = \<lparr>v_type = KFSW_PARAM_U8, v_u8 = b, v_u16 = 0, v_u32 = 0, v_u64 = 0, v_text = [], v_size = 1, v_bytes = []\<rparr>"

definition sample_info :: "string \<Rightarrow> kfsw_param_info" where
  "sample_info n = \<lparr>i_name = n, i_table = 7, i_table_name = None, i_offset = 0, i_type = KFSW_PARAM_U8, i_flags = 0,
     i_unit = None, i_description = None\<rparr>"

definition sample_param_services :: "(u8 \<times> string list list) param_services" where
  "sample_param_services =
     \<lparr>kfsw_param_get = (\<lambda>n s. ((0, byte_value (fst s)), s)), kfsw_param_set = (\<lambda>n v s. (0, (v_u8 v, snd s))),
      kfsw_param_remote_get = (\<lambda>a n s. ((0, byte_value 0), s)), kfsw_param_remote_set = (\<lambda>a n v s. (0, s)),
      kfsw_param_remote_get_many = (\<lambda>a ns s. ((0, map (\<lambda>_. byte_value 1) ns), (fst s, snd s @ [ns]))),
      kfsw_param_visit = (\<lambda>s. (([], \<lambda>_. 0), s)), kfsw_param_remote_visit = (\<lambda>a s. (([], \<lambda>_. 0), s)),
      kfsw_param_remote_visit_table = (\<lambda>a t s. ((replicate 10 (sample_info ''p''), \<lambda>_. 0), s)),
      kfsw_param_remote_tables = (\<lambda>a s. (([], \<lambda>_. 0), s)), kfsw_param_visit_tables = (\<lambda>s. (([], \<lambda>_. 0), s)),
      kfsw_param_get_info = (\<lambda>n s. (0, sample_info n)),
      kfsw_param_parse_text = (\<lambda>t v. (0, byte_value (of_nat (fst (strtoul0 64 t))))),
      kfsw_param_type_name = (\<lambda>_. ''u8''), kfsw_param_mode_name = (\<lambda>_. ''rw''), kfsw_param_band_name = (\<lambda>_. ''core''),
      kfsw_param_persist_table_count = (\<lambda>t s. (0, 0)), kfsw_param_persist_bytes = (\<lambda>s. 0),
      kfsw_param_persist_save = (\<lambda>s. (0, s)), kfsw_param_persist_load = (\<lambda>s. (0, s)),
      kfsw_param_persist_clear = (\<lambda>s. (0, s)), kfsw_param_restore_defaults = (\<lambda>s. (0, s)),
      csp_address = (\<lambda>_. 1), float_text = (\<lambda>_. []), double_text = (\<lambda>_. [])\<rparr>"

definition sample_param_env :: "(u8 \<times> string list list) shell_env" where
  "sample_param_env =
     \<lparr>shell_strtoul = sample_strtoul, kfsw_command_is_initialized = (\<lambda>_. True), kfsw_command_find = (\<lambda>n _. None),
      kfsw_command_parse_arg = (\<lambda>t ty. (0, Arg_text t)), type_number = (\<lambda>_. 0),
      kfsw_command_invoke = (\<lambda>n args s. (zero_result, s)),
      kfsw_command_invoke_remote = (\<lambda>node n args s. ((0, zero_result), s)),
      kfsw_command_invoke_remote_retry = (\<lambda>node n args s. ((0, zero_result), s)),
      kfsw_command_status_name = (\<lambda>_. ''status'')\<rparr>"

definition sample_param_ctx :: "(u8 \<times> string list list) param_ctx" where
  "sample_param_ctx =
     \<lparr>px_cfg = (\<lambda>_. True), px_B = sample_build,
      px_P = \<lparr>KFSW_PARAM_NAME_MAX = 24, KFSW_PARAM_STRING_MAX = 29, KFSW_PARAM_TABLE_CORE_FIRST = 0,
        KFSW_PARAM_TABLE_MODULE_LAST = 127, CONFIG_KFSW_PARAM_REMOTE_POOL_SIZE = 64\<rparr>,
      px_E = sample_param_env, px_K = sample_param_services, px_text = replicate 32 (CHR 0x00)\<rparr>"

lemma value_ok_byte [simp]: "value_ok (byte_value b)"
  by (simp add: value_ok_def byte_value_def)

lemma sample_K [simp]:
  "px_K sample_param_ctx = sample_param_services"
  by (simp add: sample_param_ctx_def)

lemma sample_param_ctx_ok: "param_ctx_ok sample_param_ctx"
  by (simp add: param_ctx_ok_def) (simp add: sample_param_ctx_def sample_param_services_def KFSW_PARAM_VALUE_TEXT_SIZE_def)

theorem param_table_requests_witness:
  "\<exists>nss. concat nss = replicate 10 ''p'' \<and> (\<forall>ns \<in> set nss. 0 < length ns \<and> length ns \<le> 8) \<and>
    fst (run_state (remote_table sample_param_ctx 5 ((list_context (px_P sample_param_ctx) True True)\<lparr>lc_table := 7\<rparr>))
      \<lparr>svc = (0, []), out = []\<rparr>) = Some 0 \<and>
    svc (snd (run_state (remote_table sample_param_ctx 5 ((list_context (px_P sample_param_ctx) True True)\<lparr>lc_table := 7\<rparr>))
      \<lparr>svc = (0, []), out = []\<rparr>)) = (0, nss)"
proof -
  let ?c = "(list_context (px_P sample_param_ctx) True True)\<lparr>lc_table := 7\<rparr>"
  have v: "kfsw_param_remote_visit_table (px_K sample_param_ctx) 5 (lc_table ?c) (svc \<lparr>svc = (0, []), out = []\<rparr>) =
      ((replicate 10 (sample_info ''p''), \<lambda>_. 0), (0, []))"
    by (simp add: sample_param_services_def)
  have f: "fold (\<lambda>ns s. snd (kfsw_param_remote_get_many (px_K sample_param_ctx) 5 ns s)) nss (x, l) = (x, l @ nss)"
    for nss and x :: u8 and l
    by (induction nss arbitrary: l) (simp_all add: sample_param_services_def)
  have n: "names_ok ?c" "name_count ?c = 0" by (simp_all add: list_context_def names_ok_def)
  have t: "take KFSW_PARAM_TABLE_NAMES_MAX (map i_name (filter (\<lambda>i. i_table i = lc_table ?c) (replicate 10 (sample_info ''p'')))) =
      replicate 10 ''p''"
    by (simp add: sample_info_def KFSW_PARAM_TABLE_NAMES_MAX_def)
  show ?thesis
    using param_table_requests [OF sample_param_ctx_ok n v refl] unfolding f t by auto
qed

theorem param_data_shown_witness:
  "\<exists>k \<le> 2. format_param_value (\<lambda>_. True) sample_param_services (replicate 32 (CHR 0x00))
     ((byte_value 0)\<lparr>v_type := KFSW_PARAM_DATA, v_size := 2, v_bytes := [7, 255]\<rparr>) =
       Some (list_prefix (take k [7, 255]) @ '']'') \<and>
     length (list_prefix (take k [7, 255]) @ '']'') < 32 \<and> (k < 2 \<longrightarrow> 32 \<le> length (list_prefix (take k [7, 255])) + 5)"
  using param_data_shown [of "(byte_value 0)\<lparr>v_type := KFSW_PARAM_DATA, v_size := 2, v_bytes := [7, 255]\<rparr>"
      "replicate 32 (CHR 0x00)" "\<lambda>_. True" sample_param_services]
  by simp

end
