(* ===== verification/Shell_Hk.thy ===== *)
theory Shell_Hk
  imports Shell_Group
begin

text \<open>
  The housekeeping shell group, \<^verbatim>\<open>src/app/src/shell/shell_hk.c\<close>: every subcommand, the remote forms that
  go through \<^verbatim>\<open>kfsw_shell_run_command\<close>, the filters of the stored history and the table of
  subcommands with the argument counts the shell enforces. A report number is read as a
  \<^verbatim>\<open>uint32_t\<close> and passed on as a \<^verbatim>\<open>uint8_t\<close>, as in the code.
\<close>

section \<open>Services\<close>

record hk_stats =
  reports :: nat
  collections :: nat
  scheduled_attempts :: nat
  missed_slots :: nat
  settings_dirty :: bool
  last_save_error :: int
  last_load_error :: int
  hk_failures :: nat
  entries_failed :: nat
  hk_overwritten :: nat
  last_seconds :: nat
  beacons_sent :: nat
  beacons_skipped :: nat

record hk_sample =
  sample_sequence :: nat
  sample_seconds :: nat
  sample_flags :: u8
  entry_count :: nat
  sample_length :: nat
  sample_data :: "u8 list"

record hk_store_filter =
  filter_report :: u8
  from_sequence :: u16
  to_sequence :: u16
  from_seconds :: u32
  to_seconds :: u32
  without_flags :: u8

record hk_store_info =
  records :: nat
  info_capacity :: nat
  record_size :: nat
  interval_ms :: nat
  oldest :: nat
  newest :: nat

text \<open>
  What the group calls beyond the services of the command set. The getters return what is left in
  the variable they fill, \<open>get_definition\<close> is \<open>None\<close> for an undefined report.
\<close>

record 's hk_services =
  kfsw_hk_get_stats :: "'s \<Rightarrow> hk_stats"
  kfsw_hk_get_definition :: "u8 \<Rightarrow> 's \<Rightarrow> hk_entry list option"
  kfsw_hk_get_period :: "u8 \<Rightarrow> 's \<Rightarrow> nat"
  kfsw_hk_depth :: "u8 \<Rightarrow> 's \<Rightarrow> nat"
  kfsw_hk_get_class :: "u8 \<Rightarrow> 's \<Rightarrow> nat"
  kfsw_hk_get_beacon :: "u8 \<Rightarrow> 's \<Rightarrow> int \<times> nat \<times> nat"
  kfsw_hk_collect :: "u8 \<Rightarrow> 's \<Rightarrow> int \<times> 's"
  kfsw_hk_get :: "u8 \<Rightarrow> u16 \<Rightarrow> 's \<Rightarrow> int \<times> hk_sample"
  kfsw_hk_set_store :: "u8 \<Rightarrow> u32 \<Rightarrow> 's \<Rightarrow> int \<times> 's"
  kfsw_hk_clear_store :: "u8 \<Rightarrow> 's \<Rightarrow> int \<times> 's"
  kfsw_hk_set_beacon :: "u8 \<Rightarrow> u16 \<Rightarrow> u32 \<Rightarrow> 's \<Rightarrow> int \<times> 's"
  kfsw_hk_save :: "'s \<Rightarrow> int \<times> 's"
  kfsw_hk_store_query :: "u8 \<Rightarrow> 's \<Rightarrow> int \<times> hk_store_info"
  kfsw_hk_store_count :: "hk_store_filter \<Rightarrow> 's \<Rightarrow> int \<times> u16"
  kfsw_hk_store_read :: "hk_store_filter \<Rightarrow> u16 \<Rightarrow> 's \<Rightarrow> int \<times> hk_sample"
  kfsw_hk_store_extract :: "hk_store_filter \<Rightarrow> string \<Rightarrow> 's \<Rightarrow> (int \<times> u16) \<times> 's"

record hk_build =
  KFSW_HK_HEADER_SIZE :: nat
  KFSW_HK_FLAG_CLOCK_UNSET :: u8
  KFSW_HK_FLAG_INCOMPLETE :: u8
  CONFIG_KFSW_HK_BEACON_FLOOR_MS :: nat

text \<open>Everything a handler of the group needs besides the arguments.\<close>

record 's hk_ctx =
  cx_cfg :: config
  cx_B :: build
  cx_H :: hk_build
  cx_E :: "'s shell_env"
  cx_S :: "'s services"
  cx_K :: "'s hk_services"
  cx_entries_text :: "char list"
  cx_line :: "char list"

section \<open>Helpers\<close>

definition setting_result :: "'s hk_ctx \<Rightarrow> int \<Rightarrow> ('s, int) act" where
  "setting_result X rc = do {
     (if rc = KFSW_HK_APPLIED_UNSAVED (cx_B X)
      then do {
        st \<leftarrow> ask (kfsw_hk_get_stats (cx_K X));
        shell_error (''Applied in RAM; save failed: '' @ fmt_d (last_save_error st))
      }
      else ret ());
     ret rc
   }"

definition parse_u32 :: "'s hk_ctx \<Rightarrow> string \<Rightarrow> string \<Rightarrow> ('s, int + u32) act" where
  "parse_u32 X txt what =
     (let (parsed, parse_error) = shell_strtoul (cx_E X) txt 0
      in if parse_error \<noteq> 0 \<or> UINT32_MAX < parsed
         then do { shell_error (''Invalid '' @ what @ '': '' @ txt); ret (Inl (- EINVAL)) }
         else ret (Inr (of_nat parsed)))"

definition parse_entry :: "'s hk_ctx \<Rightarrow> string \<Rightarrow> hk_entry \<Rightarrow> ('s, int \<times> hk_entry) act" where
  "parse_entry X txt entry =
     (let (rc, e) = kfsw_app_hk_parse_entry (cx_B X) (Some txt) (Some entry)
      in if rc \<noteq> 0
         then do {
           shell_error (''Invalid entry '' @ [CHR 0x27] @ txt @ [CHR 0x27] @ '': use [node:]table:offset'');
           ret (- EINVAL, entry)
         }
         else ret (0, the e))"

definition names_node :: "string list \<Rightarrow> nat \<Rightarrow> bool" where
  "names_node argv local_argc =
     (let argc = (if 1 < length argv \<and> last argv = ''--retry'' then length argv - 1 else length argv)
      in local_argc < argc)"

definition run_remote :: "'s hk_ctx \<Rightarrow> string \<Rightarrow> 's shell_handler" where
  "run_remote X command argv =
     with_argv argv 1 (\<lambda>node_text. do {
       r \<leftarrow> kfsw_shell_parse_node (cx_B X) (cx_E X) node_text 0;
       if fst r \<noteq> 0 then ret (Some (fst r))
       else if length argv < 2 then ret None
       else kfsw_shell_run_command (cx_cfg X) (cx_B X) (cx_E X) (snd r) command (drop 2 argv)
     })"

text \<open>
  The loop of \<^verbatim>\<open>define_remote\<close> that joins the entries with \<^verbatim>\<open>snprintf(&entries[used], ...)\<close>, into an
  array of \<open>sz\<close> characters.
\<close>

fun define_join_loop :: "nat \<Rightarrow> string list \<Rightarrow> nat \<Rightarrow> char list \<Rightarrow> (int \<times> char list) option" where
  "define_join_loop sz [] used buf = Some (0, buf)"
| "define_join_loop sz (w # ws) used buf =
     (let t = (if used = 0 then [] else '' '') @ w
      in Option.bind (write_at buf used (snprintf (sz - used) t @ [CHR 0x00])) (\<lambda>b.
           if sz - used \<le> length t then Some (- E2BIG, b)
           else define_join_loop sz ws (used + length t) b))"

definition define_join_into :: "string list \<Rightarrow> char list \<Rightarrow> (int \<times> char list) option" where
  "define_join_into ws buf =
     Option.bind (write_at buf 0 [CHR 0x00]) (define_join_loop (length buf) ws 0)"

definition define_remote :: "'s hk_ctx \<Rightarrow> 's shell_handler" where
  "define_remote X argv =
     with_argv argv 1 (\<lambda>node_text. with_argv argv 2 (\<lambda>report_text. do {
       r \<leftarrow> kfsw_shell_parse_node (cx_B X) (cx_E X) node_text 0;
       if fst r \<noteq> 0 then ret (Some (fst r))
       else
         let retry = (last argv = ''--retry'');
             last_arg = (if retry then length argv - 1 else length argv)
         in case define_join_into (drop 3 (take last_arg argv)) (cx_entries_text X) of
              None \<Rightarrow> ret None
            | Some (rc, b) \<Rightarrow>
                if rc \<noteq> 0
                then do {
                  shell_error (''Entries are longer than '' @ fmt_u (KFSW_COMMAND_MAX_TEXT_SIZE (cx_B X)) @ '' bytes'');
                  ret (Some rc)
                }
                else kfsw_shell_run_command (cx_cfg X) (cx_B X) (cx_E X) (snd r) ''hk_define''
                       ([report_text, cstr b] @ (if retry then [''--retry''] else []))
     }))"

section \<open>Setting reports up\<close>

text \<open>The entry loop of \<^verbatim>\<open>cmd_hk_define\<close>: entries \<open>0\<close> to \<open>index\<close> of the array are written.\<close>

fun parse_entry_args :: "'s hk_ctx \<Rightarrow> string list \<Rightarrow> hk_entry list \<Rightarrow> ('s, int + hk_entry list) act" where
  "parse_entry_args X [] es = ret (Inr es)"
| "parse_entry_args X (t # ts) es = do {
     r \<leftarrow> parse_entry X t \<lparr>entry_node = 0, entry_param_id = 0\<rparr>;
     if fst r \<noteq> 0 then ret (Inl (fst r)) else parse_entry_args X ts (es @ [snd r])
   }"

text \<open>What the three setting handlers do with the service's result.\<close>

definition setting_shown :: "'s hk_ctx \<Rightarrow> int \<Rightarrow> string \<Rightarrow> ('s, unit) act \<Rightarrow> ('s, int option) act" where
  "setting_shown X rc msg good = do {
     r \<leftarrow> setting_result X rc;
     if r = KFSW_HK_APPLIED_UNSAVED (cx_B X) then ret (Some rc)
     else if rc \<noteq> 0 then do { shell_error (msg @ fmt_d rc); ret (Some rc) }
     else do { good; ret (Some 0) }
   }"

text \<open>The optional class of \<^verbatim>\<open>cmd_hk_define\<close>: an error, or the class and the index of the first entry.\<close>

definition define_class :: "'s hk_ctx \<Rightarrow> string \<Rightarrow> ('s, int + u8 \<times> nat) act" where
  "define_class X a2 =
     (if starts_with ''class='' a2
      then let (rc, rest, cls) = kfsw_app_hk_parse_class (cx_B X) a2
           in if rc \<noteq> 0 \<or> rest \<noteq> []
              then do { shell_error ''Class must be 0..7''; ret (Inl (if rc \<noteq> 0 then rc else - EINVAL)) }
              else ret (Inr (cls, 3))
      else ret (Inr (KFSW_HK_CLASS_DEFAULT (cx_B X), 2)))"

definition define_local :: "'s hk_ctx \<Rightarrow> 's shell_handler" where
  "define_local X argv =
     with_argv argv 1 (\<lambda>a1. with_argv argv 2 (\<lambda>a2. do {
       pr \<leftarrow> parse_u32 X a1 ''report'';
       case pr of
         Inl rc \<Rightarrow> ret (Some rc)
       | Inr report \<Rightarrow> do {
           pc \<leftarrow> define_class X a2;
           case pc of
             Inl rc \<Rightarrow> ret (Some rc)
           | Inr (cls, first_entry) \<Rightarrow>
               if CONFIG_KFSW_HK_REPORTS (cx_B X) \<le> unat report \<or> length argv \<le> first_entry
               then ret (Some (- EINVAL))
               else if CONFIG_KFSW_HK_ENTRIES (cx_B X) < length argv - first_entry
               then do {
                 shell_error (''A report holds at most '' @ fmt_u (CONFIG_KFSW_HK_ENTRIES (cx_B X)) @ '' values'');
                 ret (Some (- E2BIG))
               }
               else do {
                 pe \<leftarrow> parse_entry_args X (drop first_entry argv) [];
                 case pe of
                   Inl rc \<Rightarrow> ret (Some rc)
                 | Inr es \<Rightarrow> do {
                     rc \<leftarrow> call (kfsw_hk_define_class (cx_S X) (ucast report) es cls);
                     setting_shown X rc (''define report '' @ fmt_u (unat report) @ '': '')
                       (shell_print (''report '' @ fmt_u (unat report) @ '' defines '' @
                          fmt_u (length es) @ '' values''))
                   }
               }
         }
     }))"

definition cmd_hk_define :: "'s hk_ctx \<Rightarrow> 's shell_handler" where
  "cmd_hk_define X argv =
     (if cx_cfg X CONFIG_KFSW_COMMAND_CSP \<and> 3 < length argv \<and> CHR '':'' \<notin> set (argv ! 2) \<and>
         \<not> starts_with ''class='' (argv ! 2)
      then define_remote X argv
      else define_local X argv)"

definition cmd_hk_clear :: "'s hk_ctx \<Rightarrow> 's shell_handler" where
  "cmd_hk_clear X argv =
     (if cx_cfg X CONFIG_KFSW_COMMAND_CSP \<and> names_node argv 2 then run_remote X ''hk_clear'' argv
      else with_argv argv 1 (\<lambda>a1. do {
        pr \<leftarrow> parse_u32 X a1 ''report'';
        case pr of
          Inl rc \<Rightarrow> ret (Some rc)
        | Inr report \<Rightarrow> do {
            rc \<leftarrow> call (kfsw_hk_clear (cx_S X) (ucast report));
            setting_shown X rc (''clear report '' @ fmt_u (unat report) @ '': '')
              (shell_print (''report '' @ fmt_u (unat report) @ '' cleared''))
          }
      }))"

definition cmd_hk_period :: "'s hk_ctx \<Rightarrow> 's shell_handler" where
  "cmd_hk_period X argv =
     (if cx_cfg X CONFIG_KFSW_COMMAND_CSP \<and> names_node argv 3 then run_remote X ''hk_period'' argv
      else with_argv argv 1 (\<lambda>a1. do {
        pr \<leftarrow> parse_u32 X a1 ''report'';
        case pr of
          Inl rc \<Rightarrow> ret (Some rc)
        | Inr report \<Rightarrow> with_argv argv 2 (\<lambda>a2. do {
            pp \<leftarrow> parse_u32 X a2 ''period'';
            case pp of
              Inl rc \<Rightarrow> ret (Some rc)
            | Inr period \<Rightarrow> do {
                rc \<leftarrow> call (kfsw_hk_set_period (cx_S X) (ucast report) period);
                setting_shown X rc (''period for report '' @ fmt_u (unat report) @ '': '')
                  (shell_print (''report '' @ fmt_u (unat report) @ '' every '' @ fmt_u (unat period) @ '' ms''))
              }
          })
      }))"

definition cmd_hk_store :: "'s hk_ctx \<Rightarrow> 's shell_handler" where
  "cmd_hk_store X argv =
     with_argv argv 1 (\<lambda>a1. do {
       pr \<leftarrow> parse_u32 X a1 ''report'';
       case pr of
         Inl _ \<Rightarrow> ret (Some (- EINVAL))
       | Inr report \<Rightarrow> with_argv argv 2 (\<lambda>a2. do {
           pi \<leftarrow> parse_u32 X a2 ''interval'';
           case pi of
             Inl _ \<Rightarrow> ret (Some (- EINVAL))
           | Inr interval \<Rightarrow> do {
               rc \<leftarrow> call (kfsw_hk_set_store (cx_K X) (ucast report) interval);
               setting_shown X rc (''store for report '' @ fmt_u (unat report) @ '': '')
                 (if interval = 0
                  then shell_print (''report '' @ fmt_u (unat report) @
                         '' keeps samples in RAM only; the file it wrote stays'')
                  else shell_print (''report '' @ fmt_u (unat report) @ '' stores every '' @
                         fmt_u (unat interval) @ '' ms''))
             }
         })
     })"

definition cmd_hk_store_clear :: "'s hk_ctx \<Rightarrow> 's shell_handler" where
  "cmd_hk_store_clear X argv =
     with_argv argv 1 (\<lambda>a1. do {
       pr \<leftarrow> parse_u32 X a1 ''report'';
       case pr of
         Inl _ \<Rightarrow> ret (Some (- EINVAL))
       | Inr report \<Rightarrow> do {
           rc \<leftarrow> call (kfsw_hk_clear_store (cx_K X) (ucast report));
           setting_shown X rc (''store_clear for report '' @ fmt_u (unat report) @ '': '')
             (shell_print (''report '' @ fmt_u (unat report) @ '' stops storing and its file is removed''))
         }
     })"

definition cmd_hk_beacon :: "'s hk_ctx \<Rightarrow> 's shell_handler" where
  "cmd_hk_beacon X argv =
     with_argv argv 1 (\<lambda>a1. do {
       pr \<leftarrow> parse_u32 X a1 ''report'';
       case pr of
         Inl _ \<Rightarrow> ret (Some (- EINVAL))
       | Inr report \<Rightarrow> with_argv argv 2 (\<lambda>a2. do {
           pn \<leftarrow> parse_u32 X a2 ''node'';
           case pn of
             Inl _ \<Rightarrow> ret (Some (- EINVAL))
           | Inr node \<Rightarrow> with_argv argv 3 (\<lambda>a3. do {
               pi \<leftarrow> parse_u32 X a3 ''interval'';
               case pi of
                 Inl _ \<Rightarrow> ret (Some (- EINVAL))
               | Inr interval \<Rightarrow> do {
                   rc \<leftarrow> call (kfsw_hk_set_beacon (cx_K X) (ucast report) (ucast node) interval);
                   r \<leftarrow> setting_result X rc;
                   if r = KFSW_HK_APPLIED_UNSAVED (cx_B X) then ret (Some rc)
                   else if rc = - ERANGE
                   then do {
                     shell_error (''beacon interval must be 0 or at least '' @
                       fmt_u (CONFIG_KFSW_HK_BEACON_FLOOR_MS (cx_H X)) @ '' ms'');
                     ret (Some rc)
                   }
                   else if rc \<noteq> 0
                   then do {
                     shell_error (''beacon for report '' @ fmt_u (unat report) @ '': '' @ fmt_d rc);
                     ret (Some rc)
                   }
                   else do {
                     (if interval = 0
                      then shell_print (''report '' @ fmt_u (unat report) @ '' stops beaconing'')
                      else shell_print (''report '' @ fmt_u (unat report) @ '' beacons to node '' @
                             fmt_u (unat node) @ '' every '' @ fmt_u (unat interval) @ '' ms''));
                     ret (Some 0)
                   }
                 }
             })
         })
     })"

definition cmd_hk_save :: "'s hk_ctx \<Rightarrow> 's shell_handler" where
  "cmd_hk_save X argv = do {
     rc \<leftarrow> call (kfsw_hk_save (cx_K X));
     (if rc \<noteq> 0 then shell_error (''Save failed: '' @ fmt_d rc) else shell_print ''Settings saved'');
     ret (Some rc)
   }"

section \<open>Reading back\<close>

definition show_entry :: "hk_entry \<Rightarrow> line" where
  "show_entry e =
     Print (''  node '' @ fmt_u (unat (entry_node e)) @ ''  table '' @ fmt_u (entry_param_id e div 256) @
       ''  offset 0x'' @ fmt_x 2 (entry_param_id e mod 256))"

text \<open>
  One report of \<^verbatim>\<open>hk show\<close>. The report counter of the code is a \<^verbatim>\<open>uint8_t\<close>, so the model is the loop
  for up to 255 reports.
\<close>

definition show_report :: "'s hk_ctx \<Rightarrow> nat \<Rightarrow> ('s, unit) act" where
  "show_report X report = do {
     def \<leftarrow> ask (kfsw_hk_get_definition (cx_K X) (of_nat report));
     case def of
       None \<Rightarrow> ret ()
     | Some es \<Rightarrow> do {
         period \<leftarrow> ask (kfsw_hk_get_period (cx_K X) (of_nat report));
         depth \<leftarrow> ask (kfsw_hk_depth (cx_K X) (of_nat report));
         cls \<leftarrow> ask (kfsw_hk_get_class (cx_K X) (of_nat report));
         shell_print (''report '' @ fmt_u report @ '' class '' @ fmt_u cls);
         shell_print (''report '' @ fmt_u report @ '': '' @ fmt_u (length es) @ '' values, period '' @
           fmt_u period @ '' ms, '' @ fmt_u depth @ '' samples held'');
         (if cx_cfg X CONFIG_KFSW_HK_BEACON
          then do {
            bc \<leftarrow> ask (kfsw_hk_get_beacon (cx_K X) (of_nat report));
            (if fst bc = 0 \<and> snd (snd bc) \<noteq> 0
             then shell_print (''  beacons to node '' @ fmt_u (fst (snd bc)) @ '' every '' @
                    fmt_u (snd (snd bc)) @ '' ms'')
             else ret ())
          }
          else ret ());
         emit_all (map show_entry es)
       }
   }"

fun show_reports :: "'s hk_ctx \<Rightarrow> nat list \<Rightarrow> ('s, unit) act" where
  "show_reports X [] = ret ()"
| "show_reports X (r # rs) = do { show_report X r; show_reports X rs }"

definition cmd_hk_show :: "'s hk_ctx \<Rightarrow> 's shell_handler" where
  "cmd_hk_show X argv = do {
     st \<leftarrow> ask (kfsw_hk_get_stats (cx_K X));
     emit_all
       ([Print (''reports defined: '' @ fmt_u (reports st)),
         Print (''collections: '' @ fmt_u (collections st)),
         Print (''scheduled attempts: '' @ fmt_u (scheduled_attempts st) @ '', missed slots: '' @
           fmt_u (missed_slots st))] @
        (if cx_cfg X CONFIG_KFSW_HK_PERSISTENCE
         then [Print (''settings: '' @ (if settings_dirty st then ''unsaved'' else ''saved'') @
                 '', save error: '' @ fmt_d (last_save_error st) @ '', load error: '' @
                 fmt_d (last_load_error st))]
         else []) @
        [Print (''failed collections: '' @ fmt_u (hk_failures st)),
         Print (''absent values: '' @ fmt_u (entries_failed st)),
         Print (''samples overwritten: '' @ fmt_u (hk_overwritten st)),
         Print (''last collection: '' @ fmt_u (last_seconds st))] @
        (if cx_cfg X CONFIG_KFSW_HK_BEACON
         then [Print (''beacons sent: '' @ fmt_u (beacons_sent st)),
               Print (''beacons skipped: '' @ fmt_u (beacons_skipped st))]
         else []));
     show_reports X [0 ..< CONFIG_KFSW_HK_REPORTS (cx_B X)];
     ret (Some 0)
   }"

definition cmd_hk_collect :: "'s hk_ctx \<Rightarrow> 's shell_handler" where
  "cmd_hk_collect X argv =
     with_argv argv 1 (\<lambda>a1. do {
       pr \<leftarrow> parse_u32 X a1 ''report'';
       case pr of
         Inl rc \<Rightarrow> ret (Some rc)
       | Inr report \<Rightarrow> do {
           rc \<leftarrow> call (kfsw_hk_collect (cx_K X) (ucast report));
           if rc \<noteq> 0
           then do {
             shell_error (''collect report '' @ fmt_u (unat report) @ '': '' @ fmt_d rc);
             ret (Some rc)
           }
           else do { shell_print (''report '' @ fmt_u (unat report) @ '' collected''); ret (Some 0) }
         }
     })"

text \<open>
  The hexadecimal loop of \<^verbatim>\<open>print_sample\<close>: it stops at the end of the sample or when three more
  characters would not fit. Reading past the data or writing past the line is \<open>None\<close>.
\<close>

function sample_hex_loop :: "u8 list \<Rightarrow> nat \<Rightarrow> nat \<Rightarrow> nat \<Rightarrow> char list \<Rightarrow> (nat \<times> char list) option" where
  "sample_hex_loop data len index used line =
     (if len \<le> index \<or> length line \<le> used + 3 then Some (used, line)
      else if index < length data
      then Option.bind
             (write_at line used (snprintf (length line - used) (fmt_x 2 (unat (data ! index))) @ [CHR 0x00]))
             (\<lambda>l. sample_hex_loop data len (Suc index) (used + length (fmt_x 2 (unat (data ! index)))) l)
      else None)"
  by pat_completeness auto
termination
  by (relation "measure (\<lambda>(data, len, index, used, line). len - index)") auto

declare sample_hex_loop.simps [simp del]

definition sample_hex :: "hk_build \<Rightarrow> hk_sample \<Rightarrow> char list \<Rightarrow> string option" where
  "sample_hex H s line =
     Option.bind (sample_hex_loop (sample_data s) (sample_length s) (KFSW_HK_HEADER_SIZE H) 0 line)
       (\<lambda>(used, l). map_option cstr (write_at l used [CHR 0x00]))"

definition print_sample :: "'s hk_ctx \<Rightarrow> hk_sample \<Rightarrow> ('s, unit option) act" where
  "print_sample X s = do {
     shell_print (''seq '' @ fmt_u (sample_sequence s) @ ''  at '' @ fmt_u (sample_seconds s) @
       (if sample_flags s AND KFSW_HK_FLAG_CLOCK_UNSET (cx_H X) \<noteq> 0 then '' (no clock)'' else []) @
       ''  '' @ fmt_u (entry_count s) @ '' values'' @
       (if sample_flags s AND KFSW_HK_FLAG_INCOMPLETE (cx_H X) \<noteq> 0 then '' (incomplete)'' else []) @
       ''  '' @ fmt_u (sample_length s) @ '' bytes'');
     case sample_hex (cx_H X) s (cx_line X) of
       None \<Rightarrow> ret None
     | Some t \<Rightarrow> do { shell_print (''  '' @ t); ret (Some ()) }
   }"

fun get_loop :: "'s hk_ctx \<Rightarrow> u32 \<Rightarrow> nat \<Rightarrow> nat \<Rightarrow> ('s, int option) act" where
  "get_loop X report 0 age = ret (Some 0)"
| "get_loop X report (Suc k) age = do {
     r \<leftarrow> ask (kfsw_hk_get (cx_K X) (ucast report) (of_nat age));
     if fst r \<noteq> 0
     then do {
       (if age = 0
        then shell_error (''report '' @ fmt_u (unat report) @ '' has nothing at age '' @ fmt_u age)
        else ret ());
       ret (Some 0)
     }
     else do {
       p \<leftarrow> print_sample X (snd r);
       case p of None \<Rightarrow> ret None | Some _ \<Rightarrow> get_loop X report k (Suc age)
     }
   }"

definition cmd_hk_get :: "'s hk_ctx \<Rightarrow> 's shell_handler" where
  "cmd_hk_get X argv =
     with_argv argv 1 (\<lambda>a1. do {
       pr \<leftarrow> parse_u32 X a1 ''report'';
       case pr of
         Inl rc \<Rightarrow> ret (Some rc)
       | Inr report \<Rightarrow> do {
           pw \<leftarrow> (if 2 < length argv then parse_u32 X (argv ! 2) ''count'' else ret (Inr 1));
           case pw of
             Inl rc \<Rightarrow> ret (Some rc)
           | Inr wanted \<Rightarrow> get_loop X report (unat wanted) 0
         }
     })"

section \<open>The stored history\<close>

definition apply_filter :: "string \<Rightarrow> u32 \<Rightarrow> hk_store_filter \<Rightarrow> hk_store_filter option" where
  "apply_filter argument parsed f =
     (if starts_with ''from='' argument then Some (f\<lparr>from_sequence := ucast parsed\<rparr>)
      else if starts_with ''to='' argument then Some (f\<lparr>to_sequence := ucast parsed\<rparr>)
      else if starts_with ''since='' argument then Some (f\<lparr>from_seconds := parsed\<rparr>)
      else if starts_with ''until='' argument then Some (f\<lparr>to_seconds := parsed\<rparr>)
      else if starts_with ''skip='' argument then Some (f\<lparr>without_flags := ucast parsed\<rparr>)
      else None)"

fun parse_filter_args :: "'s hk_ctx \<Rightarrow> string list \<Rightarrow> hk_store_filter \<Rightarrow> ('s, int + hk_store_filter) act" where
  "parse_filter_args X [] f = ret (Inr f)"
| "parse_filter_args X (a # as) f =
     (if CHR ''='' \<notin> set a
      then do { shell_error (''Expected name=value, got '' @ a); ret (Inl (- EINVAL)) }
      else do {
        pv \<leftarrow> parse_u32 X (tl (dropWhile (\<lambda>c. c \<noteq> CHR ''='') a)) ''value'';
        case pv of
          Inl rc \<Rightarrow> ret (Inl rc)
        | Inr parsed \<Rightarrow>
            (case apply_filter a parsed f of
               None \<Rightarrow> do { shell_error (''Unknown filter: '' @ a); ret (Inl (- EINVAL)) }
             | Some f' \<Rightarrow> parse_filter_args X as f')
      })"

definition parse_filter :: "'s hk_ctx \<Rightarrow> string list \<Rightarrow> ('s, (int + hk_store_filter) option) act" where
  "parse_filter X argv =
     with_argv argv 1 (\<lambda>a1. do {
       pr \<leftarrow> parse_u32 X a1 ''report'';
       case pr of
         Inl rc \<Rightarrow> ret (Some (Inl rc))
       | Inr report \<Rightarrow> do {
           r \<leftarrow> parse_filter_args X (drop 2 argv)
             \<lparr>filter_report = ucast report, from_sequence = 0, to_sequence = 0, from_seconds = 0,
              to_seconds = 0, without_flags = 0\<rparr>;
           ret (Some r)
         }
     })"

fun stored_loop :: "'s hk_ctx \<Rightarrow> hk_store_filter \<Rightarrow> nat \<Rightarrow> nat \<Rightarrow> ('s, int option) act" where
  "stored_loop X f 0 index = ret (Some 0)"
| "stored_loop X f (Suc k) index = do {
     r \<leftarrow> ask (kfsw_hk_store_read (cx_K X) f (of_nat index));
     if fst r \<noteq> 0 then ret (Some 0)
     else do {
       p \<leftarrow> print_sample X (snd r);
       case p of None \<Rightarrow> ret None | Some _ \<Rightarrow> stored_loop X f k (Suc index)
     }
   }"

definition cmd_hk_stored :: "'s hk_ctx \<Rightarrow> 's shell_handler" where
  "cmd_hk_stored X argv = do {
     pf \<leftarrow> parse_filter X argv;
     case pf of
       None \<Rightarrow> ret None
     | Some (Inl rc) \<Rightarrow> ret (Some rc)
     | Some (Inr f) \<Rightarrow> do {
         q \<leftarrow> ask (kfsw_hk_store_query (cx_K X) (filter_report f));
         if fst q \<noteq> 0
         then do {
           shell_error (''report '' @ fmt_u (unat (filter_report f)) @ '' has no stored history: '' @ fmt_d (fst q));
           ret (Some (fst q))
         }
         else do {
           shell_print (''file: '' @ fmt_u (records (snd q)) @ '' of '' @ fmt_u (info_capacity (snd q)) @
             '' slots, '' @ fmt_u (record_size (snd q)) @ '' bytes each, every '' @
             fmt_u (interval_ms (snd q)) @ '' ms'');
           (if records (snd q) \<noteq> 0
            then shell_print (''held: seq '' @ fmt_u (oldest (snd q)) @ ''..'' @ fmt_u (newest (snd q)))
            else ret ());
           n \<leftarrow> ask (kfsw_hk_store_count (cx_K X) f);
           if fst n \<noteq> 0 then do { shell_error (''count failed: '' @ fmt_d (fst n)); ret (Some (fst n)) }
           else do {
             shell_print (''selected: '' @ fmt_u (unat (snd n)));
             stored_loop X f (unat (snd n)) 0
           }
         }
       }
   }"

text \<open>The filter arguments of \<^verbatim>\<open>hk extract\<close>: the list with the path taken out.\<close>

definition cmd_hk_extract :: "'s hk_ctx \<Rightarrow> 's shell_handler" where
  "cmd_hk_extract X argv =
     (if CONFIG_KFSW_HK_ENTRIES (cx_B X) + 2 < length argv
      then do { shell_error ''Too many filters''; ret (Some (- EINVAL)) }
      else with_argv argv 0 (\<lambda>a0. with_argv argv 1 (\<lambda>a1. do {
        pf \<leftarrow> parse_filter X ([a0, a1] @ drop 3 argv);
        case pf of
          None \<Rightarrow> ret None
        | Some (Inl rc) \<Rightarrow> ret (Some rc)
        | Some (Inr f) \<Rightarrow> with_argv argv 2 (\<lambda>path. do {
            r \<leftarrow> call (kfsw_hk_store_extract (cx_K X) f path);
            if fst r \<noteq> 0 then do { shell_error (''extract failed: '' @ fmt_d (fst r)); ret (Some (fst r)) }
            else do {
              shell_print (''Extracted '' @ fmt_u (unat (snd r)) @ '' records to '' @ path);
              ret (Some 0)
            }
          })
      })))"

section \<open>The table of subcommands\<close>

definition hk_subcommands :: "'s hk_ctx \<Rightarrow> 's subcommand list" where
  "hk_subcommands X =
     (let n = CONFIG_KFSW_HK_ENTRIES (cx_B X); csp = cx_cfg X CONFIG_KFSW_COMMAND_CSP
      in (if cx_cfg X CONFIG_KFSW_HK_PERSISTENCE then [sub ''save'' (cmd_hk_save X) 1 0] else []) @
         [sub ''define'' (cmd_hk_define X) 3 (if csp then n + 3 else n + 1),
          sub ''clear'' (cmd_hk_clear X) 2 (if csp then 2 else 0),
          sub ''show'' (cmd_hk_show X) 1 0,
          sub ''collect'' (cmd_hk_collect X) 2 0,
          sub ''get'' (cmd_hk_get X) 2 1,
          sub ''period'' (cmd_hk_period X) 3 (if csp then 2 else 0)] @
         (if cx_cfg X CONFIG_KFSW_HK_STORE
          then [sub ''store'' (cmd_hk_store X) 3 0, sub ''store_clear'' (cmd_hk_store_clear X) 2 0,
                sub ''stored'' (cmd_hk_stored X) 2 n, sub ''extract'' (cmd_hk_extract X) 3 n]
          else []) @
         (if cx_cfg X CONFIG_KFSW_HK_BEACON then [sub ''beacon'' (cmd_hk_beacon X) 4 0] else []))"

section \<open>Joining the entries\<close>

text \<open>No write of the joining loop leaves the array, whatever the words.\<close>

lemma define_join_loop_inside:
  "used < length buf \<Longrightarrow>
   \<exists>rc b. define_join_loop (length buf) ws used buf = Some (rc, b) \<and> length b = length buf"
proof (induction ws arbitrary: used buf)
  case (Cons w ws)
  let ?t = "(if used = 0 then [] else '' '') @ w"
  obtain b where b: "write_at buf used (snprintf (length buf - used) ?t @ [CHR 0x00]) = Some b"
    and len: "length b = length buf"
    using write_snprintf [OF Cons.prems] by blast
  show ?case
  proof (cases "length buf - used \<le> length ?t")
    case True
    then show ?thesis using len by (simp add: b Let_def)
  next
    case False
    then have "used + length ?t < length b" using len by simp
    from Cons.IH [OF this] False show ?thesis by (simp add: b Let_def len)
  qed
qed simp

lemma define_join_loop_text:
  assumes "line = join_with (CHR '' '') pre @ CHR 0x00 # t" "\<forall>w \<in> set (pre @ ws). w \<noteq> []"
  shows "if length (join_with (CHR '' '') (pre @ ws)) < length line
    then \<exists>u. define_join_loop (length line) ws (length (join_with (CHR '' '') pre)) line =
        Some (0, join_with (CHR '' '') (pre @ ws) @ CHR 0x00 # u) \<and>
      length (join_with (CHR '' '') (pre @ ws) @ CHR 0x00 # u) = length line
    else \<exists>l. define_join_loop (length line) ws (length (join_with (CHR '' '') pre)) line =
        Some (- E2BIG, l) \<and> length l = length line"
  using assms
proof (induction ws arbitrary: pre line t)
  case (Cons w ws)
  let ?j = "join_with (CHR '' '') pre"
  let ?t = "(if length ?j = 0 then [] else '' '') @ w"
  have j0: "length ?j = 0 \<longleftrightarrow> pre = []"
    using Cons.prems(2) by (cases pre rule: remdups_adj.cases) auto
  have nj: "join_with (CHR '' '') (pre @ [w]) = ?j @ ?t"
    using j0 by (auto simp: join_with_snoc)
  show ?case
  proof (cases "length line - length ?j \<le> length ?t")
    case True
    then have "\<not> length (join_with (CHR '' '') (pre @ w # ws)) < length line"
      using length_join_with_append [of "CHR '' ''" "pre @ [w]" ws] Cons.prems(1) by (simp add: nj)
    moreover obtain b where "write_at line (length ?j) (snprintf (length line - length ?j) ?t @ [CHR 0x00]) = Some b"
        "length b = length line"
      using write_snprintf [of "length ?j" line ?t] Cons.prems(1) by auto
    ultimately show ?thesis using True by (auto simp: Let_def)
  next
    case False
    define u where "u = drop (length ?t) t"
    have b: "write_at line (length ?j) (snprintf (length line - length ?j) ?t @ [CHR 0x00]) =
        Some (join_with (CHR '' '') (pre @ [w]) @ CHR 0x00 # u)"
      using write_snprintf_fits [of ?t line "length ?j"] False Cons.prems(1) by (simp add: nj u_def)
    have len: "length (join_with (CHR '' '') (pre @ [w]) @ CHR 0x00 # u) = length line"
      using False Cons.prems(1) unfolding nj by (auto simp: u_def split: if_splits)
    have "define_join_loop (length line) (w # ws) (length ?j) line =
        define_join_loop (length line) ws (length (join_with (CHR '' '') (pre @ [w])))
          (join_with (CHR '' '') (pre @ [w]) @ CHR 0x00 # u)"
      using False unfolding define_join_loop.simps Let_def b by (simp add: nj)
    moreover have "(pre @ [w]) @ ws = pre @ w # ws" by simp
    ultimately show ?thesis
      using Cons.IH [OF refl, of "pre @ [w]" u] Cons.prems(2) by (simp only: len)
  qed
qed simp

interpretation entry_joiner: bounded_joiner define_join_into "\<lambda>ws. \<forall>w \<in> set ws. w \<noteq> []"
proof
  fix ws and line :: "char list"
  assume ne: "\<forall>w \<in> set ws. w \<noteq> []" and fit: "length (join_with (CHR '' '') ws) < length line"
  then obtain x t where "line = x # t" by (cases line) auto
  then show "\<exists>t. define_join_into ws line = Some (0, join_with (CHR '' '') ws @ CHR 0x00 # t) \<and>
      length (join_with (CHR '' '') ws @ CHR 0x00 # t) = length line"
    using define_join_loop_text [of "CHR 0x00 # t" "[]" t ws] fit ne
    by (simp add: define_join_into_def write_at_def)
next
  fix ws and line :: "char list"
  assume ne: "\<forall>w \<in> set ws. w \<noteq> []" "line \<noteq> []" and long: "length line \<le> length (join_with (CHR '' '') ws)"
  then obtain x t where "line = x # t" by (cases line) auto
  then show "\<exists>rc l. define_join_into ws line = Some (rc, l) \<and> rc \<noteq> 0 \<and> length l = length line"
    using define_join_loop_text [of "CHR 0x00 # t" "[]" t ws] long ne
    by (auto simp: define_join_into_def write_at_def)
qed

lemma define_join_too_long:
  assumes "\<forall>t \<in> set ws. t \<noteq> []" "line \<noteq> []" "length line \<le> length (join_with (CHR '' '') ws)"
  shows "\<exists>l. define_join_into ws line = Some (- E2BIG, l)"
proof -
  obtain x t where "line = x # t" using assms(2) by (cases line) auto
  then show ?thesis
    using define_join_loop_text [of "CHR 0x00 # t" "[]" t ws] assms(1,3)
    by (auto simp: define_join_into_def write_at_def)
qed

section \<open>A sample in hexadecimal\<close>

lemma sample_hex_loop_text:
  assumes "len \<le> length data" "used < length line" "take used line = t" "CHR 0x00 \<notin> set t" 
  shows "\<exists>l u. sample_hex_loop data len index used line = Some (u, l) \<and> length l = length line \<and>
    u < length line \<and>
    take u l = t @ concat (map hex_byte (take ((length line - used - 2) div 2) (drop index (take len data))))"
  using assms
proof (induction data len index used line arbitrary: t rule: sample_hex_loop.induct)
  case (1 data len index used line)
  show ?case
  proof (cases "len \<le> index \<or> length line \<le> used + 3")
    case True
    then have "(length line - used - 2) div 2 = 0 \<or> drop index (take len data) = []" by auto
    with True "1.prems" show ?thesis by (auto simp: sample_hex_loop.simps [of data len index used line])
  next
    case False
    then have i: "index < length data" using "1.prems" by simp
    let ?x = "data ! index"
    let ?l = "take used line @ hex_byte ?x @ CHR 0x00 # drop (used + 3) line"
    have hl: "length (hex_byte ?x) = 2" by (simp add: hex_byte_def)
    have w: "write_at line used (snprintf (length line - used) (fmt_x 2 (unat ?x)) @ [CHR 0x00]) = Some ?l"
    proof -
      have "length (hex_byte ?x) < length line - used" using False unfolding hl by linarith
      from write_snprintf_fits [OF this] show ?thesis by (simp add: fmt_x_byte hl numeral_3_eq_3)
    qed
    have d: "drop index (take len data) = ?x # drop (Suc index) (take len data)"
      using False i by (simp add: Cons_nth_drop_Suc [symmetric])
    have lenl: "length ?l = length line" using False by (auto simp: hl)
    have s: "(length line - used - 2) div 2 = Suc ((length line - (used + 2) - 2) div 2)"
      using False by linarith
    have step: "sample_hex_loop data len index used line = sample_hex_loop data len (Suc index) (used + 2) ?l"
      using False i unfolding sample_hex_loop.simps [of data len index used line] w by (simp add: fmt_x_byte hl)
    have ih: "\<exists>l u. sample_hex_loop data len (Suc index) (used + length (fmt_x 2 (unat ?x))) ?l = Some (u, l) \<and> length l = length ?l \<and>
      u < length ?l \<and> take u l = (t @ hex_byte ?x) @ concat (map hex_byte (take ((length ?l - (used + length (fmt_x 2 (unat ?x))) - 2) div 2)
        (drop (Suc index) (take len data))))"
    proof (rule "1.IH" [OF False i w])
      show "used + length (fmt_x 2 (unat ?x)) < length ?l"
        using False unfolding lenl by (simp add: fmt_x_byte hl)
      show "take (used + length (fmt_x 2 (unat ?x))) ?l = t @ hex_byte ?x"
      proof -
        have "length t = used" using "1.prems"(2,3) by auto
        with "1.prems"(3) show ?thesis by (simp add: fmt_x_byte hl)
      qed
      show "CHR 0x00 \<notin> set (t @ hex_byte ?x)" using "1.prems"(4) hex_byte_no_nul by simp
    qed (rule "1.prems"(1))
    have fl: "length (fmt_x 2 (unat ?x)) = 2" by (simp add: fmt_x_byte hl)
    from ih [unfolded lenl fl] show ?thesis unfolding step s d by simp
  qed
qed

lemma sample_hex_text:
  assumes "sample_length s \<le> length (sample_data s)" "2 \<le> length line"
  shows "sample_hex H s line = Some (concat (map hex_byte
    (take ((length line - 2) div 2) (drop (KFSW_HK_HEADER_SIZE H) (take (sample_length s) (sample_data s))))))"
proof -
  let ?p = "take ((length line - 2) div 2) (drop (KFSW_HK_HEADER_SIZE H) (take (sample_length s) (sample_data s)))"
  obtain l u where r: "sample_hex_loop (sample_data s) (sample_length s) (KFSW_HK_HEADER_SIZE H) 0 line = Some (u, l)"
      "length l = length line" "u < length line" "take u l = concat (map hex_byte ?p)"
    using sample_hex_loop_text [of "sample_length s" "sample_data s" 0 line "[]" "KFSW_HK_HEADER_SIZE H"] assms
    by (cases line) auto
  have "cstr (concat (map hex_byte ?p) @ CHR 0x00 # drop (Suc u) l) = concat (map hex_byte ?p)"
    by (rule cstr_append) (auto simp: hex_byte_no_nul)
  with r show ?thesis by (simp add: sample_hex_def write_at_def)
qed

section \<open>Every subcommand returns\<close>

text \<open>
  What the group needs of its environment: the two arrays have the sizes of the code, a sample holds
  as many bytes as it says, and the command registry keeps its limit.
\<close>

definition samples_ok :: "'s hk_services \<Rightarrow> bool" where
  "samples_ok K \<longleftrightarrow>
     (\<forall>r age s. fst (kfsw_hk_get K r age s) = 0 \<longrightarrow>
        sample_length (snd (kfsw_hk_get K r age s)) \<le> length (sample_data (snd (kfsw_hk_get K r age s)))) \<and>
     (\<forall>f i s. fst (kfsw_hk_store_read K f i s) = 0 \<longrightarrow>
        sample_length (snd (kfsw_hk_store_read K f i s)) \<le> length (sample_data (snd (kfsw_hk_store_read K f i s))))"

definition hk_ctx_ok :: "'s hk_ctx \<Rightarrow> bool" where
  "hk_ctx_ok X \<longleftrightarrow>
     length (cx_entries_text X) = KFSW_COMMAND_MAX_TEXT_SIZE (cx_B X) + 1 \<and> length (cx_line X) = 97 \<and>
     samples_ok (cx_K X) \<and> registry_ok (cx_B X) (cx_E X)"

lemma hk_registry: "hk_ctx_ok X \<Longrightarrow> registry_ok (cx_B X) (cx_E X)"
  by (simp add: hk_ctx_ok_def)

lemma returns_setting_shown: "returns (setting_shown X rc msg good)"
  unfolding setting_shown_def by (intro returns_intros)

lemma returns_remote:
  assumes "hk_ctx_ok X" "2 \<le> length argv"
  shows "returns (run_remote X command argv)"
  unfolding run_remote_def using assms by (intro returns_intros returns_run_command hk_registry; simp)

lemma define_join_inside:
  assumes "buf \<noteq> []"
  shows "\<exists>rc b. define_join_into ws buf = Some (rc, b) \<and> length b = length buf"
proof -
  obtain c t where buf: "buf = c # t" using assms by (cases buf) auto
  show ?thesis
    using define_join_loop_inside [of 0 "CHR 0x00 # t" ws] by (simp add: define_join_into_def write_at_def buf)
qed

lemma returns_define_remote:
  assumes "hk_ctx_ok X" "3 \<le> length argv"
  shows "returns (define_remote X argv)"
proof -
  have "cx_entries_text X \<noteq> []" using assms(1) by (auto simp: hk_ctx_ok_def)
  note inside = define_join_inside [OF this]
  have "returns (case define_join_into ws (cx_entries_text X) of None \<Rightarrow> ret None
      | Some (rc, b) \<Rightarrow> if rc \<noteq> 0 then do { shell_error m; ret (Some rc) }
          else kfsw_shell_run_command (cx_cfg X) (cx_B X) (cx_E X) n c (a b))" for ws m n c a
  proof -
    obtain rc b where j: "define_join_into ws (cx_entries_text X) = Some (rc, b)" using inside [of ws] by blast
    show ?thesis
      unfolding j option.case prod.case by (intro returns_intros returns_run_command hk_registry [OF assms(1)])
  qed
  then show ?thesis
    unfolding define_remote_def Let_def using assms by (intro returns_intros; simp)
qed

lemma returns_define:
  assumes "hk_ctx_ok X" "3 \<le> length argv"
  shows "returns (cmd_hk_define X argv)"
  unfolding cmd_hk_define_def define_local_def
  using assms by (intro returns_intros returns_define_remote returns_setting_shown; simp)

lemma returns_print_sample:
  "hk_ctx_ok X \<Longrightarrow> sample_length s \<le> length (sample_data s) \<Longrightarrow> returns (print_sample X s)"
  unfolding print_sample_def by (intro returns_intros) (simp add: sample_hex_text hk_ctx_ok_def ends_def)

text \<open>A loop over samples: it ends, and each sample it prints is one the service returned.\<close>

lemma returns_print_then:
  assumes "hk_ctx_ok X" "sample_length s \<le> length (sample_data s)" "returns m"
  shows "returns (do { p \<leftarrow> print_sample X s; case p of None \<Rightarrow> ret None | Some _ \<Rightarrow> m })"
  using returns_print_sample [OF assms(1,2)] assms(3)
  by (auto simp: ends_def split_beta split: option.splits)

lemma returns_get_loop: "hk_ctx_ok X \<Longrightarrow> returns (get_loop X report k age)"
proof (induction k arbitrary: age)
  case (Suc k)
  then show ?case
    unfolding get_loop.simps
    by (intro ends_ask_bind ends_if returns_print_then returns_intros)
      (auto simp: hk_ctx_ok_def samples_ok_def)
qed (simp add: ends_def)

lemma returns_stored_loop: "hk_ctx_ok X \<Longrightarrow> returns (stored_loop X f k index)"
proof (induction k arbitrary: index)
  case (Suc k)
  then show ?case
    unfolding stored_loop.simps
    by (intro ends_ask_bind ends_if returns_print_then returns_intros)
      (auto simp: hk_ctx_ok_def samples_ok_def)
qed (simp add: ends_def)

lemma returns_parse_filter: "2 \<le> length argv \<Longrightarrow> returns (parse_filter X argv)"
  unfolding parse_filter_def by (intro returns_intros; simp)

lemma returns_stored:
  assumes "hk_ctx_ok X" "2 \<le> length argv"
  shows "returns (cmd_hk_stored X argv)"
  unfolding cmd_hk_stored_def
  by (rule returns_bind [OF returns_parse_filter [OF assms(2)]], unfold option.case,
      intro returns_intros returns_stored_loop [OF assms(1)]; simp)

lemma returns_extract:
  assumes "3 \<le> length argv"
  shows "returns (cmd_hk_extract X argv)"
proof -
  have i: "0 < length argv" "1 < length argv" "2 < length argv" using assms by linarith+
  have f: "2 \<le> length ([a0, a1] @ drop 3 argv)" for a0 a1 by simp
  show ?thesis
    unfolding cmd_hk_extract_def
    by (intro ends_if ends_with_argv i returns_bind [OF returns_parse_filter [OF f]]; (unfold option.case)?;
        intro returns_intros i; simp)
qed

lemma returns_short:
  assumes "2 \<le> length argv"
  shows "returns (cmd_hk_collect X argv)" "returns (cmd_hk_store_clear X argv)"
  unfolding cmd_hk_collect_def cmd_hk_store_clear_def
  using assms by (intro returns_intros returns_setting_shown; simp)+

lemma returns_get:
  assumes "hk_ctx_ok X" "2 \<le> length argv"
  shows "returns (cmd_hk_get X argv)"
  unfolding cmd_hk_get_def using assms by (intro returns_intros returns_get_loop; simp)

lemma returns_clear:
  assumes "hk_ctx_ok X" "2 \<le> length argv"
  shows "returns (cmd_hk_clear X argv)"
  unfolding cmd_hk_clear_def using assms by (intro returns_intros returns_remote returns_setting_shown; simp)

lemma returns_period:
  assumes "hk_ctx_ok X" "3 \<le> length argv"
  shows "returns (cmd_hk_period X argv)" "returns (cmd_hk_store X argv)"
  unfolding cmd_hk_period_def cmd_hk_store_def
  using assms by (intro returns_intros returns_remote returns_setting_shown; simp)+

lemma returns_beacon: "4 \<le> length argv \<Longrightarrow> returns (cmd_hk_beacon X argv)"
  unfolding cmd_hk_beacon_def by (intro returns_intros; simp)

lemma returns_plain: "returns (cmd_hk_save X argv)" "returns (cmd_hk_show X argv)"
  unfolding cmd_hk_save_def cmd_hk_show_def by (intro returns_intros)+

lemmas hk_returns = returns_plain returns_define returns_clear returns_short returns_get
  returns_period returns_stored returns_extract returns_beacon

lemma hk_group_total: "hk_ctx_ok X \<Longrightarrow> group_total (hk_subcommands X)"
  unfolding hk_subcommands_def Let_def by (simp add: hk_returns del: not_None_eq)

interpretation hk_group: shell_group hk_subcommands hk_ctx_ok
  by unfold_locales (simp add: hk_group_total, auto simp: hk_subcommands_def Let_def)

section \<open>Defining a report here\<close>

text \<open>The entry loop of the shell reads the words as the parser of a text does.\<close>

lemma parse_entry_args_run:
  assumes "\<forall>t \<in> set ws. length t < 24" "length es + length ws \<le> limit"
  shows "\<exists>r ls. run_state (parse_entry_args X ws es) w = (r, w\<lparr>out := out w @ ls\<rparr>) \<and>
    (case read_words (cx_B X) limit ws es of Inl _ \<Rightarrow> \<exists>e. r = Inl e | Inr es' \<Rightarrow> r = Inr es')"
  using assms
proof (induction ws arbitrary: es w)
  case Nil
  show ?case by (intro exI [of _ "Inr es"] exI [of _ "[]"]) simp
next
  case (Cons t ws)
  let ?e = "\<lparr>entry_node = 0, entry_param_id = 0\<rparr> :: hk_entry"
  obtain rc e where pe: "kfsw_app_hk_parse_entry (cx_B X) (Some t) (Some ?e) = (rc, e)" by fastforce
  show ?case
  proof (cases "rc = 0")
    case True
    obtain r ls where "run_state (parse_entry_args X ws (es @ [the e])) w = (r, w\<lparr>out := out w @ ls\<rparr>)"
        "case read_words (cx_B X) limit ws (es @ [the e]) of Inl _ \<Rightarrow> \<exists>e. r = Inl e | Inr es' \<Rightarrow> r = Inr es'"
      using Cons.IH [of "es @ [the e]" w] Cons.prems by auto
    with True pe Cons.prems show ?thesis by (auto simp: parse_entry_def)
  next
    case False
    with pe Cons.prems show ?thesis by (auto simp: parse_entry_def)
  qed
qed

lemma svc_setting_shown: "quiet good \<Longrightarrow> svc (snd (run_state (setting_shown X rc msg good) w)) = svc w"
  by (intro quietD) (auto simp: setting_shown_def setting_result_def intro!: quiet_intros)

definition class_word :: "nat option \<Rightarrow> string list" where
  "class_word c = (case c of None \<Rightarrow> [] | Some v \<Rightarrow> [''class='' @ fmt_u v])"

text \<open>The words of a definition, read as the shell reads them.\<close>

definition definition_words :: "build \<Rightarrow> nat option \<Rightarrow> string list \<Rightarrow> (hk_entry list \<times> u8) option" where
  "definition_words B c ws =
     (if \<exists>v. c = Some v \<and> KFSW_HK_CLASS_MAX B < v then None
      else case read_words B (CONFIG_KFSW_HK_ENTRIES B) ws [] of
        Inl _ \<Rightarrow> None
      | Inr es \<Rightarrow> if es = [] then None
          else Some (es, case c of None \<Rightarrow> KFSW_HK_CLASS_DEFAULT B | Some v \<Rightarrow> of_nat v))"

lemma entry_not_class:
  assumes "CHR '':'' \<in> set w" "\<not> starts_with ''class='' w"
  shows "\<not> starts_with ''class='' (w @ r)"
proof
  assume a: "starts_with ''class='' (w @ r)"
  show False
  proof (cases "6 \<le> length w")
    case True
    with a assms(2) show False by (simp add: starts_with_def)
  next
    case False
    with a have "w = take (length w) ''class=''" by (simp add: starts_with_def) (metis append_eq_conv_conj)
    with assms(1) have "CHR '':'' \<in> set ''class=''" by (metis in_set_takeD)
    then show False by simp
  qed
qed

lemma join_not_Nil_split: "ws \<noteq> [] \<Longrightarrow> \<exists>r. join_with c ws = hd ws @ r"
  by (cases ws; cases "tl ws") auto

lemma definition_of_join:
  assumes "ws \<noteq> []" "plain_words ws" "CHR '':'' \<in> set (hd ws)" "\<not> starts_with ''class='' (hd ws)"
    and "\<And>v. c = Some v \<Longrightarrow> v < 2 ^ ulong_bits B"
  shows "definition_of B (join_with (CHR '' '') (class_word c @ ws)) = definition_words B c ws"
proof (cases c)
  case None
  obtain r where "join_with (CHR '' '') ws = hd ws @ r" using join_not_Nil_split [OF assms(1)] by blast
  then have "\<not> starts_with ''class='' (join_with (CHR '' '') ws)"
    using entry_not_class [OF assms(3,4)] by simp
  then show ?thesis
    using None space_words_join [OF assms(2)]
    by (auto simp: definition_of_def definition_words_def class_word_def kfsw_app_hk_parse_class_def
        split: sum.splits)
next
  case (Some v)
  let ?j = "join_with (CHR '' '') ws"
  have j: "join_with (CHR '' '') (class_word c @ ws) = ''class='' @ fmt_u v @ CHR '' '' # ?j"
    using assms(1) by (simp add: Some class_word_def join_with_Cons)
  have "space_words (dropWhile (\<lambda>c. c = CHR '' '') ?j) = ws"
    using space_words_join [OF assms(2)] split_words_dropWhile by metis
  then show ?thesis
    unfolding definition_of_def j using parse_class_decimal [of v B "CHR '' '' # ?j"] assms(5) Some
    by (auto simp: definition_words_def split: sum.splits)
qed

lemma define_class_run:
  assumes "\<And>v. c = Some v \<Longrightarrow> v < 2 ^ ulong_bits (cx_B X)" "c = None \<Longrightarrow> \<not> starts_with ''class='' (hd ws)" "ws \<noteq> []"
  shows "\<exists>ls. run_state (define_class X ((class_word c @ ws) ! 0)) w =
    (if \<exists>v. c = Some v \<and> KFSW_HK_CLASS_MAX (cx_B X) < v then Inl (- ERANGE)
     else Inr (case c of None \<Rightarrow> KFSW_HK_CLASS_DEFAULT (cx_B X) | Some v \<Rightarrow> of_nat v, 2 + length (class_word c)),
     w\<lparr>out := out w @ ls\<rparr>)"
proof (cases c)
  case None
  then show ?thesis
    using assms(2,3) by (intro exI [of _ "[]"]) (simp add: define_class_def class_word_def hd_conv_nth)
next
  case (Some v)
  have s: "starts_with ''class='' (''class='' @ fmt_u v)" by (simp add: starts_with_def)
  show ?thesis
  proof (cases "v \<le> KFSW_HK_CLASS_MAX (cx_B X)")
    case True
    then show ?thesis
      using parse_class_decimal [of v "cx_B X" "[]"] assms(1) [OF Some] Some s
      by (intro exI [of _ "[]"]) (simp add: define_class_def class_word_def)
  next
    case False
    then show ?thesis
      using parse_class_decimal [of v "cx_B X" "[]"] assms(1) [OF Some] Some s
      by (auto simp: define_class_def class_word_def)
  qed
qed

lemma define_local_svc:
  assumes rep: "shell_strtoul (cx_E X) rep 0 = (n, 0)" "n < CONFIG_KFSW_HK_REPORTS (cx_B X)"
      "CONFIG_KFSW_HK_REPORTS (cx_B X) \<le> 256"
    and ws: "ws \<noteq> []" "\<forall>t \<in> set ws. length t < 24"
    and c: "\<And>v. c = Some v \<Longrightarrow> v < 2 ^ ulong_bits (cx_B X)" "c = None \<Longrightarrow> \<not> starts_with ''class='' (hd ws)"
    and argv: "argv = [name, rep] @ class_word c @ ws"
  shows "svc (snd (run_state (define_local X argv) w)) =
    (case definition_words (cx_B X) c ws of None \<Rightarrow> svc w
     | Some (es, cls) \<Rightarrow> snd (kfsw_hk_define_class (cx_S X) (ucast (of_nat n :: u32)) es cls (svc w)))"
proof -
  let ?B = "cx_B X"
  have u: "unat (of_nat n :: u32) = n"
    using rep by (simp add: unat_of_nat take_bit_eq_mod)
  have pr: "run_state (parse_u32 X rep what) w = (Inr (of_nat n), w)" for what
    using rep by (simp add: parse_u32_def uint_max_defs)
  have arg: "with_argv argv (Suc 0) k = k rep" "with_argv argv 2 k = k ((class_word c @ ws) ! 0)"
    for k :: "string \<Rightarrow> ('a, int option) act"
    using ws(1) by (auto simp: argv with_argv_def numeral_2_eq_2)
  obtain ls where cl: "run_state (define_class X ((class_word c @ ws) ! 0)) w =
    (if \<exists>v. c = Some v \<and> KFSW_HK_CLASS_MAX ?B < v then Inl (- ERANGE)
     else Inr (case c of None \<Rightarrow> KFSW_HK_CLASS_DEFAULT ?B | Some v \<Rightarrow> of_nat v, 2 + length (class_word c)),
     w\<lparr>out := out w @ ls\<rparr>)"
    using define_class_run [OF c ws(1)] by blast
  note go = define_local_def arg pr cl u rep(2)
  show ?thesis
  proof (cases "\<exists>v. c = Some v \<and> KFSW_HK_CLASS_MAX ?B < v")
    case True
    then show ?thesis by (simp add: go definition_words_def)
  next
    case False
    let ?cls = "case c of None \<Rightarrow> KFSW_HK_CLASS_DEFAULT ?B | Some v \<Rightarrow> of_nat v"
    define fe where "fe = 2 + length (class_word c)"
    have cl': "run_state (define_class X ((class_word c @ ws) ! 0)) w =
        (Inr (?cls, fe), w\<lparr>out := out w @ ls\<rparr>)"
      using cl False by (simp add: fe_def)
    have len: "length argv - (fe) = length ws" "\<not> length argv \<le> fe"
        "drop (fe) argv = ws"
      using ws(1) by (simp_all add: argv fe_def)
    note go = define_local_def arg pr cl' u rep(2) [folded not_le] len
    show ?thesis
    proof (cases "CONFIG_KFSW_HK_ENTRIES ?B < length ws")
      case True
      then obtain err where "read_words ?B (CONFIG_KFSW_HK_ENTRIES ?B) ws [] = Inl err"
        using read_words_too_many [of "[]" "CONFIG_KFSW_HK_ENTRIES ?B" ws ?B] by auto
      with True rep(2) show ?thesis by (simp add: go definition_words_def not_le)
    next
      case fits: False
      obtain r ls' where pa: "run_state (parse_entry_args X ws []) (w\<lparr>out := out w @ ls\<rparr>) =
            (r, w\<lparr>out := (out w @ ls) @ ls'\<rparr>)"
          "case read_words ?B (CONFIG_KFSW_HK_ENTRIES ?B) ws [] of Inl _ \<Rightarrow> \<exists>e. r = Inl e | Inr es' \<Rightarrow> r = Inr es'"
        using parse_entry_args_run [OF ws(2), of "[]" "CONFIG_KFSW_HK_ENTRIES ?B" X "w\<lparr>out := out w @ ls\<rparr>"] fits
        by auto
      have ne: "read_words ?B (CONFIG_KFSW_HK_ENTRIES ?B) ws [] \<noteq> Inr []"
        using read_words_count [of ?B "CONFIG_KFSW_HK_ENTRIES ?B" ws "[]" "[]"] ws(1) by auto
      show ?thesis
        using fits rep(2) False ne pa(2)
        by (auto simp: go pa(1) definition_words_def not_le svc_setting_shown quiet_emit
            split: sum.splits)
    qed
  qed
qed

section \<open>Properties\<close>

text \<open>A context for the witnesses: services that record what they are asked to change.\<close>

definition sample_hk_sample :: hk_sample where
  "sample_hk_sample = \<lparr>sample_sequence = 3, sample_seconds = 60, sample_flags = 1, entry_count = 2,
     sample_length = 12, sample_data = [1, 2, 3, 4, 5, 6, 7, 8, 0x0a, 0xff, 9, 0]\<rparr>"

definition sample_hk_services :: "'s hk_services" where
  "sample_hk_services =
     \<lparr>kfsw_hk_get_stats = (\<lambda>_. \<lparr>reports = 1, collections = 2, scheduled_attempts = 2, missed_slots = 0,
        settings_dirty = False, last_save_error = 0, last_load_error = 0, hk_failures = 0, entries_failed = 0,
        hk_overwritten = 0, last_seconds = 60, beacons_sent = 0, beacons_skipped = 0\<rparr>),
      kfsw_hk_get_definition = (\<lambda>_ _. None), kfsw_hk_get_period = (\<lambda>_ _. 0), kfsw_hk_depth = (\<lambda>_ _. 1),
      kfsw_hk_get_class = (\<lambda>_ _. 4), kfsw_hk_get_beacon = (\<lambda>_ _. (0, 0, 0)),
      kfsw_hk_collect = (\<lambda>_ s. (0, s)), kfsw_hk_get = (\<lambda>_ _ _. (0, sample_hk_sample)),
      kfsw_hk_set_store = (\<lambda>_ _ s. (0, s)), kfsw_hk_clear_store = (\<lambda>_ s. (0, s)),
      kfsw_hk_set_beacon = (\<lambda>_ _ _ s. (0, s)), kfsw_hk_save = (\<lambda>s. (0, s)),
      kfsw_hk_store_query = (\<lambda>_ _. (0, \<lparr>records = 1, info_capacity = 8, record_size = 64, interval_ms = 1000,
        oldest = 3, newest = 3\<rparr>)),
      kfsw_hk_store_count = (\<lambda>_ _. (0, 1)), kfsw_hk_store_read = (\<lambda>_ _ _. (0, sample_hk_sample)),
      kfsw_hk_store_extract = (\<lambda>_ _ s. ((0, 1), s))\<rparr>"

definition sample_hk_env :: "effect list shell_env" where
  "sample_hk_env =
     \<lparr>shell_strtoul = sample_strtoul, kfsw_command_is_initialized = (\<lambda>_. True),
      kfsw_command_find = (\<lambda>n _. if n = ''hk_define'' then Some (2, [KFSW_COMMAND_TYPE_U32, KFSW_COMMAND_TYPE_TEXT]) else None),
      kfsw_command_parse_arg = (\<lambda>t ty. (0, Arg_text t)), type_number = (\<lambda>_. 0),
      kfsw_command_invoke = (\<lambda>n args s. (\<lparr>status = KFSW_COMMAND_OK, detail = []\<rparr>, s)),
      kfsw_command_invoke_remote = (\<lambda>node n args s. ((0, \<lparr>status = KFSW_COMMAND_OK, detail = []\<rparr>), s)),
      kfsw_command_invoke_remote_retry = (\<lambda>node n args s. ((0, \<lparr>status = KFSW_COMMAND_OK, detail = []\<rparr>), s)),
      kfsw_command_status_name = (\<lambda>_. [])\<rparr>"

definition sample_hk :: "effect list hk_ctx" where
  "sample_hk =
     \<lparr>cx_cfg = (\<lambda>_. True), cx_B = sample_build,
      cx_H = \<lparr>KFSW_HK_HEADER_SIZE = 8, KFSW_HK_FLAG_CLOCK_UNSET = 1, KFSW_HK_FLAG_INCOMPLETE = 2,
        CONFIG_KFSW_HK_BEACON_FLOOR_MS = 1000\<rparr>,
      cx_E = sample_hk_env, cx_S = sample_services, cx_K = sample_hk_services,
      cx_entries_text = replicate 65 (CHR ''.''), cx_line = replicate 97 (CHR ''.'')\<rparr>"

lemma sample_hk_ok: "hk_ctx_ok sample_hk"
  by (auto simp: hk_ctx_ok_def sample_hk_def samples_ok_def sample_hk_services_def sample_hk_sample_def registry_ok_def
      sample_hk_env_def sample_build_def split: if_splits)

lemma sample_hk_select [simp]:
  "cx_cfg sample_hk = (\<lambda>_. True)" "cx_B sample_hk = sample_build" "cx_S sample_hk = sample_services"
  "length (cx_entries_text sample_hk) = 65" "length (cx_line sample_hk) = 97" "KFSW_HK_HEADER_SIZE (cx_H sample_hk) = 8"
  "cx_E sample_hk = sample_hk_env"
  by (simp_all add: sample_hk_def)

lemma sample_build_select:
  "KFSW_CSP_BROADCAST_ADDRESS sample_build = 16383" "CONFIG_KFSW_HK_ENTRIES sample_build = 8"
  "CONFIG_KFSW_HK_REPORTS sample_build = 4" "ulong_bits sample_build = 64" "KFSW_HK_APPLIED_UNSAVED sample_build = 1"
  by (simp_all add: sample_build_def)

lemma sample_hk_number:
  "shell_strtoul sample_hk_env ''2'' 0 = (2, 0)" "shell_strtoul sample_hk_env ''256'' 0 = (256, 0)"
  "shell_number sample_hk_env ''9'' = Some 9"
  by (simp_all add: sample_hk_env_def sample_strtoul_def shell_number_def strtoul_eval)

text \<open>
  C12. Defining a report on this node from the shell and sending the same words to the \<^verbatim>\<open>hk_define\<close>
  command are the same definition: for a report in range, an optional \<^verbatim>\<open>class=N\<close> and entries given
  word by word, \<^verbatim>\<open>cmd_hk_define\<close> leaves the housekeeping service in the state in which
  \<^verbatim>\<open>command_hk_define\<close> leaves it for the joined text, whether the entries are valid, malformed or
  too many. Words of 24 characters or more are outside the claim: only the command has a limit.
\<close>

theorem local_define_agrees:
  assumes rep: "shell_strtoul (cx_E X) rep 0 = (n, 0)" "n < CONFIG_KFSW_HK_REPORTS (cx_B X)"
      "CONFIG_KFSW_HK_REPORTS (cx_B X) \<le> 256"
    and ws: "ws \<noteq> []" "plain_words ws" "\<forall>t \<in> set ws. length t < 24 \<and> CHR '':'' \<in> set t"
      "\<not> starts_with ''class='' (hd ws)"
    and c: "\<And>v. c = Some v \<Longrightarrow> v < 2 ^ ulong_bits (cx_B X)"
    and arr: "length arr = CONFIG_KFSW_HK_ENTRIES (cx_B X)" and same: "svc w' = svc w"
  shows "svc (snd (run_state (cmd_hk_define X ([name, rep] @ class_word c @ ws)) w)) =
    svc (snd (run_state (command_hk_define (cx_B X) (cx_S X) arr
      [Arg_u32 (of_nat n), Arg_text (join_with (CHR '' '') (class_word c @ ws))] node res) w'))"
proof -
  let ?argv = "[name, rep] @ class_word c @ ws"
  have hd: "CHR '':'' \<in> set (hd ws)" using ws by simp
  have "starts_with ''class='' (?argv ! 2) \<or> CHR '':'' \<in> set (?argv ! 2)"
    using hd ws(1) by (cases c) (auto simp: class_word_def starts_with_def hd_conv_nth)
  then have l: "cmd_hk_define X ?argv = define_local X ?argv"
    by (auto simp: cmd_hk_define_def)
  have byte: "unat (of_nat n :: u32) \<le> UINT8_MAX"
    using rep by (simp add: unat_of_nat uint_max_defs)
  have short: "\<forall>t \<in> set ws. length t < 24" using ws(3) by blast
  show ?thesis
    unfolding l command_hk_define_svc [OF arr byte] same
    using define_local_svc [OF rep ws(1) short c ws(4) refl] definition_of_join [OF ws(1,2) hd ws(4) c]
    by simp
qed

theorem local_define_agrees_witness:
  "svc (snd (run_state (cmd_hk_define sample_hk ([''define'', ''2''] @ class_word (Some 3) @ [''1:4'', ''5:2:0'']))
      \<lparr>svc = [], out = []\<rparr>)) =
   svc (snd (run_state (command_hk_define sample_build sample_services (entries_arr sample_scratch)
      [Arg_u32 2, Arg_text (join_with (CHR '' '') (class_word (Some 3) @ [''1:4'', ''5:2:0'']))] 9 sample_result)
      \<lparr>svc = [], out = []\<rparr>))"
  using local_define_agrees [of sample_hk "''2''" 2 "[''1:4'', ''5:2:0'']" "Some 3" "entries_arr sample_scratch"
      "\<lparr>svc = [], out = []\<rparr>" "\<lparr>svc = [], out = []\<rparr>" "''define''" 9 sample_result]
  by (simp add: sample_hk_number plain_words_def starts_with_def sample_scratch_def sample_build_select)

text \<open>
  C33. \<^verbatim>\<open>hk define\<close> with a node sends the entries whole or not at all: for a node that reads as one,
  and words with at least one character, it runs \<^verbatim>\<open>hk_define\<close> on that node with the report and the
  words joined by single spaces, retried when \<^verbatim>\<open>--retry\<close> comes last, if the text and its terminator
  fit the array; otherwise it returns \<^verbatim>\<open>-E2BIG\<close> and no service is called.
\<close>

theorem define_remote_sends:
  assumes node: "node_in_range (KFSW_CSP_BROADCAST_ADDRESS (cx_B X)) (shell_number (cx_E X) (argv ! 1))"
    and argv: "3 \<le> length argv" and buf: "cx_entries_text X \<noteq> []"
    and ws: "ws = drop 3 (if last argv = ''--retry'' then butlast argv else argv)"
      "\<forall>t \<in> set ws. t \<noteq> [] \<and> CHR 0x00 \<notin> set t"
  shows "if length (join_with (CHR '' '') ws) < length (cx_entries_text X)
    then run_state (define_remote X argv) w =
      run_state (kfsw_shell_run_command (cx_cfg X) (cx_B X) (cx_E X)
        (of_nat (the (shell_number (cx_E X) (argv ! 1)))) ''hk_define''
        ([argv ! 2, join_with (CHR '' '') ws] @ (if last argv = ''--retry'' then [''--retry''] else []))) w
    else fst (run_state (define_remote X argv) w) = Some (- E2BIG) \<and>
      svc (snd (run_state (define_remote X argv) w)) = svc w"
proof -
  define joined where "joined = define_join_into ws (cx_entries_text X)"
  have ne: "\<forall>t \<in> set ws. t \<noteq> []" "\<forall>t \<in> set ws. CHR 0x00 \<notin> set t" using ws(2) by blast+
  have take: "drop 3 (take (if last argv = ''--retry'' then length argv - 1 else length argv) argv) = ws"
    by (simp add: ws(1) butlast_conv_take)
  have arg: "with_argv argv 1 k = k (argv ! 1)" "with_argv argv 2 k = k (argv ! 2)"
    for k :: "string \<Rightarrow> ('a, int option) act"
    using argv by (auto simp: with_argv_def)
  have acc: "run_state (kfsw_shell_parse_node (cx_B X) (cx_E X) (argv ! Suc 0) 0) w =
      ((0, of_nat (the (shell_number (cx_E X) (argv ! Suc 0)))), w)"
    using shell_node.accepts [OF node, of 0 w] by simp
  note step = define_remote_def arg Let_def take joined_def [symmetric]
  show ?thesis
  proof (cases "length (join_with (CHR '' '') ws) < length (cx_entries_text X)")
    case True
    obtain l where "joined = Some (0, l)" "cstr l = join_with (CHR '' '') ws"
      using entry_joiner.joined_text [OF ne(1) True ne(2)] by (auto simp: joined_def)
    with True show ?thesis unfolding step by (simp add: acc)
  next
    case False
    obtain l where "joined = Some (- E2BIG, l)"
      using define_join_too_long [OF ne(1) buf] False by (auto simp: joined_def not_less)
    with False show ?thesis unfolding step by (simp add: acc)
  qed
qed

theorem define_remote_sends_witness:
  "run_state (define_remote sample_hk [''define'', ''9'', ''2'', ''1:4'', ''5:2:0'', ''--retry'']) \<lparr>svc = [], out = []\<rparr> =
   run_state (kfsw_shell_run_command (\<lambda>_. True) sample_build sample_hk_env 9 ''hk_define''
     [''2'', ''1:4 5:2:0'', ''--retry'']) \<lparr>svc = [], out = []\<rparr>"
proof -
  let ?argv = "[''define'', ''9'', ''2'', ''1:4'', ''5:2:0'', ''--retry'']"
  have node: "node_in_range (KFSW_CSP_BROADCAST_ADDRESS (cx_B sample_hk)) (shell_number (cx_E sample_hk) (?argv ! 1))"
    by (simp add: sample_hk_number node_in_range_def sample_build_select)
  have buf: "cx_entries_text sample_hk \<noteq> []" using sample_hk_select(4) by force
  have ws: "[''1:4'', ''5:2:0''] = drop 3 (if last ?argv = ''--retry'' then butlast ?argv else ?argv)"
      "\<forall>t \<in> set [''1:4'', ''5:2:0'']. t \<noteq> [] \<and> CHR 0x00 \<notin> set t"
    by simp_all
  have three: "3 \<le> length ?argv" by simp
  show ?thesis
    using define_remote_sends [OF node three buf ws, of "\<lparr>svc = [], out = []\<rparr>"] by (simp add: sample_hk_number)
qed

text \<open>
  C34. A sample is shown as two lines, the second one its payload in hexadecimal: two digits for each
  of the first 47 bytes after the header, as many as the 97-character line holds, and nothing is
  read past the sample or written past the line. The rest of a longer payload is not shown.
\<close>

theorem print_sample_payload:
  assumes "sample_length s \<le> length (sample_data s)" "length (cx_line X) = 97"
  shows "\<exists>first. run_state (print_sample X s) w =
    (Some (), w\<lparr>out := out w @ [Print first, Print (''  '' @ concat (map (\<lambda>x. fmt_x 2 (unat x))
      (take 47 (drop (KFSW_HK_HEADER_SIZE (cx_H X)) (take (sample_length s) (sample_data s))))))]\<rparr>)"
proof -
  have hex: "sample_hex (cx_H X) s (cx_line X) = Some (concat (map hex_byte
      (take 47 (drop (KFSW_HK_HEADER_SIZE (cx_H X)) (take (sample_length s) (sample_data s))))))"
    using sample_hex_text [OF assms(1), of "cx_line X" "cx_H X"] assms(2) by simp
  have two: "run_state (do { shell_print a; shell_print b; ret (Some ()) }) w =
      (Some (), w\<lparr>out := out w @ [Print a, Print b]\<rparr>)" for a b
    by simp
  show ?thesis
    unfolding print_sample_def hex option.case fmt_x_byte by (rule exI) (rule two)
qed

theorem print_sample_payload_witness:
  "\<exists>first. run_state (print_sample sample_hk sample_hk_sample) \<lparr>svc = [], out = []\<rparr> =
    (Some (), \<lparr>svc = [], out = [Print first, Print ''  0aff0900'']\<rparr>)"
proof -
  have "fmt_x 2 (unat (10 :: u8)) = ''0a''" "fmt_x 2 (unat (255 :: u8)) = ''ff''"
      "fmt_x 2 (unat (9 :: u8)) = ''09''" "fmt_x 2 (unat (0 :: u8)) = ''00''"
    by (simp_all add: fmt_x_def pad_zero_def radix.simps digit_char_def char_of_def bit_0)
  then show ?thesis
    using print_sample_payload [of sample_hk_sample sample_hk "\<lparr>svc = [], out = []\<rparr>"]
    by (simp add: sample_hk_sample_def)
qed

text \<open>
  Every subcommand of the group returns a result for every argument list the shell lets through,
  that is with at least the mandatory arguments of its entry in the table: no argument is read that
  was not given, no array is overrun and every loop ends. The context holds arrays of the sizes in
  the code, samples as long as they say and a registry within its limits.
\<close>

lemma hk_subcommands_return:
  assumes "hk_ctx_ok X" "sc \<in> set (hk_subcommands X)" "allowed sc argv"
  shows "fst (run_state (sub_handler sc argv) w) \<noteq> None"
  using hk_group.line_returns [OF assms] by (simp add: ends_def)

lemma hk_subcommands_return_witness:
  "fst (run_state (cmd_hk_stored sample_hk [''stored'', ''2'', ''from=1'']) \<lparr>svc = [], out = []\<rparr>) \<noteq> None"
  using hk_subcommands_return [OF sample_hk_ok, of "sub ''stored'' (cmd_hk_stored sample_hk) 2 8"
      "[''stored'', ''2'', ''from=1'']" "\<lparr>svc = [], out = []\<rparr>"]
  by (simp add: hk_subcommands_def allowed_def sample_build_select)

text \<open>
  The report number is cut to a byte after it was read: asked to clear report 256, the shell clears
  report 0 and prints that it cleared 256.
\<close>

lemma hk_clear_truncates:
  "run_state (cmd_hk_clear sample_hk [''clear'', ''256'']) \<lparr>svc = [], out = []\<rparr> =
    (Some 0, \<lparr>svc = [Cleared 0], out = [Print (''report '' @ fmt_u 256 @ '' cleared'')]\<rparr>)"
proof -
  have c: "kfsw_hk_clear sample_services = (\<lambda>r s. (0, s @ [Cleared r]))"
    by (simp add: sample_services_def)
  show ?thesis
    by (simp add: cmd_hk_clear_def names_node_def with_argv_def parse_u32_def sample_hk_number uint_max_defs c sample_build_select
        setting_shown_def setting_result_def)
qed

end
