(* ===== verification/Shell_Remexec.thy ===== *)
theory Shell_Remexec
  imports Shell_Group
begin

text \<open>
  Remote execution from the shell, \<^verbatim>\<open>src/app/src/shell/shell_remexec.c\<close>, and the commands a node offers
  for it, \<^verbatim>\<open>src/app/src/remexec/remexec_allowlist.c\<close>. The words of a command line are joined into a
  fixed array; the loop is modelled with every write checked. \<open>bounded_joiner\<close> is the contract of
  such a loop: it succeeds exactly when the joined text and its terminator fit, and what it then
  holds splits back into the words it was given.
\<close>

section \<open>The front end\<close>

datatype remexec_status = KFSW_REMEXEC_OK | KFSW_REMEXEC_FAILED | KFSW_REMEXEC_OTHER nat

record kfsw_remexec_reply =
  reply_status :: remexec_status
  reply_text :: string
  reply_size :: nat
  reply_truncated :: bool
  reply_dropped :: nat
  reply_produced :: nat
  command_result :: int

record 's remexec_services =
  kfsw_remexec_list_remote :: "u16 \<Rightarrow> string \<Rightarrow> 's \<Rightarrow> (int \<times> kfsw_remexec_reply) \<times> 's"
  kfsw_remexec_run_remote :: "u16 \<Rightarrow> string \<Rightarrow> 's \<Rightarrow> (int \<times> kfsw_remexec_reply) \<times> 's"
  kfsw_remexec_status_name :: "remexec_status \<Rightarrow> string"

definition parse_node :: "build \<Rightarrow> 's shell_env \<Rightarrow> string \<Rightarrow> u16 \<Rightarrow> ('s, int \<times> u16) act" where
  "parse_node B E txt node =
     (let (parsed, parse_error) = shell_strtoul E txt 10
      in if parse_error \<noteq> 0 \<or> parsed = 0 \<or> KFSW_CSP_BROADCAST_ADDRESS B \<le> parsed
         then do {
           shell_error (''Node must be 1..'' @ fmt_u (KFSW_CSP_BROADCAST_ADDRESS B - 1) @ '': '' @ txt);
           ret (- EINVAL, node)
         }
         else ret (0, of_nat parsed))"

text \<open>
  The loop of \<^verbatim>\<open>join_command\<close> from word \<open>index\<close>, \<open>used\<close> characters written. A write outside \<^verbatim>\<open>line\<close> is
  \<open>None\<close>.
\<close>

fun join_command_loop ::
  "nat \<Rightarrow> string list \<Rightarrow> nat \<Rightarrow> nat \<Rightarrow> char list \<Rightarrow> (int \<times> char list) option" where
  "join_command_loop cap [] index used line = Some (0, line)"
| "join_command_loop cap (w # ws) index used line =
     (if cap \<le> used + length w + (if index = 0 then 0 else 1)
      then Some (- ENAMETOOLONG, line)
      else Option.bind (if index \<noteq> 0 then write_at line used [CHR '' ''] else Some line) (\<lambda>l1.
        let used1 = (if index \<noteq> 0 then used + 1 else used)
        in Option.bind (write_at l1 used1 w) (\<lambda>l2.
          let used2 = used1 + length w
          in Option.bind (write_at l2 used2 [CHR 0x00])
               (join_command_loop cap ws (Suc index) used2))))"

definition join_command_into :: "string list \<Rightarrow> char list \<Rightarrow> (int \<times> char list) option" where
  "join_command_into argv line =
     Option.bind (write_at line 0 [CHR 0x00]) (join_command_loop (length line) argv 0 0)"

text \<open>\<^verbatim>\<open>join_command\<close> into an array of \<^verbatim>\<open>KFSW_REMEXEC_COMMAND_MAX + 1\<close> characters.\<close>

definition join_command ::
  "build \<Rightarrow> string list \<Rightarrow> char list \<Rightarrow> ('s, (int \<times> string) option) act" where
  "join_command B argv line =
     (case join_command_into argv line of
        None \<Rightarrow> ret None
      | Some (rc, l) \<Rightarrow> do {
          (if rc \<noteq> 0
           then shell_error (''A command is at most '' @ fmt_u (KFSW_REMEXEC_COMMAND_MAX B) @ '' bytes'')
           else ret ());
          ret (Some (rc, cstr l))
        })"

definition newline :: char where "newline = CHR 0x0A"
definition tab :: char where "tab = CHR 0x09"

text \<open>One line of a reply: a name and its help in two columns, or the line itself, or nothing.\<close>

definition line_output :: "string \<Rightarrow> line list" where
  "line_output l =
     (if tab \<in> set l
      then [Print (pad_right 24 (takeWhile (\<lambda>c. c \<noteq> tab) l) @ '' '' @ tl (dropWhile (\<lambda>c. c \<noteq> tab) l))]
      else if l \<noteq> [] then [Print l] else [])"

function print_lines :: "string \<Rightarrow> line list" where
  "print_lines cursor =
     (if cursor = [] then []
      else let l = takeWhile (\<lambda>c. c \<noteq> newline) cursor; rest = dropWhile (\<lambda>c. c \<noteq> newline) cursor
           in line_output l @ (if rest = [] then [] else print_lines (tl rest)))"
  by pat_completeness auto
termination
proof (relation "measure length")
  fix cursor l rest :: string
  assume "rest = dropWhile (\<lambda>c. c \<noteq> newline) cursor" "rest \<noteq> []"
  then have "length (tl rest) < length rest" "length rest \<le> length cursor"
    by (simp_all add: length_dropWhile_le)
  then show "(tl rest, cursor) \<in> measure length" by simp
qed simp

declare print_lines.simps [simp del]

definition failed :: "string \<Rightarrow> u16 \<Rightarrow> int \<Rightarrow> ('s, int) act" where
  "failed what node rc =
     (if rc = - EINVAL
      then do {
        shell_error (what @ '': node '' @ fmt_u (unat node) @ '' cannot be asked to run its own commands'');
        ret rc
      }
      else kfsw_shell_remote_failed what node rc)"

text \<open>What \<^verbatim>\<open>get_offered\<close> and \<^verbatim>\<open>run_offered\<close> do with the answer of the node.\<close>

definition show_listing :: "u16 \<Rightarrow> int \<times> kfsw_remexec_reply \<Rightarrow> ('s, int option) act" where
  "show_listing node r =
     (if fst r \<noteq> 0 then lift_int (failed ''remexec get'' node (fst r))
      else do {
        shell_print (''node: '' @ fmt_u (unat node));
        if reply_status (snd r) \<noteq> KFSW_REMEXEC_OK
        then do { shell_error (''remexec: '' @ reply_text (snd r)); ret (Some (- EACCES)) }
        else if reply_size (snd r) = 0
        then do { shell_print ''no commands are offered for remote execution''; ret (Some 0) }
        else do {
          emit_all (print_lines (reply_text (snd r)));
          (if reply_truncated (snd r)
           then shell_warn (''listing truncated: '' @ fmt_u (reply_dropped (snd r)) @
                  '' byte(s) dropped; ask for a command'')
           else ret ());
          ret (Some 0)
        }
      })"

definition show_run ::
  "'s remexec_services \<Rightarrow> u16 \<Rightarrow> string \<Rightarrow> int \<times> kfsw_remexec_reply \<Rightarrow> ('s, int option) act" where
  "show_run R node l r =
     (if fst r \<noteq> 0 then lift_int (failed ''remexec run'' node (fst r))
      else let rep = snd r in do {
        shell_print (''node: '' @ fmt_u (unat node));
        shell_print (''command: '' @ l);
        if reply_status rep \<noteq> KFSW_REMEXEC_OK \<and> reply_status rep \<noteq> KFSW_REMEXEC_FAILED
        then do { shell_error (''remexec: '' @ reply_text rep); ret (Some (- EACCES)) }
        else do {
          (if reply_truncated rep
           then shell_print (''output: '' @ fmt_u (reply_size rep) @ '' of '' @
                  fmt_u (reply_produced rep) @ '' bytes, truncated, '' @
                  fmt_u (reply_dropped rep) @ '' dropped'')
           else shell_print (''output: '' @ fmt_u (reply_size rep) @ '' bytes''));
          emit_all (print_lines (reply_text rep));
          if reply_status rep \<noteq> KFSW_REMEXEC_OK
          then do {
            shell_error (''remexec: '' @ kfsw_remexec_status_name R (reply_status rep) @
              '', the command returned '' @ fmt_d (command_result rep));
            ret (Some (- EIO))
          }
          else do {
            shell_print (''status: '' @ kfsw_remexec_status_name R (reply_status rep));
            ret (Some 0)
          }
        }
      })"

definition get_offered ::
  "build \<Rightarrow> 's remexec_services \<Rightarrow> char list \<Rightarrow> u16 \<Rightarrow> string list \<Rightarrow> ('s, int option) act" where
  "get_offered B R prefix_buf node argv = do {
     joined \<leftarrow> join_command B argv prefix_buf;
     case joined of
       None \<Rightarrow> ret None
     | Some (rc, p) \<Rightarrow>
         if rc \<noteq> 0 then ret (Some rc)
         else do { r \<leftarrow> call (kfsw_remexec_list_remote R node p); show_listing node r }
   }"

definition run_offered ::
  "build \<Rightarrow> 's remexec_services \<Rightarrow> char list \<Rightarrow> u16 \<Rightarrow> string list \<Rightarrow> ('s, int option) act" where
  "run_offered B R line node argv = do {
     joined \<leftarrow> join_command B argv line;
     case joined of
       None \<Rightarrow> ret None
     | Some (rc, l) \<Rightarrow>
         if rc \<noteq> 0 then ret (Some rc)
         else if l = []
         then do {
           shell_error (''Usage: remexec <node> run '' @ [CHR 0x22] @ ''command args'' @ [CHR 0x22]);
           ret (Some (- EINVAL))
         }
         else do { r \<leftarrow> call (kfsw_remexec_run_remote R node l); show_run R node l r }
   }"

text \<open>\<open>line\<close> is what the automatic array of the two functions holds before it is written.\<close>

definition cmd_remexec ::
  "build \<Rightarrow> 's shell_env \<Rightarrow> 's remexec_services \<Rightarrow> char list \<Rightarrow> 's shell_handler" where
  "cmd_remexec B E R line argv =
     with_argv argv 1 (\<lambda>node_text. do {
       r \<leftarrow> parse_node B E node_text 0;
       if fst r \<noteq> 0 then ret (Some (fst r))
       else with_argv argv 2 (\<lambda>verb.
         if verb = ''get'' then get_offered B R line (snd r) (drop 3 argv)
         else if verb = ''run'' then run_offered B R line (snd r) (drop 3 argv)
         else do {
           shell_error (''Usage: remexec <node> get [command] | remexec <node> run '' @ [CHR 0x22] @
             ''command'' @ [CHR 0x22]);
           ret (Some (- EINVAL))
         })
     })"

text \<open>The command as it is registered; \<open>qx_line\<close> is the array before it is written.\<close>

record 's remexec_ctx =
  qx_B :: build
  qx_E :: "'s shell_env"
  qx_R :: "'s remexec_services"
  qx_line :: "char list"

definition REMEXEC_WORDS_MAX :: nat where "REMEXEC_WORDS_MAX = 8"

definition remexec_command :: "'s remexec_ctx \<Rightarrow> 's subcommand list" where
  "remexec_command X =
     [sub ''remexec'' (cmd_remexec (qx_B X) (qx_E X) (qx_R X) (qx_line X)) 3 REMEXEC_WORDS_MAX]"

section \<open>The allowlist\<close>

record kfsw_remexec_entry =
  entry_command :: string
  entry_help :: string

definition offer :: "bool \<Rightarrow> string \<Rightarrow> string \<Rightarrow> kfsw_remexec_entry list" where
  "offer p c h = (if p then [\<lparr>entry_command = c, entry_help = h\<rparr>] else [])"

definition remexec_entries :: "config \<Rightarrow> kfsw_remexec_entry list" where
  "remexec_entries cfg =
     [\<lparr>entry_command = ''time'', entry_help = ''Monotonic time since boot''\<rparr>,
      \<lparr>entry_command = ''version'', entry_help = ''Image version, revisions and board''\<rparr>] @
     offer (cfg CONFIG_KFSW_STORAGE) ''storage info'' ''Filesystem totals and mount state'' @
     offer (cfg CONFIG_KFSW_RESMON) ''resmon show'' ''What the last stack sweep found'' @
     offer (cfg CONFIG_KFSW_EVENT) ''event stats'' ''Event record counters'' @
     offer (cfg CONFIG_KFSW_CSP_KISS_UART) ''comms uart info'' ''Each dedicated CSP UART and its counters'' @
     offer (cfg CONFIG_KFSW_CSP_CAN) ''comms can info'' ''The CSP CAN interface and its counters'' @
     offer (cfg CONFIG_KFSW_RADIO_UHF) ''comms uhf status'' ''Configured UHF radio identity and status''"

section \<open>Joining the words\<close>

lemma write_at_end:
  "write_at (j @ x # t) (length j) [c] = Some (j @ c # t)"
  "length w < length t \<Longrightarrow> write_at (j @ t) (length j) w = Some (j @ w @ drop (length w) t)"
  by (simp_all add: write_at_def)

text \<open>One word appended, with its separator and a new terminator.\<close>

lemma append_word:
  assumes "length w < length t"
  shows "Option.bind (write_at (j @ t) (length j) w)
      (\<lambda>l. write_at l (length j + length w) [CHR 0x00]) =
    Some (j @ w @ CHR 0x00 # drop (Suc (length w)) t)"
proof -
  obtain x u where d: "drop (length w) t = x # u"
    using assms by (cases "drop (length w) t") auto
  then have "u = drop (Suc (length w)) t" by (metis drop_Suc tl_drop list.sel(3))
  moreover have "write_at ((j @ w) @ x # u) (length (j @ w)) [CHR 0x00] = Some ((j @ w) @ CHR 0x00 # u)"
    by (rule write_at_end(1))
  ultimately show ?thesis using assms by (simp add: write_at_end(2) d)
qed

lemma join_step:
  assumes line: "line = j @ CHR 0x00 # t" and fit: "length j + length w + (if index = 0 then 0 else 1) < length line"
    and first: "index = 0 \<longrightarrow> j = []"
  shows "\<exists>u. join_command_loop (length line) (w # ws) index (length j) line =
      join_command_loop (length line) ws (Suc index)
        (length (if index = 0 then w else j @ CHR '' '' # w))
        ((if index = 0 then w else j @ CHR '' '' # w) @ CHR 0x00 # u) \<and>
    length ((if index = 0 then w else j @ CHR '' '' # w) @ CHR 0x00 # u) = length line"
proof (cases "index = 0")
  case True
  then have "length w < length (CHR 0x00 # t)" using line fit first by simp
  from append_word [OF this, of "[]"] True line fit first show ?thesis
    by (auto simp: Let_def bind_eq_Some_conv split: Option.bind_splits)
next
  case False
  then have "length w < length t" using line fit by simp
  from append_word [OF this, of "j @ [CHR '' '']"] False line fit show ?thesis
    by (auto simp: Let_def write_at_end bind_eq_Some_conv split: Option.bind_splits)
qed

lemma join_loop:
  assumes "line = join_with (CHR '' '') pre @ CHR 0x00 # t"
  shows "if length (join_with (CHR '' '') (pre @ ws)) < length line
    then \<exists>u. join_command_loop (length line) ws (length pre) (length (join_with (CHR '' '') pre)) line =
        Some (0, join_with (CHR '' '') (pre @ ws) @ CHR 0x00 # u) \<and>
      length (join_with (CHR '' '') (pre @ ws) @ CHR 0x00 # u) = length line
    else \<exists>rc l. join_command_loop (length line) ws (length pre) (length (join_with (CHR '' '') pre)) line =
        Some (rc, l) \<and> rc \<noteq> 0 \<and> length l = length line"
  using assms
proof (induction ws arbitrary: pre line t)
  case (Cons w ws)
  let ?j = "join_with (CHR '' '') pre"
  have next_join: "join_with (CHR '' '') (pre @ [w]) = (if length pre = 0 then w else ?j @ CHR '' '' # w)"
    by (simp add: join_with_snoc)
  have len: "length (join_with (CHR '' '') (pre @ [w])) = length ?j + length w + (if length pre = 0 then 0 else 1)"
    by (simp add: next_join)
  show ?case
  proof (cases "length ?j + length w + (if length pre = 0 then 0 else 1) < length line")
    case True
    obtain u where step: "join_command_loop (length line) (w # ws) (length pre) (length ?j) line =
        join_command_loop (length line) ws (Suc (length pre)) (length (join_with (CHR '' '') (pre @ [w])))
          (join_with (CHR '' '') (pre @ [w]) @ CHR 0x00 # u)"
      and l: "length (join_with (CHR '' '') (pre @ [w]) @ CHR 0x00 # u) = length line"
      using join_step [OF Cons.prems True, of ws] by (auto simp: next_join)
    have pw: "(pre @ [w]) @ ws = pre @ w # ws" "length (pre @ [w]) = Suc (length pre)" by simp_all
    show ?thesis
      unfolding step
      using Cons.IH [OF refl, of "pre @ [w]" u] by (simp only: l pw)
  next
    case False
    then have "\<not> length (join_with (CHR '' '') (pre @ w # ws)) < length line"
      using length_join_with_append [of "CHR '' ''" "pre @ [w]" ws] len by simp
    moreover have "join_command_loop (length line) (w # ws) (length pre) (length ?j) line = Some (- ENAMETOOLONG, line)"
      using False by simp
    ultimately show ?thesis by simp
  qed
qed simp

interpretation command_joiner: bounded_joiner join_command_into "\<lambda>_. True"
proof
  fix ws and line :: "char list"
  assume fit: "length (join_with (CHR '' '') ws) < length line"
  then obtain x t where "line = x # t" by (cases line) auto
  then show "\<exists>t. join_command_into ws line = Some (0, join_with (CHR '' '') ws @ CHR 0x00 # t) \<and>
      length (join_with (CHR '' '') ws @ CHR 0x00 # t) = length line"
    using join_loop [of "CHR 0x00 # t" "[]" t ws] fit
    by (simp add: join_command_into_def write_at_def)
next
  fix ws and line :: "char list"
  assume "line \<noteq> []" and long: "length line \<le> length (join_with (CHR '' '') ws)"
  then obtain x t where "line = x # t" by (cases line) auto
  then show "\<exists>rc l. join_command_into ws line = Some (rc, l) \<and> rc \<noteq> 0 \<and> length l = length line"
    using join_loop [of "CHR 0x00 # t" "[]" t ws] long
    by (simp add: join_command_into_def write_at_def)
qed

interpretation remexec_node: node_parser "parse_node B E" "shell_number E"
    "KFSW_CSP_BROADCAST_ADDRESS B" for B E
  using parse_node_contract [of B E]
  by (simp add: node_parser_def parse_node_def kfsw_shell_parse_node_def)

section \<open>Quiet and complete\<close>

lemma quiet_join_command [quiet_intros]: "quiet (join_command B ws line)"
  unfolding join_command_def by (intro quiet_intros)

lemma quiet_failed [quiet_intros]: "quiet (failed what node rc)"
  unfolding failed_def by (intro quiet_intros)

lemma quiet_show_run [quiet_intros]: "quiet (show_run R node l r)"
  unfolding show_run_def Let_def by (intro quiet_intros)

lemma quiet_show_listing [quiet_intros]: "quiet (show_listing node r)"
  unfolding show_listing_def by (intro quiet_intros)

lemma ends_show_run: "ends (\<lambda>r. r \<noteq> None) (show_run R node l r)"
  unfolding show_run_def Let_def lift_int_def by (intro ends_intros ends_bind) simp_all

lemma ends_show_listing: "ends (\<lambda>r. r \<noteq> None) (show_listing node r)"
  unfolding show_listing_def lift_int_def by (intro ends_intros ends_bind) simp_all

lemma join_command_some: "line \<noteq> [] \<Longrightarrow> returns (join_command B ws line)"
  using command_joiner.never_outside [OF TrueI, of line ws] by (auto simp: join_command_def ends_def)

lemma returns_get_offered: "line \<noteq> [] \<Longrightarrow> returns (get_offered B R line node ws)"
  unfolding get_offered_def
  by (rule returns_bind [OF join_command_some])
    (auto simp del: not_None_eq intro!: returns_intros ends_show_listing)

lemma returns_run_offered: "line \<noteq> [] \<Longrightarrow> returns (run_offered B R line node ws)"
  unfolding run_offered_def
  by (rule returns_bind [OF join_command_some])
    (auto simp del: not_None_eq intro!: returns_intros ends_show_run)

interpretation remexec_group: shell_group remexec_command "\<lambda>X. qx_line X \<noteq> []"
  by unfold_locales
    (auto simp: remexec_command_def cmd_remexec_def simp del: not_None_eq
      intro!: returns_intros returns_get_offered returns_run_offered)

lemma join_command_run:
  assumes "line \<noteq> []" "\<forall>w \<in> set ws. CHR 0x00 \<notin> set w"
  shows "\<exists>rc l w'. run_state (join_command B ws line) w = (Some (rc, l), w') \<and> svc w' = svc w \<and>
    (if length (join_with (CHR '' '') ws) < length line then rc = 0 \<and> l = join_with (CHR '' '') ws
     else rc \<noteq> 0)"
proof -
  obtain rc l where j: "join_command_into ws line = Some (rc, l)"
      "rc = 0 \<longleftrightarrow> length (join_with (CHR '' '') ws) < length line"
    using command_joiner.never_outside [OF TrueI assms(1)] by blast
  moreover have "rc = 0 \<Longrightarrow> cstr l = join_with (CHR '' '') ws"
    using command_joiner.joined_text [OF TrueI _ assms(2), of line] j by auto
  moreover have "svc (snd (run_state (join_command B ws line) w)) = svc w"
    by (rule quietD [OF quiet_join_command])
  ultimately show ?thesis by (auto simp: join_command_def)
qed

section \<open>Properties\<close>

text \<open>
  C31. \<^verbatim>\<open>join_command\<close> never writes outside the line; it succeeds exactly when the words joined by
  single spaces and a terminator fit, and then the line splits back into exactly the words that
  were typed, so the serving node sees the command the operator wrote.
\<close>

theorem join_command_exact:
  assumes "line \<noteq> []" "plain_words ws" "\<forall>w \<in> set ws. CHR 0x00 \<notin> set w"
  shows "\<exists>rc l. join_command_into ws line = Some (rc, l) \<and> length l = length line \<and>
    (rc = 0 \<longleftrightarrow> length (join_with (CHR '' '') ws) < length line) \<and>
    (rc = 0 \<longrightarrow> cstr l = join_with (CHR '' '') ws \<and> space_words (cstr l) = ws)"
proof -
  obtain rc l where j: "join_command_into ws line = Some (rc, l)" "length l = length line"
      "rc = 0 \<longleftrightarrow> length (join_with (CHR '' '') ws) < length line"
    using command_joiner.never_outside [OF TrueI assms(1)] by blast
  moreover have "rc = 0 \<Longrightarrow> space_words (cstr l) = ws"
    using command_joiner.words_recovered [OF TrueI _ assms] j by auto
  moreover have "rc = 0 \<Longrightarrow> cstr l = join_with (CHR '' '') ws"
    using command_joiner.joined_text [OF TrueI _ assms(3), of line] j by auto
  ultimately show ?thesis by auto
qed

theorem join_command_exact_witness:
  "\<exists>rc l. join_command_into [''storage'', ''info''] (replicate 13 (CHR ''x'')) = Some (rc, l) \<and>
     length l = 13 \<and> rc = 0 \<and> cstr l = ''storage info''"
  using join_command_exact [of "replicate 13 (CHR ''x'')" "[''storage'', ''info'']"]
  by (auto simp: plain_words_def)

text \<open>
  C32. \<^verbatim>\<open>remexec <node> run\<close> asks the node to run the joined line exactly when it is not empty and at
  most \<^verbatim>\<open>KFSW_REMEXEC_COMMAND_MAX\<close> characters; otherwise nothing is sent and the result is an error.
\<close>

theorem run_offered_sends_line:
  assumes "length line = KFSW_REMEXEC_COMMAND_MAX B + 1" "\<forall>w \<in> set ws. CHR 0x00 \<notin> set w"
  shows "let l = join_with (CHR '' '') ws; (r, w') = run_state (run_offered B R line node ws) w in
    if l \<noteq> [] \<and> length l \<le> KFSW_REMEXEC_COMMAND_MAX B
    then r \<noteq> None \<and> svc w' = snd (kfsw_remexec_run_remote R node l (svc w))
    else svc w' = svc w \<and> r \<noteq> None \<and> r \<noteq> Some 0"
proof -
  have "line \<noteq> []" using assms(1) by auto
  then obtain rc l w1 where j: "run_state (join_command B ws line) w = (Some (rc, l), w1)" "svc w1 = svc w"
      "if length (join_with (CHR '' '') ws) < length line then rc = 0 \<and> l = join_with (CHR '' '') ws
       else rc \<noteq> 0"
    using join_command_run [OF _ assms(2)] by blast
  show ?thesis
  proof (cases "length (join_with (CHR '' '') ws) < length line")
    case True
    then have rc: "rc = 0" "l = join_with (CHR '' '') ws" using j(3) by auto
    have q: "svc (snd (run_state (show_run R node l r) w2)) = svc w2" for r w2
      by (rule quietD [OF quiet_show_run])
    have d: "fst (run_state (show_run R node l r) w2) \<noteq> None" for r w2
      using ends_show_run unfolding ends_def by blast
    show ?thesis
      using True assms(1) j(1,2) rc q d by (auto simp: run_offered_def Let_def split_beta)
  qed (use j assms in \<open>auto simp: run_offered_def\<close>)
qed

definition sample_remexec :: "(u16 \<times> string) list remexec_services" where
  "sample_remexec =
     \<lparr>kfsw_remexec_list_remote = (\<lambda>n p s. ((0, \<lparr>reply_status = KFSW_REMEXEC_OK, reply_text = [], reply_size = 0,
        reply_truncated = False, reply_dropped = 0, reply_produced = 0, command_result = 0\<rparr>), s @ [(n, p)])),
      kfsw_remexec_run_remote = (\<lambda>n l s. ((0, \<lparr>reply_status = KFSW_REMEXEC_OK, reply_text = ''up'', reply_size = 2,
        reply_truncated = False, reply_dropped = 0, reply_produced = 2, command_result = 0\<rparr>), s @ [(n, l)])),
      kfsw_remexec_status_name = (\<lambda>_. ''ok'')\<rparr>"

theorem run_offered_sends_line_witness:
  "svc (snd (run_state (run_offered sample_build sample_remexec (replicate 64 (CHR 0x00)) 7 [''storage'', ''info''])
     \<lparr>svc = [], out = []\<rparr>)) = [(7, ''storage info'')]"
  using run_offered_sends_line [of "replicate 64 (CHR 0x00)" sample_build "[''storage'', ''info'']" sample_remexec 7
      "\<lparr>svc = [], out = []\<rparr>"]
  by (simp add: sample_build_def sample_remexec_def split_beta Let_def)

text \<open>The commands a full composition offers.\<close>

definition all_offered :: "string list" where
  "all_offered = [''time'', ''version'', ''storage info'', ''resmon show'', ''event stats'',
     ''comms uart info'', ''comms can info'', ''comms uhf status'']"

lemma entries_subseq: "subseq (map entry_command (remexec_entries cfg)) all_offered"
  by (simp add: remexec_entries_def offer_def all_offered_def)

lemma all_offered_prefix_free: "\<forall>x \<in> set all_offered. \<forall>y \<in> set all_offered. prefix x y \<longrightarrow> x = y"
  by (simp add: all_offered_def)

lemma all_offered_short: "\<forall>x \<in> set all_offered. length x \<le> 63"
  by (simp add: all_offered_def)

lemma entry_offered: "a \<in> set (remexec_entries cfg) \<Longrightarrow> entry_command a \<in> set all_offered"
  using list_emb_set [OF entries_subseq, of "entry_command a" cfg] by auto

text \<open>
  In every composition the allowlist has no command twice and none that is the beginning of
  another, each is at most 63 characters, and the time and the version are always offered.
\<close>

lemma allowlist_unambiguous:
  "distinct (map entry_command (remexec_entries cfg)) \<and>
   (\<forall>a \<in> set (remexec_entries cfg). \<forall>b \<in> set (remexec_entries cfg).
      prefix (entry_command a) (entry_command b) \<longrightarrow> entry_command a = entry_command b) \<and>
   (\<forall>a \<in> set (remexec_entries cfg). length (entry_command a) \<le> 63) \<and>
   {''time'', ''version''} \<subseteq> set (map entry_command (remexec_entries cfg))"
proof (intro conjI)
  show "distinct (map entry_command (remexec_entries cfg))"
    by (rule distinct_subseq [OF entries_subseq]) (simp add: all_offered_def)
  show "\<forall>a \<in> set (remexec_entries cfg). \<forall>b \<in> set (remexec_entries cfg).
      prefix (entry_command a) (entry_command b) \<longrightarrow> entry_command a = entry_command b"
    using all_offered_prefix_free entry_offered by blast
  show "\<forall>a \<in> set (remexec_entries cfg). length (entry_command a) \<le> 63"
    using all_offered_short entry_offered by blast
qed (simp add: remexec_entries_def)

lemma allowlist_unambiguous_witness:
  "distinct (map entry_command (remexec_entries (\<lambda>_. True))) \<and> length (remexec_entries (\<lambda>_. True)) = 8"
  using allowlist_unambiguous [of "\<lambda>_. True"] by (simp add: remexec_entries_def offer_def)

end
