(* ===== verification/Diagnostics.thy ===== *)
theory Diagnostics
  imports Shell_Group
begin

text \<open>
  The file diagnostics behind the shell: \<^verbatim>\<open>src/app/src/diagnostics/ftp_diagnostics.c\<close> (a
  deterministic file and a comparison of two files) and
  \<^verbatim>\<open>src/app/src/diagnostics/storage_diagnostics.c\<close> (write a value, read it back). Zephyr's file
  system is a parameter; a file object is named by the variable that holds it, and opening one says
  whether its mount point pointer is set afterwards. The comparison reads until a file ends, so it
  is a partial function: \<open>None\<close> is a loop that does not end.
\<close>

section \<open>The file system\<close>

datatype fs_file = File | First | Second

datatype fs_flag = FS_O_CREATE | FS_O_WRITE | FS_O_TRUNC | FS_O_READ

record 's fs_services =
  fs_open :: "fs_file \<Rightarrow> string \<Rightarrow> fs_flag list \<Rightarrow> 's \<Rightarrow> (int \<times> bool) \<times> 's"
  fs_read :: "fs_file \<Rightarrow> nat \<Rightarrow> 's \<Rightarrow> (int \<times> u8 list) \<times> 's"
  fs_write :: "fs_file \<Rightarrow> u8 list \<Rightarrow> 's \<Rightarrow> int \<times> 's"
  fs_sync :: "fs_file \<Rightarrow> 's \<Rightarrow> int \<times> 's"
  fs_close :: "fs_file \<Rightarrow> 's \<Rightarrow> int \<times> 's"
  fs_unlink :: "string \<Rightarrow> 's \<Rightarrow> int \<times> 's"

record ftp_local =
  kfsw_ftp_validate_path :: "string \<Rightarrow> bool \<Rightarrow> int"
  KFSW_FTP_STORAGE_ROOT :: string
  crc32_ieee_update :: "u32 \<Rightarrow> u8 list \<Rightarrow> u32"

text \<open>The bytes of a C string.\<close>

definition bytes_of :: "string \<Rightarrow> u8 list" where
  "bytes_of s = map of_char s"

lemma bytes_of_length [simp]: "length (bytes_of s) = length s"
  by (simp add: bytes_of_def)

lemma bytes_of_inject: "bytes_of s = bytes_of t \<longleftrightarrow> s = t"
proof -
  have code: "(of_char c :: u8) = of_nat (chr_code c)" for c
    by (rule of_nat_of_char [symmetric])
  have small: "chr_code c < 256" for c by (rule nat_of_char_less_256)
  have "inj (of_char :: char \<Rightarrow> u8)"
  proof (rule injI)
    fix c d assume "(of_char c :: u8) = of_char d"
    then have "chr_code c mod 256 = chr_code d mod 256"
      unfolding code word_of_nat_eq_iff by (simp add: take_bit_eq_mod)
    then show "c = d" using small by simp
  qed
  then show ?thesis by (simp add: bytes_of_def inj_map_eq_map)
qed

text \<open>A file closed where it is open: a failed close is the result unless there is an earlier failure.\<close>

definition close_if :: "'s fs_services \<Rightarrow> fs_file \<Rightarrow> bool \<Rightarrow> int \<Rightarrow> ('s, int) act" where
  "close_if F f is_open result =
     (if is_open
      then do {
        close_result \<leftarrow> call (fs_close F f);
        ret (if result = 0 then close_result else result)
      }
      else ret result)"

section \<open>A deterministic file\<close>

definition resolve_ftp_local_path :: "ftp_local \<Rightarrow> string \<Rightarrow> nat \<Rightarrow> int \<times> string" where
  "resolve_ftp_local_path L path full_path_size =
     (let relative = (if hd0 path = CHR ''/'' then tl path else path);
          result = kfsw_ftp_validate_path L path False;
          full = KFSW_FTP_STORAGE_ROOT L @ ''/'' @ relative
      in if result \<noteq> 0 then (result, [])
         else (if length full < full_path_size then 0 else - ENAMETOOLONG, snprintf full_path_size full))"

definition DATA_SIZE :: nat where "DATA_SIZE = 64"
definition FULL_PATH_SIZE :: nat where "FULL_PATH_SIZE = 128"

text \<open>The byte of the pattern at a position, and a chunk of it.\<close>

definition pattern_byte :: "nat \<Rightarrow> u8" where
  "pattern_byte i = of_nat (i * 31 + 7)"

definition pattern_chunk :: "nat \<Rightarrow> nat \<Rightarrow> u8 list" where
  "pattern_chunk off n = map (\<lambda>index. pattern_byte (off + index)) [0..<n]"

function generate_loop ::
  "'s fs_services \<Rightarrow> ftp_local \<Rightarrow> nat \<Rightarrow> nat \<Rightarrow> u32 \<Rightarrow> ('s, int \<times> u32) act" where
  "generate_loop F L sz off crc =
     (if off < sz
      then let chunk_size = min DATA_SIZE (sz - off); data = pattern_chunk off chunk_size
           in do {
             n \<leftarrow> call (fs_write F File data);
             if n \<noteq> int chunk_size then ret (- EIO, crc)
             else generate_loop F L sz (off + chunk_size) (crc32_ieee_update L crc data)
           }
      else ret (0, crc))"
  by pat_completeness auto
termination
  by (relation "measure (\<lambda>(F, L, sz, off, crc). sz - off)") (auto simp: DATA_SIZE_def)

declare generate_loop.simps [simp del]

text \<open>The result and \<^verbatim>\<open>*crc32\<close>, which is written only on success.\<close>

definition ftp_diagnostic_generate :: "'s fs_services \<Rightarrow> ftp_local \<Rightarrow> string \<Rightarrow> u32 \<Rightarrow> ('s, int \<times> u32 option) act" where
  "ftp_diagnostic_generate F L path sz =
     (let (result, full_path) = resolve_ftp_local_path L path FULL_PATH_SIZE
      in do {
        opened \<leftarrow> (if result = 0 then call (fs_open F File full_path [FS_O_CREATE, FS_O_WRITE, FS_O_TRUNC])
                   else ret (result, False));
        written \<leftarrow> (if fst opened = 0 then generate_loop F L (unat sz) 0 0 else ret (fst opened, 0));
        synced \<leftarrow> (if fst written = 0 then call (fs_sync F File) else ret (fst written));
        final \<leftarrow> close_if F File (snd opened) synced;
        ret (final, if final = 0 then Some (snd written) else None)
      })"

section \<open>Comparing two files\<close>

text \<open>
  The loop, on the state of the file system. A read that claims more bytes than the buffer has
  leaves the array.
\<close>

partial_function (option) compare_loop :: "'s fs_services \<Rightarrow> 's \<Rightarrow> (int \<times> 's) option" where
  "compare_loop F s =
     (let r1 = fs_read F First DATA_SIZE s; r2 = fs_read F Second DATA_SIZE (snd r1);
          n1 = fst (fst r1); n2 = fst (fst r2)
      in if n1 < 0 \<or> n2 < 0 then Some (if n1 < 0 then n1 else n2, snd r2)
         else if n1 \<noteq> n2 then Some (- EILSEQ, snd r2)
         else if int DATA_SIZE < n1 then None
         else if take (nat n1) (snd (fst r1)) \<noteq> take (nat n1) (snd (fst r2)) then Some (- EILSEQ, snd r2)
         else if n1 = 0 then Some (0, snd r2)
         else compare_loop F (snd r2))"

definition call_partial :: "('s \<Rightarrow> ('a \<times> 's) option) \<Rightarrow> ('s, 'a option) act" where
  "call_partial f = State (\<lambda>w. case f (svc w) of None \<Rightarrow> (None, w) | Some (r, s) \<Rightarrow> (Some r, w\<lparr>svc := s\<rparr>))"

lemma run_call_partial:
  "run_state (call_partial f) w =
     (case f (svc w) of None \<Rightarrow> (None, w) | Some (r, s) \<Rightarrow> (Some r, w\<lparr>svc := s\<rparr>))"
  by (simp add: call_partial_def)

definition ftp_diagnostic_compare :: "'s fs_services \<Rightarrow> ftp_local \<Rightarrow> string \<Rightarrow> string \<Rightarrow> ('s, int option) act" where
  "ftp_diagnostic_compare F L first_path second_path =
     (let (r1, full1) = resolve_ftp_local_path L first_path FULL_PATH_SIZE;
          (r2, full2) = (if r1 = 0 then resolve_ftp_local_path L second_path FULL_PATH_SIZE else (r1, []))
      in do {
        o1 \<leftarrow> (if r2 = 0 then call (fs_open F First full1 [FS_O_READ]) else ret (r2, False));
        o2 \<leftarrow> (if fst o1 = 0 then call (fs_open F Second full2 [FS_O_READ]) else ret (fst o1, False));
        compared \<leftarrow> (if fst o2 = 0 then call_partial (compare_loop F) else ret (Some (fst o2)));
        case compared of
          None \<Rightarrow> ret None
        | Some result \<Rightarrow> do {
            c2 \<leftarrow> close_if F Second (snd o2) result;
            c1 \<leftarrow> close_if F First (snd o1) c2;
            ret (Some c1)
          }
      })"

section \<open>A stored value\<close>

definition KFSW_STORAGE_DIAGNOSTIC_VALUE_MAX_SIZE :: nat where "KFSW_STORAGE_DIAGNOSTIC_VALUE_MAX_SIZE = 48"

definition storage_diagnostic_write :: "'s fs_services \<Rightarrow> string \<Rightarrow> string \<Rightarrow> ('s, int) act" where
  "storage_diagnostic_write F path v = do {
     opened \<leftarrow> call (fs_open F File path [FS_O_CREATE, FS_O_WRITE, FS_O_TRUNC]);
     if fst opened \<noteq> 0 then ret (fst opened)
     else do {
       written \<leftarrow> call (fs_write F File (bytes_of v));
       result \<leftarrow> (if written = int (length v) then call (fs_sync F File)
                  else ret (if written < 0 then written else - EIO));
       close_result \<leftarrow> call (fs_close F File);
       ret (if result \<noteq> 0 then result else close_result)
     }
   }"

text \<open>
  \<^verbatim>\<open>value[bytes_read] = 0\<close> is inside the array of \<^verbatim>\<open>KFSW_STORAGE_DIAGNOSTIC_VALUE_MAX_SIZE + 1\<close>
  characters, since the length is the expected one there; it is not read again.
\<close>

definition storage_diagnostic_read :: "'s fs_services \<Rightarrow> string \<Rightarrow> string \<Rightarrow> ('s, int) act" where
  "storage_diagnostic_read F path expected =
     (if KFSW_STORAGE_DIAGNOSTIC_VALUE_MAX_SIZE < length expected then ret (- EMSGSIZE)
      else do {
        opened \<leftarrow> call (fs_open F File path [FS_O_READ]);
        if fst opened \<noteq> 0 then ret (fst opened)
        else do {
          r \<leftarrow> call (fs_read F File (KFSW_STORAGE_DIAGNOSTIC_VALUE_MAX_SIZE + 1));
          close_result \<leftarrow> call (fs_close F File);
          let result = (if fst r < 0 then fst r
                        else if fst r \<noteq> int (length expected) then - EIO
                        else if take (length expected) (snd r) \<noteq> bytes_of expected then - EIO
                        else 0)
          in ret (if result \<noteq> 0 then result else close_result)
        }
      })"

section \<open>What is relied on of the file system\<close>

text \<open>
  \<open>disk s p\<close> is what a read of the file at path \<open>p\<close> would deliver, \<open>None\<close> when there is no such file, and
  \<open>at s f\<close> says where a file object in use stands: its path, its position and whether it was opened for
  writing. Every operation may fail; what is relied on is what a success means and what a failure leaves
  alone. Opening a file that does not exist fails unless it is to be created. A write may fall
  short. A read delivers what is there up to the end of the file, as long as nobody writes the file.
\<close>

type_synonym 's disk = "'s \<Rightarrow> string \<Rightarrow> u8 list option"

type_synonym 's handles = "'s \<Rightarrow> fs_file \<Rightarrow> (string \<times> nat \<times> bool) option"

definition opens_files :: "'s fs_services \<Rightarrow> 's disk \<Rightarrow> 's handles \<Rightarrow> bool" where
  "opens_files F disk at \<longleftrightarrow>
     (\<forall>f p fl s rc mp s'. fs_open F f p fl s = ((rc, mp), s') \<longrightarrow>
        (if rc = 0
         then mp \<and> at s' = (at s)(f \<mapsto> (p, 0, FS_O_WRITE \<in> set fl)) \<and>
           (disk s p = None \<longrightarrow> FS_O_CREATE \<in> set fl) \<and>
           disk s' = (if disk s p = None \<or> FS_O_TRUNC \<in> set fl then (disk s)(p \<mapsto> []) else disk s)
         else rc < 0 \<and> \<not> mp \<and> at s' = at s \<and>
           (if set fl = {FS_O_READ} then disk s' = disk s else \<forall>q. q \<noteq> p \<longrightarrow> disk s' q = disk s q)))"

definition writes_files :: "'s fs_services \<Rightarrow> 's disk \<Rightarrow> 's handles \<Rightarrow> bool" where
  "writes_files F disk at \<longleftrightarrow>
     (\<forall>f d s p k c n s'. at s f = Some (p, k, True) \<longrightarrow> disk s p = Some c \<longrightarrow> fs_write F f d s = (n, s') \<longrightarrow>
        n \<le> int (length d) \<and> (\<forall>q. q \<noteq> p \<longrightarrow> disk s' q = disk s q) \<and>
        (if n < 0 then \<exists>j. at s' = (at s)(f \<mapsto> (p, j, True))
         else at s' = (at s)(f \<mapsto> (p, k + nat n, True)) \<and>
           disk s' p = Some (take k c @ take (nat n) d @ drop (k + nat n) c)))"

definition reads_files :: "'s fs_services \<Rightarrow> 's disk \<Rightarrow> 's handles \<Rightarrow> bool" where
  "reads_files F disk at \<longleftrightarrow>
     (\<forall>f n s p k c m d s'. at s f = Some (p, k, False) \<longrightarrow> disk s p = Some c \<longrightarrow> (\<forall>g j. at s g \<noteq> Some (p, j, True)) \<longrightarrow>
        fs_read F f n s = ((m, d), s') \<longrightarrow>
        disk s' = disk s \<and>
        (if m < 0 then \<exists>j. at s' = (at s)(f \<mapsto> (p, j, False))
         else m = int (length (take n (drop k c))) \<and> take n d = take n (drop k c) \<and>
           at s' = (at s)(f \<mapsto> (p, k + nat m, False))))"

definition syncs_files :: "'s fs_services \<Rightarrow> 's disk \<Rightarrow> 's handles \<Rightarrow> bool" where
  "syncs_files F disk at \<longleftrightarrow>
     (\<forall>f s rc s'. fs_sync F f s = (rc, s') \<longrightarrow>
        rc \<le> 0 \<and> at s' = at s \<and> (rc = 0 \<longrightarrow> disk s' = disk s) \<and>
        (\<forall>p k q. at s f = Some (p, k, True) \<longrightarrow> q \<noteq> p \<longrightarrow> disk s' q = disk s q))"

definition closes_files :: "'s fs_services \<Rightarrow> 's disk \<Rightarrow> 's handles \<Rightarrow> bool" where
  "closes_files F disk at \<longleftrightarrow>
     (\<forall>f s rc s'. fs_close F f s = (rc, s') \<longrightarrow>
        rc \<le> 0 \<and> at s' = (at s)(f := None) \<and> (rc = 0 \<longrightarrow> disk s' = disk s) \<and>
        (\<forall>p k. at s f = Some (p, k, False) \<longrightarrow> disk s' = disk s) \<and>
        (\<forall>p k q. at s f = Some (p, k, True) \<longrightarrow> q \<noteq> p \<longrightarrow> disk s' q = disk s q))"

definition file_system :: "'s fs_services \<Rightarrow> 's disk \<Rightarrow> 's handles \<Rightarrow> bool" where
  "file_system F disk at \<longleftrightarrow>
     opens_files F disk at \<and> writes_files F disk at \<and> reads_files F disk at \<and> syncs_files F disk at \<and>
     closes_files F disk at"

text \<open>
  A medium that reads without failures: a file that exists can be opened with a free file object, read
  and closed.
\<close>

definition reads_well :: "'s fs_services \<Rightarrow> 's disk \<Rightarrow> 's handles \<Rightarrow> bool" where
  "reads_well F disk at \<longleftrightarrow>
     (\<forall>f p s. at s f = None \<longrightarrow> disk s p \<noteq> None \<longrightarrow> fst (fst (fs_open F f p [FS_O_READ] s)) = 0) \<and>
     (\<forall>f n s p k. at s f = Some (p, k, False) \<longrightarrow> disk s p \<noteq> None \<longrightarrow> 0 \<le> fst (fst (fs_read F f n s))) \<and>
     (\<forall>f s p k. at s f = Some (p, k, False) \<longrightarrow> fst (fs_close F f s) = 0)"

text \<open>
  Room for the file at \<open>p\<close>: as long as less is written than there is room, opening for writing, writing,
  synchronising and closing succeed, and a write takes no more room than its length.
\<close>

definition has_room :: "'s fs_services \<Rightarrow> 's handles \<Rightarrow> string \<Rightarrow> ('s \<Rightarrow> nat) \<Rightarrow> bool" where
  "has_room F at p room \<longleftrightarrow>
     (\<forall>f s rc mp s'. at s f = None \<longrightarrow> 0 < room s \<longrightarrow>
        fs_open F f p [FS_O_CREATE, FS_O_WRITE, FS_O_TRUNC] s = ((rc, mp), s') \<longrightarrow> rc = 0 \<and> room s \<le> room s') \<and>
     (\<forall>f d s k n s'. at s f = Some (p, k, True) \<longrightarrow> length d < room s \<longrightarrow> fs_write F f d s = (n, s') \<longrightarrow>
        n = int (length d) \<and> room s \<le> room s' + length d) \<and>
     (\<forall>f s k rc s'. at s f = Some (p, k, True) \<longrightarrow> 0 < room s \<longrightarrow> fs_sync F f s = (rc, s') \<longrightarrow> rc = 0 \<and> room s \<le> room s') \<and>
     (\<forall>f s k rc s'. at s f = Some (p, k, True) \<longrightarrow> 0 < room s \<longrightarrow> fs_close F f s = (rc, s') \<longrightarrow> rc = 0)"

text \<open>\<^verbatim>\<open>crc32_ieee_update\<close> continues a checksum: piece by piece is all at once.\<close>

definition crc_continues :: "ftp_local \<Rightarrow> bool" where
  "crc_continues L \<longleftrightarrow>
     (\<forall>c xs ys. crc32_ieee_update L (crc32_ieee_update L c xs) ys = crc32_ieee_update L c (xs @ ys)) \<and>
     (\<forall>c. crc32_ieee_update L c [] = c)"

section \<open>The pattern\<close>

lemma pattern_chunk_length [simp]: "length (pattern_chunk off n) = n"
  by (simp add: pattern_chunk_def)

lemma pattern_chunk_append: "pattern_chunk off (n + m) = pattern_chunk off n @ pattern_chunk (off + n) m"
proof -
  have "[0..<n + m] = [0..<n] @ map (\<lambda>i. n + i) [0..<m]"
    using map_add_upt [of n m] upt_add_eq_append [of 0 n m] by (simp add: add.commute)
  then show ?thesis by (simp add: pattern_chunk_def add.assoc comp_def)
qed

lemma pattern_chunk_split: "k \<le> n \<Longrightarrow> pattern_chunk off n = pattern_chunk off k @ pattern_chunk (off + k) (n - k)"
  using pattern_chunk_append [of off k "n - k"] by simp

section \<open>Using the contract\<close>

lemma fs_openD:
  assumes "file_system F disk at" "fs_open F f p fl s = ((rc, mp), s')"
  shows "if rc = 0
    then mp \<and> at s' = (at s)(f \<mapsto> (p, 0, FS_O_WRITE \<in> set fl)) \<and> (disk s p = None \<longrightarrow> FS_O_CREATE \<in> set fl) \<and>
      disk s' = (if disk s p = None \<or> FS_O_TRUNC \<in> set fl then (disk s)(p \<mapsto> []) else disk s)
    else rc < 0 \<and> \<not> mp \<and> at s' = at s \<and>
      (if set fl = {FS_O_READ} then disk s' = disk s else \<forall>q. q \<noteq> p \<longrightarrow> disk s' q = disk s q)"
  using assms unfolding file_system_def opens_files_def by blast

lemma fs_writeD:
  assumes "file_system F disk at" "at s f = Some (p, k, True)" "disk s p = Some c" "fs_write F f d s = (n, s')"
  shows "n \<le> int (length d)" "q \<noteq> p \<Longrightarrow> disk s' q = disk s q" "\<exists>j. at s' = (at s)(f \<mapsto> (p, j, True))"
    "0 \<le> n \<Longrightarrow> at s' = (at s)(f \<mapsto> (p, k + nat n, True))"
    "0 \<le> n \<Longrightarrow> disk s' p = Some (take k c @ take (nat n) d @ drop (k + nat n) c)"
proof -
  have w: "n \<le> int (length d) \<and> (\<forall>q. q \<noteq> p \<longrightarrow> disk s' q = disk s q) \<and>
      (if n < 0 then \<exists>j. at s' = (at s)(f \<mapsto> (p, j, True))
       else at s' = (at s)(f \<mapsto> (p, k + nat n, True)) \<and>
         disk s' p = Some (take k c @ take (nat n) d @ drop (k + nat n) c))"
    using assms unfolding file_system_def writes_files_def by blast
  then show "n \<le> int (length d)" "q \<noteq> p \<Longrightarrow> disk s' q = disk s q" by blast+
  show "\<exists>j. at s' = (at s)(f \<mapsto> (p, j, True))" using w by (auto split: if_splits)
  show "0 \<le> n \<Longrightarrow> at s' = (at s)(f \<mapsto> (p, k + nat n, True))"
    "0 \<le> n \<Longrightarrow> disk s' p = Some (take k c @ take (nat n) d @ drop (k + nat n) c)"
    using w by simp_all
qed

lemma fs_readD:
  assumes "file_system F disk at" "at s f = Some (p, k, False)" "disk s p = Some c" "\<forall>g j. at s g \<noteq> Some (p, j, True)"
    "fs_read F f n s = ((m, d), s')"
  shows "disk s' = disk s" "\<exists>j. at s' = (at s)(f \<mapsto> (p, j, False))"
    "0 \<le> m \<Longrightarrow> m = int (length (take n (drop k c)))" "0 \<le> m \<Longrightarrow> take n d = take n (drop k c)"
    "0 \<le> m \<Longrightarrow> at s' = (at s)(f \<mapsto> (p, k + nat m, False))"
proof -
  have r: "disk s' = disk s \<and>
      (if m < 0 then \<exists>j. at s' = (at s)(f \<mapsto> (p, j, False))
       else m = int (length (take n (drop k c))) \<and> take n d = take n (drop k c) \<and>
         at s' = (at s)(f \<mapsto> (p, k + nat m, False)))"
    using assms unfolding file_system_def reads_files_def by blast
  then show "disk s' = disk s" by blast
  show "\<exists>j. at s' = (at s)(f \<mapsto> (p, j, False))" using r by (auto split: if_splits)
  show "0 \<le> m \<Longrightarrow> m = int (length (take n (drop k c)))" "0 \<le> m \<Longrightarrow> take n d = take n (drop k c)"
    "0 \<le> m \<Longrightarrow> at s' = (at s)(f \<mapsto> (p, k + nat m, False))"
    using r by simp_all
qed

lemma fs_syncD:
  assumes "file_system F disk at" "fs_sync F f s = (rc, s')"
  shows "at s' = at s" "rc = 0 \<Longrightarrow> disk s' = disk s"
    "at s f = Some (p, k, True) \<Longrightarrow> q \<noteq> p \<Longrightarrow> disk s' q = disk s q"
proof -
  have "syncs_files F disk at" using assms(1) by (simp add: file_system_def)
  from this [unfolded syncs_files_def, rule_format, OF assms(2)]
  show "at s' = at s" "rc = 0 \<Longrightarrow> disk s' = disk s"
    "at s f = Some (p, k, True) \<Longrightarrow> q \<noteq> p \<Longrightarrow> disk s' q = disk s q"
    by simp_all
qed

lemma fs_closeD:
  assumes "file_system F disk at" "fs_close F f s = (rc, s')"
  shows "rc \<le> 0" "at s' = (at s)(f := None)" "rc = 0 \<Longrightarrow> disk s' = disk s" "at s f = Some (p, k, False) \<Longrightarrow> disk s' = disk s"
    "at s f = Some (p, k, True) \<Longrightarrow> q \<noteq> p \<Longrightarrow> disk s' q = disk s q"
proof -
  have "closes_files F disk at" using assms(1) by (simp add: file_system_def)
  from this [unfolded closes_files_def, rule_format, OF assms(2)]
  show "rc \<le> 0" "at s' = (at s)(f := None)" "rc = 0 \<Longrightarrow> disk s' = disk s"
    "at s f = Some (p, k, False) \<Longrightarrow> disk s' = disk s"
    "at s f = Some (p, k, True) \<Longrightarrow> q \<noteq> p \<Longrightarrow> disk s' q = disk s q"
    by simp_all
qed

lemma has_roomD:
  assumes "has_room F at p room"
  shows "at s f = None \<Longrightarrow> 0 < room s \<Longrightarrow> fs_open F f p [FS_O_CREATE, FS_O_WRITE, FS_O_TRUNC] s = ((rc, mp), s') \<Longrightarrow>
      rc = 0 \<and> room s \<le> room s'"
    "at s f = Some (p, k, True) \<Longrightarrow> length d < room s \<Longrightarrow> fs_write F f d s = (n, s') \<Longrightarrow>
      n = int (length d) \<and> room s \<le> room s' + length d"
    "at s f = Some (p, k, True) \<Longrightarrow> 0 < room s \<Longrightarrow> fs_sync F f s = (rc, s') \<Longrightarrow> rc = 0 \<and> room s \<le> room s'"
    "at s f = Some (p, k, True) \<Longrightarrow> 0 < room s \<Longrightarrow> fs_close F f s = (rc, s') \<Longrightarrow> rc = 0"
  using assms unfolding has_room_def by (metis (no_types))+

lemma reads_wellD:
  assumes "reads_well F disk at"
  shows "at s f = None \<Longrightarrow> disk s p = Some c \<Longrightarrow> fs_open F f p [FS_O_READ] s = ((rc, mp), s') \<Longrightarrow> rc = 0"
    "at s f = Some (p, k, False) \<Longrightarrow> disk s p = Some c \<Longrightarrow> fs_read F f n s = ((m, d), s') \<Longrightarrow> 0 \<le> m"
    "at s f = Some (p, k, False) \<Longrightarrow> fs_close F f s = (rc, s') \<Longrightarrow> rc = 0"
  using assms unfolding reads_well_def by (metis fst_conv option.distinct(1))+

section \<open>Generating\<close>

text \<open>
  The write loop on the one open file: whatever fails, no other file is touched; when it succeeds the
  rest of the pattern has been appended.
\<close>

lemma generate_loop_run:
  assumes fs: "file_system F disk at" and crc: "crc_continues L"
  shows "at (svc w) = Map.empty(File \<mapsto> (p, length c, True)) \<Longrightarrow> disk (svc w) p = Some c \<Longrightarrow> off \<le> sz \<Longrightarrow>
    \<exists>r x' w'. run_state (generate_loop F L sz off x) w = ((r, x'), w') \<and>
      (\<exists>k. at (svc w') = Map.empty(File \<mapsto> (p, k, True))) \<and> (\<forall>q. q \<noteq> p \<longrightarrow> disk (svc w') q = disk (svc w) q) \<and>
      (r = 0 \<longrightarrow> disk (svc w') p = Some (c @ pattern_chunk off (sz - off)) \<and>
        x' = crc32_ieee_update L x (pattern_chunk off (sz - off))) \<and>
      (has_room F at p room \<longrightarrow> sz - off < room (svc w) \<longrightarrow> r = 0 \<and> 0 < room (svc w'))"
proof (induction "sz - off" arbitrary: off x w c rule: less_induct)
  case less
  show ?case
  proof (cases "off < sz")
    case False
    with less.prems have "off = sz" by simp
    with less.prems crc show ?thesis
      by (auto simp: generate_loop.simps [of F L sz sz x] crc_continues_def pattern_chunk_def)
  next
    case True
    define n where "n = min DATA_SIZE (sz - off)"
    define d where "d = pattern_chunk off n"
    obtain m s' where wr: "fs_write F File d (svc w) = (m, s')" by fastforce
    have n: "0 < n" "n \<le> sz - off" "length d = n" using True by (simp_all add: n_def d_def DATA_SIZE_def)
    have a: "at (svc w) File = Some (p, length c, True)" using less.prems(1) by simp
    note D = fs_writeD [OF fs a less.prems(2) wr]
    have run: "run_state (generate_loop F L sz off x) w =
        (if m \<noteq> int n then ((- EIO, x), w\<lparr>svc := s'\<rparr>)
         else run_state (generate_loop F L sz (off + n) (crc32_ieee_update L x d)) (w\<lparr>svc := s'\<rparr>))"
      using True by (simp add: generate_loop.simps [of F L sz off x] n_def [symmetric] d_def [symmetric] wr Let_def)
    have room: "m = int n \<and> room (svc w) \<le> room s' + n" if "has_room F at p room" "sz - off < room (svc w)"
      using has_roomD(2) [OF that(1) a _ wr] that(2) n by simp
    have left: "sz - (off + n) < room s'" if "has_room F at p room" "sz - off < room (svc w)"
      using room [OF that] that(2) n(2) by linarith
    show ?thesis
    proof (cases "m = int n")
      case False
      have "\<exists>k. at s' = Map.empty(File \<mapsto> (p, k, True))" using D(3) unfolding less.prems(1) fun_upd_upd .
      then show ?thesis using False room D(2) unfolding run by auto
    next
      case m: True
      have "at s' = Map.empty(File \<mapsto> (p, length c + nat m, True))"
        using D(4) m unfolding less.prems(1) fun_upd_upd by simp
      then have s': "at s' = Map.empty(File \<mapsto> (p, length (c @ d), True))" "disk s' p = Some (c @ d)"
        using D(5) m n(3) by simp_all
      have e: "pattern_chunk off (sz - off) = d @ pattern_chunk (off + n) (sz - (off + n))"
        "crc32_ieee_update L (crc32_ieee_update L x d) y = crc32_ieee_update L x (d @ y)" for y
        using pattern_chunk_split [OF n(2)] crc by (simp_all add: d_def crc_continues_def)
      have small: "sz - (off + n) < sz - off" "off + n \<le> sz" using n True by auto
      obtain r x' w' where ih: "run_state (generate_loop F L sz (off + n) (crc32_ieee_update L x d)) (w\<lparr>svc := s'\<rparr>) = ((r, x'), w')"
        "\<exists>k. at (svc w') = Map.empty(File \<mapsto> (p, k, True))" "\<forall>q. q \<noteq> p \<longrightarrow> disk (svc w') q = disk s' q"
        "r = 0 \<longrightarrow> disk (svc w') p = Some ((c @ d) @ pattern_chunk (off + n) (sz - (off + n))) \<and>
          x' = crc32_ieee_update L (crc32_ieee_update L x d) (pattern_chunk (off + n) (sz - (off + n)))"
        "has_room F at p room \<longrightarrow> sz - (off + n) < room s' \<longrightarrow> r = 0 \<and> 0 < room (svc w')"
        using less.hyps [OF small(1), of "w\<lparr>svc := s'\<rparr>" "c @ d" "crc32_ieee_update L x d", OF _ _ small(2)] s'
        by simp blast
      show ?thesis
        using ih m D(2) left unfolding run e by (intro exI [of _ r] exI [of _ x'] exI [of _ w']) simp
    qed
  qed
qed

text \<open>What closing the file that was written leaves, for either diagnostic.\<close>

lemma finish_writing:
  assumes fs: "file_system F disk at" and a: "at s = Map.empty(f \<mapsto> (p, k, True))"
    and run: "fs_sync F f s = (r1, s1)" "fs_close F f s1 = (r2, s2)"
  shows "at s2 = Map.empty" "q \<noteq> p \<Longrightarrow> disk s2 q = disk s q" "r1 = 0 \<Longrightarrow> r2 = 0 \<Longrightarrow> disk s2 = disk s"
    "has_room F at p room \<Longrightarrow> 0 < room s \<Longrightarrow> r1 = 0 \<and> r2 = 0"
proof -
  have a1: "at s1 = Map.empty(f \<mapsto> (p, k, True))" using fs_syncD(1) [OF fs run(1)] a by simp
  show "at s2 = Map.empty" using fs_closeD(2) [OF fs run(2)] a1 by simp
  show "q \<noteq> p \<Longrightarrow> disk s2 q = disk s q"
    using fs_syncD(3) [OF fs run(1)] fs_closeD(5) [OF fs run(2)] a a1 by simp
  show "r1 = 0 \<Longrightarrow> r2 = 0 \<Longrightarrow> disk s2 = disk s"
    using fs_syncD(2) [OF fs run(1)] fs_closeD(3) [OF fs run(2)] by simp
  assume r: "has_room F at p room" "0 < room s"
  have "at s f = Some (p, k, True)" using a by simp
  then have "r1 = 0 \<and> room s \<le> room s1" by (rule has_roomD(3) [OF r(1) _ r(2) run(1)])
  moreover have "at s1 f = Some (p, k, True)" using a1 by simp
  ultimately show "r1 = 0 \<and> r2 = 0" using has_roomD(4) [OF r(1) _ _ run(2), of k] r(2) by simp
qed

lemma close_writing:
  assumes "file_system F disk at" "at s = Map.empty(f \<mapsto> (p, k, True))" "fs_close F f s = (rc, s')"
  shows "at s' = Map.empty" "q \<noteq> p \<Longrightarrow> disk s' q = disk s q"
  using fs_closeD(2,5) [OF assms(1,3)] assms(2) by auto

section \<open>Comparing\<close>

lemma take_chunk_eq:
  "length (take n xs) = length (take n ys) \<Longrightarrow> take n xs = take n ys \<Longrightarrow> (xs = ys) = (drop n xs = drop n ys)"
  by (metis append_take_drop_id)

lemma last_chunk:
  "xs = [] \<or> take DATA_SIZE xs \<noteq> take DATA_SIZE ys \<Longrightarrow> (xs = ys) = (xs = [] \<and> take DATA_SIZE xs = take DATA_SIZE ys)"
  by (auto simp: DATA_SIZE_def)

lemma buffer_text:
  assumes "take DATA_SIZE d = take DATA_SIZE (zs :: u8 list)"
  shows "take (length (take DATA_SIZE zs)) d = take DATA_SIZE zs"
proof -
  have "take (length (take DATA_SIZE zs)) d = take (length (take DATA_SIZE zs)) (take DATA_SIZE d)"
    by (simp add: take_take min_def)
  then show ?thesis by (simp add: assms min_def)
qed

text \<open>The two files open for reading, at their positions, and no other.\<close>

abbreviation reading :: "string \<Rightarrow> nat \<Rightarrow> string \<Rightarrow> nat \<Rightarrow> fs_file \<Rightarrow> (string \<times> nat \<times> bool) option" where
  "reading p k q m \<equiv> Map.empty(First \<mapsto> (p, k, False), Second \<mapsto> (q, m, False))"

lemma reading_moves:
  "(reading p k q m)(First \<mapsto> (p, j, False)) = reading p j q m"
  "(reading p k q m)(Second \<mapsto> (q, j, False)) = reading p k q j"
  by (simp_all add: fun_eq_iff)

text \<open>One pass of the loop: a read fails and ends it, or both files move on by what was read.\<close>

lemma compare_loop_step:
  assumes fs: "file_system F disk at" and at: "at s = reading p k q m"
    and files: "disk s p = Some a" "disk s q = Some b"
  defines "xs \<equiv> drop k a" and "ys \<equiv> drop m b"
  obtains (failed) e s2 k' m' where "compare_loop F s = Some (e, s2)" "e < 0" "\<not> reads_well F disk at"
      "disk s2 = disk s" "at s2 = reading p k' q m'"
    | (moved) s2 where "compare_loop F s =
        (if take DATA_SIZE xs \<noteq> take DATA_SIZE ys then Some (- EILSEQ, s2)
         else if xs = [] then Some (0, s2) else compare_loop F s2)"
      "disk s2 = disk s" "at s2 = reading p (k + length (take DATA_SIZE xs)) q (m + length (take DATA_SIZE ys))"
proof -
  obtain n1 d1 s1 where r1: "fs_read F First DATA_SIZE s = ((n1, d1), s1)" by (metis prod.exhaust)
  obtain n2 d2 s2 where r2: "fs_read F Second DATA_SIZE s1 = ((n2, d2), s2)" by (metis prod.exhaust)
  have a1: "at s First = Some (p, k, False)" "\<forall>g j. at s g \<noteq> Some (p, j, True)"
    using at by (auto simp: fun_upd_def split: if_splits)
  note D1 = fs_readD [OF fs a1(1) files(1) a1(2) r1]
  obtain k' where k': "at s1 = reading p k' q m" using D1(2) unfolding at reading_moves by blast
  have a2: "at s1 Second = Some (q, m, False)" "\<forall>g j. at s1 g \<noteq> Some (q, j, True)" "disk s1 q = Some b"
    using k' D1(1) files(2) by (auto simp: fun_upd_def split: if_splits)
  note D2 = fs_readD [OF fs a2(1,3,2) r2]
  obtain m' where m': "at s2 = reading p k' q m'" using D2(2) unfolding k' reading_moves by blast
  show thesis
  proof (cases "n1 < 0 \<or> n2 < 0")
    case True
    have "compare_loop F s = Some (if n1 < 0 then n1 else n2, s2)"
      using True by (simp add: compare_loop.simps [of F s] r1 r2)
    moreover have "\<not> reads_well F disk at"
    proof
      assume w: "reads_well F disk at"
      have "0 \<le> fst (fst (fs_read F First DATA_SIZE s))" "0 \<le> fst (fst (fs_read F Second DATA_SIZE s1))"
        using reads_wellD(2) [OF w a1(1) files(1) r1] reads_wellD(2) [OF w a2(1,3) r2] by (simp_all add: r1 r2)
      with True show False by (simp add: r1 r2)
    qed
    ultimately show thesis using True failed [of "if n1 < 0 then n1 else n2" s2 k' m'] D1(1) D2(1) m' by auto
  next
    case False
    then have pos: "0 \<le> n1" "0 \<le> n2" by auto
    have n1: "n1 = int (length (take DATA_SIZE xs))" "take DATA_SIZE d1 = take DATA_SIZE xs"
        "at s1 = (at s)(First \<mapsto> (p, k + nat n1, False))"
      using D1(3-5) [OF pos(1)] unfolding xs_def by blast+
    have n2: "n2 = int (length (take DATA_SIZE ys))" "take DATA_SIZE d2 = take DATA_SIZE ys"
        "at s2 = (at s1)(Second \<mapsto> (q, m + nat n2, False))"
      using D2(3-5) [OF pos(2)] unfolding ys_def by blast+
    have at2: "at s2 = reading p (k + length (take DATA_SIZE xs)) q (m + length (take DATA_SIZE ys))"
      unfolding n2(3) n1(3) at reading_moves n1(1) n2(1) nat_int ..
    have "compare_loop F s =
        (if take DATA_SIZE xs \<noteq> take DATA_SIZE ys then Some (- EILSEQ, s2)
         else if xs = [] then Some (0, s2) else compare_loop F s2)"
    proof (cases "length (take DATA_SIZE xs) = length (take DATA_SIZE ys)")
      case len: False
      then have "take DATA_SIZE xs \<noteq> take DATA_SIZE ys" by metis
      moreover have "compare_loop F s = Some (- EILSEQ, s2)"
        using len unfolding compare_loop.simps [of F s] Let_def r1 r2 fst_conv snd_conv n1(1) n2(1) by simp
      ultimately show ?thesis by simp
    next
      case len: True
      have "xs = [] \<longleftrightarrow> length (take DATA_SIZE xs) = 0" by (auto simp: DATA_SIZE_def min_def)
      moreover have "\<not> int DATA_SIZE < int (length (take DATA_SIZE xs))" by simp
      ultimately show ?thesis
        unfolding compare_loop.simps [of F s] Let_def r1 r2 fst_conv snd_conv n1(1) n2(1) nat_int
          buffer_text [OF n1(2)] buffer_text [OF n2(2), folded len]
        by (simp only: len if_False refl not_True_eq_False of_nat_less_0_iff simp_thms of_nat_eq_0_iff)
    qed
    then show thesis using moved at2 D1(1) D2(1) by simp
  qed
qed

lemma pick_branch:
  "(e \<longrightarrow> n) \<Longrightarrow> (if \<not> e then Some (y, s) else if n then Some (x, s) else z) = Some (if n \<and> e then x else y, s)"
  by auto

lemma drop_chunk: "drop (k + length (take DATA_SIZE (drop k zs))) zs = drop DATA_SIZE (drop k zs)"
  by (auto simp: add.commute min_def)

lemma length_drop_chunk: "drop k zs \<noteq> [] \<Longrightarrow> length (drop DATA_SIZE (drop k zs)) < length (drop k zs)"
  by (simp add: DATA_SIZE_def)

text \<open>The comparison ends; 0 means that the rests of the two files are the same.\<close>

lemma compare_loop_run:
  assumes fs: "file_system F disk at"
  shows "at s = reading p k q m \<Longrightarrow> disk s p = Some a \<Longrightarrow> disk s q = Some b \<Longrightarrow>
    \<exists>rc s' k' m'. compare_loop F s = Some (rc, s') \<and> disk s' = disk s \<and> at s' = reading p k' q m' \<and>
      (if reads_well F disk at then rc = (if drop k a = drop m b then 0 else - EILSEQ) else rc = 0 \<longrightarrow> drop k a = drop m b)"
proof (induction "length (drop k a)" arbitrary: s k m rule: less_induct)
  case less
  let ?xs = "drop k a" and ?ys = "drop m b"
  show ?case
  proof (cases rule: compare_loop_step [OF fs less.prems])
    case (1 e s2 k' m')
    then show ?thesis by auto
  next
    case (2 s2)
    show ?thesis
    proof (cases "take DATA_SIZE ?xs = take DATA_SIZE ?ys \<and> ?xs \<noteq> []")
      case False
      then have "?xs = ?ys \<longleftrightarrow> ?xs = [] \<and> take DATA_SIZE ?xs = take DATA_SIZE ?ys"
        by (intro last_chunk) blast
      moreover have "compare_loop F s = Some (if ?xs = [] \<and> take DATA_SIZE ?xs = take DATA_SIZE ?ys then 0 else - EILSEQ, s2)"
        unfolding 2(1) by (rule pick_branch) (use False in blast)
      ultimately have "compare_loop F s = Some (if ?xs = ?ys then 0 else - EILSEQ, s2)" by simp
      then show ?thesis using 2(2,3) by (auto simp: errno_defs)
    next
      case True
      have small: "length (drop (k + length (take DATA_SIZE ?xs)) a) < length ?xs"
        unfolding drop_chunk using length_drop_chunk [OF conjunct2 [OF True]] .
      have e: "(?xs = ?ys) = (drop DATA_SIZE ?xs = drop DATA_SIZE ?ys)"
        using True by (intro take_chunk_eq) simp_all
      have "compare_loop F s = compare_loop F s2" using True by (simp only: 2(1) simp_thms if_False)
      then show ?thesis
        using less.hyps [OF small 2(3)] 2(2) less.prems(2,3) unfolding drop_chunk e by simp
    qed
  qed
qed

section \<open>The stored value\<close>

lemma storage_write_run:
  assumes fs: "file_system F disk at" and idle: "at (svc w) = Map.empty"
    and run: "run_state (storage_diagnostic_write F path v) w = (r, w1)"
  shows "q \<noteq> path \<Longrightarrow> disk (svc w1) q = disk (svc w) q" "at (svc w1) = Map.empty"
    "r = 0 \<Longrightarrow> disk (svc w1) path = Some (bytes_of v)"
    "has_room F at path room \<Longrightarrow> length v < room (svc w) \<Longrightarrow> r = 0"
proof -
  let ?fl = "[FS_O_CREATE, FS_O_WRITE, FS_O_TRUNC]"
  obtain rc mp s1 where op: "fs_open F File path ?fl (svc w) = ((rc, mp), s1)" by (metis prod.exhaust)
  obtain n s2 where wr: "fs_write F File (bytes_of v) s1 = (n, s2)" by fastforce
  obtain e s3 where sy: "fs_sync F File s2 = (e, s3)" by fastforce
  obtain e' s4 where cl: "fs_close F File s3 = (e', s4)" by fastforce
  obtain e'' s5 where cl2: "fs_close F File s2 = (e'', s5)" by fastforce
  note O = fs_openD [OF fs op]
  have room: "rc = 0 \<and> room (svc w) \<le> room s1" if "has_room F at path room" "length v < room (svc w)"
    using has_roomD(1) [OF that(1) _ _ op] that(2) idle by simp
  have P: "(q \<noteq> path \<longrightarrow> disk (svc w1) q = disk (svc w) q) \<and> at (svc w1) = Map.empty \<and>
    (r = 0 \<longrightarrow> disk (svc w1) path = Some (bytes_of v)) \<and>
    (has_room F at path room \<longrightarrow> length v < room (svc w) \<longrightarrow> r = 0)"
  proof (cases "rc = 0")
    case False
    then show ?thesis using O room run idle by (auto simp: storage_diagnostic_write_def op)
  next
    case True
    then have s1: "at s1 = Map.empty(File \<mapsto> (path, 0, True))" "disk s1 = (disk (svc w))(path \<mapsto> [])"
      using O idle by simp_all
    have a1: "at s1 File = Some (path, 0, True)" "disk s1 path = Some []" using s1 by simp_all
    note D = fs_writeD [OF fs a1 wr]
    obtain j where a2: "at s2 = Map.empty(File \<mapsto> (path, j, True))" using D(3) unfolding s1(1) fun_upd_upd by blast
    note C = finish_writing [OF fs a2 sy cl] and C2 = close_writing [OF fs a2 cl2]
    have wroom: "n = int (length v) \<and> 0 < room s2" if "has_room F at path room" "length v < room (svc w)"
    proof -
      have "n = int (length (bytes_of v)) \<and> room s1 \<le> room s2 + length (bytes_of v)"
        using has_roomD(2) [OF that(1) a1(1) _ wr] that(2) room [OF that] by simp
      then show ?thesis using that(2) room [OF that] by simp
    qed
    show ?thesis
    proof (cases "n = int (length v)")
      case n: True
      have "r = (if e \<noteq> 0 then e else e')" "w1 = w\<lparr>svc := s4\<rparr>"
        using run True n by (cases "e = 0"; simp add: storage_diagnostic_write_def op wr sy cl)+
      then show ?thesis using C(1,2,3) C(4) [of room] D(2,5) n s1(2) wroom by auto
    next
      case n: False
      have "r = (if n < 0 then n else - EIO)" "w1 = w\<lparr>svc := s5\<rparr>"
        using run True n by (simp_all add: storage_diagnostic_write_def op wr cl2 split: if_splits)
      then show ?thesis using C2 D(2) n s1(2) wroom by (auto split: if_splits)
    qed
  qed
  show "q \<noteq> path \<Longrightarrow> disk (svc w1) q = disk (svc w) q" "at (svc w1) = Map.empty"
    "r = 0 \<Longrightarrow> disk (svc w1) path = Some (bytes_of v)"
    "has_room F at path room \<Longrightarrow> length v < room (svc w) \<Longrightarrow> r = 0"
    using P by blast+
qed

lemma storage_read_run:
  assumes fs: "file_system F disk at" and idle: "at (svc w) = Map.empty" and c: "disk (svc w) path = Some (bytes_of v)"
    and run: "run_state (storage_diagnostic_read F path e) w = (rc, w2)"
  shows "disk (svc w2) = disk (svc w) \<and>
    (if 48 < length e then rc = - EMSGSIZE
     else (rc = 0 \<longrightarrow> e = v) \<and> (reads_well F disk at \<longrightarrow> rc = (if e = v then 0 else - EIO)))"
proof (cases "48 < length e")
  case True
  then show ?thesis using run by (simp add: storage_diagnostic_read_def KFSW_STORAGE_DIAGNOSTIC_VALUE_MAX_SIZE_def)
next
  case short: False
  have N: "KFSW_STORAGE_DIAGNOSTIC_VALUE_MAX_SIZE = 48" by (simp add: KFSW_STORAGE_DIAGNOSTIC_VALUE_MAX_SIZE_def)
  obtain r1 mp s1 where op: "fs_open F File path [FS_O_READ] (svc w) = ((r1, mp), s1)" by (metis prod.exhaust)
  obtain n d s2 where rd: "fs_read F File 49 s1 = ((n, d), s2)" by (metis prod.exhaust)
  obtain cr s3 where cl: "fs_close F File s2 = (cr, s3)" by fastforce
  note O = fs_openD [OF fs op]
  have w0: "r1 = 0" if "reads_well F disk at"
    using reads_wellD(1) [OF that _ c op] idle by simp
  show ?thesis
  proof (cases "r1 = 0")
    case False
    then show ?thesis
      using run O short w0
      by (auto simp: storage_diagnostic_read_def N op)
  next
    case True
    then have s1: "at s1 = Map.empty(File \<mapsto> (path, 0, False))" "disk s1 = disk (svc w)"
      using O idle c by simp_all
    have a1: "at s1 File = Some (path, 0, False)" "disk s1 path = Some (bytes_of v)" "\<forall>g j. at s1 g \<noteq> Some (path, j, True)"
      using s1 c by (auto simp: fun_upd_def split: if_splits)
    note D = fs_readD [OF fs a1 rd, unfolded drop_0]
    obtain j where a2: "at s2 File = Some (path, j, False)" using D(2) by auto
    have d3: "disk s3 = disk (svc w)" using fs_closeD(4) [OF fs cl a2] D(1) s1(2) by simp
    define result where "result = (if n < 0 then n else if n \<noteq> int (length e) then - EIO
        else if take (length e) d \<noteq> bytes_of e then - EIO else 0)"
    have r: "rc = (if result \<noteq> 0 then result else cr)" "w2 = w\<lparr>svc := s3\<rparr>"
      using run True short unfolding storage_diagnostic_read_def N result_def Let_def
      by (simp_all add: op rd cl split: if_splits)
    have well: "0 \<le> n \<and> cr = 0" if "reads_well F disk at"
      using reads_wellD(2) [OF that a1(1,2) rd] reads_wellD(3) [OF that a2 cl] by simp
    have same: "result = (if e = v then 0 else - EIO)" if "0 \<le> n"
    proof (cases "length e = length v")
      case len: True
      have "take (length e) d = take (length e) (take 49 d)"
        using short by (simp add: take_take min_def N)
      also have "\<dots> = bytes_of v"
        using D(4) that len short by (simp add: N)
      finally show ?thesis
        using D(3) that len short
        by (auto simp: result_def bytes_of_inject N)
    next
      case len: False
      then have "e \<noteq> v" "n \<noteq> int (length e)"
        using D(3) that short by (auto simp: N)
      then show ?thesis using that by (simp add: result_def)
    qed
    have "rc = 0 \<longrightarrow> e = v" using r(1) same by (cases "n < 0") (auto simp: result_def split: if_splits)
    moreover have "reads_well F disk at \<longrightarrow> rc = (if e = v then 0 else - EIO)"
    proof
      assume w: "reads_well F disk at"
      show "rc = (if e = v then 0 else - EIO)" unfolding r(1) same [OF conjunct1 [OF well [OF w]]] by (simp add: well [OF w])
    qed
    moreover have "disk (svc w2) = disk (svc w)" using d3 by (simp add: r(2))
    ultimately show ?thesis unfolding if_not_P [OF short] by (intro conjI)
  qed
qed

section \<open>Properties\<close>

text \<open>
  C18. Generating a file of \<open>size\<close> bytes, on a file system any operation of which may fail: no other file
  is touched. When the result is 0 the file the path resolves to holds exactly the \<open>size\<close> bytes of the
  pattern, byte \<open>i\<close> being \<open>31 i + 7\<close> modulo 256, and the checksum reported is that of these bytes; otherwise no
  checksum is reported. The result is 0 whenever the file system has room for the file.
\<close>

theorem ftp_generate_writes_pattern:
  assumes fs: "file_system F disk at" and crc: "crc_continues L"
    and path: "resolve_ftp_local_path L path FULL_PATH_SIZE = (0, full)" and idle: "at (svc w) = Map.empty"
  shows "let pattern = map (\<lambda>i. of_nat (31 * i + 7)) [0..<unat sz] in
    \<exists>r x w'. run_state (ftp_diagnostic_generate F L path sz) w = ((r, x), w') \<and>
    (\<forall>q. q \<noteq> full \<longrightarrow> disk (svc w') q = disk (svc w) q) \<and>
    (if r = 0 then disk (svc w') full = Some pattern \<and> x = Some (crc32_ieee_update L 0 pattern) else x = None) \<and>
    (has_room F at full room \<longrightarrow> unat sz < room (svc w) \<longrightarrow> r = 0)"
proof -
  let ?fl = "[FS_O_CREATE, FS_O_WRITE, FS_O_TRUNC]"
  define pattern :: "u8 list" where "pattern = map (\<lambda>i. of_nat (31 * i + 7)) [0..<unat sz]"
  have pat: "pattern_chunk 0 (unat sz) = pattern" by (simp add: pattern_chunk_def pattern_byte_def pattern_def ac_simps)
  obtain rc mp s1 where op: "fs_open F File full ?fl (svc w) = ((rc, mp), s1)" by (metis prod.exhaust)
  note O = fs_openD [OF fs op]
  have room: "rc = 0 \<and> room (svc w) \<le> room s1" if "has_room F at full room" "unat sz < room (svc w)"
    using has_roomD(1) [OF that(1) _ _ op] that(2) idle by simp
  have "\<exists>r x w'. run_state (ftp_diagnostic_generate F L path sz) w = ((r, x), w') \<and>
    (\<forall>q. q \<noteq> full \<longrightarrow> disk (svc w') q = disk (svc w) q) \<and>
    (if r = 0 then disk (svc w') full = Some pattern \<and> x = Some (crc32_ieee_update L 0 pattern) else x = None) \<and>
    (has_room F at full room \<longrightarrow> unat sz < room (svc w) \<longrightarrow> r = 0)"
  proof (cases "rc = 0")
    case False
    then show ?thesis
      using O room by (auto simp: ftp_diagnostic_generate_def path op close_if_def)
  next
    case True
    then have s1: "mp" "at s1 = Map.empty(File \<mapsto> (full, length [], True))" "disk s1 = (disk (svc w))(full \<mapsto> [])"
      using O idle by simp_all
    obtain r x w2 where lp: "run_state (generate_loop F L (unat sz) 0 0) (w\<lparr>svc := s1\<rparr>) = ((r, x), w2)"
      and k: "\<exists>k. at (svc w2) = Map.empty(File \<mapsto> (full, k, True))"
      and d2: "\<forall>q. q \<noteq> full \<longrightarrow> disk (svc w2) q = disk s1 q"
        "r = 0 \<longrightarrow> disk (svc w2) full = Some pattern \<and> x = crc32_ieee_update L 0 pattern"
        "has_room F at full room \<longrightarrow> unat sz < room s1 \<longrightarrow> r = 0 \<and> 0 < room (svc w2)"
      using generate_loop_run [OF fs crc, of "w\<lparr>svc := s1\<rparr>" full "[]" 0 "unat sz" 0 room] s1(2,3) pat by auto
    obtain k where a2: "at (svc w2) = Map.empty(File \<mapsto> (full, k, True))" using k by blast
    have other: "disk (svc w2) q = disk (svc w) q" if "q \<noteq> full" for q using d2(1) s1(3) that by simp
    show ?thesis
    proof (cases "r = 0")
      case r: False
      obtain e s3 where cl: "fs_close F File (svc w2) = (e, s3)" by fastforce
      have "run_state (ftp_diagnostic_generate F L path sz) w = ((r, None), w2\<lparr>svc := s3\<rparr>)"
        using r True s1(1) by (simp add: ftp_diagnostic_generate_def path op lp close_if_def cl)
      then show ?thesis using r close_writing [OF fs a2 cl] other d2(3) room by auto
    next
      case r: True
      obtain e s3 where sy: "fs_sync F File (svc w2) = (e, s3)" by fastforce
      obtain e' s4 where cl: "fs_close F File s3 = (e', s4)" by fastforce
      note D = finish_writing [OF fs a2 sy cl]
      have "run_state (ftp_diagnostic_generate F L path sz) w =
          (let f = if e = 0 then e' else e in (f, if f = 0 then Some x else None), w2\<lparr>svc := s4\<rparr>)"
        using r True s1(1) by (simp add: ftp_diagnostic_generate_def path op lp close_if_def sy cl Let_def)
      then show ?thesis
        using D(2,3) D(4) [of room] d2 r room other by (auto simp: Let_def)
    qed
  qed
  then show ?thesis unfolding pattern_def Let_def .
qed


text \<open>
  C19. A value written to a file reads back, on a file system any operation of which may fail: writing
  touches no other file, and when \<^verbatim>\<open>storage_diagnostic_write\<close> of \<open>v\<close> returns 0, as it does when there is room,
  the file holds \<open>v\<close>. A following \<^verbatim>\<open>storage_diagnostic_read\<close> changes no file and gives \<^verbatim>\<open>-EMSGSIZE\<close> for an
  expectation of more than 48 characters; it returns 0 for no other expectation than \<open>v\<close>, and on a medium
  that reads without failures it returns 0 for \<open>v\<close> and \<^verbatim>\<open>-EIO\<close> for any other.
\<close>

theorem storage_round_trip:
  assumes fs: "file_system F disk at" and idle: "at (svc w) = Map.empty"
  shows "\<exists>r w1 rc w2. run_state (storage_diagnostic_write F path v) w = (r, w1) \<and>
    run_state (storage_diagnostic_read F path e) w1 = (rc, w2) \<and>
    (\<forall>q. q \<noteq> path \<longrightarrow> disk (svc w1) q = disk (svc w) q) \<and>
    (has_room F at path room \<longrightarrow> length v < room (svc w) \<longrightarrow> r = 0) \<and>
    (r = 0 \<longrightarrow> disk (svc w1) path = Some (bytes_of v) \<and> disk (svc w2) = disk (svc w1) \<and>
      (if 48 < length e then rc = - EMSGSIZE
       else (rc = 0 \<longrightarrow> e = v) \<and> (reads_well F disk at \<longrightarrow> rc = (if e = v then 0 else - EIO))))"
proof -
  obtain r w1 where wr: "run_state (storage_diagnostic_write F path v) w = (r, w1)" by fastforce
  obtain rc w2 where rd: "run_state (storage_diagnostic_read F path e) w1 = (rc, w2)" by fastforce
  note W = storage_write_run [OF fs idle wr]
  have "r = 0 \<longrightarrow> disk (svc w1) path = Some (bytes_of v) \<and> disk (svc w2) = disk (svc w1) \<and>
      (if 48 < length e then rc = - EMSGSIZE
       else (rc = 0 \<longrightarrow> e = v) \<and> (reads_well F disk at \<longrightarrow> rc = (if e = v then 0 else - EIO)))"
    using storage_read_run [OF fs W(2,3) rd] W(3) by blast
  then show ?thesis using W(1,4) wr rd by blast
qed

text \<open>
  A file system in memory for the witnesses: the files, the file objects in use, and the number of bytes
  that can still be written.
\<close>

type_synonym memory = "(string \<Rightarrow> u8 list option) \<times> (fs_file \<Rightarrow> (string \<times> nat \<times> bool) option) \<times> nat"

definition memory_open :: "fs_file \<Rightarrow> string \<Rightarrow> fs_flag list \<Rightarrow> memory \<Rightarrow> (int \<times> bool) \<times> memory" where
  "memory_open f p fl = (\<lambda>(files, at, room).
     if at f \<noteq> None then ((- EBUSY, False), (files, at, room))
     else if files p = None \<and> FS_O_CREATE \<notin> set fl then ((- ENOENT, False), (files, at, room))
     else if FS_O_CREATE \<in> set fl \<and> room = 0 then ((- ENOSPC, False), (files, at, room))
     else ((0, True), (if files p = None \<or> FS_O_TRUNC \<in> set fl then files(p \<mapsto> []) else files,
       at(f \<mapsto> (p, 0, FS_O_WRITE \<in> set fl)), room)))"

definition memory_read :: "fs_file \<Rightarrow> nat \<Rightarrow> memory \<Rightarrow> (int \<times> u8 list) \<times> memory" where
  "memory_read f n = (\<lambda>(files, at, room). case at f of
       Some (p, k, False) \<Rightarrow> (case files p of
           Some c \<Rightarrow> let d = take n (drop k c) in ((int (length d), d), (files, at(f \<mapsto> (p, k + length d, False)), room))
         | None \<Rightarrow> ((- EIO, []), (files, at, room)))
     | _ \<Rightarrow> ((- EINVAL, []), (files, at, room)))"

definition memory_write :: "fs_file \<Rightarrow> u8 list \<Rightarrow> memory \<Rightarrow> int \<times> memory" where
  "memory_write f d = (\<lambda>(files, at, room). case at f of
       Some (p, k, True) \<Rightarrow> let c = (case files p of None \<Rightarrow> [] | Some c \<Rightarrow> c); m = min (length d) room in
         (int m, (files(p \<mapsto> take k c @ take m d @ drop (k + m) c), at(f \<mapsto> (p, k + m, True)), room - m))
     | _ \<Rightarrow> (- EINVAL, (files, at, room)))"

definition memory_fs :: "memory fs_services" where
  "memory_fs =
     \<lparr>fs_open = memory_open, fs_read = memory_read, fs_write = memory_write, fs_sync = (\<lambda>f s. (0, s)),
      fs_close = (\<lambda>f (files, at, room). (0, (files, at(f := None), room))),
      fs_unlink = (\<lambda>p (files, at, room). (0, (files(p := None), at, room)))\<rparr>"

definition memory_disk :: "memory disk" where "memory_disk = fst"

definition memory_at :: "memory handles" where "memory_at = (\<lambda>(files, at, room). at)"

definition memory_room :: "memory \<Rightarrow> nat" where "memory_room = (\<lambda>(files, at, room). room)"

definition sample_ftp_local :: ftp_local where
  "sample_ftp_local =
     \<lparr>kfsw_ftp_validate_path = (\<lambda>p d. if p = [] then - EINVAL else 0), KFSW_FTP_STORAGE_ROOT = ''/lfs'',
      crc32_ieee_update = (\<lambda>c xs. foldl (\<lambda>a x. 31 * a + ucast x) c xs)\<rparr>"

lemmas memory_defs = memory_fs_def memory_open_def memory_read_def memory_write_def memory_disk_def memory_at_def
  memory_room_def

lemma memory_file_system: "file_system memory_fs memory_disk memory_at"
proof -
  have "opens_files memory_fs memory_disk memory_at"
    by (auto simp: opens_files_def memory_defs errno_defs split: if_splits)
  moreover have "writes_files memory_fs memory_disk memory_at"
    by (auto simp: writes_files_def memory_defs Let_def split: option.splits bool.splits)
  moreover have "reads_files memory_fs memory_disk memory_at"
    by (auto simp: reads_files_def memory_defs Let_def split: option.splits bool.splits)
  moreover have "syncs_files memory_fs memory_disk memory_at" "closes_files memory_fs memory_disk memory_at"
    by (auto simp: syncs_files_def closes_files_def memory_defs)
  ultimately show ?thesis by (simp add: file_system_def)
qed

lemma memory_reads_well: "reads_well memory_fs memory_disk memory_at"
  by (auto simp: reads_well_def memory_defs Let_def split: option.splits bool.splits if_splits)

lemma memory_has_room: "has_room memory_fs memory_at p memory_room"
  unfolding has_room_def
proof (intro conjI allI impI)
  fix f d s k n s'
  assume "memory_at s f = Some (p, k, True)" "length d < memory_room s" "fs_write memory_fs f d s = (n, s')"
  then show "n = int (length d)" "memory_room s \<le> memory_room s' + length d"
    by (cases s; auto simp: memory_defs Let_def)+
qed (auto simp: memory_defs split: if_splits)

lemma sample_crc_continues: "crc_continues sample_ftp_local"
  by (simp add: crc_continues_def sample_ftp_local_def)

lemma sample_resolve:
  "resolve_ftp_local_path sample_ftp_local ''/a'' FULL_PATH_SIZE = (0, ''/lfs/a'')"
  "resolve_ftp_local_path sample_ftp_local ''b'' FULL_PATH_SIZE = (0, ''/lfs/b'')"
  by (simp_all add: resolve_ftp_local_path_def sample_ftp_local_def snprintf_def FULL_PATH_SIZE_def)

theorem ftp_generate_writes_pattern_witness:
  "memory_disk (svc (snd (run_state (ftp_diagnostic_generate memory_fs sample_ftp_local ''/a'' 200)
     \<lparr>svc = (Map.empty, Map.empty, 1000), out = []\<rparr>))) ''/lfs/a'' = Some (map (\<lambda>i. of_nat (31 * i + 7)) [0..<200])"
proof -
  let ?w = "\<lparr>svc = (Map.empty, Map.empty, 1000), out = []\<rparr>"
  have "memory_at (svc ?w) = Map.empty" "memory_room (svc ?w) = 1000" by (simp_all add: memory_defs)
  then show ?thesis
    using ftp_generate_writes_pattern [OF memory_file_system sample_crc_continues sample_resolve(1), of ?w 200 memory_room]
      memory_has_room [of "''/lfs/a''"]
    by (auto simp: Let_def)
qed


theorem storage_round_trip_witness:
  "\<exists>w1. run_state (storage_diagnostic_write memory_fs ''/p'' ''abc'') \<lparr>svc = (Map.empty, Map.empty, 10), out = []\<rparr> = (0, w1) \<and>
     fst (run_state (storage_diagnostic_read memory_fs ''/p'' ''abc'') w1) = 0"
proof -
  let ?w = "\<lparr>svc = (Map.empty, Map.empty, 10), out = []\<rparr>"
  have "memory_at (svc ?w) = Map.empty" "memory_room (svc ?w) = 10" by (simp_all add: memory_defs)
  then show ?thesis
    using storage_round_trip [OF memory_file_system, of ?w "''/p''" "''abc''" "''abc''" memory_room]
      memory_has_room [of "''/p''"] memory_reads_well
    by auto
qed

end
