(* ===== verification/Shell_Files.thy ===== *)
theory Shell_Files
  imports Shell_Walk Diagnostics
begin

text \<open>
  The file shell groups: \<^verbatim>\<open>src/app/src/shell/shell_ftp.c\<close> (directories, metadata and transfers on this
  or another node, and the local fixtures of the diagnostics) and
  \<^verbatim>\<open>src/app/src/shell/shell_storage.c\<close> (storage status and the storage test). The file transfer and
  storage services are parameters.
\<close>

section \<open>File transfer: data\<close>

datatype kfsw_ftp_entry_type = KFSW_FTP_ENTRY_FILE | KFSW_FTP_ENTRY_DIRECTORY

record kfsw_ftp_entry =
  e_type :: kfsw_ftp_entry_type
  e_size :: u32
  e_name :: string

record kfsw_ftp_stat_info =
  st_type :: kfsw_ftp_entry_type
  st_size :: u32
  st_crc32 :: u32

record kfsw_ftp_transfer_result =
  tr_bytes :: u32
  tr_crc32 :: u32
  tr_duration_ms :: u32

record 's ftp_services =
  ftp_csp_address :: "'s \<Rightarrow> u16"
  kfsw_ftp_list :: "u16 \<Rightarrow> string \<Rightarrow> 's \<Rightarrow> kfsw_ftp_entry visit \<times> 's"
  kfsw_ftp_stat :: "u16 \<Rightarrow> string \<Rightarrow> 's \<Rightarrow> (int \<times> kfsw_ftp_stat_info) \<times> 's"
  kfsw_ftp_mkdir :: "u16 \<Rightarrow> string \<Rightarrow> 's \<Rightarrow> int \<times> 's"
  kfsw_ftp_put :: "u16 \<Rightarrow> string \<Rightarrow> string \<Rightarrow> 's \<Rightarrow> (int \<times> kfsw_ftp_transfer_result) \<times> 's"
  kfsw_ftp_get :: "u16 \<Rightarrow> string \<Rightarrow> string \<Rightarrow> 's \<Rightarrow> (int \<times> kfsw_ftp_transfer_result) \<times> 's"

record ftp_build =
  KFSW_FTP_BOOT_PATH :: string
  KFSW_FTP_HK_PATH :: string
  KFSW_FBO_FTP_PATH :: string

record 's ftp_ctx =
  fx_B :: build
  fx_P :: ftp_build
  fx_E :: "'s shell_env"
  fx_F :: "'s fs_services"
  fx_L :: ftp_local
  fx_K :: "'s ftp_services"

section \<open>File transfer: helpers\<close>

definition file_kinds :: "ftp_build \<Rightarrow> (string \<times> string) list" where
  "file_kinds P = [(KFSW_FTP_BOOT_PATH P, ''img''), (KFSW_FTP_HK_PATH P, ''hk''), (KFSW_FBO_FTP_PATH P, ''proc'')]"

text \<open>Without a node, this one; the text is only read when it was given.\<close>

definition optional_node :: "'s ftp_ctx \<Rightarrow> bool \<Rightarrow> string list \<Rightarrow> ('s, (int \<times> u16) option) act" where
  "optional_node X given argv =
     (if given
      then with_argv argv 1 (\<lambda>txt. do { r \<leftarrow> kfsw_shell_parse_node (fx_B X) (fx_E X) txt 0; ret (Some r) })
      else do { a \<leftarrow> ask (ftp_csp_address (fx_K X)); ret (Some (0, a)) })"

definition is_number :: "'s shell_env \<Rightarrow> string \<Rightarrow> bool" where
  "is_number E txt \<longleftrightarrow> snd (shell_strtoul E txt 10) = 0"

text \<open>The two loops that take the slashes off both ends of the first \<open>n\<close> characters.\<close>

fun strip_front :: "string \<Rightarrow> string" where
  "strip_front [] = []"
| "strip_front (c # cs) = (if c = CHR ''/'' then strip_front cs else c # cs)"

definition strip_back :: "string \<Rightarrow> string" where
  "strip_back s = rev (strip_front (rev s))"

definition entry_kind :: "ftp_build \<Rightarrow> kfsw_ftp_entry_type \<Rightarrow> string \<Rightarrow> nat \<Rightarrow> string" where
  "entry_kind P type directory n =
     (if type = KFSW_FTP_ENTRY_DIRECTORY then ''dir''
      else case find (\<lambda>(d, k). d = strip_back (strip_front (take n directory))) (file_kinds P) of
          Some (d, k) \<Rightarrow> k
        | None \<Rightarrow> ''file'')"

text \<open>\<^verbatim>\<open>%-4s %10u %s\<close>; the context counts the entries.\<close>

definition print_ftp_entry :: "ftp_build \<Rightarrow> string \<Rightarrow> ('s, kfsw_ftp_entry, u32) callback" where
  "print_ftp_entry P path entry entries = do {
     shell_print (pad_right 4 (entry_kind P (e_type entry) path (length path)) @ '' '' @
       pad_left 10 (fmt_u (unat (e_size entry))) @ '' '' @ e_name entry);
     ret (Some (entries + 1, True))
   }"

definition print_ftp_error :: "string \<Rightarrow> u16 \<Rightarrow> string \<Rightarrow> int \<Rightarrow> ('s, int) act" where
  "print_ftp_error operation node path result =
     (let start = ''FTP '' @ operation @ '' '' @ fmt_u (unat node)
      in do {
        (if result = - ENOENT then shell_error (start @ '' '' @ path @ '': not found'')
         else if result = - EINVAL \<or> result = - EBADMSG
         then shell_error (start @ '' '' @ path @ '': invalid path/request ('' @ fmt_d result @ '')'')
         else if result = - ENOSPC then shell_error (start @ '' '' @ path @ '': not enough free space'')
         else if result = - EBUSY then shell_error (start @ '' '' @ path @ '': server busy'')
         else if result = - ENOTSUP then shell_error (start @ '': transfers need two nodes; use a remote node'')
         else if result = - EACCES then shell_error (start @ '' '' @ path @ '': service or storage not ready'')
         else if kfsw_shell_no_answer result
         then do { r \<leftarrow> kfsw_shell_remote_failed (snprintf 16 (''ftp '' @ operation)) node result; ret () }
         else shell_error (start @ '' '' @ path @ '': FAIL ('' @ fmt_d result @ '')''));
        ret result
      })"

section \<open>File transfer: operations\<close>

definition ftp_list :: "'s ftp_ctx \<Rightarrow> u16 \<Rightarrow> string \<Rightarrow> ('s, int option) act" where
  "ftp_list X node path = do {
     shell_print (''FTP ls '' @ fmt_u (unat node) @ '' '' @ (if path = [] then ''/'' else path));
     r \<leftarrow> visit_with (kfsw_ftp_list (fx_K X) node path) (print_ftp_entry (fx_P X) path) 0;
     case r of
       None \<Rightarrow> ret None
     | Some (result, entries) \<Rightarrow>
         if result \<noteq> 0 then lift_int (print_ftp_error ''ls'' node path result)
         else do { shell_print (''entries: '' @ fmt_u (unat entries)); ret (Some 0) }
   }"

text \<open>\<^verbatim>\<open>strrchr(path, '/')\<close>: how much of the path is before the last slash.\<close>

definition directory_size :: "string \<Rightarrow> nat" where
  "directory_size path =
     (if CHR ''/'' \<in> set path then length path - Suc (length (takeWhile (\<lambda>c. c \<noteq> CHR ''/'') (rev path))) else 0)"

definition ftp_stat :: "'s ftp_ctx \<Rightarrow> u16 \<Rightarrow> string \<Rightarrow> ('s, int) act" where
  "ftp_stat X node path = do {
     r \<leftarrow> call (kfsw_ftp_stat (fx_K X) node path);
     if fst r \<noteq> 0 then print_ftp_error ''stat'' node path (fst r)
     else do {
       emit_all
         [Print (''FTP stat '' @ fmt_u (unat node) @ '' '' @ path),
          Print (''type: '' @ entry_kind (fx_P X) (st_type (snd r)) path (directory_size path)),
          Print (''bytes: '' @ fmt_u (unat (st_size (snd r)))),
          Print (''crc32: '' @ fmt_x 8 (unat (st_crc32 (snd r))))];
       ret 0
     }
   }"

definition ftp_mkdir :: "'s ftp_ctx \<Rightarrow> u16 \<Rightarrow> string \<Rightarrow> ('s, int) act" where
  "ftp_mkdir X node path = do {
     r \<leftarrow> call (kfsw_ftp_mkdir (fx_K X) node path);
     if r \<noteq> 0 then print_ftp_error ''mkdir'' node path r
     else do { shell_print (''FTP mkdir '' @ fmt_u (unat node) @ '' '' @ path @ '': PASS''); ret 0 }
   }"

definition throughput :: "kfsw_ftp_transfer_result \<Rightarrow> u64" where
  "throughput info =
     (if tr_duration_ms info = 0 then 0
      else (ucast (tr_bytes info) * 1000) div ucast (tr_duration_ms info))"

definition ftp_transfer :: "'s ftp_ctx \<Rightarrow> bool \<Rightarrow> u16 \<Rightarrow> string \<Rightarrow> string \<Rightarrow> ('s, int) act" where
  "ftp_transfer X upload node src destination =
     (let operation = (if upload then ''put'' else ''get'')
      in do {
        r \<leftarrow> call (if upload then kfsw_ftp_put (fx_K X) node src destination
                   else kfsw_ftp_get (fx_K X) node src destination);
        if fst r \<noteq> 0 then print_ftp_error operation node (if upload then destination else src) (fst r)
        else do {
          emit_all
            [Print (''FTP '' @ operation @ '' '' @ fmt_u (unat node) @ '' '' @ src @ '' -> '' @ destination @ '': PASS''),
             Print (''bytes: '' @ fmt_u (unat (tr_bytes (snd r)))),
             Print (''crc32: '' @ fmt_x 8 (unat (tr_crc32 (snd r)))),
             Print (''duration_ms: '' @ fmt_u (unat (tr_duration_ms (snd r)))),
             Print (''throughput_Bps: '' @ fmt_u (unat (throughput (snd r))))];
          ret 0
        }
      })"

section \<open>File transfer: commands\<close>

definition cmd_ftp_ls :: "'s ftp_ctx \<Rightarrow> 's shell_handler" where
  "cmd_ftp_ls X argv =
     (let argc = length argv; given = (argc = 3 \<or> argc = 2 \<and> is_number (fx_E X) (argv ! 1))
      in do {
        n \<leftarrow> optional_node X given argv;
        case n of
          None \<Rightarrow> ret None
        | Some (result, node) \<Rightarrow>
            if result \<noteq> 0 then ret (Some result)
            else if (if given then 2 else 1) < argc then with_argv argv (argc - 1) (ftp_list X node)
            else ftp_list X node []
      })"

text \<open>\<^verbatim>\<open>stat\<close> and \<^verbatim>\<open>mkdir\<close>: an optional node and a path, the last argument.\<close>

definition on_path :: "'s ftp_ctx \<Rightarrow> (u16 \<Rightarrow> string \<Rightarrow> ('s, int) act) \<Rightarrow> 's shell_handler" where
  "on_path X f argv = do {
     n \<leftarrow> optional_node X (length argv = 3) argv;
     case n of
       None \<Rightarrow> ret None
     | Some (result, node) \<Rightarrow>
         if result = 0 then with_argv argv (length argv - 1) (\<lambda>path. lift_int (f node path)) else ret (Some result)
   }"

definition cmd_ftp_stat :: "'s ftp_ctx \<Rightarrow> 's shell_handler" where
  "cmd_ftp_stat X argv = on_path X (ftp_stat X) argv"

definition cmd_ftp_mkdir :: "'s ftp_ctx \<Rightarrow> 's shell_handler" where
  "cmd_ftp_mkdir X argv = on_path X (ftp_mkdir X) argv"

definition transfer_command :: "'s ftp_ctx \<Rightarrow> bool \<Rightarrow> 's shell_handler" where
  "transfer_command X upload argv =
     with_argv argv 1 (\<lambda>a1. do {
       n \<leftarrow> kfsw_shell_parse_node (fx_B X) (fx_E X) a1 0;
       if fst n = 0
       then with_argv argv 2 (\<lambda>a2. with_argv argv 3 (\<lambda>a3. lift_int (ftp_transfer X upload (snd n) a2 a3)))
       else ret (Some (fst n))
     })"

definition cmd_ftp_get :: "'s ftp_ctx \<Rightarrow> 's shell_handler" where
  "cmd_ftp_get X argv = transfer_command X False argv"

definition cmd_ftp_put :: "'s ftp_ctx \<Rightarrow> 's shell_handler" where
  "cmd_ftp_put X argv = transfer_command X True argv"

definition cmd_ftp_generate :: "'s ftp_ctx \<Rightarrow> 's shell_handler" where
  "cmd_ftp_generate X argv =
     with_argv argv 2 (\<lambda>a2. let (sz, parse_error) = shell_strtoul (fx_E X) a2 10 in
       if parse_error \<noteq> 0 \<or> 32768 < sz
       then do { shell_error ''FTP fixture size must be in range 0..32768''; ret (Some (- EINVAL)) }
       else with_argv argv 1 (\<lambda>a1. do {
         r \<leftarrow> ftp_diagnostic_generate (fx_F X) (fx_L X) a1 (of_nat sz);
         if fst r \<noteq> 0
         then do { shell_error (''FTP generate '' @ a1 @ '': FAIL ('' @ fmt_d (fst r) @ '')''); ret (Some (fst r)) }
         else case snd r of
             None \<Rightarrow> ret None
           | Some crc32 \<Rightarrow> do {
               emit_all [Print (''FTP generate '' @ a1 @ '': PASS''), Print (''bytes: '' @ fmt_u sz),
                 Print (''crc32: '' @ fmt_x 8 (unat crc32))];
               ret (Some 0)
             }
       }))"

definition cmd_ftp_verify :: "'s ftp_ctx \<Rightarrow> 's shell_handler" where
  "cmd_ftp_verify X argv =
     with_argv argv 1 (\<lambda>a1. with_argv argv 2 (\<lambda>a2. do {
       r \<leftarrow> ftp_diagnostic_compare (fx_F X) (fx_L X) a1 a2;
       case r of
         None \<Rightarrow> ret None
       | Some result \<Rightarrow>
           if result \<noteq> 0
           then do {
             shell_error (''FTP verify '' @ a1 @ '' '' @ a2 @ '': FAIL ('' @ fmt_d result @ '')'');
             ret (Some result)
           }
           else do { shell_print (''FTP verify '' @ a1 @ '' '' @ a2 @ '': PASS''); ret (Some 0) }
     }))"

definition ftp_subcommands :: "'s ftp_ctx \<Rightarrow> 's subcommand list" where
  "ftp_subcommands X =
     [sub ''generate'' (cmd_ftp_generate X) 3 0, sub ''get'' (cmd_ftp_get X) 4 0, sub ''ls'' (cmd_ftp_ls X) 1 2,
      sub ''mkdir'' (cmd_ftp_mkdir X) 2 1, sub ''put'' (cmd_ftp_put X) 4 0, sub ''stat'' (cmd_ftp_stat X) 2 1,
      sub ''verify'' (cmd_ftp_verify X) 3 0]"

section \<open>Storage\<close>

record kfsw_storage_details =
  filesystem :: string
  backend :: string
  mount_point :: string
  sd_ready :: bool
  total_bytes :: u64
  free_bytes :: u64

record 's storage_services =
  kfsw_storage_info :: "'s \<Rightarrow> int \<times> kfsw_storage_details"
  kfsw_storage_get_tmp_info :: "'s \<Rightarrow> int \<times> kfsw_storage_details"
  kfsw_storage_ready :: "'s \<Rightarrow> bool"
  KFSW_STORAGE_MOUNT_POINT :: string

record 's storage_ctx =
  sx_cfg :: config
  sx_F :: "'s fs_services"
  sx_K :: "'s storage_services"

definition KFSW_STORAGE_TEST_PATH :: "'s storage_ctx \<Rightarrow> string" where
  "KFSW_STORAGE_TEST_PATH X = KFSW_STORAGE_MOUNT_POINT (sx_K X) @ ''/.storage-test''"

definition KFSW_STORAGE_PERSISTENCE_PATH :: "'s storage_ctx \<Rightarrow> string" where
  "KFSW_STORAGE_PERSISTENCE_PATH X = KFSW_STORAGE_MOUNT_POINT (sx_K X) @ ''/.persistence-test''"

definition yes_no :: "bool \<Rightarrow> string" where
  "yes_no b = (if b then ''yes'' else ''no'')"

definition cmd_storage_info :: "'s storage_ctx \<Rightarrow> 's shell_handler" where
  "cmd_storage_info X argv = do {
     r \<leftarrow> ask (kfsw_storage_info (sx_K X));
     if fst r \<noteq> 0
     then do { shell_error (''Storage info: FAIL ('' @ fmt_d (fst r) @ '')''); ret (Some (fst r)) }
     else do {
       emit_all
         [Print ''K-FSW storage'', Print (''filesystem: '' @ filesystem (snd r)), Print (''backend: '' @ backend (snd r)),
          Print (''mount_point: '' @ mount_point (snd r)), Print (''ready: '' @ yes_no (sd_ready (snd r))),
          Print (''total_bytes: '' @ fmt_u (unat (total_bytes (snd r)))),
          Print (''free_bytes: '' @ fmt_u (unat (free_bytes (snd r))))];
       t \<leftarrow> ask (kfsw_storage_get_tmp_info (sx_K X));
       (if sx_cfg X CONFIG_KFSW_STORAGE_TMP \<and> fst t = 0
        then emit_all
          [Print (''tmp_mount_point: '' @ mount_point (snd t)), Print (''tmp_ready: '' @ yes_no (sd_ready (snd t))),
           Print (''tmp_total_bytes: '' @ fmt_u (unat (total_bytes (snd t)))),
           Print (''tmp_free_bytes: '' @ fmt_u (unat (free_bytes (snd t))))]
        else ret ());
       ret (Some 0)
     }
   }"

text \<open>The next step of a test, unless one has failed.\<close>

definition and_then :: "('s, int) act \<Rightarrow> int \<Rightarrow> ('s, int) act" where
  "and_then m result = (if result = 0 then m else ret result)"

definition storage_basic_test :: "'s storage_ctx \<Rightarrow> ('s, int) act" where
  "storage_basic_test X =
     (let path = KFSW_STORAGE_TEST_PATH X
      in do {
        r1 \<leftarrow> storage_diagnostic_write (sx_F X) path ''kfsw-storage-create'';
        r2 \<leftarrow> and_then (storage_diagnostic_write (sx_F X) path ''kfsw-storage-overwrite'') r1;
        r3 \<leftarrow> and_then (storage_diagnostic_read (sx_F X) path ''kfsw-storage-overwrite'') r2;
        r4 \<leftarrow> and_then (call (fs_unlink (sx_F X) path)) r3;
        if r4 \<noteq> 0
        then do {
          u \<leftarrow> call (fs_unlink (sx_F X) path);
          shell_error (''Storage test: FAIL ('' @ fmt_d r4 @ '')'');
          ret r4
        }
        else do { shell_print ''Storage test: PASS''; ret 0 }
      })"

definition storage_persistence_test :: "'s storage_ctx \<Rightarrow> string \<Rightarrow> string \<Rightarrow> ('s, int) act" where
  "storage_persistence_test X operation v =
     (let path = KFSW_STORAGE_PERSISTENCE_PATH X
      in if v = [] \<or> KFSW_STORAGE_DIAGNOSTIC_VALUE_MAX_SIZE < length v
         then do {
           shell_error (''Storage persistence value must contain 1..'' @
             fmt_u KFSW_STORAGE_DIAGNOSTIC_VALUE_MAX_SIZE @ '' characters'');
           ret (- EMSGSIZE)
         }
         else if operation = ''write''
         then do {
           r \<leftarrow> storage_diagnostic_write (sx_F X) path v;
           if r = 0 then do { shell_print ''Storage persistence write: PASS''; ret 0 }
           else do { shell_error (''Storage persistence '' @ operation @ '': FAIL ('' @ fmt_d r @ '')''); ret r }
         }
         else if operation = ''read''
         then do {
           r1 \<leftarrow> storage_diagnostic_read (sx_F X) path v;
           r \<leftarrow> and_then (call (fs_unlink (sx_F X) path)) r1;
           if r = 0 then do { shell_print ''Storage persistence read: PASS''; ret 0 }
           else do { shell_error (''Storage persistence '' @ operation @ '': FAIL ('' @ fmt_d r @ '')''); ret r }
         }
         else do { shell_error ''Usage: storage test [write|read <value>]''; ret (- EINVAL) })"

definition cmd_storage_test :: "'s storage_ctx \<Rightarrow> 's shell_handler" where
  "cmd_storage_test X argv = do {
     up \<leftarrow> ask (kfsw_storage_ready (sx_K X));
     if \<not> up then do { shell_error ''Storage test: FAIL (not ready)''; ret (Some (- EACCES)) }
     else if length argv = 1 then lift_int (storage_basic_test X)
     else if length argv = 3
     then with_argv argv 1 (\<lambda>a1. with_argv argv 2 (\<lambda>a2. lift_int (storage_persistence_test X a1 a2)))
     else do { shell_error ''Usage: storage test [write|read <value>]''; ret (Some (- EINVAL)) }
   }"

definition storage_subcommands :: "'s storage_ctx \<Rightarrow> 's subcommand list" where
  "storage_subcommands X = [sub ''info'' (cmd_storage_info X) 1 0, sub ''test'' (cmd_storage_test X) 1 2]"

section \<open>Every subcommand returns\<close>

text \<open>
  What the comparison needs of the file system to end: a read gives no more than it was asked for,
  and files have an end, so that something shrinks with every byte that is read.
\<close>

definition files_end :: "'s fs_services \<Rightarrow> bool" where
  "files_end F \<longleftrightarrow> (\<forall>f n s. fst (fst (fs_read F f n s)) \<le> int n) \<and>
     (\<exists>m :: 's \<Rightarrow> nat. \<forall>f n s. m (snd (fs_read F f n s)) \<le> m s \<and>
        (0 < fst (fst (fs_read F f n s)) \<longrightarrow> m (snd (fs_read F f n s)) < m s))"

lemma compare_loop_ends:
  assumes "files_end F"
  shows "compare_loop F s \<noteq> None"
proof -
  obtain m :: "'a \<Rightarrow> nat" where m: "\<And>f n s. m (snd (fs_read F f n s)) \<le> m s"
      "\<And>f n s. 0 < fst (fst (fs_read F f n s)) \<Longrightarrow> m (snd (fs_read F f n s)) < m s"
      "\<And>f n s. fst (fst (fs_read F f n s)) \<le> int n"
    using assms unfolding files_end_def by blast
  show ?thesis
  proof (induction s rule: measure_induct_rule [of m])
    case (less s)
    let ?r1 = "fs_read F First DATA_SIZE s" and ?r2 = "fs_read F Second DATA_SIZE (snd (fs_read F First DATA_SIZE s))"
    have "m (snd ?r2) < m s" if "0 < fst (fst ?r1)"
      using m(1) [of Second DATA_SIZE "snd ?r1"] m(2) [OF that] by simp
    then show ?case
      using less.IH [of "snd ?r2"] m(3) [of First DATA_SIZE s]
      by (auto simp: compare_loop.simps [of F s] Let_def)
  qed
qed

lemma returns_compare: "files_end F \<Longrightarrow> returns (ftp_diagnostic_compare F L p q)"
  unfolding ftp_diagnostic_compare_def
  by (auto simp: ends_def split_beta run_call_partial Let_def dest: compare_loop_ends [of F] split: option.splits)

lemma generate_crc: "ends (\<lambda>r. fst r = 0 \<longrightarrow> snd r \<noteq> None) (ftp_diagnostic_generate F L p sz)"
  by (auto simp: ftp_diagnostic_generate_def ends_def split_beta)

interpretation ftp_entries: walk_callback "print_ftp_entry P path" "\<lambda>_. True" for P path
  by unfold_locales (auto simp: print_ftp_entry_def ends_def)

lemma ftp_list_returns [returns_intros]: "returns (ftp_list X node path)"
  unfolding ftp_list_def
  by (intro ends_bind ftp_entries.visit_then TrueI) (auto intro!: returns_intros simp del: not_None_eq)

lemma optional_node_returns:
  "(given \<Longrightarrow> 1 < length argv) \<Longrightarrow> ends (\<lambda>r. \<exists>rc n. r = Some (rc, n)) (optional_node X given argv)"
  by (auto simp: optional_node_def with_argv_def ends_def split_beta)

lemma ftp_ls_returns: "1 \<le> length argv \<Longrightarrow> returns (cmd_ftp_ls X argv)"
  unfolding cmd_ftp_ls_def Let_def
  by (rule ends_then [OF optional_node_returns]) (auto intro!: returns_intros simp del: not_None_eq)

lemma on_path_returns: "2 \<le> length argv \<Longrightarrow> returns (on_path X f argv)"
  unfolding on_path_def
  by (rule ends_then [OF optional_node_returns]) (auto intro!: returns_intros simp del: not_None_eq)

lemma ftp_verify_returns: "files_end (fx_F X) \<Longrightarrow> 3 \<le> length argv \<Longrightarrow> returns (cmd_ftp_verify X argv)"
  unfolding cmd_ftp_verify_def
  by (intro ends_with_argv returns_bind [OF returns_compare]) (auto intro!: returns_intros simp del: not_None_eq)

lemma ftp_generate_returns: "3 \<le> length argv \<Longrightarrow> returns (cmd_ftp_generate X argv)"
proof -
  assume n: "3 \<le> length argv"
  have "returns (do {
      r \<leftarrow> ftp_diagnostic_generate (fx_F X) (fx_L X) p sz;
      if fst r \<noteq> 0 then do { shell_error (m1 r); ret (Some (fst r)) }
      else case snd r of None \<Rightarrow> ret None | Some crc32 \<Rightarrow> do { emit_all (m2 crc32); ret (Some 0) } })" for p sz m1 m2
    by (rule ends_then [OF generate_crc]) (auto intro!: returns_intros simp del: not_None_eq)
  then show ?thesis
    unfolding cmd_ftp_generate_def split_beta Let_def
    by (intro ends_with_argv ends_if) (use n in \<open>auto intro!: returns_intros simp del: not_None_eq\<close>)
qed

interpretation ftp_group: shell_group ftp_subcommands "\<lambda>X. files_end (fx_F X)"
proof unfold_locales
  show "group_total (ftp_subcommands X)" if "files_end (fx_F X)" for X :: "'s ftp_ctx"
    using that
    by (auto simp: ftp_subcommands_def cmd_ftp_get_def cmd_ftp_put_def transfer_command_def cmd_ftp_stat_def
        cmd_ftp_mkdir_def simp del: not_None_eq
        intro!: returns_intros ftp_ls_returns on_path_returns ftp_verify_returns ftp_generate_returns)
qed (simp add: ftp_subcommands_def)

interpretation storage_group: shell_group storage_subcommands "\<lambda>_. True"
  by unfold_locales
    (auto simp: storage_subcommands_def cmd_storage_info_def cmd_storage_test_def simp del: not_None_eq
      intro!: returns_intros)

end
