(* ===== verification/Shell_System.thy ===== *)
theory Shell_System
  imports Shell_Walk
begin

text \<open>
  The system shell commands, \<^verbatim>\<open>src/app/src/shell/shell_system.c\<close>: status here or on a node, time and
  version, the log test, the log history here and on a node, log levels by module, and restarting
  this node. The boot, time, log and parameter services are parameters; numbers the code only prints
  are naturals.
\<close>

section \<open>Data\<close>

record kfsw_log_record =
  lr_sequence :: u64
  lr_uptime_ms :: nat
  lr_module :: nat
  lr_severity :: nat
  lr_truncated :: bool
  lr_text :: string

record kfsw_log_history_window =
  hw_first :: u64
  hw_end :: u64
  hw_overwritten :: u64

record kfsw_log_remote_start =
  dictionary :: bool
  ls_first :: nat
  ls_end :: nat
  ls_overwritten :: nat

text \<open>\<^verbatim>\<open>data\<close> is the text of a message that is not a package, or the bytes of one that is.\<close>

record kfsw_log_remote_message =
  lm_package :: bool
  lm_sequence :: nat
  lm_uptime_ms :: nat
  lm_module :: nat
  lm_severity :: nat
  lm_truncated :: bool
  lm_text :: string
  lm_data :: "u8 list"
  lm_size :: nat
  text_crc :: "u32 option"

record 's system_services =
  kfsw_boot_get_revisions :: "'s \<Rightarrow> string"
  kfsw_boot_get_hardware_id :: "'s \<Rightarrow> string"
  kfsw_boot_get_image_version :: "'s \<Rightarrow> string"
  kfsw_boot_get_diagnostics :: "'s \<Rightarrow> nat \<times> nat \<times> bool"
  kfsw_time_monotonic_ms :: "'s \<Rightarrow> nat"
  kfsw_time_monotonic_us :: "'s \<Rightarrow> nat"
  status_csp_address :: "'s \<Rightarrow> u16"
  remote_revisions :: "u16 \<Rightarrow> 's \<Rightarrow> (int \<times> string option) \<times> 's"
  kfsw_log_history_window :: "nat \<Rightarrow> 's \<Rightarrow> kfsw_log_history_window"
  kfsw_log_history_get :: "u64 \<Rightarrow> 's \<Rightarrow> int \<times> kfsw_log_record"
  kfsw_log_module_name :: "nat \<Rightarrow> string"
  kfsw_log_get_module_level :: "nat \<Rightarrow> 's \<Rightarrow> nat"
  kfsw_log_set_module_level :: "nat \<Rightarrow> u8 \<Rightarrow> 's \<Rightarrow> int \<times> 's"
  kfsw_log_remote_read :: "u16 \<Rightarrow> u16 \<Rightarrow> u8 \<Rightarrow> 's \<Rightarrow> (kfsw_log_remote_start option \<times> kfsw_log_remote_message visit) \<times> 's"

record system_build =
  CONFIG_KFSW_ROLE :: string
  CONFIG_KFSW_INSTANCE_NAME :: string
  CONFIG_KFSW_CSP_ADDRESS :: int
  CONFIG_BOARD_TARGET :: string
  CONFIG_SOC :: string
  KERNEL_VERSION_STRING :: string
  KFSW_LOG_HISTORY_MAX_READ :: nat
  KFSW_LOG_ENCODED_SIZE :: nat
  KFSW_LOG_MODULE_COUNT :: nat

record 's system_ctx =
  yx_cfg :: config
  yx_B :: build
  yx_P :: system_build
  yx_E :: "'s shell_env"
  yx_K :: "'s system_services"

section \<open>Revisions\<close>

definition repository_names :: "(string \<times> string) list" where
  "repository_names =
     [(''app'', ''k-fsw''), (''plat'', ''kfsw-platform''), (''svc'', ''kfsw-services''), (''comms'', ''kfsw-comms''),
      (''mod'', ''kfsw-modules''), (''csp'', ''kfsw-libcsp''), (''param'', ''kfsw-libparam'')]"

text \<open>One word \<^verbatim>\<open>label:revision\<close>: the repository for the label, or the label itself. A word without a colon shows nothing.\<close>

definition revision_line :: "string \<Rightarrow> line list" where
  "revision_line word =
     (if CHR '':'' \<in> set word
      then let label = takeWhile (\<lambda>c. c \<noteq> CHR '':'') word;
               name = (case find (\<lambda>(l, r). l = label) repository_names of Some (l, r) \<Rightarrow> r | None \<Rightarrow> label)
           in [Print (''  '' @ name @ '': '' @ drop (length label + 1) word)]
      else [])"

text \<open>
  The loop over \<^verbatim>\<open>cursor\<close>: the text up to the next space is one word (an empty one where the text
  starts with a space), then the spaces after it are skipped.
\<close>

function revision_lines :: "string \<Rightarrow> line list" where
  "revision_lines cursor =
     (if cursor = [] then []
      else let word = takeWhile (\<lambda>c. c \<noteq> CHR '' '') cursor
           in revision_line word @ revision_lines (dropWhile (\<lambda>c. c = CHR '' '') (drop (length word) cursor)))"
  by pat_completeness auto
termination
proof (relation "measure length")
  fix cursor :: string and x assume ne: "cursor \<noteq> []" and x: "x = takeWhile (\<lambda>c. c \<noteq> CHR '' '') cursor"
  have "length (dropWhile (\<lambda>c. c = CHR '' '') (drop (length x) cursor)) \<le> length (drop (length x) cursor)"
    by (rule length_dropWhile_le)
  moreover have "length (dropWhile (\<lambda>c. c = CHR '' '') cursor) < length cursor" if "x = []"
    using ne that x by (cases cursor) (auto simp: length_dropWhile_le less_Suc_eq_le split: if_splits)
  ultimately show "(dropWhile (\<lambda>c. c = CHR '' '') (drop (length x) cursor), cursor) \<in> measure length"
    using ne by (cases "x = []") (auto simp: not_le intro: le_less_trans)
qed simp

declare revision_lines.simps [simp del]

definition print_revisions :: "string \<Rightarrow> ('s, unit) act" where
  "print_revisions revisions = do { shell_print ''revisions:''; emit_all (revision_lines revisions) }"

section \<open>Status, time, version\<close>

definition remote_status :: "'s system_ctx \<Rightarrow> u16 \<Rightarrow> ('s, int option) act" where
  "remote_status X node = do {
     r \<leftarrow> kfsw_shell_run_command (yx_cfg X) (yx_B X) (yx_E X) node ''info'' [];
     case r of
       None \<Rightarrow> ret None
     | Some result \<Rightarrow>
         if \<not> yx_cfg X CONFIG_KFSW_PARAM_CSP \<or> result \<noteq> 0 then ret (Some result)
         else do {
           address \<leftarrow> ask (status_csp_address (yx_K X));
           if node = address
           then do {
             revisions \<leftarrow> ask (kfsw_boot_get_revisions (yx_K X));
             print_revisions revisions;
             ret (Some 0)
           }
           else do {
             v \<leftarrow> call (remote_revisions (yx_K X) node);
             if fst v \<noteq> 0 then lift_int (kfsw_shell_remote_failed ''status revisions'' node (fst v))
             else do {
               (case snd v of Some t \<Rightarrow> print_revisions t | None \<Rightarrow> ret ());
               ret (Some (fst v))
             }
           }
         }
   }"

definition local_status :: "'s system_ctx \<Rightarrow> ('s, int option) act" where
  "local_status X = do {
     emit_all
       ([Print ''K-FSW status'', Print (''Role: '' @ CONFIG_KFSW_ROLE (yx_P X)),
         Print (''Name: '' @ CONFIG_KFSW_INSTANCE_NAME (yx_P X))] @
        (if yx_cfg X CONFIG_KFSW_CSP then [Print (''CSP node: '' @ fmt_d (CONFIG_KFSW_CSP_ADDRESS (yx_P X)))] else []) @
        [Print (''board: '' @ CONFIG_BOARD_TARGET (yx_P X))]);
     unit_id \<leftarrow> ask (kfsw_boot_get_hardware_id (yx_K X));
     shell_print (''unit: '' @ unit_id);
     ms \<leftarrow> ask (kfsw_time_monotonic_ms (yx_K X));
     shell_print (''uptime_ms: '' @ fmt_u ms);
     revisions \<leftarrow> ask (kfsw_boot_get_revisions (yx_K X));
     print_revisions revisions;
     ret (Some 0)
   }"

definition cmd_status :: "'s system_ctx \<Rightarrow> 's shell_handler" where
  "cmd_status X argv =
     (if yx_cfg X CONFIG_KFSW_COMMAND_CSP \<and> length argv = 2
      then with_argv argv 1 (\<lambda>a1. do {
        n \<leftarrow> kfsw_shell_parse_node (yx_B X) (yx_E X) a1 0;
        if fst n \<noteq> 0 then ret (Some (fst n)) else remote_status X (snd n)
      })
      else local_status X)"

definition cmd_time :: "'s system_ctx \<Rightarrow> 's shell_handler" where
  "cmd_time X argv = do {
     ms \<leftarrow> ask (kfsw_time_monotonic_ms (yx_K X));
     shell_print (''monotonic_ms: '' @ fmt_u ms);
     us \<leftarrow> ask (kfsw_time_monotonic_us (yx_K X));
     shell_print (''monotonic_us: '' @ fmt_u us);
     ret (Some 0)
   }"

definition cmd_version :: "'s system_ctx \<Rightarrow> 's shell_handler" where
  "cmd_version X argv = do {
     image \<leftarrow> ask (kfsw_boot_get_image_version (yx_K X));
     revisions \<leftarrow> ask (kfsw_boot_get_revisions (yx_K X));
     unit_id \<leftarrow> ask (kfsw_boot_get_hardware_id (yx_K X));
     diagnostic \<leftarrow> ask (kfsw_boot_get_diagnostics (yx_K X));
     emit_all
       [Print (''K-FSW: '' @ image), Print (''Revisions: '' @ revisions), Print (''Zephyr: '' @ KERNEL_VERSION_STRING (yx_P X)),
        Print (''Board: '' @ CONFIG_BOARD_TARGET (yx_P X)), Print (''SoC: '' @ CONFIG_SOC (yx_P X)), Print (''Unit: '' @ unit_id),
        Print (''Boot trial: attempts='' @ fmt_u (fst diagnostic) @ '' revert_reason='' @ fmt_u (fst (snd diagnostic)) @
          '' valid='' @ fmt_u (if snd (snd diagnostic) then 1 else 0))];
     ret (Some 0)
   }"

section \<open>Log\<close>

definition cmd_log_test :: "'s shell_handler" where
  "cmd_log_test argv = do {
     kfsw_log_error ''K-FSW shell log test: error'';
     kfsw_log_warning ''K-FSW shell log test: warning'';
     kfsw_log_info ''K-FSW shell log test: info'';
     kfsw_log_debug ''K-FSW shell log test: debug'';
     ret (Some 0)
   }"

text \<open>A message of the history or of a node, up to its text.\<close>

definition message_head :: "'s system_services \<Rightarrow> nat \<Rightarrow> nat \<Rightarrow> nat \<Rightarrow> nat \<Rightarrow> bool \<Rightarrow> string" where
  "message_head K seq ms md sev trunc =
     fmt_u seq @ '' t='' @ fmt_u ms @ ''ms '' @ kfsw_log_module_name K md @ '' level='' @ fmt_u sev @
     (if trunc then '' truncated'' else []) @ '' ''"

text \<open>The loop from \<open>sequence\<close> up to \<open>stop\<close>, 64-bit counters that cannot wrap below a 64-bit end.\<close>

function history_loop :: "'s system_ctx \<Rightarrow> u64 \<Rightarrow> u64 \<Rightarrow> ('s, int) act" where
  "history_loop X seq stop =
     (if seq < stop
      then do {
        r \<leftarrow> ask (kfsw_log_history_get (yx_K X) seq);
        if fst r \<noteq> 0 then do { shell_error ''Log history changed during read; retry''; ret (fst r) }
        else do {
          shell_print (message_head (yx_K X) (unat (lr_sequence (snd r))) (lr_uptime_ms (snd r)) (lr_module (snd r))
            (lr_severity (snd r)) (lr_truncated (snd r)) @ lr_text (snd r));
          history_loop X (seq + 1) stop
        }
      }
      else ret 0)"
  by pat_completeness auto
termination
proof (relation "measure (\<lambda>(X, seq, stop). unat stop - unat seq)")
  fix X :: "'s system_ctx" and seq stop :: u64 assume "seq < stop"
  then have lt: "unat seq < unat stop" by (simp add: word_less_nat_alt)
  moreover have "unat stop < 2 ^ 64" using unsigned_less [of stop] by simp
  ultimately have "unat (seq + 1) = Suc (unat seq)" by (simp add: unat_word_ariths(1))
  with lt show "((X, seq + 1, stop), (X, seq, stop)) \<in> measure (\<lambda>(X, seq, stop). unat stop - unat seq)"
    by simp
qed simp

declare history_loop.simps [simp del]

definition cmd_log_history :: "'s system_ctx \<Rightarrow> 's shell_handler" where
  "cmd_log_history X argv = do {
     w \<leftarrow> ask (kfsw_log_history_window (yx_K X) (KFSW_LOG_HISTORY_MAX_READ (yx_P X)));
     shell_print (''Log history: first='' @ fmt_u (unat (hw_first w)) @ '' end='' @ fmt_u (unat (hw_end w)) @
       '' overwritten='' @ fmt_u (unat (hw_overwritten w)));
     lift_int (history_loop X (hw_first w) (hw_end w))
   }"

definition print_remote_start :: "kfsw_log_remote_start \<Rightarrow> ('s, unit) act" where
  "print_remote_start st = do {
     shell_print (''format: '' @ (if dictionary st then ''dictionary'' else ''text''));
     shell_print (''first='' @ fmt_u (ls_first st) @ '' end='' @ fmt_u (ls_end st) @ '' overwritten='' @ fmt_u (ls_overwritten st))
   }"

text \<open>
  The loop that writes a package as hexadecimal into \<^verbatim>\<open>hex\<close>, the same as the one of the event tails:
  no more bytes than the array was sized for.
\<close>

definition package_hex :: "nat \<Rightarrow> kfsw_log_remote_message \<Rightarrow> char list \<Rightarrow> string option" where
  "package_hex limit m hx = hex_text put_snprintf hx (lm_data m) (min (lm_size m) limit)"

definition print_remote_message :: "'s system_ctx \<Rightarrow> ('s, kfsw_log_remote_message, char list) callback" where
  "print_remote_message X m hx =
     (let head = message_head (yx_K X) (lm_sequence m) (lm_uptime_ms m) (lm_module m) (lm_severity m) (lm_truncated m)
      in if \<not> lm_package m then do { shell_print (head @ lm_text m); ret (Some (hx, True)) }
         else case package_hex (KFSW_LOG_ENCODED_SIZE (yx_P X)) m hx of
             None \<Rightarrow> ret None
           | Some t \<Rightarrow> do {
               shell_print (head @ ''pkg='' @
                 (case text_crc m of
                    Some crc \<Rightarrow> ''00000000:'' @ t @ snprintf 16 ('' crc32='' @ fmt_x 8 (unat crc))
                  | None \<Rightarrow> t));
               ret (Some (hx, True))
             })"

definition log_remote_args :: "'s system_ctx \<Rightarrow> string list \<Rightarrow> (nat \<times> nat) option" where
  "log_remote_args X argv =
     (let (count, e1) = (if 2 < length argv then shell_strtoul (yx_E X) (argv ! 2) 10
                         else (KFSW_LOG_HISTORY_MAX_READ (yx_P X), 0));
          (level, e2) = (if 3 < length argv then shell_strtoul (yx_E X) (argv ! 3) 10 else (0, 0))
      in if e1 \<noteq> 0 \<or> e2 \<noteq> 0 \<or> count = 0 \<or> KFSW_LOG_HISTORY_MAX_READ (yx_P X) < count \<or> 3 < level
         then None else Some (count, level))"

text \<open>The read and its outcome.\<close>

definition read_remote_log :: "'s system_ctx \<Rightarrow> char list \<Rightarrow> u16 \<Rightarrow> u16 \<Rightarrow> u8 \<Rightarrow> ('s, int option) act" where
  "read_remote_log X hx node count level = do {
     v \<leftarrow> call (kfsw_log_remote_read (yx_K X) node count level);
     (case fst v of Some st \<Rightarrow> print_remote_start st | None \<Rightarrow> ret ());
     r \<leftarrow> walk (print_remote_message X) (fst (snd v)) hx 0;
     case r of
       None \<Rightarrow> ret None
     | Some (hx', k) \<Rightarrow>
         let result = snd (snd v) k
         in if result = - EIO
            then do {
              shell_error (''log remote: node '' @ fmt_u (unat node) @ '' cut the read short'');
              ret (Some result)
            }
            else if result = 0 then ret (Some 0)
            else lift_int (kfsw_shell_remote_failed ''log remote'' node result)
   }"

definition cmd_log_remote :: "'s system_ctx \<Rightarrow> char list \<Rightarrow> 's shell_handler" where
  "cmd_log_remote X hx argv =
     with_argv argv 1 (\<lambda>a1. do {
       n \<leftarrow> kfsw_shell_parse_node (yx_B X) (yx_E X) a1 0;
       if fst n \<noteq> 0 then ret (Some (fst n))
       else case log_remote_args X argv of
           None \<Rightarrow> do {
             shell_error (''Usage: log remote <node> [count 1..'' @ fmt_u (KFSW_LOG_HISTORY_MAX_READ (yx_P X)) @
               ''] [min level 0..3]'');
             ret (Some (- EINVAL))
           }
         | Some (count, level) \<Rightarrow> do {
             shell_print (''node: '' @ fmt_u (unat (snd n)));
             read_remote_log X hx (snd n) (of_nat count) (of_nat level)
           }
     })"

text \<open>The modules, one line each.\<close>

fun print_levels :: "'s system_ctx \<Rightarrow> nat list \<Rightarrow> ('s, unit) act" where
  "print_levels X [] = ret ()"
| "print_levels X (m # ms) = do {
     l \<leftarrow> ask (kfsw_log_get_module_level (yx_K X) m);
     shell_print (pad_right 8 (kfsw_log_module_name (yx_K X) m) @ '' '' @ fmt_u l);
     print_levels X ms
   }"

definition set_level :: "'s system_ctx \<Rightarrow> string list \<Rightarrow> string \<Rightarrow> nat \<Rightarrow> ('s, int option) act" where
  "set_level X argv a1 md =
     (if length argv = 2
      then do {
        l \<leftarrow> ask (kfsw_log_get_module_level (yx_K X) md);
        shell_print (pad_right 8 a1 @ '' '' @ fmt_u l);
        ret (Some 0)
      }
      else with_argv argv 2 (\<lambda>a2. let (level, parse_error) = shell_strtoul (yx_E X) a2 10 in
        if parse_error \<noteq> 0 \<or> 4 < level
        then do { shell_error ''level is 0 debug, 1 info, 2 warning, 3 error, 4 off''; ret (Some (- EINVAL)) }
        else do {
          rc \<leftarrow> call (kfsw_log_set_module_level (yx_K X) md (of_nat level));
          if rc \<noteq> 0
          then do { shell_error (a1 @ '' would not take level '' @ fmt_u level); ret (Some (- EINVAL)) }
          else do { shell_print (pad_right 8 a1 @ '' '' @ fmt_u level); ret (Some 0) }
        }))"

text \<open>The loop over the modules stops at the first of that name.\<close>

definition cmd_log_level :: "'s system_ctx \<Rightarrow> 's shell_handler" where
  "cmd_log_level X argv =
     (let modules = [0..<KFSW_LOG_MODULE_COUNT (yx_P X)]
      in if length argv = 1 then do { print_levels X modules; ret (Some 0) }
         else with_argv argv 1 (\<lambda>a1.
           case find (\<lambda>m. a1 = kfsw_log_module_name (yx_K X) m) modules of
             Some m \<Rightarrow> set_level X argv a1 m
           | None \<Rightarrow> do { shell_error (''unknown module: '' @ a1); ret (Some (- EINVAL)) }))"

definition cmd_reboot :: "'s system_ctx \<Rightarrow> 's shell_handler" where
  "cmd_reboot X argv =
     with_argv argv 1 (\<lambda>a1.
       kfsw_shell_run_command (yx_cfg X) (yx_B X) (yx_E X) KFSW_SHELL_THIS_NODE ''reboot'' [a1])"

definition log_subcommands :: "'s system_ctx \<times> char list \<Rightarrow> 's subcommand list" where
  "log_subcommands = (\<lambda>(X, hx).
     [sub ''level'' (cmd_log_level X) 1 2] @
     (if yx_cfg X CONFIG_KFSW_LOG_HISTORY then [sub ''history'' (cmd_log_history X) 1 0] else []) @
     (if yx_cfg X CONFIG_KFSW_LOG_REMOTE then [sub ''remote'' (cmd_log_remote X hx) 2 2] else []) @
     [sub ''test'' cmd_log_test 1 0])"

definition system_commands :: "'s system_ctx \<Rightarrow> 's subcommand list" where
  "system_commands X =
     [sub ''status'' (cmd_status X) 1 (if yx_cfg X CONFIG_KFSW_COMMAND_CSP then 1 else 0),
      sub ''time'' (cmd_time X) 1 0, sub ''version'' (cmd_version X) 1 0] @
     (if yx_cfg X CONFIG_KFSW_COMMAND \<and> yx_cfg X CONFIG_REBOOT then [sub ''reboot'' (cmd_reboot X) 2 0] else [])"


section \<open>Every command returns\<close>

text \<open>
  What the log reader relies on: the array \<^verbatim>\<open>hex\<close> has its size, and a package has as many bytes as it says.
\<close>

definition log_ctx_ok :: "'s system_ctx \<times> char list \<Rightarrow> bool" where
  "log_ctx_ok = (\<lambda>(X, hx). length hx = 2 * KFSW_LOG_ENCODED_SIZE (yx_P X) + 1 \<and>
     (\<forall>n c l s. \<forall>m \<in> set (fst (snd (fst (kfsw_log_remote_read (yx_K X) n c l s)))). lm_package m \<longrightarrow> lm_size m \<le> length (lm_data m)))"

lemma package_hex_text:
  assumes "lm_size m \<le> length (lm_data m)" "2 * limit < length hx"
  shows "package_hex limit m hx = Some (concat (map hex_byte (take (min (lm_size m) limit) (lm_data m))))"
  unfolding package_hex_def by (rule snprintf_writer.text_is_hex) (use assms in auto)

interpretation log_messages: item_callback "print_remote_message X"
    "\<lambda>h. 2 * KFSW_LOG_ENCODED_SIZE (yx_P X) < length h" "\<lambda>m. lm_package m \<longrightarrow> lm_size m \<le> length (lm_data m)" for X
  by unfold_locales (auto simp: print_remote_message_def package_hex_text ends_def Let_def)

lemma read_remote_log_returns:
  assumes ok: "log_ctx_ok (X, hx)"
  shows "returns (read_remote_log X hx node c l)"
  unfolding read_remote_log_def
proof (rule ends_then [OF ends_call])
  fix s
  show "\<forall>m \<in> set (fst (snd (fst (kfsw_log_remote_read (yx_K X) node c l s)))). lm_package m \<longrightarrow> lm_size m \<le> length (lm_data m)"
    using ok by (simp add: log_ctx_ok_def)
next
  fix v :: "kfsw_log_remote_start option \<times> kfsw_log_remote_message visit"
  assume v: "\<forall>m \<in> set (fst (snd v)). lm_package m \<longrightarrow> lm_size m \<le> length (lm_data m)"
  have "returns (walk (print_remote_message X) (fst (snd v)) hx 0)"
    using ok v by (intro ends_weaken [OF log_messages.walk_items]) (auto simp: log_ctx_ok_def)
  note walked = returns_bind [OF this]
  show "returns (do {
      (case fst v of Some st \<Rightarrow> print_remote_start st | None \<Rightarrow> ret ());
      r \<leftarrow> walk (print_remote_message X) (fst (snd v)) hx 0;
      case r of None \<Rightarrow> ret None
      | Some (hx', k) \<Rightarrow>
         let result = snd (snd v) k
         in if result = - EIO
            then do { shell_error (''log remote: node '' @ fmt_u (unat node) @ '' cut the read short''); ret (Some result) }
            else if result = 0 then ret (Some 0)
            else lift_int (kfsw_shell_remote_failed ''log remote'' node result) })"
    by (rule ends_bind, rule walked) (auto simp: Let_def intro!: returns_intros simp del: not_None_eq)
qed

lemma log_remote_returns:
  assumes ok: "log_ctx_ok (X, hx)" and n: "2 \<le> length argv"
  shows "returns (cmd_log_remote X hx argv)"
  unfolding cmd_log_remote_def
  by (rule ends_with_argv, use n in simp, rule ends_bind, rule ends_if, rule returns_ret, rule ends_case_option,
      rule ends_bind, rule returns_ret, rule ends_case_prod, rule ends_bind, rule read_remote_log_returns [OF ok])

lemma log_level_returns: "1 \<le> length argv \<Longrightarrow> length argv \<le> 3 \<Longrightarrow> returns (cmd_log_level X argv)"
  unfolding cmd_log_level_def set_level_def Let_def split_beta
  by (intro returns_intros ends_case_option) auto

interpretation log_group: shell_group log_subcommands log_ctx_ok
proof unfold_locales
  show "group_total (log_subcommands p)" if "log_ctx_ok p" for p :: "'s system_ctx \<times> char list"
    using that
    by (cases p) (auto simp: log_subcommands_def cmd_log_history_def cmd_log_test_def simp del: not_None_eq
        intro!: returns_intros log_remote_returns log_level_returns)
  show "distinct (map sub_name (log_subcommands p))" for p :: "'s system_ctx \<times> char list"
    by (cases p) (simp add: log_subcommands_def)
qed

lemma remote_status_returns: "registry_ok (yx_B X) (yx_E X) \<Longrightarrow> returns (remote_status X node)"
  unfolding remote_status_def
  by (rule returns_bind [OF returns_run_command]) (auto intro!: returns_intros simp del: not_None_eq)

interpretation system_group: shell_group system_commands "\<lambda>X. registry_ok (yx_B X) (yx_E X)"
proof unfold_locales
  show "group_total (system_commands X)" if "registry_ok (yx_B X) (yx_E X)" for X :: "'s system_ctx"
    using that
    by (auto simp: system_commands_def cmd_status_def local_status_def cmd_time_def cmd_version_def cmd_reboot_def
        simp del: not_None_eq intro!: returns_intros remote_status_returns returns_run_command)
  show "distinct (map sub_name (system_commands X))" for X :: "'s system_ctx"
    by (cases "yx_cfg X CONFIG_KFSW_COMMAND"; cases "yx_cfg X CONFIG_REBOOT") (simp_all add: system_commands_def)
qed


section \<open>Properties\<close>

lemma words_from_front:
  fixes s :: string
  defines "u \<equiv> takeWhile (\<lambda>c. c \<noteq> CHR '' '') s"
  shows "space_words s = (if u = [] then [] else [u]) @ space_words (dropWhile (\<lambda>c. c = CHR '' '') (drop (length u) s))"
proof -
  define v where "v = dropWhile (\<lambda>c. c \<noteq> CHR '' '') s"
  have s: "s = u @ v" by (simp add: u_def v_def)
  have r: "drop (length u) s = v" by (simp add: s)
  have "CHR '' '' \<notin> set u" unfolding u_def using set_takeWhileD by fastforce
  then have "space_words s = split_words u v" using split_words_token [of u "[]" v] by (simp add: s)
  also have "\<dots> = (if u = [] then [] else [u]) @ space_words v"
    using hd_dropWhile [of "\<lambda>c. c \<noteq> CHR '' ''" s] by (cases v) (auto simp: v_def [symmetric])
  finally show ?thesis unfolding r using split_words_dropWhile [of v] by simp
qed

text \<open>
  C26. The scan that shows the revisions of a build agrees with splitting the text at its spaces: one
  line per word that has a colon, in order, with the repository's full name for a label it knows;
  no word is lost or split, whatever the spaces around them.
\<close>

theorem revisions_by_words:
  "run_state (print_revisions t) w =
     ((), w\<lparr>out := out w @ Print ''revisions:'' # concat (map revision_line (space_words t))\<rparr>)"
proof -
  have "revision_lines t = concat (map revision_line (space_words t))"
  proof (induction t rule: revision_lines.induct)
    case (1 s)
    show ?case
    proof (cases "s = []")
      case False
      define u where "u = takeWhile (\<lambda>c. c \<noteq> CHR '' '') s"
      have "revision_lines (dropWhile (\<lambda>c. c = CHR '' '') (drop (length u) s)) =
          concat (map revision_line (space_words (dropWhile (\<lambda>c. c = CHR '' '') (drop (length u) s))))"
        using "1.IH" [OF False u_def] .
      moreover have "revision_line [] = []" by (simp add: revision_line_def)
      ultimately show ?thesis
        using False by (simp add: revision_lines.simps [of s] words_from_front [of s] u_def [symmetric] Let_def)
    qed (simp add: revision_lines.simps)
  qed
  then show ?thesis by (simp add: print_revisions_def)
qed

text \<open>
  Reading the log history ends and shows the whole window: when every record of it can be read,
  exactly one line per sequence number from the first to the one before the end is printed, in
  order, and the result is 0; a record that is gone ends the read with its error.
\<close>

lemma log_history_shows_window:
  assumes "\<And>q. first \<le> q \<Longrightarrow> q < stop \<Longrightarrow> fst (kfsw_log_history_get (yx_K X) q (svc w)) = 0"
  shows "run_state (history_loop X first stop) w =
    (0, w\<lparr>out := out w @ map (\<lambda>n. let r = snd (kfsw_log_history_get (yx_K X) (of_nat n) (svc w)) in
       Print (message_head (yx_K X) (unat (lr_sequence r)) (lr_uptime_ms r) (lr_module r) (lr_severity r) (lr_truncated r) @
         lr_text r)) [unat first..<unat stop]\<rparr>)"
  using assms
proof (induction X first stop arbitrary: w rule: history_loop.induct)
  case (1 X q stop)
  show ?case
  proof (cases "q < stop")
    case True
    then have lt: "unat q < unat stop" by (simp add: word_less_nat_alt)
    moreover have "unat stop < 2 ^ 64" using unsigned_less [of stop] by simp
    ultimately have nxt: "unat (q + 1) = Suc (unat q)" by (simp add: unat_word_ariths(1))
    have ok: "fst (kfsw_log_history_get (yx_K X) q (svc w)) = 0" using "1.prems" [of q] True by simp
    have later: "fst (kfsw_log_history_get (yx_K X) p (svc w)) = 0" if "q + 1 \<le> p" "p < stop" for p
      using "1.prems" [of p] that nxt by (simp add: word_le_nat_alt)
    show ?thesis
      using "1.IH" [OF True] later ok lt
      by (simp add: history_loop.simps [of X q stop] True nxt upt_conv_Cons Let_def)
  next
    case False
    then have "\<not> unat q < unat stop" by (simp add: word_less_nat_alt)
    then show ?thesis using False by (simp add: history_loop.simps [of X q stop])
  qed
qed

end
