(* ===== verification/Shell_Records.thy ===== *)
theory Shell_Records
  imports Shell_Walk
begin

text \<open>
  The shell groups over queues and records: \<^verbatim>\<open>src/app/src/shell/shell_fbo.c\<close> (procedures and the
  time-tagged queue), \<^verbatim>\<open>src/app/src/shell/shell_registry.c\<close> (reading the command registry),
  \<^verbatim>\<open>src/app/src/shell/shell_event.c\<close> (the event record) and \<^verbatim>\<open>src/app/src/shell/shell_journal.c\<close>
  (the persistent journal). The services are parameters; numbers the code only prints are naturals.
\<close>

section \<open>A command here or on a node\<close>

text \<open>\<^verbatim>\<open>const char *names\<close> of one context: the switches, the constants and the shell's environment.\<close>

record 's run_ctx =
  rx_cfg :: config
  rx_B :: build
  rx_E :: "'s shell_env"

definition run_named :: "'s run_ctx \<Rightarrow> u16 \<Rightarrow> string \<Rightarrow> 's shell_handler" where
  "run_named X node name argv = kfsw_shell_run_command (rx_cfg X) (rx_B X) (rx_E X) node name argv"

text \<open>\<^verbatim>\<open>&argv[argc - n]\<close>: the last \<open>n\<close> arguments.\<close>

definition last_args :: "nat \<Rightarrow> string list \<Rightarrow> string list" where
  "last_args n argv = drop (length argv - n) argv"

text \<open>With a node as the first argument, on that node; otherwise here.\<close>

definition run_here_or :: "'s run_ctx \<Rightarrow> bool \<Rightarrow> string \<Rightarrow> nat \<Rightarrow> 's shell_handler" where
  "run_here_or X given name extra argv =
     (if given
      then with_argv argv 1 (\<lambda>a1. do {
        n \<leftarrow> kfsw_shell_parse_node (rx_B X) (rx_E X) a1 KFSW_SHELL_THIS_NODE;
        if fst n \<noteq> 0 then ret (Some (fst n)) else run_named X (snd n) name (last_args extra argv)
      })
      else run_named X KFSW_SHELL_THIS_NODE name (last_args extra argv))"

section \<open>Procedures and the queue\<close>

datatype kfsw_fbo_entry_status =
    KFSW_FBO_ENTRY_SCHEDULED | KFSW_FBO_ENTRY_RUNNING | KFSW_FBO_ENTRY_COMPLETED | KFSW_FBO_ENTRY_FAILED
  | KFSW_FBO_ENTRY_OVERDUE | KFSW_FBO_ENTRY_CANCELLED | Fbo_entry_other

fun entry_status :: "kfsw_fbo_entry_status \<Rightarrow> string" where
  "entry_status KFSW_FBO_ENTRY_SCHEDULED = ''scheduled''"
| "entry_status KFSW_FBO_ENTRY_RUNNING = ''running''"
| "entry_status KFSW_FBO_ENTRY_COMPLETED = ''completed''"
| "entry_status KFSW_FBO_ENTRY_FAILED = ''failed''"
| "entry_status KFSW_FBO_ENTRY_OVERDUE = ''overdue''"
| "entry_status KFSW_FBO_ENTRY_CANCELLED = ''cancelled''"
| "entry_status Fbo_entry_other = ''unknown''"

record kfsw_fbo_schedule_entry =
  fe_index :: nat
  fe_absolute :: bool
  fe_due_utc :: int
  fe_delay_s :: nat
  fe_remaining_s :: nat
  fe_node :: nat
  fe_status :: kfsw_fbo_entry_status
  fe_line :: string

record kfsw_fbo_schedule_status =
  fs_entries :: nat
  fs_capacity :: u16
  fs_scheduled :: nat
  fs_running :: nat
  fs_completed :: nat
  fs_failed :: nat
  fs_overdue :: nat
  fs_cancelled :: nat
  fs_clock_set :: bool
  fs_latency_s :: nat
  fs_next_due_s :: nat
  fs_next_due_utc :: int
  fs_releases :: nat
  fs_refusals :: nat
  fs_overdues :: nat
  fs_clock_steps :: nat
  fs_hash :: u32
  fs_last_error :: int

record kfsw_fbo_status =
  fo_name :: string
  fo_running :: bool
  fo_line :: nat
  fo_last_result :: int
  fo_runs :: nat
  fo_lines_run :: nat
  fo_lines_failed :: nat
  fo_lines_skipped :: nat

record 's fbo_services =
  fbo_command_invoke :: "string \<Rightarrow> kfsw_command_arg list \<Rightarrow> 's \<Rightarrow> (int \<times> kfsw_command_result) \<times> 's"
  kfsw_fbo_schedule_get_status :: "'s \<Rightarrow> int \<times> kfsw_fbo_schedule_status"
  kfsw_fbo_schedule_get_entry :: "u16 \<Rightarrow> 's \<Rightarrow> int \<times> kfsw_fbo_schedule_entry"
  kfsw_fbo_run :: "string \<Rightarrow> 's \<Rightarrow> int \<times> 's"
  kfsw_fbo_stop :: "'s \<Rightarrow> int \<times> 's"
  kfsw_fbo_get_status :: "'s \<Rightarrow> int \<times> kfsw_fbo_status"

record 's fbo_ctx =
  bx_E :: "'s shell_env"
  bx_K :: "'s fbo_services"

definition invoke :: "'s fbo_ctx \<Rightarrow> string \<Rightarrow> kfsw_command_arg list \<Rightarrow> ('s, int) act" where
  "invoke X name args = do {
     r \<leftarrow> call (fbo_command_invoke (bx_K X) name args);
     (if detail (snd r) \<noteq> []
      then shell_print (name @ '': '' @ kfsw_command_status_name (bx_E X) (status (snd r)) @ '' ('' @ detail (snd r) @ '')'')
      else shell_print (name @ '': '' @ kfsw_command_status_name (bx_E X) (status (snd r))));
     ret (fst r)
   }"

definition cmd_fbo_sched_add :: "'s fbo_ctx \<Rightarrow> 's shell_handler" where
  "cmd_fbo_sched_add X argv =
     with_argv argv 2 (\<lambda>a2. let (node, parse_error) = shell_strtoul (bx_E X) a2 10 in
       if parse_error \<noteq> 0 \<or> UINT16_MAX < node
       then do { shell_error ''node must be a number, 0 for this one''; ret (Some (- EINVAL)) }
       else with_argv argv 1 (\<lambda>a1. with_argv argv 3 (\<lambda>a3.
         lift_int (invoke X ''fbo_sched_add'' [Arg_text a1, Arg_u32 (of_nat node), Arg_text a3]))))"

definition cmd_fbo_sched_cancel :: "'s fbo_ctx \<Rightarrow> 's shell_handler" where
  "cmd_fbo_sched_cancel X argv =
     with_argv argv 1 (\<lambda>a1. let (index, parse_error) = shell_strtoul (bx_E X) a1 10 in
       if parse_error \<noteq> 0 \<or> UINT16_MAX < index
       then do { shell_error ''index must be a number''; ret (Some (- EINVAL)) }
       else lift_int (invoke X ''fbo_sched_cancel'' [Arg_u32 (of_nat index)]))"

definition cmd_fbo_sched_clear :: "'s fbo_ctx \<Rightarrow> 's shell_handler" where
  "cmd_fbo_sched_clear X argv = lift_int (invoke X ''fbo_sched_clear'' [])"

definition entry_line :: "kfsw_fbo_schedule_entry \<Rightarrow> string" where
  "entry_line e =
     (if fe_absolute e
      then fmt_u (fe_index e) @ '' @'' @ fmt_d (fe_due_utc e)
      else fmt_u (fe_index e) @ '' +'' @ fmt_u (fe_delay_s e) @ ''s in='' @ fmt_u (fe_remaining_s e) @ ''s'') @
     '' node='' @ fmt_u (fe_node e) @ '' '' @ entry_status (fe_status e) @ '' '' @ fe_line e"

text \<open>The loop over the slots of the queue, with how many were shown; an empty slot is skipped.\<close>

fun list_entries :: "'s fbo_ctx \<Rightarrow> nat list \<Rightarrow> nat \<Rightarrow> ('s, nat) act" where
  "list_entries X [] shown = ret shown"
| "list_entries X (i # is) shown = do {
     e \<leftarrow> ask (kfsw_fbo_schedule_get_entry (bx_K X) (of_nat i));
     if fst e \<noteq> 0 then list_entries X is shown
     else do { shell_print (entry_line (snd e)); list_entries X is (Suc shown) }
   }"

definition cmd_fbo_sched_list :: "'s fbo_ctx \<Rightarrow> 's shell_handler" where
  "cmd_fbo_sched_list X argv = do {
     st \<leftarrow> ask (kfsw_fbo_schedule_get_status (bx_K X));
     if fst st \<noteq> 0
     then do { shell_error (''queue unavailable ('' @ fmt_d (fst st) @ '')''); ret (Some (fst st)) }
     else do {
       shown \<leftarrow> list_entries X [0..<unat (fs_capacity (snd st))] 0;
       (if shown = 0 then shell_print ''the queue is empty'' else ret ());
       ret (Some 0)
     }
   }"

definition cmd_fbo_sched_status :: "'s fbo_ctx \<Rightarrow> 's shell_handler" where
  "cmd_fbo_sched_status X argv = do {
     st \<leftarrow> ask (kfsw_fbo_schedule_get_status (bx_K X));
     if fst st \<noteq> 0
     then do { shell_error (''queue unavailable ('' @ fmt_d (fst st) @ '')''); ret (Some (fst st)) }
     else let s = snd st in do {
       emit_all
         [Print (''entries: '' @ fmt_u (fs_entries s) @ ''/'' @ fmt_u (unat (fs_capacity s))),
          Print (''scheduled: '' @ fmt_u (fs_scheduled s)), Print (''running: '' @ fmt_u (fs_running s)),
          Print (''completed: '' @ fmt_u (fs_completed s)), Print (''failed: '' @ fmt_u (fs_failed s)),
          Print (''overdue: '' @ fmt_u (fs_overdue s)), Print (''cancelled: '' @ fmt_u (fs_cancelled s)),
          Print (''clock set: '' @ (if fs_clock_set s then ''yes'' else ''no'')),
          Print (''latency: '' @ fmt_u (fs_latency_s s) @ '' s''),
          Print (''next relative: '' @ fmt_u (fs_next_due_s s) @ '' s''),
          Print (''next absolute: '' @ fmt_d (fs_next_due_utc s)), Print (''releases: '' @ fmt_u (fs_releases s)),
          Print (''refusals: '' @ fmt_u (fs_refusals s)), Print (''overdues: '' @ fmt_u (fs_overdues s)),
          Print (''clock steps: '' @ fmt_u (fs_clock_steps s)), Print (''queue: 0x'' @ fmt_x 8 (unat (fs_hash s))),
          Print (''last error: '' @ fmt_d (fs_last_error s))];
       ret (Some 0)
     }
   }"

definition cmd_fbo_run :: "'s fbo_ctx \<Rightarrow> 's shell_handler" where
  "cmd_fbo_run X argv =
     with_argv argv 1 (\<lambda>a1. do {
       r \<leftarrow> call (kfsw_fbo_run (bx_K X) a1);
       if r \<noteq> 0 then do { shell_error (''run '' @ a1 @ '': '' @ fmt_d r); ret (Some r) }
       else do { shell_print (a1 @ '' started''); ret (Some 0) }
     })"

definition cmd_fbo_stop :: "'s fbo_ctx \<Rightarrow> 's shell_handler" where
  "cmd_fbo_stop X argv = do {
     r \<leftarrow> call (kfsw_fbo_stop (bx_K X));
     shell_print ''stop requested'';
     ret (Some 0)
   }"

definition cmd_fbo_status :: "'s fbo_ctx \<Rightarrow> 's shell_handler" where
  "cmd_fbo_status X argv = do {
     st \<leftarrow> ask (kfsw_fbo_get_status (bx_K X));
     if fst st \<noteq> 0
     then do { shell_error (''status unavailable ('' @ fmt_d (fst st) @ '')''); ret (Some (fst st)) }
     else let s = snd st in do {
       emit_all
         [Print (''procedure: '' @ (if fo_name s \<noteq> [] then fo_name s else ''none'')),
          Print (''running: '' @ (if fo_running s then ''yes'' else ''no'')), Print (''line: '' @ fmt_u (fo_line s)),
          Print (''last result: '' @ fmt_d (fo_last_result s)), Print (''runs: '' @ fmt_u (fo_runs s)),
          Print (''lines run: '' @ fmt_u (fo_lines_run s)), Print (''lines failed: '' @ fmt_u (fo_lines_failed s)),
          Print (''lines skipped: '' @ fmt_u (fo_lines_skipped s))];
       ret (Some 0)
     }
   }"

text \<open>The two tables of the group: \<^verbatim>\<open>fbo sched\<close> and \<^verbatim>\<open>fbo\<close>.\<close>

definition fbo_sched_subcommands :: "'s fbo_ctx \<Rightarrow> 's subcommand list" where
  "fbo_sched_subcommands X =
     [sub ''add'' (cmd_fbo_sched_add X) 4 0, sub ''cancel'' (cmd_fbo_sched_cancel X) 2 0,
      sub ''clear'' (cmd_fbo_sched_clear X) 1 0, sub ''list'' (cmd_fbo_sched_list X) 1 0,
      sub ''status'' (cmd_fbo_sched_status X) 1 0]"

definition fbo_subcommands :: "'s fbo_ctx \<Rightarrow> 's subcommand list" where
  "fbo_subcommands X =
     [sub ''run'' (cmd_fbo_run X) 2 0, sub ''stop'' (cmd_fbo_stop X) 1 0, sub ''status'' (cmd_fbo_status X) 1 0]"

section \<open>The registry\<close>

record kfsw_command_info =
  ki_id :: nat
  ki_name :: string
  ki_flags :: u32
  ki_arg_count :: nat
  ki_arg_types :: "kfsw_command_type list option"
  ki_help :: "string option"

record 's registry_services =
  kfsw_command_visit :: "'s \<Rightarrow> kfsw_command_info visit \<times> 's"
  kfsw_command_get_stats :: "'s \<Rightarrow> int \<times> nat"

text \<open>\<open>gx_types\<close> is what the automatic array of \<^verbatim>\<open>print_arguments\<close> holds before it is written.\<close>

record 's registry_ctx =
  gx_B :: build
  gx_K :: "'s registry_services"
  gx_types :: "char list"

record listing =
  wanted :: "string option"
  verbose :: bool
  shown :: nat

fun type_name :: "kfsw_command_type \<Rightarrow> string" where
  "type_name KFSW_COMMAND_TYPE_U32 = ''u32''"
| "type_name KFSW_COMMAND_TYPE_I32 = ''i32''"
| "type_name KFSW_COMMAND_TYPE_TEXT = ''text''"

text \<open>
  The loop over the arguments from \<open>index\<close>, \<open>k\<close> to go, with \<open>used\<close> characters written: a piece that
  does not fit is cut and ends it. Reading past the declared types or leaving the array has no
  result.
\<close>

definition argument_name :: "kfsw_command_info \<Rightarrow> nat \<Rightarrow> string option" where
  "argument_name info index =
     (case ki_arg_types info of
        None \<Rightarrow> Some ''?''
      | Some ts \<Rightarrow> if index < length ts then Some (type_name (ts ! index)) else None)"

fun arguments_loop :: "kfsw_command_info \<Rightarrow> nat \<Rightarrow> nat \<Rightarrow> nat \<Rightarrow> char list \<Rightarrow> char list option" where
  "arguments_loop info 0 index used buf = Some buf"
| "arguments_loop info (Suc k) index used buf =
     Option.bind (argument_name info index) (\<lambda>name.
       let t = (if 0 < index then '','' else []) @ name
       in Option.bind (write_at buf used (snprintf (length buf - used) t @ [CHR 0x00])) (\<lambda>b.
            if length t = 0 \<or> length buf - used \<le> length t then Some b
            else arguments_loop info k (Suc index) (used + length t) b))"

definition arguments_text :: "'s registry_ctx \<Rightarrow> kfsw_command_info \<Rightarrow> string option" where
  "arguments_text X info =
     Option.bind (write_at (gx_types X) 0 [CHR 0x00])
       (\<lambda>b. map_option cstr (arguments_loop info (ki_arg_count info) 0 0 b))"

definition print_arguments :: "'s registry_ctx \<Rightarrow> kfsw_command_info \<Rightarrow> ('s, unit option) act" where
  "print_arguments X info =
     (case arguments_text X info of
        None \<Rightarrow> ret None
      | Some t \<Rightarrow> do { shell_print (''  args: '' @ fmt_u (ki_arg_count info) @ '' '' @ t); ret (Some ()) })"

definition print_one :: "'s registry_ctx \<Rightarrow> ('s, kfsw_command_info, listing) callback" where
  "print_one X info c =
     (if wanted c \<noteq> None \<and> wanted c \<noteq> Some (ki_name info) then ret (Some (c, True))
      else do {
        shell_print (fmt_u (ki_id info) @ '' '' @ ki_name info @ '' flags=0x'' @ fmt_x 8 (unat (ki_flags info)));
        p \<leftarrow> (if verbose c \<or> wanted c \<noteq> None then print_arguments X info else ret (Some ()));
        case p of
          None \<Rightarrow> ret None
        | Some _ \<Rightarrow> do {
            (if verbose c \<or> wanted c \<noteq> None
             then shell_print (''  help: '' @ (case ki_help info of Some h \<Rightarrow> h | None \<Rightarrow> ''none''))
             else ret ());
            ret (Some (c\<lparr>shown := Suc (shown c)\<rparr>, True))
          }
      })"

definition cmd_registry_list :: "'s registry_ctx \<Rightarrow> 's shell_handler" where
  "cmd_registry_list X argv = do {
     r \<leftarrow> visit_with (kfsw_command_visit (gx_K X)) (print_one X) \<lparr>wanted = None, verbose = False, shown = 0\<rparr>;
     case r of
       None \<Rightarrow> ret None
     | Some (rc, c) \<Rightarrow> do {
         st \<leftarrow> ask (kfsw_command_get_stats (gx_K X));
         (if fst st = 0 then shell_print (''registered: '' @ fmt_u (snd st) @ '' shown: '' @ fmt_u (shown c)) else ret ());
         ret (Some 0)
       }
   }"

definition cmd_registry_describe :: "'s registry_ctx \<Rightarrow> 's shell_handler" where
  "cmd_registry_describe X argv = do {
     r \<leftarrow> visit_with (kfsw_command_visit (gx_K X)) (print_one X) \<lparr>wanted = None, verbose = True, shown = 0\<rparr>;
     case r of
       None \<Rightarrow> ret None
     | Some (rc, c) \<Rightarrow> do { shell_print (''shown: '' @ fmt_u (shown c)); ret (Some 0) }
   }"

definition cmd_registry_show :: "'s registry_ctx \<Rightarrow> 's shell_handler" where
  "cmd_registry_show X argv =
     with_argv argv 1 (\<lambda>a1. do {
       r \<leftarrow> visit_with (kfsw_command_visit (gx_K X)) (print_one X) \<lparr>wanted = Some a1, verbose = False, shown = 0\<rparr>;
       case r of
         None \<Rightarrow> ret None
       | Some (rc, c) \<Rightarrow>
           if shown c = 0
           then do { shell_error (''no command named '' @ a1); ret (Some (- ENOENT)) }
           else ret (Some 0)
     })"

definition registry_subcommands :: "'s registry_ctx \<Rightarrow> 's subcommand list" where
  "registry_subcommands X =
     [sub ''list'' (cmd_registry_list X) 1 0, sub ''describe'' (cmd_registry_describe X) 1 0,
      sub ''show'' (cmd_registry_show X) 2 0]"

section \<open>The event record\<close>

record 's event_services =
  kfsw_event_visit :: "'s \<Rightarrow> kfsw_event_record visit \<times> 's"
  event_stats_now :: "'s \<Rightarrow> kfsw_event_stats"
  kfsw_event_clear :: "'s \<Rightarrow> 's"
  event_source_name :: "nat \<Rightarrow> string"
  kfsw_event_severity_name :: "nat \<Rightarrow> string"

text \<open>\<open>ev_text\<close> is what the automatic array of a printed payload holds before it is written.\<close>

record 's event_ctx =
  ev_run :: "'s run_ctx"
  ev_K :: "'s event_services"
  ev_text :: "char list"

definition print_event :: "'s event_ctx \<Rightarrow> ('s, kfsw_event_record, u32) callback" where
  "print_event X e n =
     (case hex_text put_snprintf (ev_text X) (payload e) (payload_size e) of
        None \<Rightarrow> ret None
      | Some t \<Rightarrow> do {
          shell_print (pad_left 8 (fmt_u (sequence e)) @ '' '' @ pad_left 10 (fmt_u (unat (monotonic_us e) div 1000)) @ '' '' @
            pad_right 8 (event_source_name (ev_K X) (source e)) @ '' '' @
            pad_right 8 (kfsw_event_severity_name (ev_K X) (severity e)) @ '' '' @ pad_left 5 (fmt_u (rec_id e)) @ '' '' @ t);
          ret (Some (n + 1, True))
        })"

definition cmd_event_list :: "'s event_ctx \<Rightarrow> 's shell_handler" where
  "cmd_event_list X argv = do {
     shell_print ''     SEQ    TIME_MS SOURCE   SEVERITY    ID PAYLOAD'';
     r \<leftarrow> visit_with (kfsw_event_visit (ev_K X)) (print_event X) 0;
     case r of
       None \<Rightarrow> ret None
     | Some (rc, n) \<Rightarrow> do { shell_print (''Events listed: '' @ fmt_u (unat n)); ret (Some 0) }
   }"

definition cmd_event_stats :: "'s event_ctx \<Rightarrow> 's shell_handler" where
  "cmd_event_stats X argv =
     (if rx_cfg (ev_run X) CONFIG_KFSW_COMMAND_CSP \<and> length argv = 2
      then run_here_or (ev_run X) True ''event_stats'' 0 argv
      else do {
        st \<leftarrow> ask (event_stats_now (ev_K X));
        emit_all
          [Print ''K-FSW events'', Print (''held: '' @ fmt_u (held st) @ ''/'' @ fmt_u (stat_capacity st)),
           Print (''recorded: '' @ fmt_u (recorded st)), Print (''overwritten: '' @ fmt_u (overwritten st)),
           Print (''rejected: '' @ fmt_u (rejected st))];
        ret (Some 0)
      })"

definition cmd_event_tail :: "'s event_ctx \<Rightarrow> 's shell_handler" where
  "cmd_event_tail X argv = run_here_or (ev_run X) (length argv = 3) ''event_tail'' 1 argv"

definition cmd_event_clear :: "'s event_ctx \<Rightarrow> 's shell_handler" where
  "cmd_event_clear X argv = do {
     u \<leftarrow> call (\<lambda>s. ((), kfsw_event_clear (ev_K X) s));
     shell_print ''Event record cleared'';
     ret (Some 0)
   }"

definition event_subcommands :: "'s event_ctx \<Rightarrow> 's subcommand list" where
  "event_subcommands X =
     (let node = (if rx_cfg (ev_run X) CONFIG_KFSW_COMMAND_CSP then 1 else 0)
      in [sub ''clear'' (cmd_event_clear X) 1 0, sub ''list'' (cmd_event_list X) 1 0,
          sub ''stats'' (cmd_event_stats X) 1 node] @
         (if rx_cfg (ev_run X) CONFIG_KFSW_COMMAND_CSP \<or> rx_cfg (ev_run X) CONFIG_KFSW_COMMAND
          then [sub ''tail'' (cmd_event_tail X) 2 node] else []))"

section \<open>The journal\<close>

record 's journal_services =
  kfsw_journal_remote_read :: "u16 \<Rightarrow> u16 \<Rightarrow> 's \<Rightarrow> kfsw_journal_record visit \<times> 's"
  journal_source_name :: "nat \<Rightarrow> string"
  JOURNAL_HISTORY_MAX_READ :: nat

record 's journal_ctx =
  jx_run :: "'s run_ctx"
  jx_K :: "'s journal_services"
  jx_data :: "char list"

definition run :: "'s journal_ctx \<Rightarrow> string \<Rightarrow> nat \<Rightarrow> 's shell_handler" where
  "run X name extra argv = run_here_or (jx_run X) (length argv = 2 + extra) name extra argv"

definition cmd_journal_stats :: "'s journal_ctx \<Rightarrow> 's shell_handler" where
  "cmd_journal_stats X argv = run X ''journal_stats'' 0 argv"

definition cmd_journal_tail :: "'s journal_ctx \<Rightarrow> 's shell_handler" where
  "cmd_journal_tail X argv = run X ''journal_tail'' 1 argv"

definition cmd_journal_time :: "'s journal_ctx \<Rightarrow> 's shell_handler" where
  "cmd_journal_time X argv = run X ''journal_time'' 1 argv"

definition print_journal_event :: "'s journal_ctx \<Rightarrow> ('s, kfsw_journal_record, unit) callback" where
  "print_journal_event X j c =
     (case hex_text put_snprintf (jx_data X) (payload (j_event j)) (payload_size (j_event j)) of
        None \<Rightarrow> ret None
      | Some t \<Rightarrow> do {
          shell_print (''seq='' @ fmt_u (j_sequence j) @ '' boot='' @ fmt_u (j_boot j) @ '' utc='' @ fmt_d (j_utc_seconds j) @
            (if j_utc_valid j \<noteq> 0 then [] else ''?'') @ '' src='' @ journal_source_name (jx_K X) (source (j_event j)) @
            '' id='' @ fmt_u (rec_id (j_event j)) @ '' sev='' @ fmt_u (severity (j_event j)) @ '' data='' @ t);
          ret (Some (c, True))
        })"

definition cmd_journal_remote :: "'s journal_ctx \<Rightarrow> 's shell_handler" where
  "cmd_journal_remote X argv =
     with_argv argv 1 (\<lambda>a1. do {
       n \<leftarrow> kfsw_shell_parse_node (rx_B (jx_run X)) (rx_E (jx_run X)) a1 0;
       if fst n \<noteq> 0 then ret (Some (fst n))
       else let (count, parse_error) = (if 2 < length argv then shell_strtoul (rx_E (jx_run X)) (argv ! 2) 10
                                        else (JOURNAL_HISTORY_MAX_READ (jx_K X), 0))
            in if parse_error \<noteq> 0 \<or> count = 0 \<or> JOURNAL_HISTORY_MAX_READ (jx_K X) < count
               then do {
                 shell_error (''Usage: journal remote <node> [count 1..'' @ fmt_u (JOURNAL_HISTORY_MAX_READ (jx_K X)) @ '']'');
                 ret (Some (- EINVAL))
               }
               else do {
                 shell_print (''node: '' @ fmt_u (unat (snd n)));
                 r \<leftarrow> visit_with (kfsw_journal_remote_read (jx_K X) (snd n) (of_nat count)) (print_journal_event X) ();
                 case r of
                   None \<Rightarrow> ret None
                 | Some (result, u) \<Rightarrow>
                     if result = - ENOTSUP
                     then do {
                       shell_error (''journal remote: node '' @ fmt_u (unat (snd n)) @ '' keeps no journal'');
                       ret (Some result)
                     }
                     else if result = - EIO
                     then do {
                       shell_error (''journal remote: node '' @ fmt_u (unat (snd n)) @ '' cut the read short'');
                       ret (Some result)
                     }
                     else if result = 0 then ret (Some 0)
                     else lift_int (kfsw_shell_remote_failed ''journal remote'' (snd n) result)
               }
     })"

definition journal_subcommands :: "'s journal_ctx \<Rightarrow> 's subcommand list" where
  "journal_subcommands X =
     (let node = (if rx_cfg (jx_run X) CONFIG_KFSW_COMMAND_CSP then 1 else 0)
      in (if rx_cfg (jx_run X) CONFIG_KFSW_LOG_REMOTE then [sub ''remote'' (cmd_journal_remote X) 2 1] else []) @
         [sub ''stats'' (cmd_journal_stats X) 1 node, sub ''tail'' (cmd_journal_tail X) 2 node,
          sub ''time'' (cmd_journal_time X) 2 node])"


section \<open>Every subcommand returns\<close>

text \<open>
  What the groups rely on: arrays of the sizes in the code, a type for every declared argument, and
  payloads as long as they say and no longer than the constant.
\<close>

definition registry_ctx_ok :: "'s registry_ctx \<Rightarrow> bool" where
  "registry_ctx_ok X \<longleftrightarrow> length (gx_types X) = KFSW_COMMAND_MAX_ARGS (gx_B X) * 5 + 1 \<and>
     (\<forall>s. \<forall>i \<in> set (fst (fst (kfsw_command_visit (gx_K X) s))). \<forall>ts. ki_arg_types i = Some ts \<longrightarrow> ki_arg_count i \<le> length ts)"

definition payload_ok :: "build \<Rightarrow> kfsw_event_record \<Rightarrow> bool" where
  "payload_ok B e \<longleftrightarrow> payload_size e \<le> length (payload e) \<and> payload_size e \<le> KFSW_EVENT_MAX_PAYLOAD_SIZE B"

definition event_ctx_ok :: "'s event_ctx \<Rightarrow> bool" where
  "event_ctx_ok X \<longleftrightarrow> length (ev_text X) = KFSW_EVENT_MAX_PAYLOAD_SIZE (rx_B (ev_run X)) * 2 + 1 \<and>
     registry_ok (rx_B (ev_run X)) (rx_E (ev_run X)) \<and>
     (\<forall>s. \<forall>e \<in> set (fst (fst (kfsw_event_visit (ev_K X) s))). payload_ok (rx_B (ev_run X)) e)"

definition journal_ctx_ok :: "'s journal_ctx \<Rightarrow> bool" where
  "journal_ctx_ok X \<longleftrightarrow> length (jx_data X) = KFSW_EVENT_MAX_PAYLOAD_SIZE (rx_B (jx_run X)) * 2 + 1 \<and>
     registry_ok (rx_B (jx_run X)) (rx_E (jx_run X)) \<and>
     (\<forall>n c s. \<forall>j \<in> set (fst (fst (kfsw_journal_remote_read (jx_K X) n c s))). payload_ok (rx_B (jx_run X)) (j_event j))"

lemma payload_hex:
  "payload_ok B e \<Longrightarrow> length buf = KFSW_EVENT_MAX_PAYLOAD_SIZE B * 2 + 1 \<Longrightarrow>
   hex_text put_snprintf buf (payload e) (payload_size e) = Some (concat (map hex_byte (take (payload_size e) (payload e))))"
  by (rule snprintf_writer.text_is_hex) (auto simp: payload_ok_def)

lemma arguments_loop_some:
  assumes "\<forall>ts. ki_arg_types info = Some ts \<longrightarrow> index + k \<le> length ts" "used < length buf"
  shows "\<exists>b. arguments_loop info k index used buf = Some b"
  using assms
proof (induction k arbitrary: index used buf)
  case (Suc k)
  obtain name where name: "argument_name info index = Some name"
    using Suc.prems(1) by (cases "ki_arg_types info") (auto simp: argument_name_def)
  let ?t = "(if 0 < index then '','' else []) @ name"
  obtain b where b: "write_at buf used (snprintf (length buf - used) ?t @ [CHR 0x00]) = Some b" "length b = length buf"
    using write_snprintf [OF Suc.prems(2)] by blast
  have "\<exists>c. arguments_loop info k (Suc index) (used + length ?t) b = Some c" if "length ?t < length buf - used"
    using Suc.prems that b(2) by (intro Suc.IH) auto
  then show ?case using name b(1) by (auto simp: Let_def)
qed simp

lemma arguments_text_some:
  assumes "registry_ctx_ok X" "\<forall>ts. ki_arg_types i = Some ts \<longrightarrow> ki_arg_count i \<le> length ts"
  shows "\<exists>t. arguments_text X i = Some t"
proof -
  have n: "0 < length (gx_types X)" using assms(1) by (simp add: registry_ctx_ok_def)
  then obtain b where b: "write_at (gx_types X) 0 [CHR 0x00] = Some b" "0 < length b"
    by (auto simp: write_at_def Suc_le_eq)
  then show ?thesis
    using arguments_loop_some [of i 0 "ki_arg_count i" 0 b] assms(2) by (auto simp: arguments_text_def)
qed

lemma run_here_or_returns:
  "registry_ok (rx_B X) (rx_E X) \<Longrightarrow> (given \<Longrightarrow> 1 < length argv) \<Longrightarrow> returns (run_here_or X given name extra argv)"
  unfolding run_here_or_def run_named_def by (intro returns_intros returns_run_command) simp_all

interpretation registry_rows: item_callback "print_one X" "\<lambda>_. registry_ctx_ok X"
    "\<lambda>i. \<forall>ts. ki_arg_types i = Some ts \<longrightarrow> ki_arg_count i \<le> length ts" for X
proof
  fix c :: listing and i :: kfsw_command_info
  assume "registry_ctx_ok X" "\<forall>ts. ki_arg_types i = Some ts \<longrightarrow> ki_arg_count i \<le> length ts"
  moreover from arguments_text_some [OF this] obtain t where "arguments_text X i = Some t" by blast
  ultimately show "ends (\<lambda>r. \<exists>c' go. r = Some (c', go) \<and> registry_ctx_ok X) (print_one X i c)"
    by (auto simp: print_one_def print_arguments_def ends_def)
qed

interpretation event_rows: item_callback "print_event X" "\<lambda>_. True" "\<lambda>e. event_ctx_ok X \<and> payload_ok (rx_B (ev_run X)) e" for X
  by unfold_locales (auto simp: print_event_def payload_hex event_ctx_ok_def ends_def)

interpretation journal_rows: item_callback "print_journal_event X" "\<lambda>_. True"
    "\<lambda>j. journal_ctx_ok X \<and> payload_ok (rx_B (jx_run X)) (j_event j)" for X
  by unfold_locales (auto simp: print_journal_event_def payload_hex journal_ctx_ok_def ends_def)

interpretation fbo_group: shell_group fbo_subcommands "\<lambda>_. True"
  by unfold_locales
    (auto simp: fbo_subcommands_def cmd_fbo_run_def cmd_fbo_stop_def cmd_fbo_status_def Let_def simp del: not_None_eq
      intro!: returns_intros)

interpretation fbo_sched_group: shell_group fbo_sched_subcommands "\<lambda>_. True"
  by unfold_locales
    (auto simp: fbo_sched_subcommands_def cmd_fbo_sched_add_def cmd_fbo_sched_cancel_def cmd_fbo_sched_clear_def
      cmd_fbo_sched_list_def cmd_fbo_sched_status_def Let_def split_beta simp del: not_None_eq intro!: returns_intros)

lemma registry_walk_returns:
  assumes "registry_ctx_ok X" "\<And>rc c. returns (k (Some (rc, c)))"
  shows "returns (visit_with (kfsw_command_visit (gx_K X)) (print_one X) c0 \<bind> k)"
  by (rule registry_rows.items_then) (use assms in \<open>auto simp: registry_ctx_ok_def\<close>)

lemma registry_returns:
  assumes "registry_ctx_ok X"
  shows "returns (cmd_registry_list X argv)" "returns (cmd_registry_describe X argv)"
    "2 \<le> length argv \<Longrightarrow> returns (cmd_registry_show X argv)"
proof -
  show "returns (cmd_registry_list X argv)" "returns (cmd_registry_describe X argv)"
    unfolding cmd_registry_list_def cmd_registry_describe_def
    by (rule registry_walk_returns [OF assms]; simp del: not_None_eq; intro returns_intros)+
  show "returns (cmd_registry_show X argv)" if "2 \<le> length argv"
    unfolding cmd_registry_show_def
    by (rule ends_with_argv, use that in simp, rule registry_walk_returns [OF assms])
      (auto simp del: not_None_eq intro!: returns_intros)
qed

interpretation registry_group: shell_group registry_subcommands registry_ctx_ok
  by unfold_locales (auto simp: registry_subcommands_def simp del: not_None_eq intro!: registry_returns)

lemma event_list_returns: "event_ctx_ok X \<Longrightarrow> returns (cmd_event_list X argv)"
  unfolding cmd_event_list_def
  by (rule ends_bind, rule event_rows.items_then) (auto simp: event_ctx_ok_def simp del: not_None_eq intro!: returns_intros)

interpretation event_group: shell_group event_subcommands event_ctx_ok
proof unfold_locales
  show "group_total (event_subcommands X)" if "event_ctx_ok X" for X :: "'s event_ctx"
    using that
    by (auto simp: event_subcommands_def cmd_event_clear_def cmd_event_stats_def cmd_event_tail_def event_ctx_ok_def
        simp del: not_None_eq intro!: returns_intros event_list_returns run_here_or_returns)
qed (auto simp: event_subcommands_def Let_def)

lemma journal_remote_returns:
  assumes "journal_ctx_ok X" "2 \<le> length argv"
  shows "returns (cmd_journal_remote X argv)"
  unfolding cmd_journal_remote_def Let_def split_beta
  by (rule ends_with_argv, use assms(2) in simp, rule ends_bind, rule ends_if, rule returns_ret, rule ends_if,
      rule ends_bind, rule returns_ret, rule ends_bind, rule journal_rows.items_then)
    (use assms(1) in \<open>auto simp: journal_ctx_ok_def simp del: not_None_eq intro!: returns_intros\<close>)

interpretation journal_group: shell_group journal_subcommands journal_ctx_ok
proof unfold_locales
  show "group_total (journal_subcommands X)" if "journal_ctx_ok X" for X :: "'s journal_ctx"
    using that
    by (auto simp: journal_subcommands_def cmd_journal_stats_def cmd_journal_tail_def cmd_journal_time_def run_def
        journal_ctx_ok_def Let_def simp del: not_None_eq intro!: run_here_or_returns journal_remote_returns)
qed (auto simp: journal_subcommands_def Let_def)


section \<open>Properties\<close>

definition types_text :: "kfsw_command_type list \<Rightarrow> string" where
  "types_text ts = join_with (CHR '','') (map type_name ts)"

lemma types_text_snoc: "types_text (ts @ [t]) = types_text ts @ (if ts = [] then [] else '','') @ type_name t"
  by (simp add: types_text_def join_with_snoc)

lemma type_name_length: "0 < length (type_name t)" "length (type_name t) \<le> 4" "CHR 0x00 \<notin> set (type_name t)"
  by (cases t; simp)+

lemma types_text_length: "length (types_text ts) \<le> 5 * length ts" "CHR 0x00 \<notin> set (types_text ts)"
proof (induction ts rule: rev_induct)
  case (snoc t ts)
  {
    case 1
    then show ?case using snoc(1) type_name_length(2) [of t] by (auto simp: types_text_snoc)
  next
    case 2
    then show ?case using snoc(2) type_name_length(3) [of t] by (simp add: types_text_snoc)
  }
qed (simp_all add: types_text_def)

lemma arguments_loop_text:
  assumes "ki_arg_types info = Some ts" "index + k \<le> length ts" "5 * (index + k) < length buf"
    "buf = types_text (take index ts) @ CHR 0x00 # r"
  shows "\<exists>r'. arguments_loop info k index (length (types_text (take index ts))) buf =
    Some (types_text (take (index + k) ts) @ CHR 0x00 # r')"
  using assms(2-4)
proof (induction k arbitrary: index buf r)
  case (Suc k)
  let ?u = "length (types_text (take index ts))"
  let ?t = "(if 0 < index then '','' else []) @ type_name (ts ! index)"
  have i: "index < length ts" using Suc.prems(1) by simp
  have u: "?u \<le> 5 * index" using types_text_length(1) [of "take index ts"] i by simp
  have t: "length ?t \<le> 5" "0 < length ?t" using type_name_length [of "ts ! index"] by auto
  have nxt: "types_text (take (Suc index) ts) = types_text (take index ts) @ ?t"
    using i by (auto simp: take_Suc_conv_app_nth types_text_snoc)
  define b where "b = types_text (take (Suc index) ts) @ CHR 0x00 # drop (?u + length ?t + 1) buf"
  have fits: "length ?t < length buf - ?u"
  proof -
    have "n < length buf - m" if "n \<le> 5" "m \<le> 5 * index" for n m
      using that Suc.prems(2) by simp
    then show ?thesis using t(1) u by blast
  qed
  have w: "write_at buf ?u (snprintf (length buf - ?u) ?t @ [CHR 0x00]) = Some b"
    unfolding write_snprintf_fits [OF fits] b_def nxt by (simp add: Suc.prems(3))
  have "length b = length buf" using fits by (simp add: b_def nxt)
  then have "\<exists>r'. arguments_loop info k (Suc index) (length (types_text (take (Suc index) ts))) b =
      Some (types_text (take (Suc index + k) ts) @ CHR 0x00 # r')"
    using Suc.prems by (intro Suc.IH [OF _ _ b_def]) auto
  moreover have "arguments_loop info (Suc k) index ?u buf =
      arguments_loop info k (Suc index) (length (types_text (take (Suc index) ts))) b"
    using w t(2) fits i by (auto simp: argument_name_def assms(1) Let_def nxt)
  ultimately show ?case by simp
qed simp

text \<open>
  The arguments of a command are listed whole: for a command with no more arguments than the
  registry allows, each with a type, the text is the names of its types with commas between them,
  none cut, and it stays inside the array with its terminator.
\<close>

lemma registry_arguments_whole:
  assumes "length (gx_types X) = KFSW_COMMAND_MAX_ARGS (gx_B X) * 5 + 1"
    and "ki_arg_types i = Some ts" "ki_arg_count i = length ts" "length ts \<le> KFSW_COMMAND_MAX_ARGS (gx_B X)"
  shows "arguments_text X i = Some (join_with (CHR '','') (map type_name ts)) \<and>
    length (join_with (CHR '','') (map type_name ts)) < length (gx_types X)"
proof -
  have e: "types_text [] = []" by (simp add: types_text_def)
  obtain b where b: "write_at (gx_types X) 0 [CHR 0x00] = Some (CHR 0x00 # b)" "length (CHR 0x00 # b) = length (gx_types X)"
    using assms(1) by (cases "gx_types X") (auto simp: write_at_def)
  obtain r where "arguments_loop i (length ts) 0 0 (CHR 0x00 # b) = Some (types_text ts @ CHR 0x00 # r)"
    using arguments_loop_text [OF assms(2), of 0 "length ts" "CHR 0x00 # b" b] b(2) assms(1,4) by (auto simp: e)
  moreover have "cstr (types_text ts @ CHR 0x00 # r) = types_text ts"
    by (rule cstr_append) (rule types_text_length(2))
  ultimately show ?thesis
    using types_text_length(1) [of ts] assms(1,3,4) by (simp add: arguments_text_def b types_text_def)
qed

lemma registry_arguments_whole_witness:
  "arguments_text \<lparr>gx_B = sample_build, gx_K = \<lparr>kfsw_command_visit = (\<lambda>s :: unit. (([], \<lambda>_. 0), s)),
       kfsw_command_get_stats = (\<lambda>_. (0, 0))\<rparr>, gx_types = replicate 21 (CHR ''x'')\<rparr>
     \<lparr>ki_id = 1, ki_name = ''a'', ki_flags = 0, ki_arg_count = 2,
      ki_arg_types = Some [KFSW_COMMAND_TYPE_U32, KFSW_COMMAND_TYPE_TEXT], ki_help = None\<rparr> = Some ''u32,text''"
  using registry_arguments_whole [of "\<lparr>gx_B = sample_build, gx_K = \<lparr>kfsw_command_visit = (\<lambda>s :: unit. (([], \<lambda>_. 0), s)),
       kfsw_command_get_stats = (\<lambda>_. (0, 0))\<rparr>, gx_types = replicate 21 (CHR ''x'')\<rparr>"
     "\<lparr>ki_id = 1, ki_name = ''a'', ki_flags = 0, ki_arg_count = 2,
      ki_arg_types = Some [KFSW_COMMAND_TYPE_U32, KFSW_COMMAND_TYPE_TEXT], ki_help = None\<rparr>"
     "[KFSW_COMMAND_TYPE_U32, KFSW_COMMAND_TYPE_TEXT]"]
  by (simp add: sample_build_def)

end
