(* ===== verification/Shell_Updates.thy ===== *)
theory Shell_Updates
  imports Shell_Param
begin

text \<open>
  The shell groups that change what a node runs or holds: \<^verbatim>\<open>src/app/src/shell/shell_fwu_lite.c\<close>
  (resumable firmware upload to another node), \<^verbatim>\<open>src/app/src/shell/shell_fwu.c\<close> (the local firmware
  update), \<^verbatim>\<open>src/app/src/shell/shell_golden.c\<close> (the recovery image) and
  \<^verbatim>\<open>src/app/src/shell/shell_table.c\<close> (parameter tables as files). The services and Zephyr's
  \<^verbatim>\<open>bin2hex\<close> are parameters; numbers the code only prints are naturals.
\<close>

section \<open>Firmware: data\<close>

record kfsw_fwu_handle =
  transfer_id :: u32
  generation :: u32

record kfsw_fwu_status =
  fw_state :: nat
  fw_handle :: kfsw_fwu_handle
  fw_target_bound :: bool
  total_size :: nat
  received :: nat
  committed :: nat
  expected_crc32 :: u32
  actual_crc32 :: u32
  swap_scheduled :: bool
  sha256 :: "u8 list option"
  fw_started :: nat
  fw_completed :: nat
  fw_failed :: nat

definition no_status :: kfsw_fwu_status where
  "no_status = \<lparr>fw_state = 0, fw_handle = \<lparr>transfer_id = 0, generation = 0\<rparr>, fw_target_bound = False, total_size = 0,
     received = 0, committed = 0, expected_crc32 = 0, actual_crc32 = 0, swap_scheduled = False, sha256 = None,
     fw_started = 0, fw_completed = 0, fw_failed = 0\<rparr>"

record 's fwu_services =
  kfsw_fwu_state_name :: "nat \<Rightarrow> string"
  bin2hex :: "u8 list \<Rightarrow> string"
  kfsw_fwu_get_status :: "'s \<Rightarrow> int \<times> kfsw_fwu_status"
  kfsw_fwu_max_image_size :: "'s \<Rightarrow> nat"
  kfsw_fwu_slot_write_offset :: "'s \<Rightarrow> nat"
  kfsw_fwu_begin :: "u32 \<Rightarrow> u32 \<Rightarrow> 's \<Rightarrow> int \<times> 's"
  kfsw_fwu_finish :: "'s \<Rightarrow> int \<times> 's"
  kfsw_fwu_abort :: "'s \<Rightarrow> int \<times> 's"
  kfsw_fwu_lite_remote_status :: "u16 \<Rightarrow> 's \<Rightarrow> (int \<times> kfsw_fwu_status) \<times> 's"
  kfsw_fwu_lite_send_file :: "u16 \<Rightarrow> string \<Rightarrow> kfsw_fwu_status \<Rightarrow> 's \<Rightarrow> (int \<times> kfsw_fwu_status \<times> nat) \<times> 's"
  kfsw_fwu_lite_remote_verify :: "u16 \<Rightarrow> kfsw_fwu_handle \<Rightarrow> 's \<Rightarrow> (int \<times> kfsw_fwu_status) \<times> 's"
  kfsw_fwu_lite_remote_activate :: "u16 \<Rightarrow> kfsw_fwu_handle \<Rightarrow> 's \<Rightarrow> (int \<times> kfsw_fwu_status) \<times> 's"
  kfsw_fwu_lite_remote_abort :: "u16 \<Rightarrow> kfsw_fwu_handle \<Rightarrow> 's \<Rightarrow> (int \<times> kfsw_fwu_status) \<times> 's"

record 's fwu_ctx =
  ux_B :: build
  ux_E :: "'s shell_env"
  ux_K :: "'s fwu_services"

section \<open>Upload to another node\<close>

definition print_status :: "'s fwu_ctx \<Rightarrow> kfsw_fwu_status \<Rightarrow> ('s, unit) act" where
  "print_status X st = emit_all
     ([Print (''state: '' @ kfsw_fwu_state_name (ux_K X) (fw_state st)),
       Print (''transfer_id: '' @ fmt_u (unat (transfer_id (fw_handle st)))),
       Print (''generation: '' @ fmt_u (unat (generation (fw_handle st)))),
       Print (''total_size: '' @ fmt_u (total_size st)), Print (''received: '' @ fmt_u (received st)),
       Print (''committed: '' @ fmt_u (committed st)),
       Print (''expected_crc32: '' @ fmt_x 8 (unat (expected_crc32 st))),
       Print (''actual_crc32: '' @ fmt_x 8 (unat (actual_crc32 st))),
       Print (''swap_scheduled: '' @ (if swap_scheduled st then ''yes'' else ''no''))] @
      (case sha256 st of Some d \<Rightarrow> [Print (''sha256: '' @ bin2hex (ux_K X) d)] | None \<Rightarrow> []))"

definition status_shown :: "'s fwu_ctx \<Rightarrow> int \<times> kfsw_fwu_status \<Rightarrow> ('s, int option) act" where
  "status_shown X r =
     (if fst r \<noteq> 0
      then do { shell_error (''Firmware upload status failed ('' @ fmt_d (fst r) @ '')''); ret (Some (fst r)) }
      else do { print_status X (snd r); ret (Some 0) })"

definition fwu_lite_cmd_status :: "'s fwu_ctx \<Rightarrow> 's shell_handler" where
  "fwu_lite_cmd_status X argv =
     (if length argv = 1
      then do { r \<leftarrow> ask (kfsw_fwu_get_status (ux_K X)); status_shown X r }
      else with_argv argv 1 (\<lambda>a1. do {
        n \<leftarrow> kfsw_shell_parse_node (ux_B X) (ux_E X) a1 0;
        if fst n \<noteq> 0 then ret (Some (fst n))
        else do {
          r \<leftarrow> call (kfsw_fwu_lite_remote_status (ux_K X) (snd n));
          if fst r = - ENOENT
          then do { shell_print (''Node '' @ fmt_u (unat (snd n)) @ '' has no owned transfer''); ret (Some 0) }
          else status_shown X r
        }
      }))"

definition cmd_send :: "'s fwu_ctx \<Rightarrow> 's shell_handler" where
  "cmd_send X argv =
     with_argv argv 1 (\<lambda>a1. do {
       n \<leftarrow> kfsw_shell_parse_node (ux_B X) (ux_E X) a1 0;
       if fst n \<noteq> 0 then ret (Some (fst n))
       else with_argv argv 2 (\<lambda>a2. do {
         shell_print (''Sending '' @ a2 @ '' to node '' @ fmt_u (unat (snd n)));
         r \<leftarrow> call (kfsw_fwu_lite_send_file (ux_K X) (snd n) a2 no_status);
         let (result, receipt, resent) = r
         in if result \<noteq> 0
            then do {
              shell_error (''Upload stopped ('' @ fmt_d result @ ''); '' @ fmt_u resent @ '' block(s) resent'');
              (if generation (fw_handle receipt) \<noteq> 0 then print_status X receipt else ret ());
              shell_print ''Receiver progress retained; repeat send with the same image to resume'';
              ret (Some result)
            }
            else do {
              shell_print (''Upload complete; no validation or activation requested; '' @ fmt_u resent @ '' block(s) resent'');
              print_status X receipt;
              shell_print (''Run: fwu_lite validate '' @ fmt_u (unat (snd n)));
              ret (Some 0)
            }
       })
     })"

text \<open>The node, the result and the status, whose handle names the transfer.\<close>

definition resolve_transfer :: "'s fwu_ctx \<Rightarrow> string \<Rightarrow> ('s, int \<times> u16 \<times> kfsw_fwu_status) act" where
  "resolve_transfer X txt = do {
     n \<leftarrow> kfsw_shell_parse_node (ux_B X) (ux_E X) txt 0;
     if fst n \<noteq> 0 then ret (fst n, snd n, no_status)
     else do {
       r \<leftarrow> call (kfsw_fwu_lite_remote_status (ux_K X) (snd n));
       (if fst r \<noteq> 0
        then shell_error (''Could not resolve this node'' @ [CHR 0x27] @ ''s owned transfer ('' @ fmt_d (fst r) @ '')'')
        else ret ());
       ret (fst r, snd n, snd r)
     }
   }"

text \<open>Resolve the transfer, then act on its handle: what \<^verbatim>\<open>validate\<close>, \<^verbatim>\<open>flash\<close> and \<^verbatim>\<open>abort\<close> start with.\<close>

definition on_transfer ::
  "'s fwu_ctx \<Rightarrow> string list \<Rightarrow> (u16 \<Rightarrow> kfsw_fwu_handle \<Rightarrow> 's \<Rightarrow> (int \<times> kfsw_fwu_status) \<times> 's) \<Rightarrow> string
     \<Rightarrow> (u16 \<Rightarrow> kfsw_fwu_status \<Rightarrow> ('s, unit) act) \<Rightarrow> ('s, int option) act" where
  "on_transfer X argv f failure success =
     with_argv argv 1 (\<lambda>a1. do {
       t \<leftarrow> resolve_transfer X a1;
       r \<leftarrow> (if fst t = 0 then call (f (fst (snd t)) (fw_handle (snd (snd t)))) else ret (fst t, snd (snd t)));
       if fst r \<noteq> 0
       then do { shell_error (failure @ '' ('' @ fmt_d (fst r) @ '')''); ret (Some (fst r)) }
       else do { success (fst (snd t)) (snd r); ret (Some 0) }
     })"

definition cmd_validate :: "'s fwu_ctx \<Rightarrow> 's shell_handler" where
  "cmd_validate X argv =
     on_transfer X argv (kfsw_fwu_lite_remote_verify (ux_K X)) ''Stored image validation failed''
       (\<lambda>node st. do {
          shell_print ''Stored image verified; activation not requested'';
          print_status X st
        })"

definition cmd_flash :: "'s fwu_ctx \<Rightarrow> 's shell_handler" where
  "cmd_flash X argv =
     on_transfer X argv (kfsw_fwu_lite_remote_activate (ux_K X)) ''Image activation failed''
       (\<lambda>node st. do {
          shell_print (''Node '' @ fmt_u (unat node) @ '' image ready; swap scheduled: '' @
            (if swap_scheduled st then ''yes'' else ''no''));
          shell_print ''No reset requested; check target boot behavior before resetting''
        })"

definition cmd_abort :: "'s fwu_ctx \<Rightarrow> 's shell_handler" where
  "cmd_abort X argv =
     on_transfer X argv (kfsw_fwu_lite_remote_abort (ux_K X)) ''Owned transfer cleanup failed''
       (\<lambda>node st. shell_print ''Owned transfer aborted; target slot erased'')"

definition fwu_lite_subcommands :: "'s fwu_ctx \<Rightarrow> 's subcommand list" where
  "fwu_lite_subcommands X =
     [sub ''abort'' (cmd_abort X) 2 0, sub ''flash'' (cmd_flash X) 2 0, sub ''send'' (cmd_send X) 3 0,
      sub ''status'' (fwu_lite_cmd_status X) 1 1, sub ''validate'' (cmd_validate X) 2 0]"

section \<open>Update here\<close>

definition parse_u32 :: "'s fwu_ctx \<Rightarrow> string \<Rightarrow> string \<Rightarrow> u32 \<Rightarrow> ('s, int \<times> u32) act" where
  "parse_u32 X txt what v =
     (let (parsed, parse_error) = shell_strtoul (ux_E X) txt 0
      in if hd0 txt = CHR ''-'' \<or> parse_error \<noteq> 0 \<or> UINT32_MAX < parsed
         then do { shell_error (''Invalid '' @ what @ '': '' @ txt); ret (- EINVAL, v) }
         else ret (0, of_nat parsed))"

definition cmd_fwu_status :: "'s fwu_ctx \<Rightarrow> 's shell_handler" where
  "cmd_fwu_status X argv = do {
     r \<leftarrow> ask (kfsw_fwu_get_status (ux_K X));
     if fst r \<noteq> 0
     then do { shell_error (''firmware update status unavailable ('' @ fmt_d (fst r) @ '')''); ret (Some (fst r)) }
     else let st = snd r in do {
       image_max \<leftarrow> ask (kfsw_fwu_max_image_size (ux_K X));
       pos \<leftarrow> ask (kfsw_fwu_slot_write_offset (ux_K X));
       emit_all
         [Print ''K-FSW firmware update'', Print (''target: '' @ (if fw_target_bound st then ''bound'' else ''absent'')),
          Print (''state: '' @ kfsw_fwu_state_name (ux_K X) (fw_state st)),
          Print (''max_image_bytes: '' @ fmt_u image_max), Print (''write_offset: '' @ fmt_u pos),
          Print (''total_size: '' @ fmt_u (total_size st)), Print (''received: '' @ fmt_u (received st)),
          Print (''expected_crc32: '' @ fmt_x 8 (unat (expected_crc32 st))),
          Print (''actual_crc32: '' @ fmt_x 8 (unat (actual_crc32 st))),
          Print (''swap_scheduled: '' @ (if swap_scheduled st then ''yes'' else ''no'')),
          Print (''started: '' @ fmt_u (fw_started st)), Print (''completed: '' @ fmt_u (fw_completed st)),
          Print (''failed: '' @ fmt_u (fw_failed st))];
       ret (Some 0)
     }
   }"

definition cmd_fwu_begin :: "'s fwu_ctx \<Rightarrow> 's shell_handler" where
  "cmd_fwu_begin X argv =
     with_argv argv 1 (\<lambda>a1. do {
       sz \<leftarrow> parse_u32 X a1 ''size'' 0;
       if fst sz \<noteq> 0 then ret (Some (fst sz))
       else with_argv argv 2 (\<lambda>a2. do {
         crc \<leftarrow> parse_u32 X a2 ''crc32'' 0;
         if fst crc \<noteq> 0 then ret (Some (fst crc))
         else do {
           r \<leftarrow> call (kfsw_fwu_begin (ux_K X) (snd sz) (snd crc));
           if r \<noteq> 0 then do { shell_error (''firmware update begin failed ('' @ fmt_d r @ '')''); ret (Some r) }
           else do { shell_print (''Firmware update ready for '' @ fmt_u (unat (snd sz)) @ '' bytes''); ret (Some 0) }
         }
       })
     })"

definition cmd_fwu_finish :: "'s fwu_ctx \<Rightarrow> 's shell_handler" where
  "cmd_fwu_finish X argv = do {
     r \<leftarrow> call (kfsw_fwu_finish (ux_K X));
     if r \<noteq> 0 then do { shell_error (''firmware update finish failed ('' @ fmt_d r @ '')''); ret (Some r) }
     else do {
       st \<leftarrow> ask (kfsw_fwu_get_status (ux_K X));
       shell_print (''Firmware update accepted; swap scheduled: '' @ (if swap_scheduled (snd st) then ''yes'' else ''no''));
       (if swap_scheduled (snd st) then shell_print ''Reboot to try it. It reverts unless it is confirmed.''
        else shell_print ''Image ready; no reset or bootloader swap requested'');
       ret (Some 0)
     }
   }"

definition cmd_fwu_abort :: "'s fwu_ctx \<Rightarrow> 's shell_handler" where
  "cmd_fwu_abort X argv = do {
     r \<leftarrow> call (kfsw_fwu_abort (ux_K X));
     if r \<noteq> 0 then do { shell_error (''Firmware update cleanup failed ('' @ fmt_d r @ '')''); ret (Some r) }
     else do { shell_print ''Firmware update aborted; the slot is erased''; ret (Some 0) }
   }"

definition fwu_subcommands :: "'s fwu_ctx \<Rightarrow> 's subcommand list" where
  "fwu_subcommands X =
     [sub ''abort'' (cmd_fwu_abort X) 1 0, sub ''begin'' (cmd_fwu_begin X) 3 0, sub ''finish'' (cmd_fwu_finish X) 1 0,
      sub ''status'' (cmd_fwu_status X) 1 0]"

section \<open>The recovery image\<close>

record 's golden_ctx =
  ox_cfg :: config
  ox_B :: build
  ox_E :: "'s shell_env"
  ox_K :: "'s param_services"
  kfsw_golden_present :: "'s \<Rightarrow> bool"

definition cmd_golden_status :: "'s golden_ctx \<Rightarrow> 's shell_handler" where
  "cmd_golden_status X argv = do {
     b \<leftarrow> ask (kfsw_golden_present X);
     shell_print (''recovery image: '' @ (if b then ''present'' else ''absent''));
     ret (Some 0)
   }"

definition cmd_golden_install :: "'s golden_ctx \<Rightarrow> 's shell_handler" where
  "cmd_golden_install X argv =
     (if length argv = 3
      then with_argv argv 1 (\<lambda>a1. do {
        n \<leftarrow> kfsw_shell_parse_node (ox_B X) (ox_E X) a1 KFSW_SHELL_THIS_NODE;
        if fst n \<noteq> 0 then ret (Some (fst n))
        else with_argv argv 2 (\<lambda>pin.
          kfsw_shell_run_command (ox_cfg X) (ox_B X) (ox_E X) (snd n) ''golden_install'' [pin])
      })
      else with_argv argv 1 (\<lambda>pin.
        kfsw_shell_run_command (ox_cfg X) (ox_B X) (ox_E X) KFSW_SHELL_THIS_NODE ''golden_install'' [pin]))"

text \<open>\<^verbatim>\<open>{.type = KFSW_PARAM_U8, .size = sizeof(uint8_t)}\<close>.\<close>

definition u8_value :: kfsw_param_value where
  "u8_value = \<lparr>v_type = KFSW_PARAM_U8, v_u8 = 0, v_u16 = 0, v_u32 = 0, v_u64 = 0, v_text = [], v_size = 1, v_bytes = []\<rparr>"

definition cmd_golden_attempts :: "'s golden_ctx \<Rightarrow> 's shell_handler" where
  "cmd_golden_attempts X argv = do {
     r \<leftarrow> (if length argv = 2
          then with_argv argv 1 (\<lambda>a1.
            let (rc, v) = kfsw_param_parse_text (ox_K X) a1 u8_value
            in if rc = 0 then do { rc2 \<leftarrow> call (kfsw_param_set (ox_K X) ''boot_attempts_left'' v); ret (Some (rc2, v)) }
               else ret (Some (rc, v)))
          else do { g \<leftarrow> call (kfsw_param_get (ox_K X) ''boot_attempts_left''); ret (Some g) });
     case r of
       None \<Rightarrow> ret None
     | Some (result, v) \<Rightarrow>
         if result \<noteq> 0
         then do { shell_error (''boot_attempts_left: '' @ fmt_d result); ret (Some result) }
         else do {
           l \<leftarrow> call (kfsw_param_get (ox_K X) ''boot_attempts_max'');
           if fst l \<noteq> 0
           then do { shell_error (''boot_attempts_max: '' @ fmt_d (fst l)); ret (Some (fst l)) }
           else do {
             shell_print (''attempts left: '' @ fmt_u (unat (v_u8 v)) @ '' of '' @ fmt_u (unat (v_u8 (snd l))));
             ret (Some 0)
           }
         }
   }"

definition golden_subcommands :: "'s golden_ctx \<Rightarrow> 's subcommand list" where
  "golden_subcommands X =
     (if ox_cfg X CONFIG_KFSW_GOLDEN then [sub ''status'' (cmd_golden_status X) 1 0] else []) @
     (if ox_cfg X CONFIG_KFSW_GOLDEN \<and> ox_cfg X CONFIG_KFSW_COMMAND
      then [sub ''install'' (cmd_golden_install X) 2 1] else []) @
     (if ox_cfg X CONFIG_KFSW_BOOT_STORE \<and> ox_cfg X CONFIG_KFSW_PARAM
      then [sub ''attempts'' (cmd_golden_attempts X) 1 1] else [])"

section \<open>Table files\<close>

record kfsw_table_report =
  rp_table :: nat
  rp_entries :: nat
  rp_accepted :: nat
  rp_failed_entry :: nat
  rp_failed_offset :: nat
  rp_reason :: int

record kfsw_table_status =
  ts_state :: nat
  ts_table :: nat
  ts_entries :: nat
  ts_path :: string
  ts_loads :: nat
  ts_rejections :: nat
  ts_reverts :: nat

record 's table_ctx =
  tx_E :: "'s shell_env"
  kfsw_table_get_status :: "'s \<Rightarrow> int \<times> kfsw_table_status"
  kfsw_table_state_name :: "nat \<Rightarrow> string"
  kfsw_table_validate :: "string \<Rightarrow> 's \<Rightarrow> int \<times> kfsw_table_report"
  kfsw_table_load :: "string \<Rightarrow> 's \<Rightarrow> (int \<times> kfsw_table_report) \<times> 's"
  kfsw_table_revert :: "'s \<Rightarrow> int \<times> 's"
  kfsw_table_dump :: "u8 \<Rightarrow> string \<Rightarrow> 's \<Rightarrow> (int \<times> nat) \<times> 's"

definition print_report :: "kfsw_table_report \<Rightarrow> ('s, unit) act" where
  "print_report r = emit_all
     ([Print (''table: '' @ fmt_u (rp_table r)),
       Print (''entries: '' @ fmt_u (rp_entries r) @ '' accepted: '' @ fmt_u (rp_accepted r))] @
      (if rp_failed_entry r \<noteq> 0
       then [Error (''refused at entry '' @ fmt_u (rp_failed_entry r) @ '', offset 0x'' @ fmt_x 2 (rp_failed_offset r) @
               '' ('' @ fmt_d (rp_reason r) @ '')'')]
       else []))"

definition cmd_table_show :: "'s table_ctx \<Rightarrow> 's shell_handler" where
  "cmd_table_show X argv = do {
     r \<leftarrow> ask (kfsw_table_get_status X);
     if fst r \<noteq> 0
     then do { shell_error (''Table status unavailable: '' @ fmt_d (fst r)); ret (Some (fst r)) }
     else let st = snd r in do {
       emit_all
         [Print (''state: '' @ kfsw_table_state_name X (ts_state st)),
          Print (''last: table '' @ fmt_u (ts_table st) @ '', '' @ fmt_u (ts_entries st) @ '' entries''),
          Print (''file: '' @ (if ts_path st \<noteq> [] then ts_path st else ''(none)'')),
          Print (''loads: '' @ fmt_u (ts_loads st) @ '' rejections: '' @ fmt_u (ts_rejections st) @ '' reverts: '' @
            fmt_u (ts_reverts st))];
       ret (Some 0)
     }
   }"

definition cmd_table_check :: "'s table_ctx \<Rightarrow> 's shell_handler" where
  "cmd_table_check X argv =
     with_argv argv 1 (\<lambda>a1. do {
       r \<leftarrow> ask (kfsw_table_validate X a1);
       print_report (snd r);
       if fst r \<noteq> 0 then do { shell_error (''Table file refused: '' @ fmt_d (fst r)); ret (Some (fst r)) }
       else do { shell_print ''Table file would be accepted whole; nothing was applied''; ret (Some 0) }
     })"

definition cmd_table_load :: "'s table_ctx \<Rightarrow> 's shell_handler" where
  "cmd_table_load X argv =
     with_argv argv 1 (\<lambda>a1. do {
       r \<leftarrow> call (kfsw_table_load X a1);
       print_report (snd r);
       if fst r \<noteq> 0
       then do { shell_error (''Table file refused, nothing applied: '' @ fmt_d (fst r)); ret (Some (fst r)) }
       else do {
         shell_print (''Table '' @ fmt_u (rp_table (snd r)) @ '' loaded, '' @ fmt_u (rp_accepted (snd r)) @
           '' entries; revert with '' @ [CHR 0x27] @ ''table revert'' @ [CHR 0x27]);
         ret (Some 0)
       }
     })"

definition cmd_table_revert :: "'s table_ctx \<Rightarrow> 's shell_handler" where
  "cmd_table_revert X argv = do {
     r \<leftarrow> call (kfsw_table_revert X);
     if r \<noteq> 0 then do { shell_error (''Nothing to revert: '' @ fmt_d r); ret (Some r) }
     else do { shell_print ''Previous values are back''; ret (Some 0) }
   }"

definition cmd_table_dump :: "'s table_ctx \<Rightarrow> 's shell_handler" where
  "cmd_table_dump X argv =
     with_argv argv 1 (\<lambda>a1. let (tbl, parse_error) = shell_strtoul (tx_E X) a1 10 in
       if parse_error \<noteq> 0 \<or> tbl = 0 \<or> 99 < tbl
       then do { shell_error ''Table must be in range 1..99''; ret (Some (- EINVAL)) }
       else with_argv argv 2 (\<lambda>a2. do {
         r \<leftarrow> call (kfsw_table_dump X (of_nat tbl) a2);
         if fst r \<noteq> 0 then do { shell_error (''Table dump failed: '' @ fmt_d (fst r)); ret (Some (fst r)) }
         else do {
           shell_print (''Table '' @ fmt_u tbl @ '' written to '' @ a2 @ '', '' @ fmt_u (snd r) @ '' entries'');
           ret (Some 0)
         }
       }))"

definition table_subcommands :: "'s table_ctx \<Rightarrow> 's subcommand list" where
  "table_subcommands X =
     [sub ''check'' (cmd_table_check X) 2 0, sub ''dump'' (cmd_table_dump X) 3 0, sub ''load'' (cmd_table_load X) 2 0,
      sub ''revert'' (cmd_table_revert X) 1 0, sub ''show'' (cmd_table_show X) 1 0]"

section \<open>Every subcommand returns\<close>

lemma on_transfer_returns: "2 \<le> length argv \<Longrightarrow> returns (on_transfer X argv f failure success)"
  unfolding on_transfer_def by (intro returns_intros) simp

interpretation fwu_lite_group: shell_group fwu_lite_subcommands "\<lambda>_. True"
  by unfold_locales
    (auto simp: fwu_lite_subcommands_def cmd_validate_def cmd_flash_def cmd_abort_def cmd_send_def fwu_lite_cmd_status_def
      status_shown_def Let_def split_beta simp del: not_None_eq intro!: on_transfer_returns returns_intros)

interpretation fwu_group: shell_group fwu_subcommands "\<lambda>_. True"
  by unfold_locales
    (auto simp: fwu_subcommands_def cmd_fwu_status_def cmd_fwu_begin_def cmd_fwu_finish_def cmd_fwu_abort_def Let_def
      simp del: not_None_eq intro!: returns_intros)

lemma golden_attempts_returns: "returns (cmd_golden_attempts X argv)"
  unfolding cmd_golden_attempts_def
proof (rule returns_bind)
  show "returns (if length argv = 2
      then with_argv argv 1 (\<lambda>a1.
        let (rc, v) = kfsw_param_parse_text (ox_K X) a1 u8_value
        in if rc = 0 then do { rc2 \<leftarrow> call (kfsw_param_set (ox_K X) ''boot_attempts_left'' v); ret (Some (rc2, v)) }
           else ret (Some (rc, v)))
      else do { g \<leftarrow> call (kfsw_param_get (ox_K X) ''boot_attempts_left''); ret (Some g) })"
    unfolding Let_def split_beta by (intro returns_intros) simp
qed (auto simp del: not_None_eq intro!: returns_intros)

interpretation golden_group: shell_group golden_subcommands "\<lambda>X. registry_ok (ox_B X) (ox_E X)"
proof unfold_locales
  show "group_total (golden_subcommands X)" if "registry_ok (ox_B X) (ox_E X)" for X :: "'s golden_ctx"
    using that
    by (auto simp: golden_subcommands_def cmd_golden_status_def cmd_golden_install_def simp del: not_None_eq
        intro!: returns_intros golden_attempts_returns returns_run_command)
  show "distinct (map sub_name (golden_subcommands X))" for X :: "'s golden_ctx"
    by (auto simp: golden_subcommands_def)
qed

interpretation table_group: shell_group table_subcommands "\<lambda>_. True"
  by unfold_locales
    (auto simp: table_subcommands_def cmd_table_show_def cmd_table_check_def cmd_table_load_def cmd_table_revert_def
      cmd_table_dump_def Let_def split_beta simp del: not_None_eq intro!: returns_intros)

section \<open>Properties\<close>

text \<open>
  C25. \<^verbatim>\<open>fwu_lite flash\<close> activates only the transfer the target itself names as this node's: the
  activation is requested once, with the node given and the handle of the status it just returned,
  and only when the node is valid and that status was read; otherwise nothing but the status is
  asked for and the result is an error. 0 is returned exactly when the activation succeeded.
\<close>

theorem flash_owned_transfer:
  "let (r, w') = run_state (cmd_flash X [c, t]) w;
       ((rn, node), wn) = run_state (kfsw_shell_parse_node (ux_B X) (ux_E X) t 0) w;
       ((rs, st), s1) = kfsw_fwu_lite_remote_status (ux_K X) node (svc w);
       ((ra, st'), s2) = kfsw_fwu_lite_remote_activate (ux_K X) node (fw_handle st) s1
   in if rn \<noteq> 0 then r = Some rn \<and> svc w' = svc w
      else if rs \<noteq> 0 then r = Some rs \<and> svc w' = s1
      else r = Some ra \<and> svc w' = s2"
proof -
  obtain rn node wn where p: "run_state (kfsw_shell_parse_node (ux_B X) (ux_E X) t 0) w = ((rn, node), wn)"
    by (metis surj_pair)
  have q: "svc wn = svc w" using quietD [OF shell_node.quiet_parse, of "ux_B X" "ux_E X" t 0 w] by (simp add: p)
  show ?thesis
    by (auto simp: cmd_flash_def on_transfer_def with_argv_def resolve_transfer_def p q split_beta)
qed

end
