(* ===== verification/Shell_Monitors.thy ===== *)
theory Shell_Monitors
  imports Shell_Walk
begin

text \<open>
  The shell groups of the services that watch the node: \<^verbatim>\<open>src/app/src/shell/shell_gndwdt.c\<close> (ground
  watchdog, here and on another node), \<^verbatim>\<open>shell_health.c\<close>, \<^verbatim>\<open>shell_scrub.c\<close>, \<^verbatim>\<open>shell_watchdog.c\<close>,
  \<^verbatim>\<open>shell_limits.c\<close> and \<^verbatim>\<open>shell_resmon.c\<close>. The services are parameters; numbers the code only prints
  are naturals. A structure a failed call may leave unwritten is what the service returns beside its
  error.
\<close>

section \<open>Ground watchdog\<close>

record kfsw_gndwdt_status =
  gs_running :: bool
  gs_enabled :: bool
  gs_timeout_s :: nat
  gs_remaining_s :: nat
  gs_since_contact_s :: nat
  gs_contacts :: nat
  gs_last_node :: nat
  gs_expiries :: nat
  gs_reschedule_failures :: nat

record 's gndwdt_ctx =
  wx_cfg :: config
  wx_B :: build
  wx_E :: "'s shell_env"
  kfsw_gndwdt_get_status :: "'s \<Rightarrow> kfsw_gndwdt_status"
  kfsw_gndwdt_remote :: "u16 \<Rightarrow> bool \<Rightarrow> 's \<Rightarrow> (int \<times> kfsw_command_result) \<times> 's"
  kfsw_gndwdt_set_enabled :: "bool \<Rightarrow> 's \<Rightarrow> 's"
  kfsw_gndwdt_set_timeout_s :: "u32 \<Rightarrow> 's \<Rightarrow> int \<times> 's"

definition gndwdt_state_name :: "kfsw_gndwdt_status \<Rightarrow> string" where
  "gndwdt_state_name st =
     (if \<not> gs_running st then ''stopped'' else if gs_enabled st then ''armed'' else ''disarmed'')"

definition show_local :: "'s gndwdt_ctx \<Rightarrow> ('s, int) act" where
  "show_local X = do {
     st \<leftarrow> ask (kfsw_gndwdt_get_status X);
     emit_all
       [Print (''state: '' @ gndwdt_state_name st), Print (''ground_wtd_timeout: '' @ fmt_u (gs_timeout_s st)),
        Print (''ground_wtd_cnt: '' @ fmt_u (gs_remaining_s st)),
        Print (''since_contact_s: '' @ fmt_u (gs_since_contact_s st)),
        Print (''contacts: '' @ fmt_u (gs_contacts st) @ '' last_node: '' @ fmt_u (gs_last_node st)),
        Print (''expiries: '' @ fmt_u (gs_expiries st)),
        Print (''reschedule failures: '' @ fmt_u (gs_reschedule_failures st))];
     ret 0
   }"

definition remote :: "'s gndwdt_ctx \<Rightarrow> string \<Rightarrow> bool \<Rightarrow> ('s, int) act" where
  "remote X node_text feed = do {
     n \<leftarrow> kfsw_shell_parse_node (wx_B X) (wx_E X) node_text 0;
     if fst n \<noteq> 0 then ret (fst n)
     else do {
       r \<leftarrow> call (kfsw_gndwdt_remote X (snd n) feed);
       if fst r = - EINVAL \<and> \<not> feed then show_local X
       else if fst r = - EINVAL
       then do {
         shell_error (''Node '' @ fmt_u (unat (snd n)) @ '' is this node; its watchdog is fed from elsewhere'');
         ret (fst r)
       }
       else if fst r \<noteq> 0
       then kfsw_shell_remote_failed (if feed then ''gndwdt feed'' else ''gndwdt show'') (snd n) (fst r)
       else if status (snd r) \<noteq> KFSW_COMMAND_OK
       then do {
         shell_error (''Node '' @ fmt_u (unat (snd n)) @ '' refused: '' @ kfsw_command_status_name (wx_E X) (status (snd r)));
         ret (- EIO)
       }
       else do {
         shell_print (''node: '' @ fmt_u (unat (snd n)));
         (if feed then shell_print ''fed: yes'' else ret ());
         kfsw_shell_print_fields (wx_B X) (detail (snd r));
         ret 0
       }
     }
   }"

definition cmd_gndwdt_feed :: "'s gndwdt_ctx \<Rightarrow> 's shell_handler" where
  "cmd_gndwdt_feed X argv = with_argv argv 1 (\<lambda>a1. lift_int (remote X a1 True))"

definition cmd_gndwdt_show :: "'s gndwdt_ctx \<Rightarrow> 's shell_handler" where
  "cmd_gndwdt_show X argv =
     (if wx_cfg X CONFIG_KFSW_COMMAND_CSP \<and> length argv = 2
      then with_argv argv 1 (\<lambda>a1. lift_int (remote X a1 False))
      else lift_int (show_local X))"

definition cmd_gndwdt_arm :: "'s gndwdt_ctx \<Rightarrow> 's shell_handler" where
  "cmd_gndwdt_arm X argv =
     with_argv argv 0 (\<lambda>a0. do {
       u \<leftarrow> call (\<lambda>s. ((), kfsw_gndwdt_set_enabled X (a0 = ''on'') s));
       shell_print (''Ground watchdog '' @ a0);
       ret (Some 0)
     })"

definition cmd_gndwdt_timeout :: "'s gndwdt_ctx \<Rightarrow> 's shell_handler" where
  "cmd_gndwdt_timeout X argv =
     with_argv argv 1 (\<lambda>a1. let (secs, parse_error) = shell_strtoul (wx_E X) a1 0 in
       if parse_error \<noteq> 0 \<or> UINT32_MAX < secs
       then do { shell_error (''Invalid timeout: '' @ a1); ret (Some (- EINVAL)) }
       else do {
         r \<leftarrow> call (kfsw_gndwdt_set_timeout_s X (of_nat secs));
         if r \<noteq> 0 then do { shell_error (''Timeout refused: '' @ fmt_d r); ret (Some r) }
         else do { shell_print (''Ground watchdog timeout_s: '' @ fmt_u secs); ret (Some 0) }
       })"

definition gndwdt_subcommands :: "'s gndwdt_ctx \<Rightarrow> 's subcommand list" where
  "gndwdt_subcommands X =
     (if wx_cfg X CONFIG_KFSW_COMMAND_CSP then [sub ''feed'' (cmd_gndwdt_feed X) 2 0] else []) @
     [sub ''off'' (cmd_gndwdt_arm X) 1 0, sub ''on'' (cmd_gndwdt_arm X) 1 0,
      sub ''show'' (cmd_gndwdt_show X) 1 (if wx_cfg X CONFIG_KFSW_COMMAND_CSP then 1 else 0),
      sub ''timeout'' (cmd_gndwdt_timeout X) 2 0]"

section \<open>Health\<close>

record kfsw_health_status =
  hs_state :: nat
  hs_feeding :: bool
  hs_count :: nat
  hs_faults :: nat
  hs_feeds :: nat
  hs_faulted_by :: string

record kfsw_health_component =
  hc_name :: string
  hc_deadline_ms :: nat
  hc_since_report_ms :: nat
  hc_reports :: nat
  hc_overdue :: bool

record 's health_ctx =
  lx_E :: "'s shell_env"
  kfsw_health_get_status :: "'s \<Rightarrow> int \<times> kfsw_health_status"
  kfsw_health_state_name :: "nat \<Rightarrow> string"
  kfsw_health_get_component :: "u8 \<Rightarrow> 's \<Rightarrow> int \<times> kfsw_health_component"
  kfsw_health_register :: "string \<Rightarrow> u32 \<Rightarrow> 's \<Rightarrow> (int \<times> u8) \<times> 's"
  kfsw_health_report :: "u8 \<Rightarrow> 's \<Rightarrow> int \<times> 's"
  KFSW_HEALTH_MAX_COMPONENTS :: u8

definition cmd_health_status :: "'s health_ctx \<Rightarrow> 's shell_handler" where
  "cmd_health_status X argv = do {
     r \<leftarrow> ask (kfsw_health_get_status X);
     if fst r \<noteq> 0
     then do { shell_error (''health status unavailable ('' @ fmt_d (fst r) @ '')''); ret (Some (fst r)) }
     else let st = snd r in do {
       emit_all
         ([Print ''K-FSW health'', Print (''state: '' @ kfsw_health_state_name X (hs_state st)),
           Print (''feeding: '' @ (if hs_feeding st then ''yes'' else ''no'')),
           Print (''components: '' @ fmt_u (hs_count st)), Print (''faults: '' @ fmt_u (hs_faults st)),
           Print (''feeds: '' @ fmt_u (hs_feeds st))] @
          (if hs_faulted_by st \<noteq> [] then [Print (''faulted_by: '' @ hs_faulted_by st)] else []));
       ret (Some 0)
     }
   }"

text \<open>The loop over the slots, with how many were shown.\<close>

fun list_components :: "'s health_ctx \<Rightarrow> nat list \<Rightarrow> u8 \<Rightarrow> ('s, u8) act" where
  "list_components X [] n = ret n"
| "list_components X (i # is) n = do {
     c \<leftarrow> ask (kfsw_health_get_component X (of_nat i));
     if fst c \<noteq> 0 then list_components X is n
     else do {
       shell_print (pad_right 16 (hc_name (snd c)) @ '' '' @ pad_left 10 (fmt_u (hc_deadline_ms (snd c))) @ '' '' @
         pad_left 10 (fmt_u (hc_since_report_ms (snd c))) @ '' '' @ pad_left 8 (fmt_u (hc_reports (snd c))) @ '' '' @
         (if hc_overdue (snd c) then ''overdue'' else ''ok''));
       list_components X is (n + 1)
     }
   }"

definition cmd_health_list :: "'s health_ctx \<Rightarrow> 's shell_handler" where
  "cmd_health_list X argv = do {
     shell_print (pad_right 16 ''NAME'' @ '' '' @ pad_left 10 ''DEADLINE'' @ '' '' @ pad_left 10 ''SINCE'' @ '' '' @
       pad_left 8 ''REPORTS'' @ '' STATE'');
     n \<leftarrow> list_components X [0..<unat (KFSW_HEALTH_MAX_COMPONENTS X)] 0;
     shell_print (''Components listed: '' @ fmt_u (unat n));
     ret (Some 0)
   }"

definition cmd_health_watch :: "'s health_ctx \<Rightarrow> 's shell_handler" where
  "cmd_health_watch X argv =
     (if length argv \<noteq> 4 \<or> argv ! 3 \<noteq> ''confirm''
      then do {
        emit_all
          [Error ''This registers a component that nothing reports.'',
           Error ''The board will reset once its deadline passes.'',
           Error ''Run: health watch <name> <deadline_ms> confirm''];
        ret (Some (- EINVAL))
      }
      else with_argv argv 2 (\<lambda>a2. let (deadline, parse_error) = shell_strtoul (lx_E X) a2 0 in
        if parse_error \<noteq> 0 \<or> deadline = 0 \<or> UINT32_MAX < deadline
        then do { shell_error (''Invalid deadline: '' @ a2); ret (Some (- EINVAL)) }
        else with_argv argv 1 (\<lambda>a1. do {
          r \<leftarrow> call (kfsw_health_register X a1 (of_nat deadline));
          if fst r \<noteq> 0
          then do { shell_error (''could not watch '' @ a1 @ '' ('' @ fmt_d (fst r) @ '')''); ret (Some (fst r)) }
          else do {
            shell_print (''Watching '' @ a1 @ '' with a '' @ fmt_u deadline @ '' ms deadline; nothing is reporting it'');
            shell_print (''Report it with: health report '' @ fmt_u (unat (snd r)));
            ret (Some 0)
          }
        })))"

definition cmd_health_report :: "'s health_ctx \<Rightarrow> 's shell_handler" where
  "cmd_health_report X argv =
     with_argv argv 1 (\<lambda>a1. let (handle, parse_error) = shell_strtoul (lx_E X) a1 0 in
       if parse_error \<noteq> 0 \<or> UINT8_MAX < handle
       then do { shell_error (''Invalid handle: '' @ a1); ret (Some (- EINVAL)) }
       else do {
         r \<leftarrow> call (kfsw_health_report X (of_nat handle));
         if r \<noteq> 0
         then do { shell_error (''could not report handle '' @ fmt_u handle @ '' ('' @ fmt_d r @ '')''); ret (Some r) }
         else do { shell_print ''Reported''; ret (Some 0) }
       })"

definition health_subcommands :: "'s health_ctx \<Rightarrow> 's subcommand list" where
  "health_subcommands X =
     [sub ''list'' (cmd_health_list X) 1 0, sub ''report'' (cmd_health_report X) 2 0,
      sub ''status'' (cmd_health_status X) 1 0, sub ''watch'' (cmd_health_watch X) 1 3]"

section \<open>Scrub\<close>

datatype kfsw_scrub_state =
    KFSW_SCRUB_EMPTY | KFSW_SCRUB_UNKNOWN | KFSW_SCRUB_OK | KFSW_SCRUB_MISMATCH | KFSW_SCRUB_UNREADABLE
  | KFSW_SCRUB_ABSENT | Scrub_state_other

fun scrub_state_name :: "kfsw_scrub_state \<Rightarrow> string" where
  "scrub_state_name KFSW_SCRUB_EMPTY = ''empty''"
| "scrub_state_name KFSW_SCRUB_UNKNOWN = ''unknown''"
| "scrub_state_name KFSW_SCRUB_OK = ''ok''"
| "scrub_state_name KFSW_SCRUB_MISMATCH = ''mismatch''"
| "scrub_state_name KFSW_SCRUB_UNREADABLE = ''unreadable''"
| "scrub_state_name KFSW_SCRUB_ABSENT = ''absent''"
| "scrub_state_name Scrub_state_other = ''absent''"

record kfsw_scrub_result =
  sr_name :: string
  sr_bytes :: nat
  sr_reference :: u32
  sr_measured :: u32
  sr_state :: kfsw_scrub_state

record kfsw_scrub_status =
  ss_running :: bool
  ss_regions :: nat
  ss_sweeps :: nat
  ss_mismatches :: nat
  ss_last_sweep_ms :: nat

record 's scrub_ctx =
  kfsw_scrub_visit_regions :: "'s \<Rightarrow> kfsw_scrub_result visit \<times> 's"
  kfsw_scrub_get_status :: "'s \<Rightarrow> kfsw_scrub_status"
  kfsw_scrub_sweep :: "'s \<Rightarrow> int \<times> 's"
  kfsw_scrub_sweep_region :: "nat \<Rightarrow> 's \<Rightarrow> int \<times> 's"
  kfsw_scrub_learn :: "nat \<Rightarrow> 's \<Rightarrow> int \<times> 's"

definition print_region :: "('s, kfsw_scrub_result, unit) callback" where
  "print_region r c = do {
     shell_print (pad_right 8 (sr_name r) @ ''  '' @ pad_left 8 (fmt_u (sr_bytes r)) @ ''  '' @
       fmt_x 8 (unat (sr_reference r)) @ ''  '' @ fmt_x 8 (unat (sr_measured r)) @ ''  '' @ scrub_state_name (sr_state r));
     ret (Some (c, True))
   }"

definition print_table :: "'s scrub_ctx \<Rightarrow> ('s, int option) act" where
  "print_table X = do {
     shell_print ''region       bytes  referenc  measured  state'';
     shell_print ''--------  --------  --------  --------  -----'';
     r \<leftarrow> visit_with (kfsw_scrub_visit_regions X) print_region ();
     ret (map_option (\<lambda>_. 0) r)
   }"

text \<open>\<^verbatim>\<open>static const char *const names[KFSW_SCRUB_REGIONS]\<close>, one per region.\<close>

definition region_names :: "string list" where
  "region_names = [''slot0'', ''slot1'', ''golden'']"

definition parse_region :: "string \<Rightarrow> ('s, int \<times> nat) act" where
  "parse_region txt =
     (case find (\<lambda>rid. region_names ! rid = txt) [0..<length region_names] of
        Some rid \<Rightarrow> ret (0, rid)
      | None \<Rightarrow> do {
          shell_error (''unknown region '' @ txt @ ''; one of slot0, slot1, golden'');
          ret (- EINVAL, 0)
        })"

definition cmd_scrub_status :: "'s scrub_ctx \<Rightarrow> 's shell_handler" where
  "cmd_scrub_status X argv = do {
     st \<leftarrow> ask (kfsw_scrub_get_status X);
     emit_all
       [Print (''state: '' @ (if ss_running st then ''sweeping'' else ''stopped'')),
        Print (''regions: '' @ fmt_u (ss_regions st)),
        Print (''sweeps: '' @ fmt_u (ss_sweeps st) @ '' mismatches: '' @ fmt_u (ss_mismatches st)),
        Print (''last_sweep_ms: '' @ fmt_u (ss_last_sweep_ms st))];
     print_table X
   }"

text \<open>One region by name, then the table: \<^verbatim>\<open>sweep <region>\<close> and \<^verbatim>\<open>learn <region>\<close>.\<close>

definition on_region :: "'s scrub_ctx \<Rightarrow> string \<Rightarrow> (nat \<Rightarrow> 's \<Rightarrow> int \<times> 's) \<Rightarrow> string list \<Rightarrow> ('s, int option) act" where
  "on_region X what f argv =
     with_argv argv 1 (\<lambda>a1. do {
       p \<leftarrow> parse_region a1;
       if fst p \<noteq> 0 then ret (Some (fst p))
       else do {
         r \<leftarrow> call (f (snd p));
         if r \<noteq> 0
         then do { shell_error (''scrub '' @ what @ '' '' @ a1 @ '' failed ('' @ fmt_d r @ '')''); ret (Some r) }
         else print_table X
       }
     })"

definition cmd_scrub_sweep :: "'s scrub_ctx \<Rightarrow> 's shell_handler" where
  "cmd_scrub_sweep X argv =
     (if length argv = 2 then on_region X ''sweep'' (kfsw_scrub_sweep_region X) argv
      else do {
        r \<leftarrow> call (kfsw_scrub_sweep X);
        if r < 0 then do { shell_error (''scrub sweep failed ('' @ fmt_d r @ '')''); ret (Some r) }
        else print_table X
      })"

definition cmd_scrub_learn :: "'s scrub_ctx \<Rightarrow> 's shell_handler" where
  "cmd_scrub_learn X argv = on_region X ''learn'' (kfsw_scrub_learn X) argv"

definition scrub_subcommands :: "'s scrub_ctx \<Rightarrow> 's subcommand list" where
  "scrub_subcommands X =
     [sub ''status'' (cmd_scrub_status X) 1 0, sub ''sweep'' (cmd_scrub_sweep X) 1 1,
      sub ''learn'' (cmd_scrub_learn X) 2 0]"

section \<open>Hardware watchdog\<close>

datatype kfsw_platform_watchdog_state =
    KFSW_PLATFORM_WATCHDOG_UNCONFIGURED | KFSW_PLATFORM_WATCHDOG_CONFIGURED | KFSW_PLATFORM_WATCHDOG_RUNNING
  | KFSW_PLATFORM_WATCHDOG_STARVED | Watchdog_state_other

fun watchdog_state_name :: "kfsw_platform_watchdog_state \<Rightarrow> string" where
  "watchdog_state_name KFSW_PLATFORM_WATCHDOG_UNCONFIGURED = ''unconfigured''"
| "watchdog_state_name KFSW_PLATFORM_WATCHDOG_CONFIGURED = ''configured''"
| "watchdog_state_name KFSW_PLATFORM_WATCHDOG_RUNNING = ''running''"
| "watchdog_state_name KFSW_PLATFORM_WATCHDOG_STARVED = ''starved''"
| "watchdog_state_name Watchdog_state_other = ''unknown''"

record kfsw_platform_watchdog_info =
  wi_device_bound :: bool
  wi_state :: kfsw_platform_watchdog_state
  wi_timeout_ms :: nat
  wi_feed_interval_ms :: nat
  wi_feeds :: nat
  wi_since_feed_ms :: nat

record 's watchdog_ctx =
  kfsw_platform_watchdog_get_info :: "'s \<Rightarrow> int \<times> kfsw_platform_watchdog_info"
  kfsw_platform_watchdog_feed :: "'s \<Rightarrow> int \<times> 's"
  kfsw_platform_watchdog_stop_feeding :: "'s \<Rightarrow> int \<times> 's"

definition cmd_watchdog_status :: "'s watchdog_ctx \<Rightarrow> 's shell_handler" where
  "cmd_watchdog_status X argv = do {
     r \<leftarrow> ask (kfsw_platform_watchdog_get_info X);
     if fst r \<noteq> 0
     then do { shell_error (''watchdog status unavailable ('' @ fmt_d (fst r) @ '')''); ret (Some (fst r)) }
     else let i = snd r in do {
       emit_all
         [Print ''K-FSW watchdog'', Print (''device: '' @ (if wi_device_bound i then ''bound'' else ''absent'')),
          Print (''state: '' @ watchdog_state_name (wi_state i)), Print (''timeout_ms: '' @ fmt_u (wi_timeout_ms i)),
          Print (''feed_interval_ms: '' @ fmt_u (wi_feed_interval_ms i)), Print (''feeds: '' @ fmt_u (wi_feeds i)),
          Print (''since_feed_ms: '' @ fmt_u (wi_since_feed_ms i))];
       ret (Some 0)
     }
   }"

definition cmd_watchdog_feed :: "'s watchdog_ctx \<Rightarrow> 's shell_handler" where
  "cmd_watchdog_feed X argv = do {
     r \<leftarrow> call (kfsw_platform_watchdog_feed X);
     if r \<noteq> 0 then do { shell_error (''watchdog feed failed ('' @ fmt_d r @ '')''); ret (Some r) }
     else do { shell_print ''Watchdog fed''; ret (Some 0) }
   }"

definition cmd_watchdog_starve :: "'s watchdog_ctx \<Rightarrow> 's shell_handler" where
  "cmd_watchdog_starve X argv =
     (if length argv \<noteq> 2 \<or> argv ! 1 \<noteq> ''confirm''
      then do {
        emit_all
          [Error ''This stops feeding the watchdog and the board will reset.'', Error ''Run: watchdog starve confirm''];
        ret (Some (- EINVAL))
      }
      else do {
        i \<leftarrow> ask (kfsw_platform_watchdog_get_info X);
        if fst i = 0 \<and> \<not> wi_device_bound (snd i)
        then do { shell_error ''No watchdog device is bound''; ret (Some (- ENODEV)) }
        else do {
          r \<leftarrow> call (kfsw_platform_watchdog_stop_feeding X);
          if r \<noteq> 0 then do { shell_error (''watchdog starve failed ('' @ fmt_d r @ '')''); ret (Some r) }
          else do {
            shell_print (''Watchdog feed stopped; reset expected within '' @ fmt_u (wi_timeout_ms (snd i)) @ '' ms'');
            ret (Some 0)
          }
        }
      })"

definition watchdog_subcommands :: "'s watchdog_ctx \<Rightarrow> 's subcommand list" where
  "watchdog_subcommands X =
     [sub ''feed'' (cmd_watchdog_feed X) 1 0, sub ''starve'' (cmd_watchdog_starve X) 1 1,
      sub ''status'' (cmd_watchdog_status X) 1 0]"

section \<open>Limits\<close>

text \<open>\<^verbatim>\<open>last_fired_index\<close> is \<open>None\<close> for \<^verbatim>\<open>KFSW_LIMITS_NO_RULE\<close>.\<close>

record kfsw_limits_status =
  lm_running :: bool
  lm_rules :: nat
  lm_sweeps :: nat
  lm_fires :: nat
  lm_failures :: nat
  lm_last_fired :: "nat option"
  lm_last_fired_ms :: nat
  lm_parse_errors :: nat
  lm_error_line :: nat
  lm_error :: string

record kfsw_limits_rule =
  lr_index :: nat
  lr_parameter :: string
  lr_cmp :: nat
  lr_bound_text :: string
  lr_dwell :: nat
  lr_node :: nat
  lr_latched :: bool
  lr_action :: string

record 's limits_ctx =
  kfsw_limits_get_status :: "'s \<Rightarrow> kfsw_limits_status"
  kfsw_limits_enabled :: "'s \<Rightarrow> bool"
  kfsw_limits_interval_ms :: "'s \<Rightarrow> nat"
  kfsw_limits_cmp_text :: "nat \<Rightarrow> string"
  kfsw_limits_visit_rules :: "'s \<Rightarrow> kfsw_limits_rule visit \<times> 's"
  kfsw_limits_load :: "string \<Rightarrow> 's \<Rightarrow> int \<times> 's"
  kfsw_limits_sweep :: "'s \<Rightarrow> int \<times> 's"
  CONFIG_KFSW_LIMITS_FILE :: string

definition cmd_limits_status :: "'s limits_ctx \<Rightarrow> 's shell_handler" where
  "cmd_limits_status X argv = do {
     st \<leftarrow> ask (kfsw_limits_get_status X);
     en \<leftarrow> ask (kfsw_limits_enabled X);
     ms \<leftarrow> ask (kfsw_limits_interval_ms X);
     emit_all
       ([Print (''state: '' @ (if \<not> en then ''disabled'' else if lm_running st then ''sweeping'' else ''manual'')),
         Print (''rules: '' @ fmt_u (lm_rules st)), Print (''interval: '' @ fmt_u ms @ '' ms''),
         Print (''sweeps: '' @ fmt_u (lm_sweeps st) @ '' fires: '' @ fmt_u (lm_fires st) @ '' failures: '' @
           fmt_u (lm_failures st)),
         Print (case lm_last_fired st of
             None \<Rightarrow> ''last_fired: none''
           | Some i \<Rightarrow> ''last_fired: rule '' @ fmt_u i @ '' at '' @ fmt_u (lm_last_fired_ms st) @ '' ms''),
         Print (''parse_errors: '' @ fmt_u (lm_parse_errors st))] @
        (if lm_error_line st \<noteq> 0
         then [Print (''last_error: line '' @ fmt_u (lm_error_line st) @ '': '' @ lm_error st)] else []));
     ret (Some 0)
   }"

definition print_rule :: "'s limits_ctx \<Rightarrow> ('s, kfsw_limits_rule, unit) callback" where
  "print_rule X r c = do {
     shell_print (pad_left 3 (fmt_u (lr_index r)) @ ''  '' @ pad_right 24 (lr_parameter r) @ '' '' @
       pad_right 2 (kfsw_limits_cmp_text X (lr_cmp r)) @ '' '' @ pad_right 12 (lr_bound_text r) @ '' '' @
       pad_left 5 (fmt_u (lr_dwell r)) @ '' '' @ pad_left 5 (fmt_u (lr_node r)) @ ''  '' @
       pad_right 7 (if lr_latched r then ''fired'' else ''armed'') @ '' '' @ lr_action r);
     ret (Some (c, True))
   }"

definition cmd_limits_list :: "'s limits_ctx \<Rightarrow> 's shell_handler" where
  "cmd_limits_list X argv = do {
     shell_print (pad_left 3 ''idx'' @ ''  '' @ pad_right 24 ''parameter'' @ '' '' @ pad_right 2 ''op'' @ '' '' @
       pad_right 12 ''bound'' @ '' '' @ pad_left 5 ''dwell'' @ '' '' @ pad_left 5 ''node'' @ ''  '' @
       pad_right 7 ''state'' @ '' action'');
     r \<leftarrow> visit_with (kfsw_limits_visit_rules X) (print_rule X) ();
     ret (map_option (\<lambda>_. 0) r)
   }"

definition cmd_limits_load :: "'s limits_ctx \<Rightarrow> 's shell_handler" where
  "cmd_limits_load X argv =
     (let name = (if 1 < length argv then argv ! 1 else CONFIG_KFSW_LIMITS_FILE X)
      in do {
        result \<leftarrow> call (kfsw_limits_load X name);
        st \<leftarrow> ask (kfsw_limits_get_status X);
        if result = - EINVAL \<and> lm_error_line st \<noteq> 0
        then do {
          shell_error (name @ '' refused, line '' @ fmt_u (lm_error_line st) @ '': '' @ lm_error st);
          ret (Some result)
        }
        else if result \<noteq> 0
        then do { shell_error (''Load failed: '' @ fmt_d result); ret (Some result) }
        else do { shell_print (''Loaded '' @ fmt_u (lm_rules st) @ '' rules from '' @ name); ret (Some 0) }
      })"

definition cmd_limits_sweep :: "'s limits_ctx \<Rightarrow> 's shell_handler" where
  "cmd_limits_sweep X argv = do {
     rules \<leftarrow> call (kfsw_limits_sweep X);
     if rules < 0 then do { shell_error (''Sweep refused: '' @ fmt_d rules); ret (Some rules) }
     else do { shell_print (''Evaluated '' @ fmt_d rules @ '' rules''); ret (Some 0) }
   }"

definition limits_subcommands :: "'s limits_ctx \<Rightarrow> 's subcommand list" where
  "limits_subcommands X =
     [sub ''list'' (cmd_limits_list X) 1 0, sub ''load'' (cmd_limits_load X) 1 1,
      sub ''status'' (cmd_limits_status X) 1 0, sub ''sweep'' (cmd_limits_sweep X) 1 0]"

section \<open>Resource monitor\<close>

record kfsw_resmon_status =
  rm_running :: bool
  rm_threads :: nat
  rm_unmeasured :: nat
  rm_last_used_percent :: nat
  rm_worst_used_percent :: nat
  rm_worst_thread :: string
  rm_worst_unused_bytes :: nat
  rm_worst_stack_bytes :: nat
  rm_tightest_unused_bytes :: nat
  rm_tightest_stack_bytes :: nat
  rm_tightest_thread :: string
  rm_alert_percent :: nat
  rm_sweeps :: nat
  rm_alerts :: nat

record 's resmon_ctx =
  mx_E :: "'s shell_env"
  kfsw_resmon_get_status :: "'s \<Rightarrow> kfsw_resmon_status"
  kfsw_resmon_sample :: "'s \<Rightarrow> int \<times> 's"
  kfsw_resmon_set_alert_percent :: "u32 \<Rightarrow> 's \<Rightarrow> int \<times> 's"

definition print_resmon_status :: "kfsw_resmon_status \<Rightarrow> ('s, unit) act" where
  "print_resmon_status st = emit_all
     [Print (''state: '' @ (if rm_running st then ''sweeping'' else ''stopped'')),
      Print (''threads: '' @ fmt_u (rm_threads st) @ '' read, '' @ fmt_u (rm_unmeasured st) @ '' unmeasured''),
      Print (''last_used: '' @ fmt_u (rm_last_used_percent st) @ ''%''),
      Print (''worst_used: '' @ fmt_u (rm_worst_used_percent st) @ ''% on '' @ rm_worst_thread st),
      Print (''worst_free: '' @ fmt_u (rm_worst_unused_bytes st) @ '' of '' @ fmt_u (rm_worst_stack_bytes st) @ '' bytes''),
      Print (''tightest: '' @ fmt_u (rm_tightest_unused_bytes st) @ '' of '' @ fmt_u (rm_tightest_stack_bytes st) @
        '' bytes on '' @ rm_tightest_thread st),
      Print (''alert_at: '' @ fmt_u (rm_alert_percent st) @ ''%''),
      Print (''sweeps: '' @ fmt_u (rm_sweeps st) @ '' alerts: '' @ fmt_u (rm_alerts st))]"

definition cmd_resmon_show :: "'s resmon_ctx \<Rightarrow> 's shell_handler" where
  "cmd_resmon_show X argv = do {
     st \<leftarrow> ask (kfsw_resmon_get_status X);
     print_resmon_status st;
     ret (Some 0)
   }"

definition cmd_resmon_sample :: "'s resmon_ctx \<Rightarrow> 's shell_handler" where
  "cmd_resmon_sample X argv = do {
     threads \<leftarrow> call (kfsw_resmon_sample X);
     if threads < 0 then do { shell_error (''Sweep failed: '' @ fmt_d threads); ret (Some threads) }
     else cmd_resmon_show X argv
   }"

definition cmd_resmon_alert :: "'s resmon_ctx \<Rightarrow> 's shell_handler" where
  "cmd_resmon_alert X argv =
     with_argv argv 1 (\<lambda>a1. let (percent, parse_error) = shell_strtoul (mx_E X) a1 0 in
       if parse_error \<noteq> 0 \<or> UINT32_MAX < percent
       then do { shell_error (''Invalid percentage: '' @ a1); ret (Some (- EINVAL)) }
       else do {
         r \<leftarrow> call (kfsw_resmon_set_alert_percent X (of_nat percent));
         if r \<noteq> 0 then do { shell_error (''Percentage refused: '' @ fmt_d r); ret (Some r) }
         else do { shell_print (''Resource monitor alert: '' @ fmt_u percent @ ''%''); ret (Some 0) }
       })"

definition resmon_subcommands :: "'s resmon_ctx \<Rightarrow> 's subcommand list" where
  "resmon_subcommands X =
     [sub ''alert'' (cmd_resmon_alert X) 2 0, sub ''sample'' (cmd_resmon_sample X) 1 0,
      sub ''show'' (cmd_resmon_show X) 1 0]"

section \<open>Every subcommand returns\<close>

interpretation gndwdt_group: shell_group gndwdt_subcommands "\<lambda>_. True"
proof unfold_locales
  show "group_total (gndwdt_subcommands X)" for X :: "'s gndwdt_ctx"
    by (auto simp: gndwdt_subcommands_def cmd_gndwdt_feed_def cmd_gndwdt_show_def cmd_gndwdt_arm_def
        cmd_gndwdt_timeout_def Let_def split_beta simp del: not_None_eq intro!: returns_intros)
  show "distinct (map sub_name (gndwdt_subcommands X))" for X :: "'s gndwdt_ctx"
    by (simp add: gndwdt_subcommands_def)
qed

interpretation health_group: shell_group health_subcommands "\<lambda>_. True"
  by unfold_locales
    (auto simp: health_subcommands_def cmd_health_list_def cmd_health_report_def cmd_health_status_def
      cmd_health_watch_def Let_def split_beta simp del: not_None_eq intro!: returns_intros)

interpretation scrub_rows: walk_callback print_region "\<lambda>_. True"
  by unfold_locales (auto simp: print_region_def ends_def)

lemma print_table_returns [returns_intros]: "returns (print_table X)"
  unfolding print_table_def by (rule ends_bind, rule ends_bind, rule scrub_rows.visit_then) (simp_all add: ends_def)

interpretation scrub_group: shell_group scrub_subcommands "\<lambda>_. True"
  by unfold_locales
    (auto simp: scrub_subcommands_def cmd_scrub_status_def cmd_scrub_sweep_def cmd_scrub_learn_def on_region_def
      simp del: not_None_eq intro!: print_table_returns returns_intros)

interpretation watchdog_group: shell_group watchdog_subcommands "\<lambda>_. True"
  by unfold_locales
    (auto simp: watchdog_subcommands_def cmd_watchdog_feed_def cmd_watchdog_starve_def cmd_watchdog_status_def Let_def
      simp del: not_None_eq intro!: returns_intros)

interpretation limit_rules: walk_callback "print_rule X" "\<lambda>_. True" for X
  by unfold_locales (auto simp: print_rule_def ends_def)

lemma limits_list_returns: "returns (cmd_limits_list X argv)"
  unfolding cmd_limits_list_def by (rule ends_bind, rule limit_rules.visit_then) (simp_all add: ends_def)

interpretation limits_group: shell_group limits_subcommands "\<lambda>_. True"
  by unfold_locales
    (auto simp: limits_subcommands_def cmd_limits_load_def cmd_limits_status_def cmd_limits_sweep_def Let_def
      simp del: not_None_eq intro!: limits_list_returns returns_intros)

interpretation resmon_group: shell_group resmon_subcommands "\<lambda>_. True"
  by unfold_locales
    (auto simp: resmon_subcommands_def cmd_resmon_alert_def cmd_resmon_sample_def cmd_resmon_show_def Let_def split_beta
      simp del: not_None_eq intro!: returns_intros)

section \<open>Properties\<close>

text \<open>
  C24. The two shell commands that make the board reset act only on the whole confirmation. Without
  the word \<^verbatim>\<open>confirm\<close> in its place \<^verbatim>\<open>health watch\<close> and \<^verbatim>\<open>watchdog starve\<close> return \<^verbatim>\<open>-EINVAL\<close> and no
  service changes, whatever else was typed. With it, \<^verbatim>\<open>watch\<close> registers the component once, with
  the deadline typed, exactly when that is a number from 1 to the largest of 32 bits, and \<^verbatim>\<open>starve\<close>
  stops the feeding once, unless the platform says that no device is bound.
\<close>

theorem reset_commands_need_confirm:
  "(let (r, w') = run_state (cmd_health_watch H argv) w;
        (deadline, parse_error) = shell_strtoul (lx_E H) (argv ! 2) 0;
        reg = kfsw_health_register H (argv ! 1) (of_nat deadline) (svc w) in
      if length argv = 4 \<and> argv ! 3 = ''confirm'' \<and> parse_error = 0 \<and> 1 \<le> deadline \<and> deadline < 2 ^ 32
      then r = Some (fst (fst reg)) \<and> svc w' = snd reg
      else r = Some (- EINVAL) \<and> svc w' = svc w) \<and>
   (let (r, w') = run_state (cmd_watchdog_starve D argv') v;
        i = kfsw_platform_watchdog_get_info D (svc v);
        stop = kfsw_platform_watchdog_stop_feeding D (svc v) in
      if length argv' = 2 \<and> argv' ! 1 = ''confirm''
      then if fst i = 0 \<and> \<not> wi_device_bound (snd i) then r = Some (- ENODEV) \<and> svc w' = svc v
        else r = Some (fst stop) \<and> svc w' = snd stop
      else r = Some (- EINVAL) \<and> svc w' = svc v)"
  by (auto simp: cmd_health_watch_def cmd_watchdog_starve_def with_argv_def uint_max_defs split_beta Let_def)

end
