(* ===== verification/Shell_Csp.thy ===== *)
theory Shell_Csp
  imports Shell_Walk
begin

text \<open>
  The network shell group, \<^verbatim>\<open>src/app/src/shell/shell_csp.c\<close>: identity, interfaces and routes, ping and
  counters of a node, the packet and transport traces, restarting a node, and reading and setting
  clocks. The CSP layer is a parameter. \<^verbatim>\<open>strtoll\<close> in base 0 and \<^verbatim>\<open>gmtime_r\<close> are written out.
  Numbers the code only prints are naturals.
\<close>

section \<open>Standard library\<close>

text \<open>
  \<^verbatim>\<open>strtoll(s, &end, 0)\<close>: the value, held at the limits of 64 bits, and the suffix \<^verbatim>\<open>end\<close> points at,
  the whole text when there are no digits.
\<close>

definition LLONG_MAX :: int where "LLONG_MAX = 2 ^ 63 - 1"
definition INT32_MAX :: int where "INT32_MAX = 2 ^ 31 - 1"

definition strtoll0 :: "string \<Rightarrow> int \<times> string" where
  "strtoll0 s =
     (let t = dropWhile isspace s;
          neg = (hd0 t = CHR ''-'');
          u = (if hd0 t = CHR ''-'' \<or> hd0 t = CHR ''+'' then tl t else t);
          (b, d) = base_and_digits u
      in if \<not> digit_in b (hd0 d) then (0, s)
         else let (v, r) = read_digits b d 0
              in (if neg then max (- int v) (- LLONG_MAX - 1) else min (int v) LLONG_MAX, r))"

text \<open>\<^verbatim>\<open>%0nd\<close>.\<close>

definition fmt_0d :: "nat \<Rightarrow> int \<Rightarrow> string" where
  "fmt_0d n k = (if k < 0 then CHR ''-'' # pad_zero (n - 1) (fmt_u (nat (- k))) else pad_zero n (fmt_u (nat k)))"

text \<open>
  \<^verbatim>\<open>gmtime_r\<close>: the year is found from 1970 inside a cycle of 400 years, which has 146097 days, then
  the month inside the year.
\<close>

record tm =
  tm_year :: int
  tm_mon :: int
  tm_mday :: int
  tm_hour :: int
  tm_min :: int
  tm_sec :: int

definition leap :: "int \<Rightarrow> bool" where
  "leap y \<longleftrightarrow> 4 dvd y \<and> (\<not> 100 dvd y \<or> 400 dvd y)"

definition month_lengths :: "bool \<Rightarrow> nat list" where
  "month_lengths lp = [31, if lp then 29 else 28, 31, 30, 31, 30, 31, 31, 30, 31, 30, 31]"

definition year_days :: "int \<Rightarrow> nat" where
  "year_days y = (if leap y then 366 else 365)"

function year_from :: "int \<Rightarrow> nat \<Rightarrow> int \<times> nat" where
  "year_from y d = (if d < year_days y then (y, d) else year_from (y + 1) (d - year_days y))"
  by pat_completeness auto
termination
  by (relation "measure snd") (auto simp: year_days_def)

declare year_from.simps [simp del]

fun month_from :: "nat list \<Rightarrow> nat \<Rightarrow> nat \<Rightarrow> nat \<times> nat" where
  "month_from [] m d = (m, d)"
| "month_from (l # ls) m d = (if d < l then (m, d) else month_from ls (Suc m) (d - l))"

definition gmtime :: "int \<Rightarrow> tm" where
  "gmtime t =
     (let days = t div 86400; sod = t mod 86400;
          (y, yd) = year_from 1970 (nat (days mod 146097));
          year = y + 400 * (days div 146097);
          (mon, d) = month_from (month_lengths (leap year)) 0 yd
      in \<lparr>tm_year = year - 1900, tm_mon = int mon, tm_mday = int d + 1,
          tm_hour = sod div 3600, tm_min = sod div 60 mod 60, tm_sec = sod mod 60\<rparr>)"

section \<open>Data\<close>

record kfsw_csp_clock =
  seconds :: u32
  nanoseconds :: u32

record kfsw_csp_info =
  ci_address :: u16
  hostname :: string
  model :: string
  revision :: string
  libcsp :: string
  protocol :: nat
  free_buffers :: nat

record kfsw_csp_identity =
  id_hostname :: string
  id_model :: string
  id_revision :: string
  id_date :: string
  id_time :: string

record kfsw_csp_interface_info =
  if_name :: string
  if_address :: nat
  if_prefix :: nat
  is_default :: bool
  if_tx_packets :: nat
  if_rx_packets :: nat
  if_tx_errors :: nat
  if_rx_errors :: nat
  if_dropped_packets :: nat
  if_auth_errors :: nat

record kfsw_csp_route_info =
  rt_address :: nat
  rt_prefix :: nat
  rt_interface :: string
  rt_via :: "nat option"

record kfsw_csp_interface_stats =
  is_name :: string
  tx_packets :: nat
  rx_packets :: nat
  tx_errors :: nat
  rx_errors :: nat
  dropped_packets :: nat
  auth_errors :: nat
  frame_errors :: nat
  tx_bytes :: nat
  rx_bytes :: nat
  interrupts :: nat

record kfsw_csp_counters =
  buffer_out :: nat
  conn_out :: nat
  conn_overflow :: nat
  conn_noroute :: nat
  invalid_reply :: nat
  cc_last_error :: nat
  last_can_error :: nat

record 's csp_services =
  shell_strtol :: "string \<Rightarrow> nat \<Rightarrow> int \<times> int"
  kfsw_csp_get_info :: "'s \<Rightarrow> kfsw_csp_info"
  kfsw_csp_visit_interfaces :: "'s \<Rightarrow> kfsw_csp_interface_info visit \<times> 's"
  kfsw_csp_visit_routes :: "'s \<Rightarrow> kfsw_csp_route_info visit \<times> 's"
  kfsw_csp_route_lookup :: "u16 \<Rightarrow> 's \<Rightarrow> int \<times> kfsw_csp_route_info"
  kfsw_csp_ping :: "u16 \<Rightarrow> nat \<Rightarrow> nat \<Rightarrow> 's \<Rightarrow> (int \<times> u32) \<times> 's"
  kfsw_csp_interface_stats_read :: "u16 \<Rightarrow> string \<Rightarrow> nat \<Rightarrow> 's \<Rightarrow> (int \<times> kfsw_csp_interface_stats) \<times> 's"
  kfsw_csp_clear_counters :: "'s \<Rightarrow> 's"
  kfsw_csp_get_counters :: "'s \<Rightarrow> kfsw_csp_counters"
  kfsw_csp_error_name :: "nat \<Rightarrow> string"
  kfsw_csp_can_error_name :: "nat \<Rightarrow> string"
  kfsw_csp_get_packet_trace :: "'s \<Rightarrow> bool"
  kfsw_csp_set_packet_trace :: "bool \<Rightarrow> 's \<Rightarrow> 's"
  kfsw_csp_get_rdp_trace :: "'s \<Rightarrow> nat"
  kfsw_csp_set_rdp_trace :: "u8 \<Rightarrow> 's \<Rightarrow> int \<times> 's"
  kfsw_csp_identify :: "u16 \<Rightarrow> nat \<Rightarrow> 's \<Rightarrow> (int \<times> kfsw_csp_identity) \<times> 's"
  kfsw_csp_clock_is_set :: "kfsw_csp_clock \<Rightarrow> bool"
  kfsw_csp_clock_get :: "'s \<Rightarrow> kfsw_csp_clock"
  kfsw_csp_clock_set :: "kfsw_csp_clock \<Rightarrow> 's \<Rightarrow> int \<times> 's"
  kfsw_csp_clock_read :: "u16 \<Rightarrow> nat \<Rightarrow> 's \<Rightarrow> (int \<times> kfsw_csp_clock) \<times> 's"
  kfsw_csp_clock_write :: "u16 \<Rightarrow> nat \<Rightarrow> kfsw_csp_clock \<Rightarrow> 's \<Rightarrow> (int \<times> kfsw_csp_clock) \<times> 's"
  CSP_ERR_TIMEDOUT :: int

record 's csp_ctx =
  nx_cfg :: config
  nx_B :: build
  nx_E :: "'s shell_env"
  nx_C :: "'s csp_services"

definition KFSW_CSP_PING_TIMEOUT_MS :: nat where "KFSW_CSP_PING_TIMEOUT_MS = 1000"
definition KFSW_CSP_PING_PAYLOAD_SIZE :: nat where "KFSW_CSP_PING_PAYLOAD_SIZE = 10"

definition as_errno :: "'s csp_services \<Rightarrow> int \<Rightarrow> int" where
  "as_errno C csp_result = (if csp_result = CSP_ERR_TIMEDOUT C then - ETIMEDOUT else csp_result)"

section \<open>Showing things\<close>

definition date_text :: "tm \<Rightarrow> string" where
  "date_text b =
     fmt_0d 4 (tm_year b + 1900) @ ''-'' @ fmt_0d 2 (tm_mon b + 1) @ ''-'' @ fmt_0d 2 (tm_mday b) @ '' '' @
     fmt_0d 2 (tm_hour b) @ '':'' @ fmt_0d 2 (tm_min b) @ '':'' @ fmt_0d 2 (tm_sec b)"

definition print_clock :: "'s csp_services \<Rightarrow> string \<Rightarrow> kfsw_csp_clock \<Rightarrow> ('s, unit) act" where
  "print_clock C label clock =
     (if \<not> kfsw_csp_clock_is_set C clock
      then shell_print (label @ '': not set (reads '' @ fmt_d (sint (seconds clock)) @ '')'')
      else shell_print (label @ '': '' @ snprintf 72 (date_text (gmtime (sint (seconds clock)))) @ '' UTC ('' @
        fmt_d (sint (seconds clock)) @ ''.'' @ pad_zero 9 (fmt_u (unat (nanoseconds clock))) @ '')''))"

definition print_csp_interface :: "('s, kfsw_csp_interface_info, unit) callback" where
  "print_csp_interface i c = do {
     shell_print (if_name i @ '' addr='' @ fmt_u (if_address i) @ ''/'' @ fmt_u (if_prefix i) @ '' default='' @
       (if is_default i then ''yes'' else ''no'') @ '' tx='' @ fmt_u (if_tx_packets i) @ '' rx='' @
       fmt_u (if_rx_packets i) @ '' txerr='' @ fmt_u (if_tx_errors i) @ '' rxerr='' @ fmt_u (if_rx_errors i) @
       '' drop='' @ fmt_u (if_dropped_packets i) @ '' autherr='' @ fmt_u (if_auth_errors i));
     ret (Some (c, True))
   }"

definition route_text :: "kfsw_csp_route_info \<Rightarrow> string" where
  "route_text r =
     fmt_u (rt_address r) @ ''/'' @ fmt_u (rt_prefix r) @ '' -> '' @ rt_interface r @
     (case rt_via r of Some v \<Rightarrow> '' via '' @ fmt_u v | None \<Rightarrow> '' direct'')"

definition print_csp_route :: "('s, kfsw_csp_route_info, unit) callback" where
  "print_csp_route r c = do { shell_print (route_text r); ret (Some (c, True)) }"

section \<open>Commands\<close>

definition cmd_csp_info :: "'s csp_ctx \<Rightarrow> 's shell_handler" where
  "cmd_csp_info X argv = do {
     i \<leftarrow> ask (kfsw_csp_get_info (nx_C X));
     emit_all
       [Print (''CSP node: '' @ fmt_u (unat (ci_address i))), Print (''hostname: '' @ hostname i),
        Print (''model: '' @ model i), Print (''revision: '' @ revision i), Print (''libcsp: '' @ libcsp i),
        Print (''protocol: CSP v'' @ fmt_u (protocol i)), Print (''free_buffers: '' @ fmt_u (free_buffers i))];
     ret (Some 0)
   }"

definition cmd_csp_interfaces :: "'s csp_ctx \<Rightarrow> 's shell_handler" where
  "cmd_csp_interfaces X argv = do {
     r \<leftarrow> visit_with (kfsw_csp_visit_interfaces (nx_C X)) print_csp_interface ();
     ret (map_option (\<lambda>_. 0) r)
   }"

definition cmd_csp_routes :: "'s csp_ctx \<Rightarrow> 's shell_handler" where
  "cmd_csp_routes X argv = do {
     r \<leftarrow> visit_with (kfsw_csp_visit_routes (nx_C X)) print_csp_route ();
     ret (map_option (\<lambda>_. 0) r)
   }"

text \<open>The node of \<^verbatim>\<open>ping\<close>: this one without an argument, \<open>Inl\<close> the error otherwise.\<close>

definition ping_node :: "'s csp_ctx \<Rightarrow> string list \<Rightarrow> ('s, (int + nat) option) act" where
  "ping_node X argv = do {
     i \<leftarrow> ask (kfsw_csp_get_info (nx_C X));
     if length argv < 2
     then do {
       shell_print (''No node given; using this node ('' @ fmt_u (unat (ci_address i)) @ '')'');
       ret (Some (Inr (unat (ci_address i))))
     }
     else with_argv argv 1 (\<lambda>a1. let (node, parse_error) = shell_strtoul (nx_E X) a1 10 in
       if parse_error \<noteq> 0 \<or> KFSW_CSP_BROADCAST_ADDRESS (nx_B X) < node
       then do {
         shell_error (''CSP node must be in range 0..'' @ fmt_u (KFSW_CSP_BROADCAST_ADDRESS (nx_B X)));
         ret (Some (Inl (- EINVAL)))
       }
       else ret (Some (Inr node)))
   }"

definition ping :: "'s csp_ctx \<Rightarrow> nat \<Rightarrow> ('s, int) act" where
  "ping X node = do {
     route \<leftarrow> ask (kfsw_csp_route_lookup (nx_C X) (of_nat node));
     (if fst route = 0 then shell_print (route_text (snd route))
      else shell_print (''CSP route '' @ fmt_u node @ '': unavailable ('' @ fmt_d (fst route) @ '')''));
     r \<leftarrow> call (kfsw_csp_ping (nx_C X) (of_nat node) KFSW_CSP_PING_TIMEOUT_MS KFSW_CSP_PING_PAYLOAD_SIZE);
     if fst r \<noteq> 0 then kfsw_shell_remote_failed ''csp ping'' (of_nat node) (as_errno (nx_C X) (fst r))
     else do {
       shell_print (''CSP ping '' @ fmt_u node @ '': success'');
       shell_print (''rtt_ms: '' @ fmt_u (unat (snd r) div 1000) @ ''.'' @ pad_zero 3 (fmt_u (unat (snd r) mod 1000)));
       ret 0
     }
   }"

definition cmd_csp_ping :: "'s csp_ctx \<Rightarrow> 's shell_handler" where
  "cmd_csp_ping X argv = do {
     n \<leftarrow> ping_node X argv;
     case n of
       None \<Rightarrow> ret None
     | Some (Inl result) \<Rightarrow> ret (Some result)
     | Some (Inr node) \<Rightarrow> lift_int (ping X node)
   }"

definition cmd_csp_ifstat :: "'s csp_ctx \<Rightarrow> 's shell_handler" where
  "cmd_csp_ifstat X argv =
     with_argv argv 1 (\<lambda>a1. let (node, parse_error) = shell_strtoul (nx_E X) a1 10 in
       if parse_error \<noteq> 0 \<or> KFSW_CSP_BROADCAST_ADDRESS (nx_B X) < node
       then do {
         shell_error (''CSP node must be in range 0..'' @ fmt_u (KFSW_CSP_BROADCAST_ADDRESS (nx_B X)));
         ret (Some (- EINVAL))
       }
       else with_argv argv 2 (\<lambda>a2. do {
         r \<leftarrow> call (kfsw_csp_interface_stats_read (nx_C X) (of_nat node) a2 KFSW_CSP_PING_TIMEOUT_MS);
         if fst r \<noteq> 0 then lift_int (kfsw_shell_remote_failed ''csp ifstat'' (of_nat node) (fst r))
         else do {
           emit_all
             [Print (''CSP ifstat '' @ fmt_u node @ '' '' @ is_name (snd r)),
              Print (''tx: '' @ fmt_u (tx_packets (snd r))), Print (''rx: '' @ fmt_u (rx_packets (snd r))),
              Print (''txerr: '' @ fmt_u (tx_errors (snd r))), Print (''rxerr: '' @ fmt_u (rx_errors (snd r))),
              Print (''drop: '' @ fmt_u (dropped_packets (snd r))), Print (''autherr: '' @ fmt_u (auth_errors (snd r))),
              Print (''frame: '' @ fmt_u (frame_errors (snd r))), Print (''txbytes: '' @ fmt_u (tx_bytes (snd r))),
              Print (''rxbytes: '' @ fmt_u (rx_bytes (snd r))), Print (''irq: '' @ fmt_u (interrupts (snd r)))];
           ret (Some 0)
         }
       }))"

definition cmd_csp_counters :: "'s csp_ctx \<Rightarrow> 's shell_handler" where
  "cmd_csp_counters X argv =
     (if 1 < length argv
      then with_argv argv 1 (\<lambda>a1.
        if a1 \<noteq> ''clear''
        then do { shell_error (''Invalid argument: '' @ a1 @ '' (expected clear)''); ret (Some (- EINVAL)) }
        else do {
          u \<leftarrow> call (\<lambda>s. ((), kfsw_csp_clear_counters (nx_C X) s));
          shell_print ''CSP counters cleared'';
          ret (Some 0)
        })
      else do {
        c \<leftarrow> ask (kfsw_csp_get_counters (nx_C X));
        emit_all
          [Print (''buffer_out='' @ fmt_u (buffer_out c) @ '' conn_out='' @ fmt_u (conn_out c) @ '' conn_ovf='' @
             fmt_u (conn_overflow c) @ '' conn_noroute='' @ fmt_u (conn_noroute c) @ '' invalid_reply='' @
             fmt_u (invalid_reply c)),
           Print (''last_error='' @ fmt_u (cc_last_error c) @ '' ('' @ kfsw_csp_error_name (nx_C X) (cc_last_error c) @ '')''),
           Print (''last_can_error='' @ fmt_u (last_can_error c) @ '' ('' @
             kfsw_csp_can_error_name (nx_C X) (last_can_error c) @ '')'')];
        ret (Some 0)
      })"

definition on_off :: "bool \<Rightarrow> string" where
  "on_off b = (if b then ''on'' else ''off'')"

definition cmd_csp_debug :: "'s csp_ctx \<Rightarrow> 's shell_handler" where
  "cmd_csp_debug X argv =
     (if length argv < 2
      then do {
        b \<leftarrow> ask (kfsw_csp_get_packet_trace (nx_C X));
        shell_print (''CSP packet trace: '' @ on_off b);
        ret (Some 0)
      }
      else with_argv argv 1 (\<lambda>a1.
        if a1 = ''on'' \<or> a1 = ''off''
        then do {
          u \<leftarrow> call (\<lambda>s. ((), kfsw_csp_set_packet_trace (nx_C X) (a1 = ''on'') s));
          shell_print (''CSP packet trace: '' @ on_off (a1 = ''on''));
          ret (Some 0)
        }
        else do { shell_error (''Invalid state: '' @ a1 @ '' (expected on or off)''); ret (Some (- EINVAL)) }))"

text \<open>The last condition of the disjunction sets the level: it is only reached when the others hold.\<close>

definition cmd_csp_rdp :: "'s csp_ctx \<Rightarrow> 's shell_handler" where
  "cmd_csp_rdp X argv =
     (if length argv < 2
      then do {
        n \<leftarrow> ask (kfsw_csp_get_rdp_trace (nx_C X));
        shell_print (''CSP RDP trace: '' @ fmt_u n);
        ret (Some 0)
      }
      else with_argv argv 1 (\<lambda>a1. let (level, parse_error) = shell_strtol (nx_C X) a1 10 in do {
        refused \<leftarrow> (if parse_error \<noteq> 0 \<or> level < 0 \<or> 2 < level then ret True
                    else do { rc \<leftarrow> call (kfsw_csp_set_rdp_trace (nx_C X) (of_int level)); ret (rc \<noteq> 0) });
        if refused
        then do { shell_error ''level is 0 off, 1 errors, 2 with the protocol''; ret (Some (- EINVAL)) }
        else do { shell_print (''CSP RDP trace: '' @ fmt_d level); ret (Some 0) }
      }))"

text \<open>The node of \<^verbatim>\<open>ident\<close> and \<^verbatim>\<open>clock\<close>, in any base.\<close>

definition with_any_node ::
  "'s csp_ctx \<Rightarrow> string \<Rightarrow> (nat \<Rightarrow> ('s, int option) act) \<Rightarrow> ('s, int option) act" where
  "with_any_node X a1 k =
     (let (node, parse_error) = shell_strtoul (nx_E X) a1 0
      in if parse_error \<noteq> 0 \<or> KFSW_CSP_BROADCAST_ADDRESS (nx_B X) < node
         then do { shell_error (''Invalid node: '' @ a1); ret (Some (- EINVAL)) }
         else k node)"

definition ident_remote :: "'s csp_ctx \<Rightarrow> nat \<Rightarrow> ('s, int option) act" where
  "ident_remote X node = do {
     r \<leftarrow> call (kfsw_csp_identify (nx_C X) (of_nat node) KFSW_CSP_PING_TIMEOUT_MS);
     if fst r \<noteq> 0 then lift_int (kfsw_shell_remote_failed ''csp ident'' (of_nat node) (as_errno (nx_C X) (fst r)))
     else do {
       emit_all
         [Print (''CSP ident '' @ fmt_u node), Print (''hostname: '' @ id_hostname (snd r)),
          Print (''model: '' @ id_model (snd r)), Print (''revision: '' @ id_revision (snd r))];
       (if id_date (snd r) \<noteq> [] then shell_print (''built: '' @ id_date (snd r) @ '' '' @ id_time (snd r)) else ret ());
       c \<leftarrow> call (kfsw_csp_clock_read (nx_C X) (of_nat node) KFSW_CSP_PING_TIMEOUT_MS);
       (if fst c = 0 then print_clock (nx_C X) ''clock'' (snd c) else shell_print ''clock: no answer'');
       ret (Some 0)
     }
   }"

definition show_own_clock :: "'s csp_ctx \<Rightarrow> ('s, int option) act" where
  "show_own_clock X = do {
     c \<leftarrow> ask (kfsw_csp_clock_get (nx_C X));
     print_clock (nx_C X) ''clock'' c;
     ret (Some 0)
   }"

definition cmd_csp_ident :: "'s csp_ctx \<Rightarrow> 's shell_handler" where
  "cmd_csp_ident X argv =
     (if length argv < 2
      then do {
        i \<leftarrow> ask (kfsw_csp_get_info (nx_C X));
        emit_all
          [Print (''CSP ident '' @ fmt_u (unat (ci_address i)) @ '' (this node)''), Print (''hostname: '' @ hostname i),
           Print (''model: '' @ model i), Print (''revision: '' @ revision i)];
        show_own_clock X
      }
      else with_argv argv 1 (\<lambda>a1. with_any_node X a1 (ident_remote X)))"

definition cmd_csp_reboot :: "'s csp_ctx \<Rightarrow> 's shell_handler" where
  "cmd_csp_reboot X argv =
     with_argv argv 1 (\<lambda>a1. do {
       n \<leftarrow> kfsw_shell_parse_node (nx_B X) (nx_E X) a1 0;
       if fst n \<noteq> 0 then ret (Some (fst n))
       else kfsw_shell_run_command (nx_cfg X) (nx_B X) (nx_E X) (snd n) ''reboot'' (drop 2 argv)
     })"

definition clock_set_here :: "'s csp_ctx \<Rightarrow> string list \<Rightarrow> ('s, int option) act" where
  "clock_set_here X argv =
     (if length argv < 3
      then do { shell_error ''Usage: csp clock set <seconds since 1970 UTC>''; ret (Some (- EINVAL)) }
      else with_argv argv 2 (\<lambda>a2. let (secs, rest) = strtoll0 a2 in
        if rest = a2 \<or> rest \<noteq> [] \<or> secs \<le> 0 \<or> INT32_MAX < secs
        then do { shell_error (''Invalid time: '' @ a2); ret (Some (- EINVAL)) }
        else do {
          result \<leftarrow> call (kfsw_csp_clock_set (nx_C X) \<lparr>seconds = of_int secs, nanoseconds = 0\<rparr>);
          if result \<noteq> 0
          then do { shell_error (''clock set: '' @ fmt_d result); ret (Some result) }
          else show_own_clock X
        }))"

text \<open>Printing what a node answered, or that it failed.\<close>

definition show_node_clock :: "'s csp_ctx \<Rightarrow> nat \<Rightarrow> int \<times> kfsw_csp_clock \<Rightarrow> ('s, int option) act" where
  "show_node_clock X node r =
     (if fst r \<noteq> 0
      then do { shell_error (''clock node='' @ fmt_u node @ '': '' @ fmt_d (fst r)); ret (Some (fst r)) }
      else do { print_clock (nx_C X) ''clock'' (snd r); ret (Some 0) })"

definition cmd_csp_clock :: "'s csp_ctx \<Rightarrow> 's shell_handler" where
  "cmd_csp_clock X argv =
     (if length argv < 2 then show_own_clock X
      else with_argv argv 1 (\<lambda>a1.
        if a1 = ''set'' then clock_set_here X argv
        else with_any_node X a1 (\<lambda>node.
          if 2 < length argv \<and> argv ! 2 = ''sync''
          then do {
            mine \<leftarrow> ask (kfsw_csp_clock_get (nx_C X));
            if \<not> kfsw_csp_clock_is_set (nx_C X) mine
            then do {
              shell_error (''This node'' @ [CHR 0x27] @ ''s clock is not set; nothing to hand over'');
              ret (Some (- EINVAL))
            }
            else do {
              r \<leftarrow> call (kfsw_csp_clock_write (nx_C X) (of_nat node) KFSW_CSP_PING_TIMEOUT_MS mine);
              show_node_clock X node r
            }
          }
          else do {
            r \<leftarrow> call (kfsw_csp_clock_read (nx_C X) (of_nat node) KFSW_CSP_PING_TIMEOUT_MS);
            show_node_clock X node r
          })))"

definition csp_subcommands :: "'s csp_ctx \<Rightarrow> 's subcommand list" where
  "csp_subcommands X =
     [sub ''ifstat'' (cmd_csp_ifstat X) 3 0, sub ''clock'' (cmd_csp_clock X) 1 2,
      sub ''counters'' (cmd_csp_counters X) 1 1, sub ''debug'' (cmd_csp_debug X) 1 1,
      sub ''ident'' (cmd_csp_ident X) 1 1, sub ''info'' (cmd_csp_info X) 1 0,
      sub ''interfaces'' (cmd_csp_interfaces X) 1 0, sub ''ping'' (cmd_csp_ping X) 1 1] @
     (if nx_cfg X CONFIG_KFSW_COMMAND \<and> nx_cfg X CONFIG_REBOOT then [sub ''reboot'' (cmd_csp_reboot X) 3 1] else []) @
     [sub ''rdp'' (cmd_csp_rdp X) 1 1, sub ''routes'' (cmd_csp_routes X) 1 0]"


section \<open>Every subcommand returns\<close>

interpretation interface_rows: walk_callback print_csp_interface "\<lambda>_. True"
  by unfold_locales (auto simp: print_csp_interface_def ends_def)

interpretation route_rows: walk_callback print_csp_route "\<lambda>_. True"
  by unfold_locales (auto simp: print_csp_route_def ends_def)

lemma show_own_clock_returns [returns_intros]: "returns (show_own_clock X)"
  unfolding show_own_clock_def by (intro returns_intros)

lemma show_node_clock_returns [returns_intros]: "returns (show_node_clock X node r)"
  unfolding show_node_clock_def by (intro returns_intros)

lemma with_any_node_returns [returns_intros]: "(\<And>node. returns (k node)) \<Longrightarrow> returns (with_any_node X a1 k)"
  unfolding with_any_node_def Let_def split_beta by (intro returns_intros)

lemma ident_remote_returns [returns_intros]: "returns (ident_remote X node)"
  unfolding ident_remote_def by (intro returns_intros)

lemma walks_return [returns_intros]:
  "returns (cmd_csp_interfaces X argv)" "returns (cmd_csp_routes X argv)"
  unfolding cmd_csp_interfaces_def cmd_csp_routes_def
  by (rule interface_rows.visit_then route_rows.visit_then; simp add: ends_def)+

lemma ping_returns: "returns (cmd_csp_ping X argv)"
  unfolding cmd_csp_ping_def
proof (rule returns_bind)
  show "returns (ping_node X argv)"
    unfolding ping_node_def Let_def split_beta by (intro returns_intros) simp
qed (auto intro!: returns_intros simp del: not_None_eq split: sum.splits)

lemma reboot_returns:
  "registry_ok (nx_B X) (nx_E X) \<Longrightarrow> 3 \<le> length argv \<Longrightarrow> returns (cmd_csp_reboot X argv)"
  unfolding cmd_csp_reboot_def by (intro returns_intros returns_run_command) auto

lemma clock_returns: "returns (cmd_csp_clock X argv)"
  unfolding cmd_csp_clock_def clock_set_here_def Let_def split_beta
  by (intro returns_intros) simp_all

interpretation csp_group: shell_group csp_subcommands "\<lambda>X. registry_ok (nx_B X) (nx_E X)"
proof unfold_locales
  show "group_total (csp_subcommands X)" if "registry_ok (nx_B X) (nx_E X)" for X :: "'s csp_ctx"
    using that
    by (auto simp: csp_subcommands_def cmd_csp_ifstat_def cmd_csp_counters_def cmd_csp_debug_def cmd_csp_ident_def
        cmd_csp_info_def cmd_csp_rdp_def split_beta Let_def simp del: not_None_eq
        intro!: returns_intros ping_returns reboot_returns clock_returns)
  show "distinct (map sub_name (csp_subcommands X))" for X :: "'s csp_ctx"
    by (cases "nx_cfg X CONFIG_KFSW_COMMAND"; cases "nx_cfg X CONFIG_REBOOT") (simp_all add: csp_subcommands_def)
qed

section \<open>The calendar\<close>

text \<open>Days from 1970 to the start of a year, counted by leap years.\<close>

definition year_start :: "int \<Rightarrow> int" where
  "year_start y = 365 * (y - 1970) + (y - 1969) div 4 - (y - 1901) div 100 + (y - 1601) div 400"

text \<open>A broken-down time as seconds since 1970.\<close>

definition seconds_of :: "tm \<Rightarrow> int" where
  "seconds_of b =
     ((year_start (tm_year b + 1900) +
       int (sum_list (take (nat (tm_mon b)) (month_lengths (leap (tm_year b + 1900))))) + tm_mday b - 1) * 86400) +
     tm_hour b * 3600 + tm_min b * 60 + tm_sec b"

definition tm_ok :: "tm \<Rightarrow> bool" where
  "tm_ok b \<longleftrightarrow> 0 \<le> tm_mon b \<and> tm_mon b < 12 \<and>
     1 \<le> tm_mday b \<and> tm_mday b \<le> int (month_lengths (leap (tm_year b + 1900)) ! nat (tm_mon b)) \<and>
     0 \<le> tm_hour b \<and> tm_hour b < 24 \<and> 0 \<le> tm_min b \<and> tm_min b < 60 \<and> 0 \<le> tm_sec b \<and> tm_sec b < 60"

text \<open>Counting multiples one number further.\<close>

lemma div_next:
  assumes "0 < (n :: int)"
  shows "(x + 1) div n = x div n + (if n dvd (x + 1) then 1 else 0)"
proof -
  define q r where "q = x div n" and "r = x mod n"
  have x: "x = n * q + r" "0 \<le> r" "r < n" using assms by (simp_all add: q_def r_def)
  have d: "n dvd x + 1 \<longleftrightarrow> n dvd r + 1"
    using dvd_add_right_iff [of n "n * q" "r + 1"] by (simp add: x(1) add.assoc)
  have "(x + 1) div n = q + (r + 1) div n"
    using assms by (simp add: x(1) add.assoc)
  moreover have "(r + 1) div n = (if n dvd r + 1 then 1 else 0)"
  proof (cases "r + 1 = n")
    case False
    then have "0 < r + 1" "r + 1 < n" using x by simp_all
    then show ?thesis using zdvd_not_zless by auto
  qed (use assms in simp)
  ultimately show ?thesis by (simp add: d q_def)
qed

lemma dvd_shift: "(n :: int) dvd c \<Longrightarrow> n dvd y - c \<longleftrightarrow> n dvd y"
  using dvd_add_left_iff [of n "- c" y] by simp

lemma leap_cycle: "leap (y + 400 * k) = leap y"
proof -
  have "(4 :: int) dvd 400 * k" "(100 :: int) dvd 400 * k" "(400 :: int) dvd 400 * k"
    by (rule dvd_mult2, simp)+
  then show ?thesis by (simp only: leap_def dvd_add_left_iff)
qed

lemma year_start_step: "year_start (y + 1) = year_start y + int (year_days y)"
proof -
  define a b c where "a = (4 dvd y)" and "b = (100 dvd y)" and "c = (400 dvd y)"
  have d4: "(y - 1968) div 4 = (y - 1969) div 4 + (if a then 1 else 0)"
    using div_next [of 4 "y - 1969"] dvd_shift [of 4 1968 y] by (simp add: a_def)
  have d100: "(y - 1900) div 100 = (y - 1901) div 100 + (if b then 1 else 0)"
    using div_next [of 100 "y - 1901"] dvd_shift [of 100 1900 y] by (simp add: b_def)
  have d400: "(y - 1600) div 400 = (y - 1601) div 400 + (if c then 1 else 0)"
    using div_next [of 400 "y - 1601"] dvd_shift [of 400 1600 y] by (simp add: c_def)
  have abc: "c \<longrightarrow> b" "b \<longrightarrow> a"
    using dvd_trans [of 100 400 y] dvd_trans [of 4 100 y] by (simp_all add: a_def b_def c_def)
  have days: "year_days y = (if a \<and> (\<not> b \<or> c) then 366 else 365)"
    by (simp only: year_days_def leap_def a_def b_def c_def)
  have e: "y + 1 - 1970 = y - 1970 + 1" "y + 1 - 1969 = y - 1968" "y + 1 - 1901 = y - 1900" "y + 1 - 1601 = y - 1600"
    by simp_all
  have "365 * (y - 1970 + 1) + (P + (if a then 1 else 0)) - (Q + (if b then 1 else 0)) + (R + (if c then 1 else 0)) =
      365 * (y - 1970) + P - Q + R + int (if a \<and> (\<not> b \<or> c) then 366 else 365)" for P Q R
    using abc by (cases a; cases b; cases c) simp_all
  then show ?thesis unfolding year_start_def days e d4 d100 d400 .
qed

lemma year_start_cycle: "year_start (y + 400 * k) = year_start y + 146097 * k"
proof -
  have e: "y + 400 * k - 1969 = (y - 1969) + (100 * k) * 4" "y + 400 * k - 1901 = (y - 1901) + (4 * k) * 100"
    "y + 400 * k - 1601 = (y - 1601) + k * 400"
    by simp_all
  show ?thesis
    unfolding year_start_def e by (simp only: div_mult_self1 zero_neq_numeral not_False_eq_True) simp
qed

lemma year_from_day: "year_from y d = (y', d') \<Longrightarrow> d' < year_days y' \<and> year_start y + int d = year_start y' + int d'"
proof (induction y d rule: year_from.induct)
  case (1 y d)
  then show ?case
    by (cases "d < year_days y") (auto simp: year_from.simps [of y d] year_start_step)
qed

lemma month_from_day:
  "month_from ls m d = (m', d') \<Longrightarrow> d < sum_list ls \<Longrightarrow>
   m \<le> m' \<and> m' - m < length ls \<and> d' < ls ! (m' - m) \<and> d = sum_list (take (m' - m) ls) + d'"
proof (induction ls m d rule: month_from.induct)
  case (2 l ls m d)
  show ?case
  proof (cases "d < l")
    case False
    then have "Suc m \<le> m' \<and> m' - Suc m < length ls \<and> d' < ls ! (m' - Suc m) \<and> d - l = sum_list (take (m' - Suc m) ls) + d'"
      using 2 by auto
    moreover from this have "m' - m = Suc (m' - Suc m)" by linarith
    ultimately show ?thesis using False by (simp add: add.assoc) linarith
  qed (use 2 in simp)
qed simp

lemma months: "length (month_lengths lp) = 12"
  by (simp add: month_lengths_def)

lemma year_length: "sum_list (month_lengths (leap y)) = year_days y"
  by (simp add: month_lengths_def year_days_def)

lemma clock_digits: "m = m div 3600 * 3600 + m div 60 mod 60 * 60 + m mod (60 :: int)"
proof -
  have q: "m div 3600 = m div 60 div 60" using zdiv_zmult2_eq [of 60 m 60] by simp
  define x y z where "x = m div 60 div 60" and "y = m div 60 mod 60" and "z = m mod 60"
  have "m = 60 * (m div 60) + z" "m div 60 = 60 * x + y" by (simp_all add: x_def y_def z_def)
  then have "m = 60 * (60 * x + y) + z" by metis
  then show ?thesis unfolding q x_def [symmetric] y_def [symmetric] z_def [symmetric] by simp
qed

text \<open>The broken-down time is a date of the calendar, and stands for the seconds it came from.\<close>

lemma gmtime_correct: "seconds_of (gmtime t) = t \<and> tm_ok (gmtime t)"
proof -
  define days where "days = t div 86400"
  define era where "era = days div 146097"
  obtain y yd where y: "year_from 1970 (nat (days mod 146097)) = (y, yd)" by fastforce
  define year where "year = y + 400 * era"
  obtain mon d where m: "month_from (month_lengths (leap year)) 0 yd = (mon, d)" by fastforce
  have "yd < year_days y" "year_start 1970 + int (nat (days mod 146097)) = year_start y + int yd"
    using year_from_day [OF y] by auto
  moreover have "year_start 1970 = 0" by (simp add: year_start_def)
  moreover have "days = 146097 * era + days mod 146097" by (simp add: era_def)
  ultimately have yd: "yd < year_days year" "year_start year + int yd = days"
    by (simp_all add: year_def year_start_cycle year_days_def leap_cycle)
  have md: "mon < 12" "d < month_lengths (leap year) ! mon" "yd = sum_list (take mon (month_lengths (leap year))) + d"
    using month_from_day [OF m, unfolded year_length, OF yd(1)] by (simp_all add: months)
  have g: "gmtime t = \<lparr>tm_year = year - 1900, tm_mon = int mon, tm_mday = int d + 1,
      tm_hour = t mod 86400 div 3600, tm_min = t mod 86400 div 60 mod 60, tm_sec = t mod 86400 mod 60\<rparr>"
    using y m by (simp add: gmtime_def Let_def days_def era_def year_def)
  have "0 \<le> t mod 86400 div 3600 \<and> t mod 86400 div 3600 < 24"
    using pos_mod_sign [of 86400 t] pos_mod_bound [of 86400 t] by linarith
  then have "tm_ok (gmtime t)"
    using md(1,2) by (simp add: tm_ok_def g)
  moreover have "t = days * 86400 + t mod 86400" by (simp add: days_def)
  moreover have "t mod 86400 = t mod 86400 div 3600 * 3600 + t mod 86400 div 60 mod 60 * 60 + t mod 86400 mod 60"
    by (rule clock_digits)
  ultimately show ?thesis
    using yd(2) md(3) by (simp add: seconds_of_def g algebra_simps)
qed


section \<open>The date as text\<close>

text \<open>
  A date in the form \<^verbatim>\<open>YYYY-MM-DD hh:mm:ss\<close>, and what it says, read at its columns: the year in the first
  four, the month from the sixth, the day of the month from the ninth, then hour, minute and second.
\<close>

definition date_shape :: "string \<Rightarrow> bool" where
  "date_shape t \<longleftrightarrow> map (\<lambda>c. if isdigit c then CHR ''9'' else c) t = ''9999-99-99 99:99:99''"

definition decimal :: "string \<Rightarrow> nat" where
  "decimal t = fst (read_digits 10 t 0)"

definition read_date :: "string \<Rightarrow> tm" where
  "read_date t =
     \<lparr>tm_year = int (decimal (take 4 t)) - 1900, tm_mon = int (decimal (take 2 (drop 5 t))) - 1,
      tm_mday = int (decimal (take 2 (drop 8 t))), tm_hour = int (decimal (take 2 (drop 11 t))),
      tm_min = int (decimal (take 2 (drop 14 t))), tm_sec = int (decimal (take 2 (drop 17 t)))\<rparr>"

lemma radix_length: "2 \<le> b \<Longrightarrow> n < b ^ k \<Longrightarrow> 0 < k \<Longrightarrow> length (radix b n) \<le> k"
proof (induction b n arbitrary: k rule: radix.induct)
  case (1 b n)
  show ?case
  proof (cases "n < b")
    case False
    obtain m where k: "k = Suc m" using "1.prems"(3) by (cases k) auto
    with False 1(3) have "0 < m" by (cases m) simp_all
    moreover have "n div b < b ^ m" using "1.prems"(1,2) k by (simp add: div_less_iff_less_mult ac_simps)
    ultimately have "length (radix b (n div b)) \<le> m" using 1(1) False "1.prems"(1) by simp
    then show ?thesis using False "1.prems"(1) by (simp add: radix.simps [of b n] k)
  qed (use 1 in \<open>simp add: radix.simps [of b n]\<close>)
qed

lemma decimal_zeros: "decimal (replicate n (CHR ''0'') @ t) = decimal t"
  by (induction n) (simp_all add: decimal_def digit_in_def digit_val_def)

text \<open>A number in its field: as wide as the field, digits only, and read back.\<close>

lemma field_text:
  assumes "0 \<le> k" "k < 10 ^ n" "0 < n"
  shows "length (fmt_0d n k) = n" "decimal (fmt_0d n k) = nat k" "list_all isdigit (fmt_0d n k)"
proof -
  have k: "nat k < 10 ^ n" using assms(1,2) by (simp add: nat_less_iff)
  have f: "fmt_0d n k = replicate (n - length (radix 10 (nat k))) (CHR ''0'') @ radix 10 (nat k)"
    using assms(1) by (simp add: fmt_0d_def pad_zero_def fmt_u_def)
  show "length (fmt_0d n k) = n" using radix_length [of 10 "nat k" n] k assms(3) by (simp add: f)
  show "decimal (fmt_0d n k) = nat k"
    unfolding f decimal_zeros by (simp add: decimal_def read_digits_radix)
  show "list_all isdigit (fmt_0d n k)"
    using radix_digits [of 10 "nat k"] by (auto simp: f list_all_iff digit_in_10 isdigit_def)
qed

lemma digits_masked: "list_all isdigit t \<Longrightarrow> map (\<lambda>c. if isdigit c then CHR ''9'' else c) t = replicate (length t) (CHR ''9'')"
  by (induction t) simp_all

lemma date_text_read:
  assumes "tm_ok b" "0 \<le> tm_year b + 1900" "tm_year b + 1900 < 10000"
  shows "length (date_text b) = 19 \<and> date_shape (date_text b) \<and> read_date (date_text b) = b"
proof -
  have d: "tm_mday b < 100"
  proof -
    have "month_lengths lp ! nat (tm_mon b) \<le> 31" for lp
      using assms(1) by (auto simp: tm_ok_def month_lengths_def less_Suc_eq nth_Cons' nat_less_iff)
    from this [of "leap (tm_year b + 1900)"] show ?thesis using assms(1) by (simp add: tm_ok_def)
  qed
  define y mo da h mi se where "y = fmt_0d 4 (tm_year b + 1900)" and "mo = fmt_0d 2 (tm_mon b + 1)"
    and "da = fmt_0d 2 (tm_mday b)" and "h = fmt_0d 2 (tm_hour b)" and "mi = fmt_0d 2 (tm_min b)" and "se = fmt_0d 2 (tm_sec b)"
  have len: "length y = 4" "length mo = 2" "length da = 2" "length h = 2" "length mi = 2" "length se = 2"
    and val: "decimal y = nat (tm_year b + 1900)" "decimal mo = nat (tm_mon b + 1)" "decimal da = nat (tm_mday b)"
      "decimal h = nat (tm_hour b)" "decimal mi = nat (tm_min b)" "decimal se = nat (tm_sec b)"
    and dig: "list_all isdigit y" "list_all isdigit mo" "list_all isdigit da" "list_all isdigit h"
      "list_all isdigit mi" "list_all isdigit se"
    using assms d by (simp_all add: y_def mo_def da_def h_def mi_def se_def field_text tm_ok_def)
  have t: "date_text b = y @ ''-'' @ mo @ ''-'' @ da @ '' '' @ h @ '':'' @ mi @ '':'' @ se"
    by (simp add: date_text_def y_def mo_def da_def h_def mi_def se_def)
  have "date_shape (date_text b)"
    unfolding date_shape_def t map_append digits_masked [OF dig(1)] digits_masked [OF dig(2)] digits_masked [OF dig(3)]
      digits_masked [OF dig(4)] digits_masked [OF dig(5)] digits_masked [OF dig(6)] len
    by (simp add: isdigit_def numeral_eq_Suc)
  moreover have "read_date (date_text b) = b"
    using assms len val by (simp add: t read_date_def tm_ok_def)
  ultimately show ?thesis by (simp add: t len)
qed

text \<open>A reading of 32 bits is between the years 1901 and 2038.\<close>

lemma year_start_mono: "y \<le> z \<Longrightarrow> year_start y \<le> year_start z"
proof (induction z rule: int_ge_induct)
  case (step z)
  then show ?case using year_start_step [of z] by simp
qed simp

lemma year_bounds:
  assumes "- (2 ^ 31) \<le> t" "t < 2 ^ 31"
  shows "1901 \<le> tm_year (gmtime t) + 1900" "tm_year (gmtime t) + 1900 \<le> 2038"
proof -
  let ?b = "gmtime t" and ?y = "tm_year (gmtime t) + 1900"
  let ?d = "int (sum_list (take (nat (tm_mon ?b)) (month_lengths (leap ?y)))) + tm_mday ?b - 1"
  have c: "seconds_of ?b = t" "tm_ok ?b" using gmtime_correct [of t] by auto
  have m: "nat (tm_mon ?b) < 12" using c(2) by (simp add: tm_ok_def nat_less_iff)
  have "sum_list (take (nat (tm_mon ?b)) (month_lengths (leap ?y))) + month_lengths (leap ?y) ! nat (tm_mon ?b) \<le> year_days ?y"
  proof -
    have "sum_list (take (Suc (nat (tm_mon ?b))) (month_lengths (leap ?y))) \<le> sum_list (month_lengths (leap ?y))"
      by (metis append_take_drop_id le_add1 sum_list_append)
    then show ?thesis using m by (simp add: take_Suc_conv_app_nth months year_length)
  qed
  then have d: "0 \<le> ?d" "?d < int (year_days ?y)" using c(2) by (simp_all add: tm_ok_def)
  have hms: "0 \<le> t - (year_start ?y + ?d) * 86400" "t - (year_start ?y + ?d) * 86400 < 86400"
    using c by (simp_all add: seconds_of_def tm_ok_def)
  then have lo: "year_start ?y * 86400 \<le> t" using d(1) by simp
  have hi: "t < year_start (?y + 1) * 86400" using hms d(2) unfolding year_start_step by simp
  show "1901 \<le> ?y"
  proof (rule ccontr)
    assume "\<not> 1901 \<le> ?y"
    then have "year_start (?y + 1) \<le> year_start 1901" by (intro year_start_mono) simp
    moreover have "year_start 1901 = - 25202" by (simp add: year_start_def)
    ultimately show False using hi assms(1) by simp
  qed
  show "?y \<le> 2038"
  proof (rule ccontr)
    assume "\<not> ?y \<le> 2038"
    then have "year_start 2039 \<le> year_start ?y" by (intro year_start_mono) simp
    moreover have "year_start 2039 = 25202" by (simp add: year_start_def)
    ultimately show False using lo assms(2) by simp
  qed
qed

section \<open>Properties\<close>

text \<open>
  C20. The date a clock is shown with is the right one: for every 32-bit reading that counts as set the
  line shows a text of the form \<^verbatim>\<open>YYYY-MM-DD hh:mm:ss\<close>, not cut. Read back at its columns, year, month, day,
  hour, minute and second, it is a date of the Gregorian calendar (a month from 1 to 12, a day its month has,
  a time of day) that stands for exactly the seconds of the reading, by the count of leap years.
\<close>

theorem clock_date_round_trip:
  assumes "kfsw_csp_clock_is_set C clock"
  shows "\<exists>t. date_shape t \<and> tm_ok (read_date t) \<and> seconds_of (read_date t) = sint (seconds clock) \<and>
    run_state (print_clock C label clock) w =
      ((), w\<lparr>out := out w @ [Print (label @ '': '' @ t @ '' UTC ('' @ fmt_d (sint (seconds clock)) @
        ''.'' @ pad_zero 9 (fmt_u (unat (nanoseconds clock))) @ '')'')]\<rparr>)"
proof -
  let ?b = "gmtime (sint (seconds clock))"
  have "- (2 ^ 31) \<le> sint (seconds clock)" "sint (seconds clock) < 2 ^ 31"
    using sint_range_size [of "seconds clock"] by (simp_all add: size_word_def)
  then have "length (date_text ?b) = 19 \<and> date_shape (date_text ?b) \<and> read_date (date_text ?b) = ?b"
    using year_bounds [of "sint (seconds clock)"] gmtime_correct [of "sint (seconds clock)"]
    by (intro date_text_read) simp_all
  then show ?thesis
    using gmtime_correct [of "sint (seconds clock)"] assms
    by (intro exI [of _ "date_text ?b"]) (simp add: print_clock_def snprintf_fits)
qed

text \<open>A network layer for the witness: the state is the clock.\<close>

definition sample_csp_services :: "kfsw_csp_clock csp_services" where
  "sample_csp_services =
     \<lparr>shell_strtol = (\<lambda>t b. (0, 0)),
      kfsw_csp_get_info = (\<lambda>_. \<lparr>ci_address = 1, hostname = ''a'', model = ''b'', revision = ''c'', libcsp = ''d'',
        protocol = 2, free_buffers = 8\<rparr>),
      kfsw_csp_visit_interfaces = (\<lambda>s. (([], \<lambda>_. 0), s)), kfsw_csp_visit_routes = (\<lambda>s. (([], \<lambda>_. 0), s)),
      kfsw_csp_route_lookup = (\<lambda>n s. (0, \<lparr>rt_address = 0, rt_prefix = 0, rt_interface = ''lo'', rt_via = None\<rparr>)),
      kfsw_csp_ping = (\<lambda>n t p s. ((0, 0), s)),
      kfsw_csp_interface_stats_read = (\<lambda>n i t s. ((- ETIMEDOUT, \<lparr>is_name = i, tx_packets = 0, rx_packets = 0,
        tx_errors = 0, rx_errors = 0, dropped_packets = 0, auth_errors = 0, frame_errors = 0, tx_bytes = 0,
        rx_bytes = 0, interrupts = 0\<rparr>), s)),
      kfsw_csp_clear_counters = (\<lambda>s. s),
      kfsw_csp_get_counters = (\<lambda>s. \<lparr>buffer_out = 0, conn_out = 0, conn_overflow = 0, conn_noroute = 0,
        invalid_reply = 0, cc_last_error = 0, last_can_error = 0\<rparr>),
      kfsw_csp_error_name = (\<lambda>_. ''none''), kfsw_csp_can_error_name = (\<lambda>_. ''none''),
      kfsw_csp_get_packet_trace = (\<lambda>_. False), kfsw_csp_set_packet_trace = (\<lambda>b s. s),
      kfsw_csp_get_rdp_trace = (\<lambda>_. 0), kfsw_csp_set_rdp_trace = (\<lambda>l s. (0, s)),
      kfsw_csp_identify = (\<lambda>n t s. ((0, \<lparr>id_hostname = [], id_model = [], id_revision = [], id_date = [], id_time = []\<rparr>), s)),
      kfsw_csp_clock_is_set = (\<lambda>c. 0 < sint (seconds c)), kfsw_csp_clock_get = (\<lambda>s. s),
      kfsw_csp_clock_set = (\<lambda>c s. (0, c)), kfsw_csp_clock_read = (\<lambda>n t s. ((0, s), s)),
      kfsw_csp_clock_write = (\<lambda>n t c s. ((0, c), s)), CSP_ERR_TIMEDOUT = - 3\<rparr>"

theorem clock_date_round_trip_witness:
  "\<exists>t. date_shape t \<and> tm_ok (read_date t) \<and> seconds_of (read_date t) = 951782400 \<and>
    run_state (print_clock sample_csp_services ''clock'' \<lparr>seconds = 951782400, nanoseconds = 5\<rparr>)
      \<lparr>svc = \<lparr>seconds = 0, nanoseconds = 0\<rparr>, out = []\<rparr> =
      ((), \<lparr>svc = \<lparr>seconds = 0, nanoseconds = 0\<rparr>, out = [Print (''clock: '' @ t @ '' UTC ('' @ fmt_d 951782400 @ ''.'' @
        pad_zero 9 (fmt_u 5) @ '')'')]\<rparr>)"
proof -
  have s: "sint (951782400 :: u32) = 951782400" by simp
  have "kfsw_csp_clock_is_set sample_csp_services \<lparr>seconds = 951782400, nanoseconds = 5\<rparr>"
    by (simp add: sample_csp_services_def)
  from clock_date_round_trip [OF this, of "''clock''" "\<lparr>svc = \<lparr>seconds = 0, nanoseconds = 0\<rparr>, out = []\<rparr>"]
  show ?thesis by (simp add: s)
qed

text \<open>The number of seconds a text is, if the whole of it is one that a clock can be set to.\<close>

definition time_text :: "string \<Rightarrow> int option" where
  "time_text t = (let (v, rest) = strtoll0 t in if t \<noteq> [] \<and> rest = [] \<and> 0 < v \<and> v \<le> INT32_MAX then Some v else None)"

text \<open>
  \<^verbatim>\<open>csp clock set\<close> hands the clock exactly the number that was written: the service is called once,
  with nanoseconds 0 and a signed 32-bit value equal to the number read, when the whole text is a
  number from 1 to \<^verbatim>\<open>INT32_MAX\<close>. Any other text gives \<^verbatim>\<open>-EINVAL\<close> and touches no service.
\<close>

lemma csp_clock_set_effect:
  "let (r, w') = run_state (cmd_csp_clock X [c, ''set'', t]) w in
   case time_text t of
     None \<Rightarrow> r = Some (- EINVAL) \<and> svc w' = svc w
   | Some v \<Rightarrow> \<exists>sec. sint sec = v \<and>
       r = Some (fst (kfsw_csp_clock_set (nx_C X) \<lparr>seconds = sec, nanoseconds = 0\<rparr> (svc w))) \<and>
       svc w' = snd (kfsw_csp_clock_set (nx_C X) \<lparr>seconds = sec, nanoseconds = 0\<rparr> (svc w))"
proof -
  obtain v rest where p: "strtoll0 t = (v, rest)" by fastforce
  have run: "run_state (cmd_csp_clock X [c, ''set'', t]) w = run_state (clock_set_here X [c, ''set'', t]) w"
    by (simp add: cmd_csp_clock_def with_argv_def)
  show ?thesis
  proof (cases "time_text t")
    case None
    then show ?thesis
      unfolding run by (auto simp: time_text_def p clock_set_here_def with_argv_def split: if_splits)
  next
    case (Some u)
    then have v: "u = v" "t \<noteq> []" "rest = []" "0 < v" "v \<le> INT32_MAX"
      by (auto simp: time_text_def p split: if_splits)
    have "sint (of_int v :: u32) = v"
      using v(4,5) by (simp add: INT32_MAX_def signed_of_int signed_take_bit_int_eq_self)
    moreover have "fst (run_state (show_own_clock X) u) = Some 0 \<and> svc (snd (run_state (show_own_clock X) u)) = svc u" for u
      by (simp add: show_own_clock_def print_clock_def)
    ultimately show ?thesis
      using v Some unfolding run
      by (auto simp: clock_set_here_def with_argv_def p not_le split_beta intro!: exI [of _ "of_int v"])
  qed
qed

end
