(* ===== verification/Shell_Links.thy ===== *)
theory Shell_Links
  imports Shell_Csp
begin

text \<open>
  The link groups under \<^verbatim>\<open>comms\<close>: \<^verbatim>\<open>src/app/src/shell/shell_can.c\<close> and \<^verbatim>\<open>shell_uart.c\<close>, which show the
  CSP interface of a link and ping a node through it. The drivers of the links are parameters.
  Numbers the code only prints are naturals.
\<close>

section \<open>Data\<close>

record kfsw_can_info =
  can_ready :: bool
  can_interface_name :: string
  can_bitrate :: nat
  can_address :: nat
  can_prefix_length :: nat

record kfsw_can_test_result =
  ct_peer :: nat
  ct_round_trip_us :: u32

record kfsw_uart_info =
  ui_interface_name :: string
  ui_device_name :: string
  ui_baudrate :: nat
  ui_ready :: bool
  ui_node :: nat
  ui_prefix_length :: nat
  ui_peer :: nat
  ui_tx_packets :: nat
  ui_rx_packets :: nat
  ui_tx_errors :: nat
  ui_rx_errors :: nat
  ui_dropped_packets :: nat
  ui_frame_errors :: nat

record kfsw_uart_test_result =
  ut_peer :: nat
  ut_interface_name :: string
  ut_round_trip_us :: u32

text \<open>The drivers and the build: \<open>kx_csp\<close> is the CSP layer.\<close>

record 's links_ctx =
  kx_B :: build
  kx_E :: "'s shell_env"
  kx_csp :: "'s csp_services"
  kfsw_can_get_info :: "'s \<Rightarrow> kfsw_can_info"
  kfsw_can_test_peer :: "u16 \<Rightarrow> nat \<Rightarrow> 's \<Rightarrow> (int \<times> kfsw_can_test_result) \<times> 's"
  kfsw_uart_visit :: "'s \<Rightarrow> kfsw_uart_info visit \<times> 's"
  kfsw_uart_test_peer :: "u16 \<Rightarrow> nat \<Rightarrow> 's \<Rightarrow> (int \<times> kfsw_uart_test_result) \<times> 's"
  CONFIG_KFSW_CSP_UART_PEER_ADDRESS :: nat
  CSP_ERR_NOTSUP :: int
  CSP_ERR_NONE :: int

definition KFSW_CAN_TEST_TIMEOUT_MS :: nat where "KFSW_CAN_TEST_TIMEOUT_MS = 1000"
definition KFSW_UART_TEST_TIMEOUT_MS :: nat where "KFSW_UART_TEST_TIMEOUT_MS = 1000"

text \<open>\<^verbatim>\<open>%u.%03u\<close> of microseconds as milliseconds.\<close>

definition rtt_text :: "u32 \<Rightarrow> string" where
  "rtt_text us = ''rtt_ms: '' @ fmt_u (unat us div 1000) @ ''.'' @ pad_zero 3 (fmt_u (unat us mod 1000))"

section \<open>CAN\<close>

text \<open>The name looked for and the copy of the interface found; \<^verbatim>\<open>found\<close> is \<^verbatim>\<open>NULL\<close> or points at the copy.\<close>

record can_counters =
  cn_name :: string
  cn_found :: "kfsw_csp_interface_info option"

definition find_interface :: "('s, kfsw_csp_interface_info, can_counters) callback" where
  "find_interface i counters =
     (if if_name i \<noteq> cn_name counters then ret (Some (counters, True))
      else ret (Some (counters\<lparr>cn_found := Some i\<rparr>, False)))"

definition cmd_can_info :: "'s links_ctx \<Rightarrow> 's shell_handler" where
  "cmd_can_info X argv = do {
     info \<leftarrow> ask (kfsw_can_get_info X);
     shell_print (''CAN interface: '' @ (if can_ready info then can_interface_name info else ''-''));
     shell_print (''ready: '' @ (if can_ready info then ''yes'' else ''no''));
     shell_print (''bitrate: '' @ fmt_u (can_bitrate info));
     if \<not> can_ready info then ret (Some 0)
     else do {
       shell_print (''CSP node: '' @ fmt_u (can_address info) @ ''/'' @ fmt_u (can_prefix_length info));
       r \<leftarrow> visit_with (kfsw_csp_visit_interfaces (kx_csp X)) find_interface
             \<lparr>cn_name = can_interface_name info, cn_found = None\<rparr>;
       case r of
         None \<Rightarrow> ret None
       | Some (rc, counters) \<Rightarrow> do {
           (case cn_found counters of
              None \<Rightarrow> ret ()
            | Some i \<Rightarrow>
                shell_print (''tx='' @ fmt_u (if_tx_packets i) @ '' rx='' @ fmt_u (if_rx_packets i) @ '' txerr='' @
                  fmt_u (if_tx_errors i) @ '' rxerr='' @ fmt_u (if_rx_errors i) @ '' drop='' @
                  fmt_u (if_dropped_packets i)));
           ret (Some 0)
         }
     }
   }"

definition cmd_can_test :: "'s links_ctx \<Rightarrow> 's shell_handler" where
  "cmd_can_test X argv =
     with_argv argv 1 (\<lambda>a1. do {
       n \<leftarrow> kfsw_shell_parse_node (kx_B X) (kx_E X) a1 0;
       if fst n \<noteq> 0 then ret (Some (fst n))
       else do {
         info \<leftarrow> ask (kfsw_can_get_info X);
         if \<not> can_ready info
         then do { shell_error ''CAN CSP test: the CAN interface is not open''; ret (Some (- ENODEV)) }
         else do {
           r \<leftarrow> call (kfsw_can_test_peer X (snd n) KFSW_CAN_TEST_TIMEOUT_MS);
           if fst r = CSP_ERR_NOTSUP X
           then do {
             shell_error (''CAN CSP test: node '' @ fmt_u (unat (snd n)) @ '' is not reached through CAN'');
             ret (Some (- ENOTSUP))
           }
           else if fst r = CSP_ERR_TIMEDOUT (kx_csp X)
           then lift_int (kfsw_shell_remote_failed ''comms can test'' (snd n) (- ETIMEDOUT))
           else if fst r \<noteq> CSP_ERR_NONE X
           then do { shell_error (''CAN CSP test: FAIL ('' @ fmt_d (fst r) @ '')''); ret (Some (- EIO)) }
           else do {
             shell_print ''CAN CSP test: PASS'';
             shell_print (''peer: '' @ fmt_u (ct_peer (snd r)));
             shell_print (rtt_text (ct_round_trip_us (snd r)));
             ret (Some 0)
           }
         }
       }
     })"

definition can_subcommands :: "'s links_ctx \<Rightarrow> 's subcommand list" where
  "can_subcommands X = [sub ''info'' (cmd_can_info X) 1 0, sub ''test'' (cmd_can_test X) 2 0]"

section \<open>UART\<close>

definition print_uart_info :: "('s, kfsw_uart_info, unit) callback" where
  "print_uart_info i c = do {
     emit_all
       [Print (''UART transport: '' @ ui_interface_name i), Print (''device: '' @ ui_device_name i),
        Print (''baudrate: '' @ fmt_u (ui_baudrate i)), Print ''configuration: 8N1, flow control none'',
        Print (''ready: '' @ (if ui_ready i then ''yes'' else ''no'')),
        Print (''CSP interface: '' @ ui_interface_name i),
        Print (''CSP node: '' @ fmt_u (ui_node i) @ ''/'' @ fmt_u (ui_prefix_length i)),
        Print (''CSP peer: '' @ fmt_u (ui_peer i)),
        Print (''KISS tx='' @ fmt_u (ui_tx_packets i) @ '' rx='' @ fmt_u (ui_rx_packets i) @ '' txerr='' @
          fmt_u (ui_tx_errors i) @ '' rxerr='' @ fmt_u (ui_rx_errors i) @ '' drop='' @ fmt_u (ui_dropped_packets i) @
          '' frame='' @ fmt_u (ui_frame_errors i))];
     ret (Some (c, True))
   }"

definition cmd_uart_info :: "'s links_ctx \<Rightarrow> 's shell_handler" where
  "cmd_uart_info X argv = do {
     r \<leftarrow> visit_with (kfsw_uart_visit X) print_uart_info ();
     ret (map_option (\<lambda>_. 0) r)
   }"

text \<open>The test of \<^verbatim>\<open>cmd_uart_test\<close> once the peer is known.\<close>

definition uart_test :: "'s links_ctx \<Rightarrow> nat \<Rightarrow> ('s, int) act" where
  "uart_test X peer = do {
     r \<leftarrow> call (kfsw_uart_test_peer X (of_nat peer) KFSW_UART_TEST_TIMEOUT_MS);
     if fst r = CSP_ERR_NOTSUP X
     then do {
       shell_error (''UART CSP test: node '' @ fmt_u peer @ '' is not reached through a UART'');
       ret (- ENOTSUP)
     }
     else if fst r = CSP_ERR_TIMEDOUT (kx_csp X)
     then kfsw_shell_remote_failed ''comms uart test'' (of_nat peer) (- ETIMEDOUT)
     else if fst r \<noteq> 0
     then do { shell_error (''UART CSP test: FAIL ('' @ fmt_d (fst r) @ '')''); ret (fst r) }
     else do {
       shell_print ''UART CSP test: PASS'';
       shell_print (''peer: '' @ fmt_u (ut_peer (snd r)));
       shell_print (''interface: '' @ ut_interface_name (snd r));
       shell_print (rtt_text (ut_round_trip_us (snd r)));
       ret 0
     }
   }"

definition cmd_uart_test :: "'s links_ctx \<Rightarrow> 's shell_handler" where
  "cmd_uart_test X argv =
     (if length argv = 2
      then with_argv argv 1 (\<lambda>a1. let (peer, parse_error) = shell_strtoul (kx_E X) a1 10 in
        if parse_error \<noteq> 0 \<or> KFSW_CSP_BROADCAST_ADDRESS (kx_B X) < peer
        then do {
          shell_error (''CSP peer must be in range 0..'' @ fmt_u (KFSW_CSP_BROADCAST_ADDRESS (kx_B X)));
          ret (Some (- EINVAL))
        }
        else lift_int (uart_test X peer))
      else lift_int (uart_test X (CONFIG_KFSW_CSP_UART_PEER_ADDRESS X)))"

definition uart_subcommands :: "'s links_ctx \<Rightarrow> 's subcommand list" where
  "uart_subcommands X = [sub ''info'' (cmd_uart_info X) 1 0, sub ''test'' (cmd_uart_test X) 1 1]"

section \<open>Looking for the interface\<close>

interpretation can_search: walk_callback find_interface "\<lambda>_. True"
  by unfold_locales (auto simp: find_interface_def ends_def)

interpretation uart_rows: walk_callback print_uart_info "\<lambda>_. True"
  by unfold_locales (auto simp: print_uart_info_def ends_def)

text \<open>The walk is a search: it stops at the first interface of that name and changes nothing else.\<close>

lemma find_interface_walk:
  "run_state (walk find_interface is c n) w =
     (Some (case List.find (\<lambda>i. if_name i = cn_name c) is of
              None \<Rightarrow> (c, n + length is)
            | Some i \<Rightarrow> (c\<lparr>cn_found := Some i\<rparr>, n + length (takeWhile (\<lambda>i. if_name i \<noteq> cn_name c) is) + 1)), w)"
  by (induction "is" arbitrary: n) (auto simp: find_interface_def split: option.splits)

section \<open>The groups\<close>

lemma can_info_returns: "returns (cmd_can_info X argv)"
  unfolding cmd_can_info_def
  apply (rule ends_bind, rule ends_bind, rule ends_bind, rule ends_bind, rule ends_if, rule returns_ret, rule ends_bind,
      rule can_search.visit_then, rule TrueI)
  apply (simp del: not_None_eq, rule ends_bind, rule returns_ret)
  done

interpretation can_group: shell_group can_subcommands "\<lambda>_. True"
  by unfold_locales
    (auto simp: can_subcommands_def cmd_can_test_def simp del: not_None_eq
      intro!: can_info_returns returns_intros)

lemma uart_info_returns: "returns (cmd_uart_info X argv)"
  unfolding cmd_uart_info_def by (rule uart_rows.visit_then) (simp_all add: ends_def)

interpretation uart_group: shell_group uart_subcommands "\<lambda>_. True"
  by unfold_locales
    (auto simp: uart_subcommands_def cmd_uart_test_def Let_def split_beta simp del: not_None_eq
      intro!: uart_info_returns returns_intros)

section \<open>Properties\<close>

text \<open>
  \<^verbatim>\<open>comms can info\<close> shows the counters of the CAN interface and of no other: whatever interfaces
  the CSP layer offers, the counter line is that of the first one whose name is the name the driver
  gives, there is none when no interface has it, and an interface that is not open is only said to be
  closed. The result is always 0 and the driver is not changed.
\<close>

lemma can_info_shows_interface:
  "(let info = kfsw_can_get_info X (svc w); offered = kfsw_csp_visit_interfaces (kx_csp X) (svc w);
        found = List.find (\<lambda>i. if_name i = can_interface_name info) (fst (fst offered));
        (r, w') = run_state (cmd_can_info X argv) w in
      r = Some 0 \<and>
      out w' = out w @
        (if can_ready info
         then [Print (''CAN interface: '' @ can_interface_name info), Print ''ready: yes'',
               Print (''bitrate: '' @ fmt_u (can_bitrate info)),
               Print (''CSP node: '' @ fmt_u (can_address info) @ ''/'' @ fmt_u (can_prefix_length info))] @
           (case found of
              None \<Rightarrow> []
            | Some i \<Rightarrow> [Print (''tx='' @ fmt_u (if_tx_packets i) @ '' rx='' @ fmt_u (if_rx_packets i) @ '' txerr='' @
                fmt_u (if_tx_errors i) @ '' rxerr='' @ fmt_u (if_rx_errors i) @ '' drop='' @
                fmt_u (if_dropped_packets i))])
         else [Print ''CAN interface: -'', Print ''ready: no'', Print (''bitrate: '' @ fmt_u (can_bitrate info))]) \<and>
      svc w' = (if can_ready info then snd offered else svc w))"
  by (auto simp: cmd_can_info_def visit_with_def find_interface_walk Let_def split_beta split: option.splits)

end
