(* ===== verification/Console_Samples.thy ===== *)
theory Console_Samples
  imports Shell_System Shell_Csp Shell_Param Shell_Files Shell_Records Shell_Remexec Shell_Hk Shell_Monitors Shell_Updates
begin

text \<open>
  Contexts in which the conditions of the groups of commands hold, for the witnesses of the console. All but
  the file system are over any state: a registry with three commands, a log and a journal on another
  node, an event with a payload, a parameter that is an array and a housekeeping sample. Each
  service hands out data, so that the limits its group relies on are not empty. The file transfer works on
  the file system in memory.
\<close>

section \<open>The registry\<close>

definition any_env :: "'s shell_env" where
  "any_env =
     \<lparr>shell_strtoul = sample_strtoul, kfsw_command_is_initialized = (\<lambda>_. True),
      kfsw_command_find = (\<lambda>n _. if n = ''event_stats'' then Some (0, [])
        else if n = ''reboot'' then Some (1, [KFSW_COMMAND_TYPE_TEXT])
        else if n = ''hk_define'' then Some (2, [KFSW_COMMAND_TYPE_U32, KFSW_COMMAND_TYPE_TEXT]) else None),
      kfsw_command_parse_arg = (\<lambda>t ty. (0, Arg_text t)), type_number = (\<lambda>_. 0),
      kfsw_command_invoke = (\<lambda>n args s. (zero_result, s)),
      kfsw_command_invoke_remote = (\<lambda>node n args s. ((- ETIMEDOUT, zero_result), s)),
      kfsw_command_invoke_remote_retry = (\<lambda>node n args s. ((0, zero_result), s)),
      kfsw_command_status_name = (\<lambda>_. ''status'')\<rparr>"

lemma any_registry_ok: "registry_ok sample_build any_env"
  by (simp add: registry_ok_def any_env_def sample_build_def)

definition any_run :: "'s run_ctx" where
  "any_run = \<lparr>rx_cfg = (\<lambda>_. True), rx_B = sample_build, rx_E = any_env\<rparr>"

definition any_registry :: "'s registry_ctx" where
  "any_registry =
     \<lparr>gx_B = sample_build,
      gx_K = \<lparr>kfsw_command_visit = (\<lambda>s. (([\<lparr>ki_id = 1, ki_name = ''hk_define'', ki_flags = 0, ki_arg_count = 2,
            ki_arg_types = Some [KFSW_COMMAND_TYPE_U32, KFSW_COMMAND_TYPE_TEXT], ki_help = None\<rparr>], \<lambda>_. 0), s)),
        kfsw_command_get_stats = (\<lambda>_. (0, 1))\<rparr>,
      gx_types = replicate 21 (CHR ''.'')\<rparr>"

lemma any_registry_ctx_ok: "registry_ctx_ok any_registry"
  by (simp add: registry_ctx_ok_def any_registry_def sample_build_def)

section \<open>Records\<close>

definition any_event :: "'s event_ctx" where
  "any_event =
     \<lparr>ev_run = any_run,
      ev_K = \<lparr>kfsw_event_visit = (\<lambda>s. (([sample_record], \<lambda>_. 0), s)),
        event_stats_now = (\<lambda>_. \<lparr>held = 1, stat_capacity = 8, recorded = 1, overwritten = 0, rejected = 0\<rparr>), kfsw_event_clear = (\<lambda>s. s),
        event_source_name = (\<lambda>_. ''app''), kfsw_event_severity_name = (\<lambda>_. ''info'')\<rparr>,
      ev_text = replicate 33 (CHR ''.'')\<rparr>"

lemma any_event_ctx_ok: "event_ctx_ok any_event"
  using any_registry_ok
  by (simp add: event_ctx_ok_def any_event_def any_run_def payload_ok_def sample_record_def) (simp add: sample_build_def)

definition any_journal :: "'s journal_ctx" where
  "any_journal =
     \<lparr>jx_run = any_run,
      jx_K = \<lparr>kfsw_journal_remote_read = (\<lambda>n c s. (([\<lparr>j_sequence = 4, j_boot = 2, j_event = sample_record, j_utc_seconds = 0,
            j_utc_valid = 0\<rparr>], \<lambda>_. 0), s)),
        journal_source_name = (\<lambda>_. ''app''), JOURNAL_HISTORY_MAX_READ = 16\<rparr>,
      jx_data = replicate 33 (CHR ''.'')\<rparr>"

lemma any_journal_ctx_ok: "journal_ctx_ok any_journal"
  using any_registry_ok
  by (simp add: journal_ctx_ok_def any_journal_def any_run_def payload_ok_def sample_record_def) (simp add: sample_build_def)

section \<open>Parameters and housekeeping\<close>

definition array_value :: kfsw_param_value where
  "array_value = \<lparr>v_type = KFSW_PARAM_DATA, v_u8 = 0, v_u16 = 0, v_u32 = 0, v_u64 = 0, v_text = [], v_size = 2, v_bytes = [7, 9, 0]\<rparr>"

definition any_param_services :: "'s param_services" where
  "any_param_services =
     \<lparr>kfsw_param_get = (\<lambda>n s. ((0, array_value), s)), kfsw_param_set = (\<lambda>n v s. (0, s)),
      kfsw_param_remote_get = (\<lambda>a n s. ((0, array_value), s)), kfsw_param_remote_set = (\<lambda>a n v s. (- ETIMEDOUT, s)),
      kfsw_param_remote_get_many = (\<lambda>a ns s. ((0, map (\<lambda>_. array_value) ns), s)),
      kfsw_param_visit = (\<lambda>s. (([sample_info ''p''], \<lambda>_. 0), s)),
      kfsw_param_remote_visit = (\<lambda>a s. (([sample_info ''p''], \<lambda>_. 0), s)),
      kfsw_param_remote_visit_table = (\<lambda>a t s. ((replicate 10 (sample_info ''p''), \<lambda>_. 0), s)),
      kfsw_param_remote_tables = (\<lambda>a s. (([], \<lambda>_. 0), s)), kfsw_param_visit_tables = (\<lambda>s. (([], \<lambda>_. 0), s)),
      kfsw_param_get_info = (\<lambda>n s. (0, sample_info n)), kfsw_param_parse_text = (\<lambda>t v. (- EINVAL, v)),
      kfsw_param_type_name = (\<lambda>_. ''data''), kfsw_param_mode_name = (\<lambda>_. ''rw''), kfsw_param_band_name = (\<lambda>_. ''core''),
      kfsw_param_persist_table_count = (\<lambda>t s. (0, 0)), kfsw_param_persist_bytes = (\<lambda>s. 0),
      kfsw_param_persist_save = (\<lambda>s. (0, s)), kfsw_param_persist_load = (\<lambda>s. (0, s)),
      kfsw_param_persist_clear = (\<lambda>s. (0, s)), kfsw_param_restore_defaults = (\<lambda>s. (0, s)),
      csp_address = (\<lambda>_. 1), float_text = (\<lambda>_. []), double_text = (\<lambda>_. [])\<rparr>"

definition any_param :: "'s param_ctx" where
  "any_param =
     \<lparr>px_cfg = (\<lambda>_. True), px_B = sample_build,
      px_P = \<lparr>KFSW_PARAM_NAME_MAX = 24, KFSW_PARAM_STRING_MAX = 29, KFSW_PARAM_TABLE_CORE_FIRST = 0,
        KFSW_PARAM_TABLE_MODULE_LAST = 127, CONFIG_KFSW_PARAM_REMOTE_POOL_SIZE = 64\<rparr>,
      px_E = any_env, px_K = any_param_services, px_text = replicate 32 (CHR ''.'')\<rparr>"

lemma any_param_ctx_ok: "param_ctx_ok any_param"
  by (simp add: param_ctx_ok_def any_param_def any_param_services_def KFSW_PARAM_VALUE_TEXT_SIZE_def value_ok_def array_value_def)

definition any_golden :: "'s golden_ctx" where
  "any_golden = \<lparr>ox_cfg = (\<lambda>_. True), ox_B = sample_build, ox_E = any_env, ox_K = any_param_services,
     kfsw_golden_present = (\<lambda>_. True)\<rparr>"

definition any_services :: "'s services" where
  "any_services =
     \<lparr>system_params = (\<lambda>_. system_state_init None), k_uptime_get_32 = (\<lambda>_. 1000),
      storage_ready = (\<lambda>_. True), storage_free_bytes = (\<lambda>_. 4096), kfsw_golden_install = (\<lambda>s. (0, s)),
      k_work_schedule_reboot = (\<lambda>ms s. (1, s)), kfsw_lastwords_write = (\<lambda>_ _ _ s. ((), s)),
      kfsw_boot_get_count = (\<lambda>_. 4), sys_reboot = (\<lambda>s. ((), s)),
      kfsw_event_get_stats = (\<lambda>_. \<lparr>held = 1, stat_capacity = 8, recorded = 1, overwritten = 0, rejected = 0\<rparr>),
      kfsw_event_get = (\<lambda>_ _. (0, sample_record)), kfsw_event_source_name = (\<lambda>_. ''boot''),
      kfsw_hk_define_class = (\<lambda>r es c s. (0, s)), kfsw_hk_set_period = (\<lambda>r p s. (0, s)), kfsw_hk_clear = (\<lambda>r s. (0, s)),
      hk_last_save_error = (\<lambda>_. 0),
      kfsw_journal_get_stats = (\<lambda>_. \<lparr>j_held = 1, j_queued = 0, j_dropped = 0, j_errors = 0, j_corrupt = 0,
        j_ready = 1, j_last_error = 0\<rparr>),
      kfsw_journal_get = (\<lambda>_ _. (- ENOENT, \<lparr>j_sequence = 0, j_boot = 0, j_event = sample_record,
        j_utc_seconds = 0, j_utc_valid = 0\<rparr>))\<rparr>"

definition any_hk :: "'s hk_ctx" where
  "any_hk =
     \<lparr>cx_cfg = (\<lambda>_. True), cx_B = sample_build,
      cx_H = \<lparr>KFSW_HK_HEADER_SIZE = 8, KFSW_HK_FLAG_CLOCK_UNSET = 1, KFSW_HK_FLAG_INCOMPLETE = 2,
        CONFIG_KFSW_HK_BEACON_FLOOR_MS = 1000\<rparr>,
      cx_E = any_env, cx_S = any_services, cx_K = sample_hk_services,
      cx_entries_text = replicate 65 (CHR ''.''), cx_line = replicate 97 (CHR ''.'')\<rparr>"

lemma any_hk_ctx_ok: "hk_ctx_ok any_hk"
proof -
  have "samples_ok (sample_hk_services :: 's hk_services)"
    by (simp add: samples_ok_def sample_hk_services_def sample_hk_sample_def)
  with any_registry_ok show ?thesis by (simp add: hk_ctx_ok_def any_hk_def) (simp add: sample_build_def)
qed

section \<open>System, log and network\<close>

text \<open>The other node has sent a package of three bytes and the text of a message.\<close>

definition any_log_messages :: "kfsw_log_remote_message list" where
  "any_log_messages =
     [\<lparr>lm_package = True, lm_sequence = 1, lm_uptime_ms = 10, lm_module = 0, lm_severity = 1, lm_truncated = False,
       lm_text = [], lm_data = [1, 2, 3, 0], lm_size = 3, text_crc = None\<rparr>,
      \<lparr>lm_package = False, lm_sequence = 2, lm_uptime_ms = 20, lm_module = 0, lm_severity = 1, lm_truncated = False,
       lm_text = ''up'', lm_data = [], lm_size = 2, text_crc = None\<rparr>]"

definition sample_system :: "'s shell_env \<Rightarrow> 's system_ctx" where
  "sample_system E =
     \<lparr>yx_cfg = (\<lambda>_. True), yx_B = sample_build,
      yx_P = \<lparr>CONFIG_KFSW_ROLE = ''obc'', CONFIG_KFSW_INSTANCE_NAME = ''a'', CONFIG_KFSW_CSP_ADDRESS = 1,
        CONFIG_BOARD_TARGET = ''native_sim'', CONFIG_SOC = ''native'', KERNEL_VERSION_STRING = ''4.0'',
        KFSW_LOG_HISTORY_MAX_READ = 16, KFSW_LOG_ENCODED_SIZE = 64, KFSW_LOG_MODULE_COUNT = 4\<rparr>,
      yx_E = E,
      yx_K = \<lparr>kfsw_boot_get_revisions = (\<lambda>_. ''app:1''), kfsw_boot_get_hardware_id = (\<lambda>_. ''u''),
        kfsw_boot_get_image_version = (\<lambda>_. ''1.0''), kfsw_boot_get_diagnostics = (\<lambda>_. (1, 0, True)),
        kfsw_time_monotonic_ms = (\<lambda>_. 5), kfsw_time_monotonic_us = (\<lambda>_. 5000), status_csp_address = (\<lambda>_. 1),
        remote_revisions = (\<lambda>n s. ((0, None), s)),
        kfsw_log_history_window = (\<lambda>n s. \<lparr>hw_first = 0, hw_end = 0, hw_overwritten = 0\<rparr>),
        kfsw_log_history_get = (\<lambda>q s. (0, \<lparr>lr_sequence = q, lr_uptime_ms = 0, lr_module = 0, lr_severity = 0,
          lr_truncated = False, lr_text = []\<rparr>)),
        kfsw_log_module_name = (\<lambda>_. ''app''), kfsw_log_get_module_level = (\<lambda>m s. 0),
        kfsw_log_set_module_level = (\<lambda>m l s. (0, s)),
        kfsw_log_remote_read = (\<lambda>n c l s. ((Some \<lparr>dictionary = True, ls_first = 1, ls_end = 3, ls_overwritten = 0\<rparr>,
          (any_log_messages, \<lambda>_. 0)), s))\<rparr>\<rparr>"

lemma sample_system_select: "yx_B (sample_system E) = sample_build" "yx_E (sample_system E) = E"
  by (simp_all add: sample_system_def)

lemma sample_log_ctx_ok: "log_ctx_ok (sample_system E, replicate 129 (CHR ''.''))"
  by (simp add: log_ctx_ok_def sample_system_def any_log_messages_def)

definition any_csp :: "'s csp_ctx" where
  "any_csp =
     \<lparr>nx_cfg = (\<lambda>_. True), nx_B = sample_build, nx_E = any_env,
      nx_C = \<lparr>shell_strtol = (\<lambda>t b. (0, - EINVAL)),
        kfsw_csp_get_info = (\<lambda>_. \<lparr>ci_address = 1, hostname = ''a'', model = ''b'', revision = ''c'', libcsp = ''d'',
          protocol = 2, free_buffers = 8\<rparr>),
        kfsw_csp_visit_interfaces = (\<lambda>s. (([], \<lambda>_. 0), s)), kfsw_csp_visit_routes = (\<lambda>s. (([], \<lambda>_. 0), s)),
        kfsw_csp_route_lookup = (\<lambda>n s. (0, \<lparr>rt_address = 0, rt_prefix = 0, rt_interface = ''lo'', rt_via = None\<rparr>)),
        kfsw_csp_ping = (\<lambda>n t p s. ((0, 12), s)),
        kfsw_csp_interface_stats_read = (\<lambda>n i t s. ((- ETIMEDOUT, \<lparr>is_name = i, tx_packets = 0, rx_packets = 0,
          tx_errors = 0, rx_errors = 0, dropped_packets = 0, auth_errors = 0, frame_errors = 0, tx_bytes = 0,
          rx_bytes = 0, interrupts = 0\<rparr>), s)),
        kfsw_csp_clear_counters = (\<lambda>s. s),
        kfsw_csp_get_counters = (\<lambda>s. \<lparr>buffer_out = 0, conn_out = 0, conn_overflow = 0, conn_noroute = 0,
          invalid_reply = 0, cc_last_error = 0, last_can_error = 0\<rparr>),
        kfsw_csp_error_name = (\<lambda>_. ''none''), kfsw_csp_can_error_name = (\<lambda>_. ''none''),
        kfsw_csp_get_packet_trace = (\<lambda>_. False), kfsw_csp_set_packet_trace = (\<lambda>b s. s),
        kfsw_csp_get_rdp_trace = (\<lambda>_. 0), kfsw_csp_set_rdp_trace = (\<lambda>l s. (0, s)),
        kfsw_csp_identify = (\<lambda>n t s. ((0, \<lparr>id_hostname = [], id_model = [], id_revision = [], id_date = [], id_time = []\<rparr>), s)),
        kfsw_csp_clock_is_set = (\<lambda>c. False), kfsw_csp_clock_get = (\<lambda>s. \<lparr>seconds = 0, nanoseconds = 0\<rparr>),
        kfsw_csp_clock_set = (\<lambda>c s. (0, s)), kfsw_csp_clock_read = (\<lambda>n t s. ((0, \<lparr>seconds = 9, nanoseconds = 0\<rparr>), s)),
        kfsw_csp_clock_write = (\<lambda>n t c s. ((0, c), s)), CSP_ERR_TIMEDOUT = - 3\<rparr>\<rparr>"

definition any_remexec :: "'s remexec_ctx" where
  "any_remexec =
     \<lparr>qx_B = sample_build, qx_E = any_env,
      qx_R = \<lparr>kfsw_remexec_list_remote = (\<lambda>n p s. ((- ETIMEDOUT, \<lparr>reply_status = KFSW_REMEXEC_OK, reply_text = [],
          reply_size = 0, reply_truncated = False, reply_dropped = 0, reply_produced = 0, command_result = 0\<rparr>), s)),
        kfsw_remexec_run_remote = (\<lambda>n l s. ((0, \<lparr>reply_status = KFSW_REMEXEC_OK, reply_text = ''up'', reply_size = 2,
          reply_truncated = False, reply_dropped = 0, reply_produced = 2, command_result = 0\<rparr>), s)),
        kfsw_remexec_status_name = (\<lambda>_. ''ok'')\<rparr>,
      qx_line = replicate 64 (CHR ''.'')\<rparr>"

section \<open>Files\<close>

text \<open>What can still be read through a file object of the file system in memory.\<close>

definition unread :: "memory \<Rightarrow> fs_file \<Rightarrow> nat" where
  "unread = (\<lambda>(files, at, room) f. case at f of
       Some (p, k, False) \<Rightarrow> (case files p of Some c \<Rightarrow> length c - k | None \<Rightarrow> 0)
     | _ \<Rightarrow> 0)"

lemma memory_read_unread:
  assumes "fs_read memory_fs f n s = ((r, d), s')"
  shows "r \<le> int n \<and> (\<forall>g. g \<noteq> f \<longrightarrow> unread s' g = unread s g) \<and> unread s' f \<le> unread s f \<and>
    (0 < r \<longrightarrow> unread s' f < unread s f)"
proof -
  obtain files at room where s: "s = (files, at, room)" by (cases s) auto
  show ?thesis
  proof (cases "\<exists>p k c. at f = Some (p, k, False) \<and> files p = Some c")
    case True
    then obtain p k c where "at f = Some (p, k, False)" "files p = Some c" by blast
    with assms show ?thesis by (auto simp: s unread_def memory_fs_def memory_read_def Let_def)
  next
    case False
    with assms have "r < 0 \<and> s' = s"
      by (auto simp: s memory_fs_def memory_read_def Let_def errno_defs split: option.splits prod.splits bool.splits)
    then show ?thesis by simp
  qed
qed

text \<open>Every read of the file system in memory that gives a byte leaves fewer to be read.\<close>

lemma memory_files_end: "files_end memory_fs"
proof -
  define m where "m s = unread s File + unread s First + unread s Second" for s
  have "fst (fst (fs_read memory_fs f n s)) \<le> int n \<and> m (snd (fs_read memory_fs f n s)) \<le> m s \<and>
      (0 < fst (fst (fs_read memory_fs f n s)) \<longrightarrow> m (snd (fs_read memory_fs f n s)) < m s)" for f n s
  proof -
    obtain r d s' where e: "fs_read memory_fs f n s = ((r, d), s')" by (metis prod.collapse)
    show ?thesis using memory_read_unread [OF e] unfolding e m_def by (cases f) auto
  qed
  then show ?thesis unfolding files_end_def by blast
qed

definition memory_ftp :: "memory ftp_ctx" where
  "memory_ftp =
     \<lparr>fx_B = sample_build, fx_P = \<lparr>KFSW_FTP_BOOT_PATH = ''/boot'', KFSW_FTP_HK_PATH = ''/hk'', KFSW_FBO_FTP_PATH = ''/fbo''\<rparr>,
      fx_E = any_env, fx_F = memory_fs, fx_L = sample_ftp_local,
      fx_K = \<lparr>ftp_csp_address = (\<lambda>_. 1), kfsw_ftp_list = (\<lambda>n p s. (([], \<lambda>_. 0), s)),
        kfsw_ftp_stat = (\<lambda>n p s. ((- ENOENT, \<lparr>st_type = KFSW_FTP_ENTRY_FILE, st_size = 0, st_crc32 = 0\<rparr>), s)),
        kfsw_ftp_mkdir = (\<lambda>n p s. (0, s)),
        kfsw_ftp_put = (\<lambda>n a b s. ((- ETIMEDOUT, \<lparr>tr_bytes = 0, tr_crc32 = 0, tr_duration_ms = 0\<rparr>), s)),
        kfsw_ftp_get = (\<lambda>n a b s. ((- ETIMEDOUT, \<lparr>tr_bytes = 0, tr_crc32 = 0, tr_duration_ms = 0\<rparr>), s))\<rparr>\<rparr>"

end
