(* ===== verification/Console.thy ===== *)
theory Console
  imports Shell_Param Shell_Hk Shell_Remexec Shell_Files Shell_System Shell_Records Shell_Updates Shell_Monitors Shell_Links Console_Samples
begin

text \<open>
  The console as a whole: which shell files a composition compiles (\<^verbatim>\<open>src/app/CMakeLists.txt\<close>), the
  commands each of them registers and under which words, and what the contexts of a file must satisfy.
  The properties here are those of the composition: every line an operator may type returns, and what
  the allowlist of remote execution names exists in the console and only reads.
\<close>

section \<open>Shell files\<close>

datatype shell_file =
    F_system | F_csp | F_uart | F_can | F_param | F_storage | F_ftp | F_registry | F_gndwdt | F_resmon | F_scrub
  | F_limits | F_remexec | F_hk | F_fbo | F_event | F_journal | F_watchdog | F_fwu | F_fwu_lite | F_golden | F_health
  | F_table

text \<open>The files with commands that a composition compiles, in the order of the build file.\<close>

definition shell_files :: "config \<Rightarrow> shell_file list" where
  "shell_files cfg =
     (if cfg CONFIG_KFSW_DEBUG_SHELL
      then F_system # map snd (filter fst
        [(cfg CONFIG_KFSW_CSP, F_csp), (cfg CONFIG_KFSW_CSP_KISS_UART, F_uart), (cfg CONFIG_KFSW_CSP_CAN, F_can),
         (cfg CONFIG_KFSW_PARAM, F_param), (cfg CONFIG_KFSW_STORAGE, F_storage), (cfg CONFIG_KFSW_FTP, F_ftp),
         (cfg CONFIG_KFSW_COMMAND, F_registry), (cfg CONFIG_KFSW_GNDWDT, F_gndwdt), (cfg CONFIG_KFSW_RESMON, F_resmon),
         (cfg CONFIG_KFSW_SCRUB, F_scrub), (cfg CONFIG_KFSW_LIMITS, F_limits), (cfg CONFIG_KFSW_REMEXEC, F_remexec),
         (cfg CONFIG_KFSW_HK, F_hk), (cfg CONFIG_KFSW_FBO, F_fbo), (cfg CONFIG_KFSW_EVENT, F_event),
         (cfg CONFIG_KFSW_JOURNAL \<and> cfg CONFIG_KFSW_COMMAND, F_journal), (cfg CONFIG_KFSW_WATCHDOG, F_watchdog),
         (cfg CONFIG_KFSW_FWU_STANDARD, F_fwu), (cfg CONFIG_KFSW_FWU_LITE_CSP, F_fwu_lite),
         (cfg CONFIG_KFSW_GOLDEN \<or> cfg CONFIG_KFSW_BOOT_STORE \<and> cfg CONFIG_KFSW_PARAM, F_golden),
         (cfg CONFIG_KFSW_HEALTH, F_health), (cfg CONFIG_KFSW_TABLE, F_table)])
      else [])"

lemma set_compiled: "f \<in> set (map snd (filter fst xs)) \<longleftrightarrow> (True, f) \<in> set xs"
  by force

lemma shell_files_compiled:
  assumes "cfg CONFIG_KFSW_DEBUG_SHELL"
  shows "F_system \<in> set (shell_files cfg)" "cfg CONFIG_KFSW_STORAGE \<Longrightarrow> F_storage \<in> set (shell_files cfg)"
    "cfg CONFIG_KFSW_RESMON \<Longrightarrow> F_resmon \<in> set (shell_files cfg)"
    "cfg CONFIG_KFSW_EVENT \<Longrightarrow> F_event \<in> set (shell_files cfg)"
    "cfg CONFIG_KFSW_CSP_KISS_UART \<Longrightarrow> F_uart \<in> set (shell_files cfg)"
    "cfg CONFIG_KFSW_CSP_CAN \<Longrightarrow> F_can \<in> set (shell_files cfg)"
  unfolding shell_files_def if_P [OF assms] list.set(2) insert_iff set_compiled by simp_all

text \<open>A compiled file with the context its handlers run in.\<close>

datatype 's mounted =
    M_system "'s system_ctx \<times> char list" | M_csp "'s csp_ctx" | M_uart "'s links_ctx" | M_can "'s links_ctx"
  | M_param "'s param_ctx" | M_storage "'s storage_ctx" | M_ftp "'s ftp_ctx" | M_registry "'s registry_ctx"
  | M_gndwdt "'s gndwdt_ctx" | M_resmon "'s resmon_ctx" | M_scrub "'s scrub_ctx" | M_limits "'s limits_ctx"
  | M_remexec "'s remexec_ctx" | M_hk "'s hk_ctx" | M_fbo "'s fbo_ctx" | M_event "'s event_ctx"
  | M_journal "'s journal_ctx" | M_watchdog "'s watchdog_ctx" | M_fwu "'s fwu_ctx" | M_fwu_lite "'s fwu_ctx"
  | M_golden "'s golden_ctx" | M_health "'s health_ctx" | M_table "'s table_ctx"

fun source_file :: "'s mounted \<Rightarrow> shell_file" where
  "source_file (M_system X) = F_system"
| "source_file (M_csp X) = F_csp"
| "source_file (M_uart X) = F_uart"
| "source_file (M_can X) = F_can"
| "source_file (M_param X) = F_param"
| "source_file (M_storage X) = F_storage"
| "source_file (M_ftp X) = F_ftp"
| "source_file (M_registry X) = F_registry"
| "source_file (M_gndwdt X) = F_gndwdt"
| "source_file (M_resmon X) = F_resmon"
| "source_file (M_scrub X) = F_scrub"
| "source_file (M_limits X) = F_limits"
| "source_file (M_remexec X) = F_remexec"
| "source_file (M_hk X) = F_hk"
| "source_file (M_fbo X) = F_fbo"
| "source_file (M_event X) = F_event"
| "source_file (M_journal X) = F_journal"
| "source_file (M_watchdog X) = F_watchdog"
| "source_file (M_fwu X) = F_fwu"
| "source_file (M_fwu_lite X) = F_fwu_lite"
| "source_file (M_golden X) = F_golden"
| "source_file (M_health X) = F_health"
| "source_file (M_table X) = F_table"

section \<open>Registered commands\<close>

definition under :: "string list \<Rightarrow> 's subcommand list \<Rightarrow> (string list \<times> 's subcommand) list" where
  "under path subs = map (Pair path) subs"

text \<open>
  What the \<^verbatim>\<open>SHELL_CMD_REGISTER\<close> and \<^verbatim>\<open>SHELL_SUBCMD_ADD\<close> lines of a file register: the words before a
  command and the command.
\<close>

fun registered :: "'s mounted \<Rightarrow> (string list \<times> 's subcommand) list" where
  "registered (M_system X) = under [] (system_commands (fst X)) @ under [''log''] (log_subcommands X)"
| "registered (M_csp X) = under [''csp''] (csp_subcommands X)"
| "registered (M_uart X) = under [''comms'', ''uart''] (uart_subcommands X)"
| "registered (M_can X) = under [''comms'', ''can''] (can_subcommands X)"
| "registered (M_param X) = under [''param''] (param_subcommands X)"
| "registered (M_storage X) = under [''storage''] (storage_subcommands X)"
| "registered (M_ftp X) = under [''ftp''] (ftp_subcommands X)"
| "registered (M_registry X) = under [''cmd''] (registry_subcommands X)"
| "registered (M_gndwdt X) = under [''gndwdt''] (gndwdt_subcommands X)"
| "registered (M_resmon X) = under [''resmon''] (resmon_subcommands X)"
| "registered (M_scrub X) = under [''scrub''] (scrub_subcommands X)"
| "registered (M_limits X) = under [''limits''] (limits_subcommands X)"
| "registered (M_remexec X) = under [] (remexec_command X)"
| "registered (M_hk X) = under [''hk''] (hk_subcommands X)"
| "registered (M_fbo X) = under [''fbo'', ''sched''] (fbo_sched_subcommands X) @ under [''fbo''] (fbo_subcommands X)"
| "registered (M_event X) = under [''event''] (event_subcommands X)"
| "registered (M_journal X) = under [''journal''] (journal_subcommands X)"
| "registered (M_watchdog X) = under [''watchdog''] (watchdog_subcommands X)"
| "registered (M_fwu X) = under [''fwu''] (fwu_subcommands X)"
| "registered (M_fwu_lite X) = under [''fwu_lite''] (fwu_lite_subcommands X)"
| "registered (M_golden X) = under [''golden''] (golden_subcommands X)"
| "registered (M_health X) = under [''health''] (health_subcommands X)"
| "registered (M_table X) = under [''table''] (table_subcommands X)"

definition console_commands :: "'s mounted list \<Rightarrow> 's subcommand list" where
  "console_commands console = map snd (concat (map registered console))"

text \<open>The conditions of the groups on their contexts: arrays of their sizes and services as documented.\<close>

fun mounted_ok :: "'s mounted \<Rightarrow> bool" where
  "mounted_ok (M_system X) \<longleftrightarrow> registry_ok (yx_B (fst X)) (yx_E (fst X)) \<and> log_ctx_ok X"
| "mounted_ok (M_csp X) \<longleftrightarrow> registry_ok (nx_B X) (nx_E X)"
| "mounted_ok (M_param X) \<longleftrightarrow> param_ctx_ok X"
| "mounted_ok (M_ftp X) \<longleftrightarrow> files_end (fx_F X)"
| "mounted_ok (M_registry X) \<longleftrightarrow> registry_ctx_ok X"
| "mounted_ok (M_remexec X) \<longleftrightarrow> qx_line X \<noteq> []"
| "mounted_ok (M_hk X) \<longleftrightarrow> hk_ctx_ok X"
| "mounted_ok (M_event X) \<longleftrightarrow> event_ctx_ok X"
| "mounted_ok (M_journal X) \<longleftrightarrow> journal_ctx_ok X"
| "mounted_ok (M_golden X) \<longleftrightarrow> registry_ok (ox_B X) (ox_E X)"
| "mounted_ok g \<longleftrightarrow> True"

lemma map_snd_under [simp]: "map snd (under p subs) = subs"
  by (simp add: under_def comp_def)

lemmas group_totals =
  system_group.total log_group.total csp_group.total uart_group.total can_group.total param_group.total
  storage_group.total ftp_group.total registry_group.total gndwdt_group.total resmon_group.total scrub_group.total
  limits_group.total remexec_group.total hk_group.total fbo_group.total fbo_sched_group.total event_group.total
  journal_group.total watchdog_group.total fwu_group.total fwu_lite_group.total golden_group.total health_group.total
  table_group.total

lemma mounted_total: "mounted_ok g \<Longrightarrow> group_total (map snd (registered g))"
  by (cases g) (simp_all add: group_totals)

lemma console_total: "\<forall>g \<in> set console. mounted_ok g \<Longrightarrow> group_total (console_commands console)"
  by (induction console) (simp_all add: console_commands_def mounted_total)

section \<open>What remote execution reaches\<close>

text \<open>
  The walk over the links that a file may ask the CSP layer for; the layer is outside the repository and the
  walk may change its state.
\<close>

fun link_walk :: "'s mounted \<Rightarrow> 's \<Rightarrow> 's" where
  "link_walk (M_uart X) s = snd (kfsw_uart_visit X s)"
| "link_walk (M_can X) s = snd (kfsw_csp_visit_interfaces (kx_csp X) s)"
| "link_walk g s = s"

text \<open>An action that calls nothing that changes a service, but for at most one walk.\<close>

definition only_walks :: "('s \<Rightarrow> 's) \<Rightarrow> ('s, 'a) act \<Rightarrow> bool" where
  "only_walks through a \<longleftrightarrow> (\<forall>w. svc (snd (run_state a w)) \<in> {svc w, through (svc w)})"

text \<open>
  A command registered under exactly these words, which may be given without an argument and then only
  reads; only \<^verbatim>\<open>event stats\<close> takes an argument, the node to ask.
\<close>

definition reads_as :: "('s \<Rightarrow> 's) \<Rightarrow> string list \<Rightarrow> string list \<times> 's subcommand \<Rightarrow> bool" where
  "reads_as through ws p \<longleftrightarrow> ws = fst p @ [sub_name (snd p)] \<and> allowed (snd p) [sub_name (snd p)] \<and>
     only_walks through (sub_handler (snd p) [sub_name (snd p)]) \<and> (optional (snd p) = 0 \<or> ws = [''event'', ''stats''])"

lemma only_walks_quiet: "quiet a \<Longrightarrow> only_walks through a"
  by (simp add: only_walks_def quietD)

lemma only_walks_after:
  assumes "quiet a" "\<And>x. only_walks through (f x)"
  shows "only_walks through (a \<bind> f)"
  using assms unfolding only_walks_def quiet_def by (simp add: split_beta) metis

lemma only_walks_then:
  assumes "only_walks through a" "\<And>x. quiet (f x)"
  shows "only_walks through (a \<bind> f)"
  using assms by (simp add: only_walks_def quiet_def split_beta)

lemma only_walks_visit:
  assumes "\<And>i c. quiet (f i c)"
  shows "only_walks (\<lambda>s. snd (src s)) (visit_with src f c)"
proof -
  have "quiet (walk f is c n)" for "is" c n
  proof (induction "is" arbitrary: c n)
    case (Cons i "is")
    show ?case
      unfolding walk.simps
      by (rule quiet_bind [OF assms]) (auto split: option.splits intro!: quiet_ret Cons.IH)
  qed (simp add: quiet_ret)
  moreover have "only_walks (\<lambda>s. snd (src s)) (call src)" by (simp add: only_walks_def)
  ultimately show ?thesis unfolding visit_with_def by (intro only_walks_then quiet_bind quiet_ret)
qed

lemma walks_uart_info: "only_walks (link_walk (M_uart X)) (cmd_uart_info X argv)"
  unfolding cmd_uart_info_def link_walk.simps
  by (intro only_walks_then only_walks_visit) (auto simp: print_uart_info_def intro!: quiet_intros)

lemma walks_can_info: "only_walks (link_walk (M_can X)) (cmd_can_info X argv)"
proof -
  have v: "only_walks (link_walk (M_can X)) (visit_with (kfsw_csp_visit_interfaces (kx_csp X)) find_interface c)" for c
    unfolding link_walk.simps by (rule only_walks_visit) (auto simp: find_interface_def intro!: quiet_intros)
  show ?thesis
    unfolding cmd_can_info_def
    by (intro only_walks_after quiet_intros, split if_split)
      (auto intro!: only_walks_quiet [OF quiet_ret] only_walks_after only_walks_then [OF v] quiet_intros)
qed

lemmas offered_defs =
  system_commands_def storage_subcommands_def resmon_subcommands_def event_subcommands_def uart_subcommands_def
  can_subcommands_def under_def reads_as_def allowed_def Let_def

lemma offered_quiet:
  "quiet (cmd_time X [''time''])" "quiet (cmd_version X [''version''])" "quiet (cmd_storage_info S [''info''])"
  "quiet (cmd_resmon_show R [''show''])" "quiet (cmd_event_stats V [''stats''])"
  unfolding cmd_time_def cmd_version_def cmd_storage_info_def cmd_resmon_show_def cmd_event_stats_def
    print_resmon_status_def
  by (intro quiet_intros; simp)+

lemma offered_by_file:
  "source_file g = F_system \<Longrightarrow> (\<exists>p \<in> set (registered g). reads_as (link_walk g) [''time''] p) \<and>
     (\<exists>p \<in> set (registered g). reads_as (link_walk g) [''version''] p)"
  "source_file g = F_storage \<Longrightarrow> \<exists>p \<in> set (registered g). reads_as (link_walk g) [''storage'', ''info''] p"
  "source_file g = F_resmon \<Longrightarrow> \<exists>p \<in> set (registered g). reads_as (link_walk g) [''resmon'', ''show''] p"
  "source_file g = F_event \<Longrightarrow> \<exists>p \<in> set (registered g). reads_as (link_walk g) [''event'', ''stats''] p"
  "source_file g = F_uart \<Longrightarrow> \<exists>p \<in> set (registered g). reads_as (link_walk g) [''comms'', ''uart'', ''info''] p"
  "source_file g = F_can \<Longrightarrow> \<exists>p \<in> set (registered g). reads_as (link_walk g) [''comms'', ''can'', ''info''] p"
  by (cases g; simp add: offered_defs offered_quiet only_walks_quiet walks_uart_info walks_can_info)+

lemma radio_entry: "e \<in> set (remexec_entries cfg) \<Longrightarrow> entry_command e = ''comms uhf status'' \<Longrightarrow> cfg CONFIG_KFSW_RADIO_UHF"
  by (auto simp: remexec_entries_def offer_def split: if_splits)

lemma entry_words:
  "e \<in> set (remexec_entries cfg) \<Longrightarrow> entry_command e \<noteq> ''comms uhf status'' \<Longrightarrow>
     space_words (entry_command e) \<in> {[''time''], [''version'']} \<or>
     cfg CONFIG_KFSW_STORAGE \<and> space_words (entry_command e) = [''storage'', ''info''] \<or>
     cfg CONFIG_KFSW_RESMON \<and> space_words (entry_command e) = [''resmon'', ''show''] \<or>
     cfg CONFIG_KFSW_EVENT \<and> space_words (entry_command e) = [''event'', ''stats''] \<or>
     cfg CONFIG_KFSW_CSP_KISS_UART \<and> space_words (entry_command e) = [''comms'', ''uart'', ''info''] \<or>
     cfg CONFIG_KFSW_CSP_CAN \<and> space_words (entry_command e) = [''comms'', ''can'', ''info'']"
  by (auto simp: remexec_entries_def offer_def split: if_splits)

section \<open>Properties\<close>

text \<open>
  C1. No line of an operator is left without a result: in every composition of shell files whose arrays
  have the sizes in the code and whose services keep the limits below, every sequence of commands with
  argument lists the shell lets through runs to the end, and every command of it returns a
  result. So no handler reads an argument that was not given or leaves one of its arrays, and every
  loop of every group ends, whatever the services answer within the limits. The limits, which the file
  that needs them is mounted with: the command registry reports a type for every argument of a
  command and no more arguments than its constant allows (\<open>registry_ok\<close>, and \<open>registry_ctx_ok\<close> for the listing);
  a log package, an event or journal payload, an array parameter and a housekeeping sample are not longer than
  the memory they come in, and a payload not longer than its constant (\<open>log_ctx_ok\<close>, \<open>event_ctx_ok\<close>,
  \<open>journal_ctx_ok\<close>, \<open>param_ctx_ok\<close>, \<open>hk_ctx_ok\<close>); a successful read of many parameters returns one value per name; a
  read of a file gives at most what was asked for and files come to an end (\<open>files_end\<close>); the line of remote
  execution is not an empty array.
\<close>

theorem shell_session_returns:
  assumes "\<forall>g \<in> set console. mounted_ok g" "lines_of (console_commands console) ls"
  shows "\<exists>rs. fst (run_state (run_lines ls) w) = Some rs \<and> length rs = length ls"
  using run_lines_returns [OF console_total [OF assms(1)] assms(2)] run_lines_length by (fastforce simp: ends_def)

text \<open>A console with every file whose context has a condition, over the file system in memory.\<close>

definition full_console :: "memory mounted list" where
  "full_console =
     [M_system (sample_system any_env, replicate 129 (CHR ''.'')), M_csp any_csp, M_param any_param, M_ftp memory_ftp,
      M_registry any_registry, M_remexec any_remexec, M_hk any_hk, M_event any_event, M_journal any_journal,
      M_golden any_golden]"

lemma full_console_ok: "\<forall>g \<in> set full_console. mounted_ok g"
proof -
  have "mounted_ok (M_system (sample_system any_env, replicate 129 (CHR ''.'')))"
    by (simp add: sample_system_select any_registry_ok sample_log_ctx_ok)
  moreover have "mounted_ok (M_csp any_csp)" "mounted_ok (M_golden any_golden)"
    using any_registry_ok by (simp_all add: any_csp_def any_golden_def)
  moreover have "mounted_ok (M_ftp memory_ftp)" "mounted_ok (M_remexec any_remexec)"
    using memory_files_end by (simp_all add: memory_ftp_def any_remexec_def)
  ultimately show ?thesis
    by (simp add: full_console_def any_param_ctx_ok any_registry_ctx_ok any_hk_ctx_ok any_event_ctx_ok any_journal_ctx_ok
        del: mounted_ok.simps(1,2,4,6,10))
qed

definition full_lines :: "(memory subcommand \<times> string list) list" where
  "full_lines =
     [(sub ''verify'' (cmd_ftp_verify memory_ftp) 3 0, [''verify'', ''/a'', ''b'']),
      (sub ''describe'' (cmd_registry_describe any_registry) 1 0, [''describe'']),
      (sub ''get'' (cmd_param_get any_param) 2 1, [''get'', ''p'']),
      (sub ''get'' (cmd_hk_get any_hk) 2 1, [''get'', ''1'']),
      (sub ''list'' (cmd_event_list any_event) 1 0, [''list'']),
      (sub ''remote'' (cmd_journal_remote any_journal) 2 1, [''remote'', ''5'']),
      (sub ''reboot'' (cmd_reboot (sample_system any_env)) 2 0, [''reboot'', ''0000'']),
      (hd (remexec_command any_remexec), [''remexec'', ''5'', ''run'', ''time''])]"

theorem shell_session_returns_witness:
  "\<exists>rs. fst (run_state (run_lines full_lines) \<lparr>svc = ([''/lfs/a'' \<mapsto> [1, 2]], Map.empty, 100), out = []\<rparr>) = Some rs \<and>
     length rs = length full_lines"
proof (rule shell_session_returns [OF full_console_ok])
  show "lines_of (console_commands full_console) full_lines"
    by (simp add: full_console_def console_commands_def lines_of_def full_lines_def allowed_def ftp_subcommands_def
        registry_subcommands_def param_subcommands_def hk_subcommands_def event_subcommands_def journal_subcommands_def
        system_commands_def remexec_command_def any_param_def any_hk_def any_event_def any_journal_def any_run_def
        sample_system_def Let_def REMEXEC_WORDS_MAX_def)
qed

text \<open>
  C2. What a node offers for remote execution is there and only reads. For the console a composition
  compiles and every command of its allowlist: the command is \<^verbatim>\<open>comms uhf status\<close>, which only a composition with
  \<^verbatim>\<open>CONFIG_KFSW_RADIO_UHF\<close> offers and which a module outside this repository registers; or, with the
  debug shell compiled in, a file the composition compiles registers it under exactly those words, it may
  be given without an argument, and it then leaves every service as it was, but for at most one walk of the CSP layer
  over its links in \<^verbatim>\<open>comms uart info\<close> and \<^verbatim>\<open>comms can info\<close>. Only \<^verbatim>\<open>event stats\<close> takes an
  argument. Without the debug shell there is no console and nothing of this repository is reached.
\<close>

theorem offered_commands_read:
  assumes "source_file ` set console = set (shell_files cfg)" "e \<in> set (remexec_entries cfg)"
  shows "cfg CONFIG_KFSW_RADIO_UHF \<and> entry_command e = ''comms uhf status'' \<or>
    (if cfg CONFIG_KFSW_DEBUG_SHELL
     then \<exists>g \<in> set console. \<exists>p \<in> set (registered g). reads_as (link_walk g) (space_words (entry_command e)) p
     else console = [])"
proof (cases "cfg CONFIG_KFSW_DEBUG_SHELL")
  case True
  have from_file: "\<exists>g \<in> set console. source_file g = f" if "f \<in> set (shell_files cfg)" for f
    using that assms(1) by (metis (no_types, lifting) imageE)
  note found = shell_files_compiled [where cfg = cfg, OF True, THEN from_file]
  define offered where
    "offered ws \<longleftrightarrow> (\<exists>g \<in> set console. \<exists>p \<in> set (registered g). reads_as (link_walk g) ws p)" for ws
  have "offered [''time'']" "offered [''version'']"
    using found(1) offered_by_file(1) unfolding offered_def by blast+
  moreover have "cfg CONFIG_KFSW_STORAGE \<Longrightarrow> offered [''storage'', ''info'']"
      "cfg CONFIG_KFSW_RESMON \<Longrightarrow> offered [''resmon'', ''show'']" "cfg CONFIG_KFSW_EVENT \<Longrightarrow> offered [''event'', ''stats'']"
    using found(2-4) offered_by_file(2-4) unfolding offered_def by blast+
  moreover have "cfg CONFIG_KFSW_CSP_KISS_UART \<Longrightarrow> offered [''comms'', ''uart'', ''info'']"
      "cfg CONFIG_KFSW_CSP_CAN \<Longrightarrow> offered [''comms'', ''can'', ''info'']"
    using found(5,6) offered_by_file(5,6) unfolding offered_def by blast+
  ultimately have "offered (space_words (entry_command e))" if "entry_command e \<noteq> ''comms uhf status''"
    using entry_words [OF assms(2) that] by (elim disjE conjE insertE) simp_all
  with True radio_entry [OF assms(2)] show ?thesis unfolding offered_def by argo
qed (use assms(1) in \<open>simp add: shell_files_def\<close>)

definition sample_resmon :: "string list resmon_ctx" where
  "sample_resmon =
     \<lparr>mx_E = sample_env,
      kfsw_resmon_get_status = (\<lambda>_. \<lparr>rm_running = True, rm_threads = 4, rm_unmeasured = 0, rm_last_used_percent = 40,
        rm_worst_used_percent = 60, rm_worst_thread = ''main'', rm_worst_unused_bytes = 400, rm_worst_stack_bytes = 1024,
        rm_tightest_unused_bytes = 100, rm_tightest_stack_bytes = 256, rm_tightest_thread = ''idle'',
        rm_alert_percent = 80, rm_sweeps = 1, rm_alerts = 0\<rparr>),
      kfsw_resmon_sample = (\<lambda>s. (0, s @ [''sample''])),
      kfsw_resmon_set_alert_percent = (\<lambda>n s. (0, s @ [''alert'']))\<rparr>"

theorem offered_commands_read_witness:
  "\<exists>g \<in> set [M_system (sample_system sample_env, []), M_resmon sample_resmon]. \<exists>p \<in> set (registered g).
     reads_as (link_walk g) [''resmon'', ''show''] p"
proof -
  define cfg where "cfg c \<longleftrightarrow> c \<in> {CONFIG_KFSW_DEBUG_SHELL, CONFIG_KFSW_RESMON}" for c
  have "\<lparr>entry_command = ''resmon show'', entry_help = ''What the last stack sweep found''\<rparr> \<in> set (remexec_entries cfg)"
    by (simp add: remexec_entries_def offer_def cfg_def)
  from offered_commands_read [OF _ this, of "[M_system (sample_system sample_env, []), M_resmon sample_resmon]"]
  show ?thesis by (simp add: cfg_def shell_files_def)
qed

end
