(* ===== verification/Command_Path.thy ===== *)
theory Command_Path
  imports Console
begin

text \<open>
  From a line of the shell to the handler of the command: \<^verbatim>\<open>kfsw_shell_run_command\<close>, the command service
  and the table of \<^verbatim>\<open>src/app/src/commands/command_definitions.c\<close> together. The service is not part of the sources;
  \<open>dispatches\<close> says what its documentation and its tests promise of it.
\<close>

section \<open>The command service\<close>

text \<open>A handler that fails without saying why is reported as failed.\<close>

definition answered :: "int \<Rightarrow> kfsw_command_result \<Rightarrow> kfsw_command_result" where
  "answered rc res = (if rc \<noteq> 0 \<and> status res = KFSW_COMMAND_OK then res\<lparr>status := KFSW_COMMAND_FAILED\<rparr> else res)"

text \<open>
  Once initialised the service finds every command of the table with its argument types. Invoked here with
  arguments of those types it either refuses, as it does while another thread has an exclusive
  claim on it: then the status is not ok, no handler runs and all that changes is what it records of the
  refusal; or it runs the handler once, for node 0 and with an empty result, and what it
  records of the invocation is \<open>before\<close> and \<open>after\<close> the handler. Which of the two is left open. It promises nothing
  of a handler that does not return.
\<close>

definition dispatches ::
  "config \<Rightarrow> build \<Rightarrow> 's services \<Rightarrow> scratch \<Rightarrow> 's shell_env \<Rightarrow> ('s \<Rightarrow> 's) \<Rightarrow> (kfsw_command_result \<Rightarrow> 's \<Rightarrow> 's) \<Rightarrow>
   ('s \<Rightarrow> 's) \<Rightarrow> bool" where
  "dispatches cfg B S x E before after refused \<longleftrightarrow>
     (\<forall>c \<in> set (app_commands cfg B S x). \<forall>s. kfsw_command_is_initialized E s \<longrightarrow>
        kfsw_command_find E (cmd_name c) s = Some (arg_count c, arg_types c) \<and>
        (\<forall>args. map arg_type args = arg_types c \<longrightarrow>
           (\<exists>res. status res \<noteq> KFSW_COMMAND_OK \<and> kfsw_command_invoke E (cmd_name c) args s = (res, refused s)) \<or>
           (\<forall>rc res h.
              run_state (handler_fn c args KFSW_SHELL_THIS_NODE zero_result) \<lparr>svc = before s, out = []\<rparr> = (Some (rc, res), h) \<longrightarrow>
              kfsw_command_invoke E (cmd_name c) args s = (answered rc res, after (answered rc res) (svc h)))))"

text \<open>An argument that converts has the type asked for, and a text is taken as it is.\<close>

definition converts :: "'s shell_env \<Rightarrow> bool" where
  "converts E \<longleftrightarrow>
     (\<forall>t ty a. kfsw_command_parse_arg E t ty = (0, a) \<longrightarrow>
        arg_type a = ty \<and> (ty = KFSW_COMMAND_TYPE_TEXT \<longrightarrow> a = Arg_text t))"

lemma answered_ok: "status (answered rc res) = KFSW_COMMAND_OK \<longleftrightarrow> rc = 0 \<and> status res = KFSW_COMMAND_OK"
  by (simp add: answered_def)

lemma parsed_args_typed:
  assumes "converts E" "args_ok E argv tys"
  shows "map arg_type (parsed_args E argv tys) = tys"
  using assms(2) unfolding args_ok_def parsed_args_def
proof (induction rule: list_all2_induct)
  case (Cons t ts ty tys)
  obtain a where "kfsw_command_parse_arg E t ty = (0, a)" using Cons.hyps(1) by (metis prod.collapse)
  with Cons.IH assms(1) show ?case by (auto simp: converts_def)
qed simp

section \<open>From the line to the handler\<close>

lemma console_invokes:
  assumes D: "dispatches cfg B S x E before after refused" and c: "c \<in> set (app_commands cfg B S x)"
    and up: "kfsw_command_is_initialized E (svc w)" and fits: "4 \<le> KFSW_COMMAND_MAX_ARGS B"
    and n: "length argv = arg_count c" and conv: "args_ok E argv (arg_types c)" "converts E"
    and h: "run_state (handler_fn c (parsed_args E argv (arg_types c)) KFSW_SHELL_THIS_NODE zero_result)
      \<lparr>svc = before (svc w), out = []\<rparr> = (Some (rc, res), h)"
  shows "\<exists>r w'. run_state (kfsw_shell_run_command cfg B E KFSW_SHELL_THIS_NODE (cmd_name c) argv) w = (Some r, w') \<and>
    (svc w' = after (answered rc res) (svc h) \<and> (r = 0 \<longleftrightarrow> rc = 0 \<and> status res = KFSW_COMMAND_OK) \<or>
     svc w' = refused (svc w) \<and> r \<noteq> 0)"
proof -
  have ty: "length (arg_types c) = arg_count c" "arg_count c \<le> 4" using command_types_ok [OF c] by simp_all
  let ?inv = "kfsw_command_invoke E (cmd_name c) (parsed_args E argv (arg_types c)) (svc w)"
  have find: "kfsw_command_find E (cmd_name c) (svc w) = Some (length (arg_types c), arg_types c)"
    using D c up ty by (auto simp: dispatches_def)
  have "(\<exists>bad. status bad \<noteq> KFSW_COMMAND_OK \<and> ?inv = (bad, refused (svc w))) \<or>
      ?inv = (answered rc res, after (answered rc res) (svc h))"
    using D c up h parsed_args_typed [OF conv(2,1)] unfolding dispatches_def by blast
  then show ?thesis
    using run_local_command [OF up find, of B argv cfg] ty fits n conv(1) by (auto simp: answered_ok)
qed

section \<open>Restarting\<close>

lemma reboot_registered:
  assumes "cfg CONFIG_REBOOT"
  shows "\<exists>c \<in> set (app_commands cfg B S x). cmd_name c = ''reboot'' \<and> arg_count c = 1 \<and>
    arg_types c = [KFSW_COMMAND_TYPE_TEXT] \<and> handler_fn c = command_reboot cfg B S"
  using assms by (simp add: app_commands_def)

lemma command_reboot_run:
  assumes "cfg CONFIG_KFSW_PARAM"
  shows "\<exists>rc res h. run_state (command_reboot cfg B S [Arg_text t] node zero_result) w = (Some (rc, res), h) \<and>
    (if t = cstr (system_reboot_pin (system_params S (svc w)))
     then svc h = snd (k_work_schedule_reboot S 500 (svc w)) \<and>
       (rc = 0 \<and> status res = KFSW_COMMAND_OK \<longleftrightarrow> 0 \<le> fst (k_work_schedule_reboot S 500 (svc w)))
     else svc h = svc w \<and> rc \<noteq> 0)"
  using assms
  by (auto simp: command_reboot_def pin_accepted_def pin_matches_iff refuse_pin_def schedule_reboot_def reply_def
      put_detail_def KFSW_COMMAND_REBOOT_DELAY_MS_def)


section \<open>A service\<close>

text \<open>
  A command service over the table and the services of the samples, which records nothing. Another thread
  takes an exclusive claim when a recovery image is installed, and the service refuses from then on.
\<close>

definition sample_table :: "effect list kfsw_command_definition list" where
  "sample_table = app_commands (\<lambda>_. True) sample_build sample_services sample_scratch"

definition sample_service :: "effect list shell_env" where
  "sample_service =
     \<lparr>shell_strtoul = sample_strtoul, kfsw_command_is_initialized = (\<lambda>_. True),
      kfsw_command_find = (\<lambda>n _. map_option (\<lambda>c. (arg_count c, arg_types c)) (List.find (\<lambda>c. cmd_name c = n) sample_table)),
      kfsw_command_parse_arg = (\<lambda>t ty. case ty of
          KFSW_COMMAND_TYPE_U32 \<Rightarrow> (snd (sample_strtoul t 10), Arg_u32 (of_nat (fst (sample_strtoul t 10))))
        | KFSW_COMMAND_TYPE_I32 \<Rightarrow> (- EINVAL, Arg_i32 0)
        | KFSW_COMMAND_TYPE_TEXT \<Rightarrow> (0, Arg_text t)),
      type_number = (\<lambda>_. 0),
      kfsw_command_invoke = (\<lambda>n args s.
        if Installed \<in> set s then (zero_result\<lparr>status := KFSW_COMMAND_BUSY\<rparr>, s) else case List.find (\<lambda>c. cmd_name c = n) sample_table of
          None \<Rightarrow> (zero_result\<lparr>status := KFSW_COMMAND_FAILED\<rparr>, s)
        | Some c \<Rightarrow> (case run_state (handler_fn c args KFSW_SHELL_THIS_NODE zero_result) \<lparr>svc = s, out = []\<rparr> of
            (None, h) \<Rightarrow> (zero_result\<lparr>status := KFSW_COMMAND_FAILED\<rparr>, svc h)
          | (Some (rc, res), h) \<Rightarrow> (answered rc res, svc h))),
      kfsw_command_invoke_remote = (\<lambda>node n args s. ((- ETIMEDOUT, zero_result), s)),
      kfsw_command_invoke_remote_retry = (\<lambda>node n args s. ((- ETIMEDOUT, zero_result), s)),
      kfsw_command_status_name = (\<lambda>_. ''status'')\<rparr>"

lemma find_key: "distinct (map f xs) \<Longrightarrow> x \<in> set xs \<Longrightarrow> List.find (\<lambda>y. f y = f x) xs = Some x"
  by (induction xs) auto

lemma sample_dispatches:
  "dispatches (\<lambda>_. True) sample_build sample_services sample_scratch sample_service id (\<lambda>_. id) id"
proof -
  have "List.find (\<lambda>y. cmd_name y = cmd_name c) sample_table = Some c" if "c \<in> set sample_table" for c
    using that command_table_unique [of "\<lambda>_. True" sample_build sample_services sample_scratch]
    by (intro find_key) (simp_all add: sample_table_def)
  then show ?thesis
    unfolding dispatches_def sample_table_def [symmetric] by (simp add: sample_service_def)
qed

lemma sample_converts: "converts sample_service"
  by (auto simp: converts_def sample_service_def split: kfsw_command_type.splits)


end
