(* ===== verification/Platform_Hooks.thy ===== *)
theory Platform_Hooks
  imports Shell_Csp
begin

text \<open>
  The small files between the application and its platform: \<^verbatim>\<open>src/app/src/clock_host.c\<close> (a native
  node takes the time of the host), \<^verbatim>\<open>fatal.c\<close> (what happens after a fault) and the console hooks
  \<^verbatim>\<open>shell/shell_prompt.c\<close> and \<^verbatim>\<open>shell/shell_echo.c\<close>. The timer model of the host, the platform and
  Zephyr's shell are parameters.
\<close>

section \<open>Time of the host\<close>

text \<open>\<open>host\<close> is what \<^verbatim>\<open>hwtimer_get_pseudohost_rtc_time\<close> writes: nanoseconds and seconds.\<close>

definition host_clock :: "u32 \<times> 64 word \<Rightarrow> kfsw_csp_clock" where
  "host_clock host = \<lparr>seconds = ucast (snd host), nanoseconds = fst host\<rparr>"

definition kfsw_clock_from_host :: "'s csp_services \<Rightarrow> ('s \<Rightarrow> u32 \<times> 64 word) \<Rightarrow> ('s, int) act" where
  "kfsw_clock_from_host C rtc_time = do {
     host \<leftarrow> ask rtc_time;
     if \<not> kfsw_csp_clock_is_set C (host_clock host)
     then do { kfsw_log_warning ''Host clock unavailable; this node has no time''; ret 0 }
     else do {
       r \<leftarrow> call (kfsw_csp_clock_set C (host_clock host));
       (if r \<noteq> 0 then kfsw_log_warning (''Could not take the host clock: '' @ fmt_d r) else ret ());
       ret 0
     }
   }"

section \<open>After a fault\<close>

text \<open>The calls of the hook in their order. Neither \<^verbatim>\<open>sys_reboot\<close> nor \<^verbatim>\<open>k_fatal_halt\<close> returns.\<close>

datatype fatal_call =
    Lastwords_fatal u32 u32 u32
  | Sys_reboot_cold
  | K_fatal_halt nat

text \<open>\<open>esf\<close> is the program counter of the exception frame, if there is a frame.\<close>

definition k_sys_fatal_error_handler ::
  "config \<Rightarrow> u32 \<Rightarrow> u32 \<Rightarrow> nat \<Rightarrow> u32 option \<Rightarrow> fatal_call list" where
  "k_sys_fatal_error_handler cfg uptime boot_count reason esf =
     (let address = (if cfg CONFIG_ARM \<and> \<not> cfg CONFIG_ARM64
                     then (case esf of Some pc \<Rightarrow> pc | None \<Rightarrow> 0) else 0)
      in [Lastwords_fatal address uptime (if cfg CONFIG_KFSW_PARAM then boot_count else 0),
          if cfg CONFIG_REBOOT \<and> \<not> cfg CONFIG_ARCH_POSIX then Sys_reboot_cold else K_fatal_halt reason])"

section \<open>Console\<close>

text \<open>
  \<open>shell_uart\<close> says whether there is a UART shell, \<open>prompt_change\<close> is Zephyr's
  \<^verbatim>\<open>shell_prompt_change\<close>; the prompt shown and the width the cursor is placed with are fields of the
  shell that the services hold.
\<close>

record 's console =
  shell_backend_uart :: "'s \<Rightarrow> bool"
  shell_prompt_change :: "string \<Rightarrow> 's \<Rightarrow> int \<times> 's"
  set_name_len :: "nat \<Rightarrow> 's \<Rightarrow> 's"
  shell_echo_set :: "bool \<Rightarrow> 's \<Rightarrow> int \<times> 's"
  CONFIG_SHELL_PROMPT_UART :: string

definition KFSW_PROMPT_JADE :: string where "KFSW_PROMPT_JADE = CHR 0x1B # ''[38;5;36m''"
definition KFSW_PROMPT_RESET :: string where "KFSW_PROMPT_RESET = CHR 0x1B # ''[0m''"
definition KFSW_PROMPT_SIZE :: nat where "KFSW_PROMPT_SIZE = 64"

definition colored_prompt :: "'s console \<Rightarrow> string" where
  "colored_prompt X =
     snprintf KFSW_PROMPT_SIZE (KFSW_PROMPT_JADE @ CONFIG_SHELL_PROMPT_UART X @ KFSW_PROMPT_RESET)"

definition kfsw_shell_prompt_apply :: "'s console \<Rightarrow> ('s, unit) act" where
  "kfsw_shell_prompt_apply X = do {
     sh \<leftarrow> ask (shell_backend_uart X);
     if \<not> sh then ret ()
     else do {
       r \<leftarrow> call (shell_prompt_change X (colored_prompt X));
       if r \<noteq> 0 then ret ()
       else call (\<lambda>s. ((), set_name_len X (length (CONFIG_SHELL_PROMPT_UART X)) s))
     }
   }"

definition apply_echo :: "'s console \<Rightarrow> bool \<Rightarrow> ('s, unit) act" where
  "apply_echo X enabled = do {
     sh \<leftarrow> ask (shell_backend_uart X);
     if sh then do { r \<leftarrow> call (shell_echo_set X enabled); ret () } else ret ()
   }"

text \<open>\<open>set_echo_handler\<close> is \<^verbatim>\<open>kfsw_command_set_echo_handler\<close>, which is given the handler.\<close>

definition kfsw_shell_echo_apply ::
  "'s console \<Rightarrow> ((bool \<Rightarrow> ('s, unit) act) \<Rightarrow> ('s, unit) act) \<Rightarrow> ('s, unit) act" where
  "kfsw_shell_echo_apply X set_echo_handler = set_echo_handler (apply_echo X)"

section \<open>Width of the prompt\<close>

text \<open>What a terminal shows of a text: an escape sequence, up to its \<^verbatim>\<open>m\<close>, takes no column.\<close>

fun visible :: "bool \<Rightarrow> string \<Rightarrow> string" where
  "visible esc [] = []"
| "visible esc (c # cs) =
     (if esc then visible (c \<noteq> CHR ''m'') cs
      else if c = CHR 0x1B then visible True cs
      else c # visible False cs)"

lemma visible_plain: "CHR 0x1B \<notin> set s \<Longrightarrow> visible False (s @ t) = s @ visible False t"
  by (induction s) auto

lemma prompt_lengths: "length KFSW_PROMPT_JADE = 10" "length KFSW_PROMPT_RESET = 4"
  by (simp_all add: KFSW_PROMPT_JADE_def KFSW_PROMPT_RESET_def)

lemma visible_prompt:
  assumes "CHR 0x1B \<notin> set p"
  shows "visible False (KFSW_PROMPT_JADE @ p @ KFSW_PROMPT_RESET) = p"
  using visible_plain [OF assms, of KFSW_PROMPT_RESET]
  by (simp add: KFSW_PROMPT_JADE_def KFSW_PROMPT_RESET_def)

text \<open>A prompt of at most 49 characters is shown whole, in colour, and measured by what is visible.\<close>

lemma short_prompt_measured:
  assumes "CHR 0x1B \<notin> set (CONFIG_SHELL_PROMPT_UART X)" "length (CONFIG_SHELL_PROMPT_UART X) \<le> 49"
    and "shell_backend_uart X (svc w)" "shell_prompt_change X (colored_prompt X) (svc w) = (0, s)"
  shows "svc (snd (run_state (kfsw_shell_prompt_apply X) w)) =
      set_name_len X (length (visible False (colored_prompt X))) s \<and>
    suffix KFSW_PROMPT_RESET (colored_prompt X)"
proof -
  have "colored_prompt X = KFSW_PROMPT_JADE @ CONFIG_SHELL_PROMPT_UART X @ KFSW_PROMPT_RESET"
    unfolding colored_prompt_def
    by (rule snprintf_fits) (use assms(2) in \<open>simp add: prompt_lengths KFSW_PROMPT_SIZE_def\<close>)
  then show ?thesis
    using assms(1,3,4) visible_prompt [OF assms(1)] by (simp add: kfsw_shell_prompt_apply_def suffix_def)
qed

section \<open>Properties\<close>

lemma sint_host_seconds: "sint (ucast (s :: 64 word) :: u32) = (int (unat s) + 2 ^ 31) mod 2 ^ 32 - 2 ^ 31"
proof -
  have "sint (ucast s :: u32) = signed_take_bit 31 (uint s)"
    by (simp add: sint_uint unsigned_ucast_eq signed_take_bit_take_bit)
  then show ?thesis by (simp add: signed_take_bit_eq_take_bit_shift take_bit_eq_mod)
qed

lemma wrapped_exact: "(int n + 2 ^ 31) mod 2 ^ 32 - 2 ^ 31 = int n \<longleftrightarrow> n < 2 ^ 31"
proof
  have "(int n + 2 ^ 31) mod 2 ^ 32 < 2 ^ 32" by simp
  then show "n < 2 ^ 31" if "(int n + 2 ^ 31) mod 2 ^ 32 - 2 ^ 31 = int n" using that by simp
  show "(int n + 2 ^ 31) mod 2 ^ 32 - 2 ^ 31 = int n" if "n < 2 ^ 31"
    using that by (simp add: mod_pos_pos_trivial)
qed

lemma host_clock_fields:
  "nanoseconds (host_clock host) = fst host \<and>
   sint (seconds (host_clock host)) = (int (unat (snd host)) + 2 ^ 31) mod 2 ^ 32 - 2 ^ 31 \<and>
   (sint (seconds (host_clock host)) = int (unat (snd host)) \<longleftrightarrow> unat (snd host) < 2 ^ 31)"
proof -
  have "sint (seconds (host_clock host)) = (int (unat (snd host)) + 2 ^ 31) mod 2 ^ 32 - 2 ^ 31"
    unfolding host_clock_def kfsw_csp_clock.simps by (rule sint_host_seconds)
  moreover have "nanoseconds (host_clock host) = fst host" by (simp add: host_clock_def)
  ultimately show ?thesis by (simp only: wrapped_exact simp_thms)
qed

lemma clock_from_host_run:
  "(let clock = host_clock (rtc_time (svc w)); (r, w') = run_state (kfsw_clock_from_host C rtc_time) w in
      r = 0 \<and>
      svc w' = (if kfsw_csp_clock_is_set C clock then snd (kfsw_csp_clock_set C clock (svc w)) else svc w) \<and>
      (out w' = out w \<longleftrightarrow> kfsw_csp_clock_is_set C clock \<and> fst (kfsw_csp_clock_set C clock (svc w)) = 0))"
  by (simp add: kfsw_clock_from_host_def)

text \<open>
  C21. A native node takes the time of the host exactly as long as it fits 32 bits: the clock it is
  given has the nanoseconds of the host and, in two's complement, its seconds, which are the seconds
  of the host exactly before \<^verbatim>\<open>2^31\<close> and are reduced into the signed range from then on. The clock is
  set once when the CSP layer takes that time for a set clock, and never otherwise; the result is 0
  in every case, so the start-up is never stopped by it.
\<close>

theorem clock_from_host_exact:
  "(let host = rtc_time (svc w); clock = host_clock host; (r, w') = run_state (kfsw_clock_from_host C rtc_time) w in
      r = 0 \<and>
      svc w' = (if kfsw_csp_clock_is_set C clock then snd (kfsw_csp_clock_set C clock (svc w)) else svc w) \<and>
      (out w' = out w \<longleftrightarrow> kfsw_csp_clock_is_set C clock \<and> fst (kfsw_csp_clock_set C clock (svc w)) = 0) \<and>
      nanoseconds clock = fst host \<and>
      sint (seconds clock) = (int (unat (snd host)) + 2 ^ 31) mod 2 ^ 32 - 2 ^ 31 \<and>
      (sint (seconds clock) = int (unat (snd host)) \<longleftrightarrow> unat (snd host) < 2 ^ 31))"
  using clock_from_host_run [where rtc_time = rtc_time and w = w and C = C] host_clock_fields [of "rtc_time (svc w)"]
  unfolding Let_def split_beta by blast

end
