(* ===== verification/Spec2Isabelle.thy ===== *)
theory Spec2Isabelle
  imports Param_Tables Commands Startup Csp_Liveness Command_Path Platform_Hooks
begin

text \<open>
  \<^bold>\<open>The K-FSW flight application\<close>

  The program is the composition layer of a spacecraft node: \<^verbatim>\<open>src/app/src\<close>. It starts the services of
  a node and supervises them (\<^verbatim>\<open>main.c\<close>), defines the core parameter tables (\<^verbatim>\<open>parameters/\<close>) and the
  application commands (\<^verbatim>\<open>commands/\<close>), and gives an operator a console (\<^verbatim>\<open>shell/\<close>, \<^verbatim>\<open>diagnostics/\<close>). The
  services themselves (parameters, commands, housekeeping, files, firmware update, CSP and others) are
  fetched from other repositories; the application calls them.

  \<^bold>\<open>Conventions\<close> (theory \<open>Kfsw_Base\<close>)

  \<^item> A build is a configuration \<open>cfg\<close> (\<^verbatim>\<open>#if CONFIG_X\<close> is \<open>cfg CONFIG_X\<close>) and records of the constants that
    are defined outside the repository. Every property is about every build.
  \<^item> Code outside the repository is a parameter: a service is a function on an abstract state \<open>'s\<close>, a
    field of a record the definitions take. What the code relies on is a named predicate over such a
    record (\<open>registry_ok\<close>, \<open>files_end\<close>, \<open>file_system\<close>, \<open>samples_ok\<close>, \<open>param_ctx_ok\<close>, \<open>dispatches\<close> and so on), and a
    witness gives an instance of each. Such a service may fail: an open of a missing file, a short
    write, a command refused because another thread claimed the command service.
  \<^item> A handler is an action of a state monad over a \<open>world\<close>: the services' state and the lines printed or
    logged so far, in order. A read of an argument that was not given and a read or write outside an array
    have no result (\<open>None\<close>), so that a theorem that a handler returns covers memory safety as well.
  \<^item> Integers are words where their width matters, naturals where the code only prints them; \<^verbatim>\<open>strtoul\<close>,
    \<^verbatim>\<open>strtoll\<close>, \<^verbatim>\<open>snprintf\<close>, \<^verbatim>\<open>gmtime_r\<close> and the like are written out.
  \<^item> Loops are recursive functions with a termination proof. The one loop whose end rests on the outside,
    the comparison of two files, is a partial function whose result is proved to exist.

  \<^bold>\<open>Theories and sources\<close>

  \<^item> \<open>Hk_Entries\<close>: \<^verbatim>\<open>hk_entries.c\<close>, the grammar of report definitions.
  \<^item> \<open>Param_Def\<close>, \<open>Param_System\<close>, \<open>Param_Board\<close>, \<open>Param_Csp\<close>, \<open>Param_Status\<close>, \<open>Param_Tables\<close>: the six core
    parameter tables, their statics, samplers, validators and definitions, and how reads of them behave.
  \<^item> \<open>Hex_Text\<close>, \<open>Commands\<close>: \<^verbatim>\<open>commands/command_definitions.c\<close>, every handler and the table.
  \<^item> \<open>Startup\<close>: \<^verbatim>\<open>main.c\<close>, each phase of the start-up in its order and the supervision loop.
  \<^item> \<open>Csp_Liveness\<close>: \<^verbatim>\<open>csp_liveness.c\<close> as a state machine.
  \<^item> \<open>Join_Text\<close>, \<open>Shell_Common\<close>, \<open>Shell_Group\<close>, \<open>Shell_Walk\<close>: what the shell files share: joining words into
    an array, nodes and remote commands (\<^verbatim>\<open>shell_remote.c\<close>, \<^verbatim>\<open>shell_command.c\<close>), groups of subcommands, and
    walks with a callback.
  \<^item> \<open>Shell_Hk\<close>, \<open>Shell_Remexec\<close>, \<open>Shell_Param\<close>, \<open>Shell_Csp\<close>, \<open>Shell_System\<close>: the files of those names and
    the allowlist \<^verbatim>\<open>remexec/remexec_allowlist.c\<close>.
  \<^item> \<open>Diagnostics\<close>, \<open>Shell_Files\<close>: \<^verbatim>\<open>diagnostics/\<close>, \<^verbatim>\<open>shell_ftp.c\<close>, \<^verbatim>\<open>shell_storage.c\<close>.
  \<^item> \<open>Shell_Records\<close>: \<^verbatim>\<open>shell_fbo.c\<close>, \<^verbatim>\<open>shell_registry.c\<close>, \<^verbatim>\<open>shell_event.c\<close>, \<^verbatim>\<open>shell_journal.c\<close>.
  \<^item> \<open>Shell_Updates\<close>: \<^verbatim>\<open>shell_fwu_lite.c\<close>, \<^verbatim>\<open>shell_fwu.c\<close>, \<^verbatim>\<open>shell_golden.c\<close>, \<^verbatim>\<open>shell_table.c\<close>.
  \<^item> \<open>Shell_Monitors\<close>: \<^verbatim>\<open>shell_gndwdt.c\<close>, \<^verbatim>\<open>shell_health.c\<close>, \<^verbatim>\<open>shell_scrub.c\<close>, \<^verbatim>\<open>shell_watchdog.c\<close>,
    \<^verbatim>\<open>shell_limits.c\<close>, \<^verbatim>\<open>shell_resmon.c\<close>.
  \<^item> \<open>Shell_Links\<close>: \<^verbatim>\<open>shell_can.c\<close>, \<^verbatim>\<open>shell_uart.c\<close>, which add themselves to \<^verbatim>\<open>shell_comms.c\<close>.
  \<^item> \<open>Platform_Hooks\<close>: \<^verbatim>\<open>clock_host.c\<close>, \<^verbatim>\<open>fatal.c\<close>, \<^verbatim>\<open>shell_prompt.c\<close>, \<^verbatim>\<open>shell_echo.c\<close>.
  \<^item> \<open>Console\<close>: which shell files a composition compiles and what they register. \<open>Console_Samples\<close> holds contexts
    that satisfy the conditions of every group, for its witnesses.
  \<^item> \<open>Command_Path\<close>: a line of the shell, the command service (\<open>dispatches\<close>, what its documentation and tests
    promise, refusals included) and the handler of the command together.

  \<^bold>\<open>Interfaces\<close>

  The contracts between the parts are locales, interpreted on the definitions of the model:
  \<open>hex_writer\<close> (text of bytes, \<open>Hex_Text\<close>), \<open>bounded_joiner\<close> (joining words into an array whole or not at
  all, \<open>Join_Text\<close>), \<open>param_table\<close> and \<open>validated_parameter\<close> (reads, defaults and guards of a parameter table,
  \<open>Param_Def\<close>), \<open>boot_law\<close> (a law of one start-up step carried over the boot, \<open>Startup\<close>), \<open>node_parser\<close> (reading a
  node number, \<open>Shell_Common\<close>), \<open>item_callback\<close> and \<open>walk_callback\<close> (an invariant of a callback carried over a walk,
  \<open>Shell_Walk\<close>), and \<open>shell_group\<close> (every call the shell lets through returns, \<open>Shell_Group\<close>), which every group of
  subcommands satisfies.

  \<^bold>\<open>What is shown\<close>

  \<^item> Start-up: which results are counted as failures and that exactly these are logged as errors, the watchdog
    is armed first, the CSP servers wait for the router (the parameter server for CSP only), a
    snapshot is saved back only if it was loaded; the main loop reports in time for ever.
  \<^item> Commands and parameters: handlers return, stay in their arrays and change only what they are meant to;
    the pin guards a restart; samplers write with the width of the variable behind a parameter; bounds of the
    sampled values.
  \<^item> Parsers and texts: the entry grammar, round trips, equivalence of scanning loops with splitting into
    words, joined texts that arrive whole or not at all, dates that are right.
  \<^item> Console: any session of any composition runs to its end with a result for every line; a report
    defined in the shell is the one the command defines; what is offered for remote execution exists in the
    same composition and only reads; a parameter that is set is shown as it was stored; a restart needs the
    pin; destructive commands act only when confirmed.
  \<^item> Diagnostics over a file system that may fail at any operation: what is generated, compared and read
    back.

  \<^bold>\<open>Bounds\<close>

  The 400-year cycle of \<open>gmtime\<close> covers every reading. No definition uses fuel. Witnesses use a build with
  the documented values (\<open>sample_build\<close>) and small services.

  \<^bold>\<open>Not modelled\<close>

  The services, Zephyr (its command line, work queues, log back ends) and libcsp are not in the repository.
  Threads do not appear: each handler runs alone, and a service may return anything its contract allows at
  each call. Printing floating point numbers is a parameter. \<^verbatim>\<open>Kconfig\<close>, device trees, tests and the Python tools hold no
  application code in C. What the model leaves of the C files is includes, prototypes, help texts and
  comments.
\<close>

end
